(* ===== verification/Prelude.thy ===== *)
theory Prelude
  imports Main "HOL-Library.List_Lexorder"
begin

text \<open>
  What every component shares: the representation of Python's values, the error values the
  handlers return, the list operations SQLAlchemy's query methods stand for, and the generic
  lemmas about them.

  A Python \<open>str\<close> is the list of its code points (\<open>ustr\<close>): \<open>len\<close> and slices count code points,
  as they do in Python, and the messages of the program (Korean text) are written out exactly in
  the theory \<open>Messages\<close>. An ASCII literal is written \<open>u ''deploy''\<close>. Python \<open>bytes\<close> are lists of
  numbers below 256.
\<close>

section \<open>Strings and JSON values\<close>

type_synonym ustr = "nat list"
type_synonym bytes = "nat list"

definition u :: "string \<Rightarrow> ustr" where
  "u s = map of_char s"

lemma inj_of_char_nat: "inj (of_char :: char \<Rightarrow> nat)"
  by (rule injI) simp

lemma u_eq_iff [simp]: "u a = u b \<longleftrightarrow> a = b"
  by (simp add: u_def inj_map_eq_map [OF inj_of_char_nat])

lemma u_Nil_iff [simp]: "u a = [] \<longleftrightarrow> a = []" "[] = u a \<longleftrightarrow> a = []"
  by (auto simp: u_def)

lemma length_u [simp]: "length (u s) = length s"
  by (simp add: u_def)

text \<open>
  The JSON values a request, a token or a JSON column can hold, as \<open>json.loads\<close> returns them. A
  float is kept as the text of its \<open>repr\<close>.
\<close>

datatype json =
    JNull
  | JBool bool
  | JInt int
  | JFloat ustr
  | JStr ustr
  | JArr "json list"
  | JObj "(ustr \<times> json) list"

text \<open>
  What a route returns before FastAPI encodes it: dictionaries and lists whose leaves are JSON
  values or \<open>datetime\<close> objects (microseconds since the Unix epoch, UTC).
\<close>

datatype view =
    VJson json
  | VTime int
  | VDict "(ustr \<times> view) list"
  | VList "view list"

abbreviation VStr :: "ustr \<Rightarrow> view" where
  "VStr s \<equiv> VJson (JStr s)"

abbreviation VInt :: "int \<Rightarrow> view" where
  "VInt n \<equiv> VJson (JInt n)"

abbreviation VBool :: "bool \<Rightarrow> view" where
  "VBool b \<equiv> VJson (JBool b)"

abbreviation VNone :: view where
  "VNone \<equiv> VJson JNull"

text \<open>Python's truth value of a JSON value, and its comparison with the integer 1.\<close>

fun py_truthy :: "json \<Rightarrow> bool" where
  "py_truthy JNull = False"
| "py_truthy (JBool b) = b"
| "py_truthy (JInt n) = (n \<noteq> 0)"
| "py_truthy (JFloat r) = (r \<noteq> u ''0.0'' \<and> r \<noteq> u ''-0.0'')"
| "py_truthy (JStr s) = (s \<noteq> [])"
| "py_truthy (JArr xs) = (xs \<noteq> [])"
| "py_truthy (JObj kvs) = (kvs \<noteq> [])"

fun py_eq_one :: "json \<Rightarrow> bool" where
  "py_eq_one (JInt n) = (n = 1)"
| "py_eq_one (JBool b) = b"
| "py_eq_one (JFloat r) = (r = u ''1.0'')"
| "py_eq_one _ = False"

section \<open>Errors as values\<close>

text \<open>
  Every exception the code raises or lets through. FastAPI turns an \<open>HTTPException\<close> into its
  status code, a validation error into 422 and any other exception into 500.
\<close>

datatype py_error =
    HTTPException int ustr
  | RequestValidationError "ustr list"
  | CapabilityError ustr
  | ExecutorBoundaryError ustr
  | IntegrityError
  | NoResultFound
  | MultipleResultsFound
  | KeyError ustr
  | TypeError
  | AttributeError
  | UnicodeDecodeError
  | ResponseValidationError
  | OSError
  | OperationalError
  | ValueError
  | RecursionError

type_synonym 'a res = "py_error + 'a"

fun status_of :: "py_error \<Rightarrow> int" where
  "status_of (HTTPException code _) = code"
| "status_of (RequestValidationError _) = 422"
| "status_of _ = 500"

fun res_bind :: "'a res \<Rightarrow> ('a \<Rightarrow> 'b res) \<Rightarrow> 'b res" where
  "res_bind (Inl e) f = Inl e"
| "res_bind (Inr x) f = f x"

lemma res_bind_Inr_iff: "res_bind r f = Inr y \<longleftrightarrow> (\<exists>x. r = Inr x \<and> f x = Inr y)"
  by (cases r) auto

section \<open>Query results\<close>

text \<open>
  \<open>one_or_none\<close> and \<open>scalar_one\<close> of SQLAlchemy on the rows a query selects. Both raise when the
  query has more than one row.
\<close>

fun one_or_none :: "'a list \<Rightarrow> 'a option res" where
  "one_or_none [] = Inr None"
| "one_or_none [x] = Inr (Some x)"
| "one_or_none _ = Inl MultipleResultsFound"

text \<open>The identifier the database gives a new row of a table with an integer key.\<close>

definition next_id :: "nat list \<Rightarrow> nat" where
  "next_id ids = Suc (foldr max ids 0)"

lemma foldr_max_ge: "i \<in> set ids \<Longrightarrow> i \<le> foldr max ids (0::nat)"
  by (induction ids) (auto simp: le_max_iff_disj)

lemma next_id_fresh [simp]: "next_id ids \<notin> set ids"
  using foldr_max_ge [of "next_id ids" ids] by (auto simp: next_id_def)

lemma next_id_neq [simp]: "x \<in> set xs \<Longrightarrow> next_id (map f xs) \<noteq> f x"
  using next_id_fresh [of "map f xs"] by auto

lemma next_id_image [simp]: "next_id (map f xs) \<notin> f ` set xs"
  by auto

lemma next_id_pos [simp]: "0 < next_id ids"
  by (simp add: next_id_def)

named_theorems table_simps \<comment> \<open>facts about tables and their keys\<close>
named_theorems py_eval \<comment> \<open>definitions that a closed instance is evaluated with\<close>

lemma filter_key_Nil [table_simps]:
  "filter (\<lambda>r. key r = k) rows = [] \<longleftrightarrow> k \<notin> key ` set rows"
  by (auto simp: filter_empty_conv)

lemma one_or_none_cases:
  obtains (no_row) "one_or_none (filter P xs) = Inr None" "\<forall>x \<in> set xs. \<not> P x"
  | (row) x where "one_or_none (filter P xs) = Inr (Some x)" "x \<in> set xs" "P x"
  | (rows) "one_or_none (filter P xs) = Inl MultipleResultsFound"
proof (cases "filter P xs" rule: one_or_none.cases)
  case 1
  then show thesis by (intro no_row) (auto simp: filter_empty_conv)
next
  case (2 x)
  then have "x \<in> set (filter P xs)" by simp
  then have "x \<in> set xs" "P x" by auto
  with 2 show thesis by (intro row [of x]) simp_all
next
  case (3 x y zs)
  then show thesis by (intro rows) simp
qed

lemma filter_key_distinct:
  "distinct (map key rows) \<Longrightarrow> r \<in> set rows \<Longrightarrow> filter (\<lambda>r'. key r' = key r) rows = [r]"
proof (induction rows)
  case Nil
  then show ?case by simp
next
  case (Cons x xs)
  show ?case
  proof (cases "x = r")
    case True
    with Cons.prems have "key r \<notin> key ` set xs" by auto
    with True show ?thesis by (simp add: table_simps)
  next
    case False
    with Cons.prems have "key x \<noteq> key r" by auto
    with False Cons show ?thesis by auto
  qed
qed

lemma one_or_none_distinct:
  assumes "distinct (map key rows)"
  shows "one_or_none (filter (\<lambda>r. key r = k) rows) =
    Inr (find (\<lambda>r. key r = k) rows)"
proof (cases "k \<in> key ` set rows")
  case True
  then obtain r where r: "r \<in> set rows" "key r = k" by auto
  with assms have one: "filter (\<lambda>r'. key r' = k) rows = [r]"
    using filter_key_distinct [of key rows r] by simp
  have "find (\<lambda>r'. key r' = k) rows = Some r"
    using one by (induction rows) (auto split: if_splits)
  with one show ?thesis by simp
next
  case False
  then have "filter (\<lambda>r. key r = k) rows = []" by (simp add: table_simps)
  moreover from False have "find (\<lambda>r. key r = k) rows = None"
    by (auto simp: find_None_iff)
  ultimately show ?thesis by simp
qed

lemma find_Some_D: "find P xs = Some x \<Longrightarrow> x \<in> set xs \<and> P x"
  by (induction xs) (auto split: if_splits)

lemma find_None_D: "find P xs = None \<Longrightarrow> x \<in> set xs \<Longrightarrow> \<not> P x"
  by (auto simp: find_None_iff)

lemma find_append: "find P (xs @ ys) = (case find P xs of None \<Rightarrow> find P ys | Some x \<Rightarrow> Some x)"
  by (induction xs) auto

text \<open>Updating rows in place, as an SQL \<open>UPDATE ... WHERE\<close> does.\<close>

definition update_where :: "('r \<Rightarrow> bool) \<Rightarrow> ('r \<Rightarrow> 'r) \<Rightarrow> 'r list \<Rightarrow> 'r list" where
  "update_where P f rows = map (\<lambda>r. if P r then f r else r) rows"

lemma map_update_where [simp]:
  "(\<And>r. key (f r) = key r) \<Longrightarrow> map key (update_where P f rows) = map key rows"
  by (simp add: update_where_def)

lemma set_update_where:
  "set (update_where P f rows) = (\<lambda>r. if P r then f r else r) ` set rows"
  by (simp add: update_where_def)

lemma update_where_append [simp]:
  "update_where P f (xs @ ys) = update_where P f xs @ update_where P f ys"
  by (simp add: update_where_def)

end
