(* ===== verification/Py_Str.thy ===== *)
theory Py_Str
  imports Prelude
begin

text \<open>
  The string functions of Python's standard library (and of pydantic's Rust core) that the
  program uses, on code-point lists: stripping, lower-casing, splitting, joining, decimal and
  hexadecimal text, UTF-8, and the printer of \<open>json.dumps\<close>.
\<close>

section \<open>White space and case\<close>

text \<open>
  The characters \<open>str.strip()\<close> removes, and the ones Rust's \<open>str::trim\<close> (pydantic's
  \<open>str_strip_whitespace\<close>) removes: the latter keeps the separators 28 to 31.
\<close>

definition is_rust_space :: "nat \<Rightarrow> bool" where
  "is_rust_space c \<longleftrightarrow> 9 \<le> c \<and> c \<le> 13 \<or> c = 32 \<or> c = 133 \<or> c = 160 \<or> c = 5760 \<or>
     8192 \<le> c \<and> c \<le> 8202 \<or> c = 8232 \<or> c = 8233 \<or> c = 8239 \<or> c = 8287 \<or> c = 12288"

definition is_py_space :: "nat \<Rightarrow> bool" where
  "is_py_space c \<longleftrightarrow> is_rust_space c \<or> 28 \<le> c \<and> c \<le> 31"

definition strip_by :: "(nat \<Rightarrow> bool) \<Rightarrow> ustr \<Rightarrow> ustr" where
  "strip_by P s = rev (dropWhile P (rev (dropWhile P s)))"

definition py_strip :: "ustr \<Rightarrow> ustr" where
  "py_strip s = strip_by is_py_space s"

definition rust_trim :: "ustr \<Rightarrow> ustr" where
  "rust_trim s = strip_by is_rust_space s"

text \<open>
  \<open>str.lower()\<close> on the Latin-1 range, other characters unchanged. The full Unicode map differs
  only on letters beyond Latin-1; of those, only U+0130 and U+212A lower to a string with an ASCII
  letter (i followed by a combining dot, and k), so a comparison of the result with an ASCII
  word without the letter k gives the same answer.
\<close>

definition lower_char :: "nat \<Rightarrow> nat" where
  "lower_char c = (if 65 \<le> c \<and> c \<le> 90 \<or> 192 \<le> c \<and> c \<le> 222 \<and> c \<noteq> 215 then c + 32 else c)"

definition py_lower :: "ustr \<Rightarrow> ustr" where
  "py_lower s = map lower_char s"

lemma dropWhile_idem [simp]: "dropWhile P (dropWhile P xs) = dropWhile P xs"
  by (induction xs) auto

lemma strip_by_ends: "strip_by P s = [] \<or> \<not> P (hd (strip_by P s)) \<and> \<not> P (last (strip_by P s))"
proof -
  let ?a = "dropWhile P s"
  let ?b = "dropWhile P (rev ?a)"
  have last: "?b \<noteq> [] \<Longrightarrow> \<not> P (last (rev ?b))"
    by (simp add: last_rev hd_dropWhile)
  have "\<not> P (hd (rev ?b))" if ne: "?b \<noteq> []"
  proof -
    have "rev ?a = takeWhile P (rev ?a) @ ?b" by simp
    then have a: "?a = rev ?b @ rev (takeWhile P (rev ?a))" by (metis rev_append rev_rev_ident)
    from ne have "rev ?b \<noteq> []" by simp
    with a have "hd ?a = hd (rev ?b)" "?a \<noteq> []" by (metis hd_append2, metis append_is_Nil_conv)
    then show ?thesis by (metis hd_dropWhile)
  qed
  with last show ?thesis by (auto simp: strip_by_def)
qed

lemma strip_by_id:
  assumes "s = [] \<or> \<not> P (hd s) \<and> \<not> P (last s)"
  shows "strip_by P s = s"
proof (cases "s = []")
  case True
  then show ?thesis by (simp add: strip_by_def)
next
  case False
  with assms have "dropWhile P s = s" by (cases s) auto
  moreover from assms False have "dropWhile P (rev s) = rev s"
    by (cases "rev s") (auto simp: rev_eq_Cons_iff)
  ultimately show ?thesis by (simp add: strip_by_def)
qed

lemma strip_by_idem [simp]: "strip_by P (strip_by P s) = strip_by P s"
  using strip_by_ends by (rule strip_by_id)

lemma py_strip_idem [simp]: "py_strip (py_strip s) = py_strip s"
  by (simp add: py_strip_def)

lemma set_strip_by: "set (strip_by P s) \<subseteq> set s"
  unfolding strip_by_def by (metis set_dropWhileD set_rev subsetI)

lemma lower_char_idem [simp]: "lower_char (lower_char c) = lower_char c"
  by (auto simp: lower_char_def)

lemma py_lower_idem [simp]: "py_lower (py_lower s) = py_lower s"
  by (simp add: py_lower_def)

lemma length_py_lower [simp]: "length (py_lower s) = length s"
  by (simp add: py_lower_def)

section \<open>Joining and splitting\<close>

fun join_with :: "ustr \<Rightarrow> ustr list \<Rightarrow> ustr" where
  "join_with sep [] = []"
| "join_with sep [x] = x"
| "join_with sep (x # xs) = x @ sep @ join_with sep xs"

text \<open>\<open>s.split(c, n)\<close> for a one-character separator: at most \<open>n\<close> splits.\<close>

fun split_char :: "nat \<Rightarrow> nat \<Rightarrow> ustr \<Rightarrow> ustr list" where
  "split_char c n [] = [[]]"
| "split_char c n (x # xs) =
     (if x = c \<and> 0 < n then [] # split_char c (n - 1) xs
      else case split_char c n xs of [] \<Rightarrow> [[x]] | p # ps \<Rightarrow> (x # p) # ps)"

lemma split_char_zero: "split_char c 0 s = [s]"
  by (induction s) auto

lemma split_char_app:
  "c \<notin> set s \<Longrightarrow> 0 < n \<Longrightarrow> split_char c n (s @ c # t) = s # split_char c (n - 1) t"
  by (induction s) auto

section \<open>Decimal and hexadecimal text\<close>

definition hex_digit :: "nat \<Rightarrow> nat" where
  "hex_digit n = (if n < 10 then 48 + n else 87 + n)"

fun dec_digits :: "nat \<Rightarrow> ustr" where
  "dec_digits n = (if n < 10 then [48 + n] else dec_digits (n div 10) @ [48 + n mod 10])"

declare dec_digits.simps [simp del]

text \<open>\<open>str(n)\<close> of a Python integer.\<close>

definition int_str :: "int \<Rightarrow> ustr" where
  "int_str n = (if n < 0 then 45 # dec_digits (nat (- n)) else dec_digits (nat n))"

lemma dec_digits_props:
  "dec_digits n \<noteq> [] \<and> (\<forall>c \<in> set (dec_digits n). 48 \<le> c \<and> c \<le> 57) \<and>
   foldl (\<lambda>a c. a * 10 + (c - 48)) 0 (dec_digits n) = n"
proof (induction n rule: dec_digits.induct)
  case (1 n)
  show ?case
  proof (cases "n < 10")
    case True
    then show ?thesis by (simp add: dec_digits.simps [of n])
  next
    case False
    have "n mod 10 < 10" by simp
    then have "n mod 10 \<le> 9" by linarith
    with 1 [OF False] False show ?thesis
      by (auto simp: dec_digits.simps [of n])
  qed
qed

text \<open>\<open>bytes.hex()\<close> and \<open>bytes.fromhex()\<close>; the latter raises (None) on anything but digit pairs
  (it also skips white space between them, which \<open>bytes.hex()\<close> never writes).\<close>

definition bytes_hex :: "bytes \<Rightarrow> ustr" where
  "bytes_hex bs = concat (map (\<lambda>b. [hex_digit (b div 16), hex_digit (b mod 16)]) bs)"

definition hex_value :: "nat \<Rightarrow> nat option" where
  "hex_value c =
     (if 48 \<le> c \<and> c \<le> 57 then Some (c - 48)
      else if 97 \<le> c \<and> c \<le> 102 then Some (c - 87)
      else if 65 \<le> c \<and> c \<le> 70 then Some (c - 55)
      else None)"

definition is_ascii_space :: "nat \<Rightarrow> bool" where
  "is_ascii_space c \<longleftrightarrow> 9 \<le> c \<and> c \<le> 13 \<or> c = 32"

fun bytes_fromhex :: "ustr \<Rightarrow> bytes option" where
  "bytes_fromhex [] = Some []"
| "bytes_fromhex [c] = (if is_ascii_space c then Some [] else None)"
| "bytes_fromhex (c # d # s) =
     (if is_ascii_space c then bytes_fromhex (d # s)
      else case (hex_value c, hex_value d, bytes_fromhex s) of
        (Some a, Some b, Some bs) \<Rightarrow> Some ((16 * a + b) # bs)
      | _ \<Rightarrow> None)"

lemma hex_value_digit [simp]: "n < 16 \<Longrightarrow> hex_value (hex_digit n) = Some n"
  by (auto simp: hex_value_def hex_digit_def)

lemma hex_digit_not_space: "n < 16 \<Longrightarrow> \<not> is_ascii_space (hex_digit n)"
  by (auto simp: hex_digit_def is_ascii_space_def)

lemma hex_digit_inj: "m < 16 \<Longrightarrow> n < 16 \<Longrightarrow> hex_digit m = hex_digit n \<longleftrightarrow> m = n"
  by (auto simp: hex_digit_def split: if_splits)

lemma fromhex_hex: "\<forall>b \<in> set bs. b < 256 \<Longrightarrow> bytes_fromhex (bytes_hex bs) = Some bs"
proof (induction bs)
  case Nil
  then show ?case by (simp add: bytes_hex_def)
next
  case (Cons b bs)
  then have "b div 16 < 16" "b mod 16 < 16" by auto
  moreover from Cons have "bytes_fromhex (bytes_hex bs) = Some bs" by simp
  ultimately show ?case by (simp add: bytes_hex_def hex_digit_not_space)
qed

lemma bytes_hex_chars:
  assumes "\<forall>b \<in> set bs. b < 256" and "c \<in> set (bytes_hex bs)"
  shows "\<exists>n<16. c = hex_digit n"
proof -
  from assms(2) obtain b where b: "b \<in> set bs" "c = hex_digit (b div 16) \<or> c = hex_digit (b mod 16)"
    by (auto simp: bytes_hex_def)
  from b(1) assms(1) have "b div 16 < 16" "b mod 16 < 16" by auto
  with b(2) show ?thesis by blast
qed

section \<open>UTF-8\<close>

definition utf8_char :: "nat \<Rightarrow> bytes" where
  "utf8_char c =
     (if c < 128 then [c]
      else if c < 2048 then [192 + c div 64, 128 + c mod 64]
      else if c < 65536 then [224 + c div 4096, 128 + (c div 64) mod 64, 128 + c mod 64]
      else [240 + c div 262144, 128 + (c div 4096) mod 64, 128 + (c div 64) mod 64, 128 + c mod 64])"

definition utf8 :: "ustr \<Rightarrow> bytes" where
  "utf8 s = concat (map utf8_char s)"

text \<open>Reading back the first character of an encoded text.\<close>

fun utf8_first :: "bytes \<Rightarrow> nat" where
  "utf8_first [] = 0"
| "utf8_first (b # bs) =
     (if b < 128 then b
      else if b < 224 then (b - 192) * 64 + (bs ! 0 - 128)
      else if b < 240 then ((b - 224) * 64 + (bs ! 0 - 128)) * 64 + (bs ! 1 - 128)
      else (((b - 240) * 64 + (bs ! 0 - 128)) * 64 + (bs ! 1 - 128)) * 64 + (bs ! 2 - 128))"

lemma utf8_first_char [simp]: "utf8_first (utf8_char c @ xs) = c"
proof -
  define q1 q2 q3 where "q1 = c div 64" and "q2 = q1 div 64" and "q3 = q2 div 64"
  define r0 r1 r2 where "r0 = c mod 64" and "r1 = q1 mod 64" and "r2 = q2 mod 64"
  have sum: "c = 64 * q1 + r0" "q1 = 64 * q2 + r1" "q2 = 64 * q3 + r2"
    by (simp_all add: q1_def q2_def q3_def r0_def r1_def r2_def)
  have q: "c div 4096 = q2" "c div 262144 = q3" "c div 64 = q1" "c mod 64 = r0"
    "q1 mod 64 = r1" "q2 mod 64 = r2"
    by (simp_all add: q1_def q2_def q3_def r0_def r1_def r2_def div_mult2_eq [symmetric])
  have "utf8_char c =
     (if c < 128 then [c]
      else if c < 2048 then [192 + q1, 128 + r0]
      else if c < 65536 then [224 + q2, 128 + r1, 128 + r0]
      else [240 + q3, 128 + r2, 128 + r1, 128 + r0])"
    by (simp only: utf8_char_def q)
  moreover have "utf8_first (c # xs) = c" if "c < 128"
    using that by simp
  moreover have "utf8_first ((192 + q1) # (128 + r0) # xs) = c" if "c < 2048"
  proof -
    from that sum have "q1 < 32" by linarith
    then show ?thesis using sum(1) by simp
  qed
  moreover have "utf8_first ((224 + q2) # (128 + r1) # (128 + r0) # xs) = c" if "c < 65536"
  proof -
    from that sum(1,2) have "q2 < 16" by linarith
    then show ?thesis using sum(1,2) by simp
  qed
  moreover have "utf8_first ((240 + q3) # (128 + r2) # (128 + r1) # (128 + r0) # xs) = c"
    using sum by simp
  ultimately show ?thesis by (simp del: utf8_first.simps)
qed

lemma utf8_char_prefix_free:
  assumes eq: "utf8_char c @ xs = utf8_char d @ ys"
  shows "c = d \<and> xs = ys"
proof -
  have "c = d" using eq by (metis utf8_first_char)
  with eq show ?thesis by simp
qed

lemma utf8_char_neq_Nil [simp]: "utf8_char c \<noteq> []"
  by (simp add: utf8_char_def)

theorem utf8_inj: "utf8 s = utf8 t \<longleftrightarrow> s = t"
proof (induction s arbitrary: t)
  case Nil
  then show ?case by (cases t) (auto simp: utf8_def)
next
  case (Cons c s)
  show ?case
  proof (cases t)
    case Nil
    then show ?thesis by (simp add: utf8_def)
  next
    case (Cons d t')
    have "utf8 (c # s) = utf8_char c @ utf8 s" "utf8 t = utf8_char d @ utf8 t'"
      by (simp_all add: utf8_def Cons)
    then have "utf8 (c # s) = utf8 t \<longleftrightarrow> c = d \<and> utf8 s = utf8 t'"
      by (metis utf8_char_prefix_free)
    with Cons.IH [of t'] Cons show ?thesis by blast
  qed
qed

section \<open>The printer of json.dumps\<close>

text \<open>
  With \<open>ensure_ascii=False\<close>: quote, backslash and the control characters are escaped, every other
  character is written as it is.
\<close>

definition esc_char :: "nat \<Rightarrow> ustr" where
  "esc_char c =
     (if c = 34 then [92, 34]
      else if c = 92 then [92, 92]
      else if c = 10 then [92, 110]
      else if c = 13 then [92, 114]
      else if c = 9 then [92, 116]
      else if c = 12 then [92, 102]
      else if c = 8 then [92, 98]
      else if c < 32 then [92, 117, 48, 48, hex_digit (c div 16), hex_digit (c mod 16)]
      else [c])"

definition json_string :: "ustr \<Rightarrow> ustr" where
  "json_string s = 34 # concat (map esc_char s) @ [34]"

text \<open>\<open>separators=(",", ":")\<close>: no blanks.\<close>

fun json_dumps :: "json \<Rightarrow> ustr" where
  "json_dumps JNull = u ''null''"
| "json_dumps (JBool b) = (if b then u ''true'' else u ''false'')"
| "json_dumps (JInt n) = int_str n"
| "json_dumps (JFloat r) = r"
| "json_dumps (JStr s) = json_string s"
| "json_dumps (JArr xs) = u ''['' @ join_with (u '','') (map json_dumps xs) @ u '']''"
| "json_dumps (JObj kvs) =
     u ''{'' @ join_with (u '','') (map (\<lambda>(k, v). json_string k @ u '':'' @ json_dumps v) kvs) @ u ''}''"

text \<open>\<open>sort_keys=True\<close> on a dictionary of strings.\<close>

definition sort_keys :: "(ustr \<times> ustr) list \<Rightarrow> (ustr \<times> ustr) list" where
  "sort_keys kvs = sort_key fst kvs"

text \<open>Reading back the first character of an escaped text.\<close>

definition unesc_first :: "ustr \<Rightarrow> nat" where
  "unesc_first s =
     (if s ! 0 \<noteq> 92 then s ! 0
      else if s ! 1 = 110 then 10
      else if s ! 1 = 114 then 13
      else if s ! 1 = 116 then 9
      else if s ! 1 = 102 then 12
      else if s ! 1 = 98 then 8
      else if s ! 1 = 117 then 16 * the (hex_value (s ! 4)) + the (hex_value (s ! 5))
      else s ! 1)"

lemma unesc_first_esc_char [simp]: "unesc_first (esc_char c @ xs) = c"
proof (cases "c < 32")
  case True
  then have "c div 16 < 16" "c mod 16 < 16" by auto
  then show ?thesis using True by (simp add: esc_char_def unesc_first_def)
next
  case False
  then show ?thesis by (simp add: esc_char_def unesc_first_def)
qed

lemma esc_char_prefix_free:
  assumes eq: "esc_char c @ xs = esc_char d @ ys"
  shows "c = d \<and> xs = ys"
proof -
  have "c = d" using eq by (metis unesc_first_esc_char)
  with eq show ?thesis by simp
qed

lemma esc_char_not_quote: "esc_char c @ xs \<noteq> 34 # ys"
  by (simp add: esc_char_def)

lemma json_string_prefix_free:
  "json_string s @ xs = json_string t @ ys \<Longrightarrow> s = t \<and> xs = ys"
proof (induction s arbitrary: t)
  case Nil
  then show ?case
    by (cases t) (auto simp: json_string_def esc_char_not_quote [symmetric])
next
  case (Cons c s)
  show ?case
  proof (cases t)
    case Nil
    with Cons.prems show ?thesis by (simp add: json_string_def esc_char_not_quote)
  next
    case (Cons d t')
    with Cons.prems have "esc_char c @ (concat (map esc_char s) @ 34 # xs) =
        esc_char d @ (concat (map esc_char t') @ 34 # ys)"
      by (simp add: json_string_def)
    then have "c = d" "concat (map esc_char s) @ 34 # xs = concat (map esc_char t') @ 34 # ys"
      by (blast dest: esc_char_prefix_free)+
    with Cons.IH [of t'] Cons show ?thesis by (simp add: json_string_def)
  qed
qed

end
