(* ===== verification/Sha256.thy ===== *)
theory Sha256
  imports Py_Str
begin

text \<open>
  The functions of the standard library's \<open>hashlib\<close> and \<open>hmac\<close> that the program calls: SHA-256,
  HMAC-SHA256 and PBKDF2, as FIPS 180-4, RFC 2104 and RFC 8018 define them. Words of 32 bits are
  numbers below 2^32 with the wrap-around of every addition written out. The definitions compute,
  and the theory \<open>Fingerprint\<close> evaluates them on the repository's own test vector.
\<close>

unbundle bit_operations_syntax

section \<open>SHA-256\<close>

abbreviation two32 :: nat where
  "two32 \<equiv> 4294967296"

definition rotr :: "nat \<Rightarrow> nat \<Rightarrow> nat" where
  "rotr n x = x div 2 ^ n + (x mod 2 ^ n) * 2 ^ (32 - n)"

definition sha_ch :: "nat \<Rightarrow> nat \<Rightarrow> nat \<Rightarrow> nat" where
  "sha_ch x y z = (x AND y) XOR ((4294967295 - x) AND z)"

definition sha_maj :: "nat \<Rightarrow> nat \<Rightarrow> nat \<Rightarrow> nat" where
  "sha_maj x y z = (x AND y) XOR (x AND z) XOR (y AND z)"

definition big_sigma0 :: "nat \<Rightarrow> nat" where
  "big_sigma0 x = rotr 2 x XOR rotr 13 x XOR rotr 22 x"

definition big_sigma1 :: "nat \<Rightarrow> nat" where
  "big_sigma1 x = rotr 6 x XOR rotr 11 x XOR rotr 25 x"

definition small_sigma0 :: "nat \<Rightarrow> nat" where
  "small_sigma0 x = rotr 7 x XOR rotr 18 x XOR x div 8"

definition small_sigma1 :: "nat \<Rightarrow> nat" where
  "small_sigma1 x = rotr 17 x XOR rotr 19 x XOR x div 1024"

definition round_constants :: "nat list" where
  "round_constants =
   [1116352408, 1899447441, 3049323471, 3921009573, 961987163, 1508970993, 2453635748,
    2870763221, 3624381080, 310598401, 607225278, 1426881987, 1925078388, 2162078206,
    2614888103, 3248222580, 3835390401, 4022224774, 264347078, 604807628, 770255983,
    1249150122, 1555081692, 1996064986, 2554220882, 2821834349, 2952996808, 3210313671,
    3336571891, 3584528711, 113926993, 338241895, 666307205, 773529912, 1294757372,
    1396182291, 1695183700, 1986661051, 2177026350, 2456956037, 2730485921, 2820302411,
    3259730800, 3345764771, 3516065817, 3600352804, 4094571909, 275423344, 430227734,
    506948616, 659060556, 883997877, 958139571, 1322822218, 1537002063, 1747873779,
    1955562222, 2024104815, 2227730452, 2361852424, 2428436474, 2756734187, 3204031479,
    3329325298]"

type_synonym sha_state =
  "nat \<times> nat \<times> nat \<times> nat \<times> nat \<times> nat \<times> nat \<times> nat"

definition sha_init :: sha_state where
  "sha_init = (1779033703, 3144134277, 1013904242, 2773480762,
               1359893119, 2600822924, 528734635, 1541459225)"

fun sha_round :: "nat \<Rightarrow> nat \<Rightarrow> sha_state \<Rightarrow> sha_state" where
  "sha_round k w (a, b, c, d, e, f, g, h) =
     (let t1 = h + big_sigma1 e + sha_ch e f g + k + w;
          t2 = big_sigma0 a + sha_maj a b c
      in ((t1 + t2) mod two32, a, b, c, (d + t1) mod two32, e, f, g))"

text \<open>The rounds, with the last sixteen words of the message schedule as a sliding window.\<close>

fun sha_rounds :: "nat list \<Rightarrow> nat list \<Rightarrow> sha_state \<Rightarrow> sha_state" where
  "sha_rounds [] ws st = st"
| "sha_rounds (k # ks) [] st = st"
| "sha_rounds (k # ks) (w # ws) st =
     sha_rounds ks
       (ws @ [(w + small_sigma0 (ws ! 0) + ws ! 8 + small_sigma1 (ws ! 13)) mod two32])
       (sha_round k w st)"

fun sha_add :: "sha_state \<Rightarrow> sha_state \<Rightarrow> sha_state" where
  "sha_add (a, b, c, d, e, f, g, h) (a', b', c', d', e', f', g', h') =
     ((a + a') mod two32, (b + b') mod two32, (c + c') mod two32, (d + d') mod two32,
      (e + e') mod two32, (f + f') mod two32, (g + g') mod two32, (h + h') mod two32)"

definition sha_block :: "sha_state \<Rightarrow> nat list \<Rightarrow> sha_state" where
  "sha_block st ws = sha_add st (sha_rounds round_constants ws st)"

text \<open>Big-endian words of a byte list, and the bytes of a number of \<open>k\<close> bytes.\<close>

fun be_words :: "bytes \<Rightarrow> nat list" where
  "be_words (a # b # c # d # bs) = (((a * 256 + b) * 256 + c) * 256 + d) # be_words bs"
| "be_words _ = []"

fun be_bytes :: "nat \<Rightarrow> nat \<Rightarrow> bytes" where
  "be_bytes 0 n = []"
| "be_bytes (Suc k) n = be_bytes k (n div 256) @ [n mod 256]"

fun split_every :: "nat \<Rightarrow> 'a list \<Rightarrow> 'a list list" where
  "split_every n xs =
     (if xs = [] \<or> n = 0 then [] else take n xs # split_every n (drop n xs))"

declare split_every.simps [simp del]

definition sha_pad :: "bytes \<Rightarrow> bytes" where
  "sha_pad m = m @ [128] @ replicate ((119 - length m mod 64) mod 64) 0 @ be_bytes 8 (8 * length m)"

fun sha_words :: "sha_state \<Rightarrow> nat list" where
  "sha_words (a, b, c, d, e, f, g, h) = [a, b, c, d, e, f, g, h]"

text \<open>\<open>hashlib.sha256(m).digest()\<close> and \<open>hexdigest()\<close>.\<close>

definition sha256_digest :: "bytes \<Rightarrow> bytes" where
  "sha256_digest m =
     concat (map (be_bytes 4)
       (sha_words (foldl sha_block sha_init (split_every 16 (be_words (sha_pad m))))))"

definition sha256_hex :: "bytes \<Rightarrow> ustr" where
  "sha256_hex m = bytes_hex (sha256_digest m)"

lemma be_bytes_4:
  "be_bytes 4 n = [n div 256 div 256 div 256 mod 256, n div 256 div 256 mod 256, n div 256 mod 256, n mod 256]"
proof -
  have four: "(4::nat) = Suc (Suc (Suc (Suc 0)))" by simp
  show ?thesis unfolding four by (simp only: be_bytes.simps append.simps)
qed

lemma be_bytes_8: "be_bytes 8 n = be_bytes 4 (n div 4294967296) @ be_bytes 4 n"
proof -
  have eight: "(8::nat) = Suc (Suc (Suc (Suc 4)))" by simp
  have "n div 4294967296 = n div 256 div 256 div 256 div 256"
    by (simp add: div_mult2_eq [symmetric])
  then show ?thesis unfolding eight
    by (simp only: be_bytes.simps append_assoc append.simps be_bytes_4)
qed

lemma replicate_numeral: "replicate (numeral k) x = x # replicate (pred_numeral k) x"
  by (simp add: numeral_eq_Suc)

lemma length_be_bytes [simp]: "length (be_bytes k n) = k"
  by (induction k arbitrary: n) auto

lemma be_bytes_bound: "\<forall>b \<in> set (be_bytes k n). b < 256"
  by (induction k arbitrary: n) auto

lemma sha256_digest_bytes: "\<forall>b \<in> set (sha256_digest m). b < 256"
  using be_bytes_bound by (auto simp: sha256_digest_def)

lemma length_sha_words: "length (sha_words st) = 8"
  by (cases st rule: sha_words.cases) simp

lemma length_sha256_digest [simp]: "length (sha256_digest m) = 32"
  by (simp add: sha256_digest_def length_concat comp_def length_sha_words map_replicate_const sum_list_replicate)

lemma length_bytes_hex: "length (bytes_hex bs) = 2 * length bs"
  by (simp add: bytes_hex_def length_concat comp_def sum_list_triv)

lemma length_sha256_hex [simp]: "length (sha256_hex m) = 64"
  by (simp add: sha256_hex_def length_bytes_hex)

lemma lower_hex_digit: "n < 16 \<Longrightarrow> 48 \<le> hex_digit n \<and> hex_digit n \<le> 57 \<or> 97 \<le> hex_digit n \<and> hex_digit n \<le> 102"
  by (auto simp: hex_digit_def)

lemma sha256_hex_chars:
  "c \<in> set (sha256_hex m) \<Longrightarrow> 48 \<le> c \<and> c \<le> 57 \<or> 97 \<le> c \<and> c \<le> 102"
  unfolding sha256_hex_def
  using bytes_hex_chars [OF sha256_digest_bytes] lower_hex_digit by blast

lemma sha256_hex_not_Nil [simp]: "sha256_hex m \<noteq> []"
  by (metis length_sha256_hex list.size(3) zero_neq_numeral)

section \<open>HMAC and PBKDF2\<close>

definition hmac_key :: "bytes \<Rightarrow> bytes" where
  "hmac_key k = (let k' = (if 64 < length k then sha256_digest k else k)
                 in k' @ replicate (64 - length k') 0)"

text \<open>\<open>hmac.new(k, m, hashlib.sha256).digest()\<close>.\<close>

definition hmac_sha256 :: "bytes \<Rightarrow> bytes \<Rightarrow> bytes" where
  "hmac_sha256 k m =
     sha256_digest (map (\<lambda>b. b XOR 92) (hmac_key k) @
       sha256_digest (map (\<lambda>b. b XOR 54) (hmac_key k) @ m))"

definition hmac_sha256_hex :: "bytes \<Rightarrow> bytes \<Rightarrow> ustr" where
  "hmac_sha256_hex k m = bytes_hex (hmac_sha256 k m)"

text \<open>\<open>hashlib.pbkdf2_hmac("sha256", p, s, n)\<close> with its default length of 32 bytes: one block.\<close>

fun pbkdf2_iterate :: "bytes \<Rightarrow> nat \<Rightarrow> bytes \<Rightarrow> bytes \<Rightarrow> bytes" where
  "pbkdf2_iterate p 0 prev acc = acc"
| "pbkdf2_iterate p (Suc n) prev acc =
     (let next = hmac_sha256 p prev
      in pbkdf2_iterate p n next (map2 (XOR) acc next))"

definition pbkdf2_sha256 :: "bytes \<Rightarrow> bytes \<Rightarrow> nat \<Rightarrow> bytes" where
  "pbkdf2_sha256 p s n =
     (let u1 = hmac_sha256 p (s @ [0, 0, 0, 1]) in pbkdf2_iterate p (n - 1) u1 u1)"

lemma hmac_sha256_bytes: "\<forall>b \<in> set (hmac_sha256 k m). b < 256"
  unfolding hmac_sha256_def by (rule sha256_digest_bytes)

lemma length_hmac_sha256 [simp]: "length (hmac_sha256 k m) = 32"
  by (simp add: hmac_sha256_def)

lemma xor_byte: "a < 256 \<Longrightarrow> b < 256 \<Longrightarrow> (a XOR b :: nat) < 256"
proof -
  assume "a < 256" "b < 256"
  then have "take_bit 8 a = a" "take_bit 8 b = b"
    by (simp_all add: take_bit_nat_eq_self_iff)
  then have "a XOR b = take_bit 8 (a XOR b)" by (simp only: take_bit_xor)
  also have "\<dots> < 2 ^ 8" by (rule take_bit_nat_less_exp)
  finally show ?thesis by simp
qed

lemma pbkdf2_iterate_bytes:
  "\<forall>b \<in> set acc. b < 256 \<Longrightarrow> \<forall>b \<in> set (pbkdf2_iterate p n prev acc). b < 256"
proof (induction n arbitrary: prev acc)
  case 0
  then show ?case by simp
next
  case (Suc n)
  have "\<forall>b \<in> set (map2 (XOR) acc (hmac_sha256 p prev)). b < 256"
    using Suc.prems hmac_sha256_bytes [of p prev]
    by (auto intro!: xor_byte dest: set_zip_leftD set_zip_rightD)
  then have "\<forall>b \<in> set (pbkdf2_iterate p n (hmac_sha256 p prev)
      (map2 (XOR) acc (hmac_sha256 p prev))). b < 256"
    by (rule Suc.IH)
  then show ?case by (simp add: Let_def)
qed

lemma pbkdf2_bytes: "\<forall>b \<in> set (pbkdf2_sha256 p s n). b < 256"
  unfolding pbkdf2_sha256_def Let_def by (intro pbkdf2_iterate_bytes hmac_sha256_bytes)

end
