(* ===== verification/Messages.thy ===== *)
theory Messages
  imports Prelude
begin

text \<open>
  The Korean texts of the program as code-point lists, one constant per literal, grouped by the
  file of \<open>src/orchestrator/app\<close> that holds it. The comment of each gives its meaning. A literal
  ending in a colon or a blank is the constant part of an f-string.
\<close>


section \<open>File security\<close>

definition msg_no_bearer :: ustr where \<comment> \<open>the request carries no bearer token\<close>
  "msg_no_bearer =
   [66, 101, 97, 114, 101, 114, 32, 116, 111, 107, 101, 110, 51060, 32, 50630, 49845, 45768,
    45796, 46]"

definition msg_bad_token :: ustr where \<comment> \<open>the bearer token is not valid\<close>
  "msg_bad_token =
   [50976, 54952, 54616, 51648, 32, 50506, 51008, 32, 116, 111, 107, 101, 110, 51077, 45768,
    45796, 46]"

definition msg_no_user :: ustr where \<comment> \<open>the user of the token does not exist\<close>
  "msg_no_user =
   [49324, 50857, 51088, 47484, 32, 52286, 51012, 32, 49688, 32, 50630, 49845, 45768, 45796,
    46]"

definition msg_forbidden :: ustr where \<comment> \<open>the role is not sufficient\<close>
  "msg_forbidden =
   [44428, 54620, 51060, 32, 48512, 51313, 54633, 45768, 45796, 46]"


section \<open>File policy\<close>

definition msg_policy_destructive :: ustr where \<comment> \<open>destructive work cannot be delegated to an agent\<close>
  "msg_policy_destructive =
   [54028, 44340, 51201, 32, 51089, 50629, 51008, 32, 51088, 50984, 32, 65, 103, 101, 110,
    116, 50640, 44172, 32, 50948, 51076, 54624, 32, 49688, 32, 50630, 49845, 45768, 45796,
    46]"

definition msg_policy_readonly :: ustr where \<comment> \<open>read-only work does not change the deployment state\<close>
  "msg_policy_readonly =
   [51069, 44592, 32, 51204, 50857, 32, 51089, 50629, 51008, 32, 48176, 54252, 32, 49345,
    53468, 47484, 32, 48320, 44221, 54616, 51648, 32, 50506, 49845, 45768, 45796, 46]"

definition msg_policy_agent_prod :: ustr where \<comment> \<open>an agent write to production needs explicit human approval\<close>
  "msg_policy_agent_prod =
   [65, 73, 32, 65, 103, 101, 110, 116, 51032, 32, 50868, 50689, 32, 54872, 44221, 32,
    50416, 44592, 32, 51089, 50629, 50640, 45716, 32, 47749, 49884, 51201, 51064, 32, 49324,
    46988, 32, 49849, 51064, 51060, 32, 54596, 50836, 54633, 45768, 45796, 46]"

definition msg_policy_agent_nonprod :: ustr where \<comment> \<open>an agent write outside production is allowed with an immutable release and a scoped capability\<close>
  "msg_policy_agent_nonprod =
   [48708, 50868, 50689, 32, 54872, 44221, 51032, 32, 65, 103, 101, 110, 116, 32, 50416,
    44592, 32, 51089, 50629, 51008, 32, 105, 109, 109, 117, 116, 97, 98, 108, 101, 32, 114,
    101, 108, 101, 97, 115, 101, 50752, 32, 115, 99, 111, 112, 101, 100, 32, 99, 97, 112,
    97, 98, 105, 108, 105, 116, 121, 44032, 32, 51080, 51004, 47732, 32, 54728, 50857,
    46121, 45768, 45796, 46]"

definition msg_policy_default :: ustr where \<comment> \<open>unknown or mutating work needs human review\<close>
  "msg_policy_default =
   [50508, 32, 49688, 32, 50630, 44144, 45208, 32, 49345, 53468, 47484, 32, 48320, 44221,
    54616, 45716, 32, 51089, 50629, 51008, 32, 49324, 46988, 32, 44160, 53664, 44032, 32,
    54596, 50836, 54633, 45768, 45796, 46]"


section \<open>File capability\<close>

definition msg_cap_expired :: ustr where \<comment> \<open>the capability has expired\<close>
  "msg_cap_expired =
   [99, 97, 112, 97, 98, 105, 108, 105, 116, 121, 44032, 32, 47564, 47308, 46104, 50632,
    49845, 45768, 45796, 46]"

definition msg_cap_signature :: ustr where \<comment> \<open>the signature of the capability is not valid\<close>
  "msg_cap_signature =
   [99, 97, 112, 97, 98, 105, 108, 105, 116, 121, 32, 49436, 47749, 51060, 32, 50976, 54952,
    54616, 51648, 32, 50506, 49845, 45768, 45796, 46]"

definition msg_cap_scope_prefix :: ustr where \<comment> \<open>the scope of the capability does not match: (field)\<close>
  "msg_cap_scope_prefix =
   [99, 97, 112, 97, 98, 105, 108, 105, 116, 121, 32, 115, 99, 111, 112, 101, 44032, 32,
    51068, 52824, 54616, 51648, 32, 50506, 49845, 45768, 45796, 58, 32]"

definition msg_cap_unsupported :: ustr where \<comment> \<open>unsupported capability token\<close>
  "msg_cap_unsupported =
   [51648, 50896, 54616, 51648, 32, 50506, 45716, 32, 99, 97, 112, 97, 98, 105, 108, 105,
    116, 121, 32, 116, 111, 107, 101, 110, 51077, 45768, 45796, 46]"


section \<open>File executor client\<close>

definition msg_stale_prefix :: ustr where \<comment> \<open>the target changed after the approval: (fields)\<close>
  "msg_stale_prefix =
   [49849, 51064, 32, 51060, 54980, 32, 49892, 54665, 32, 45824, 49345, 51060, 32, 48320,
    44221, 46104, 50632, 49845, 45768, 45796, 58, 32]"

definition msg_identity_match :: ustr where \<comment> \<open>the approved identity and the live target agree\<close>
  "msg_identity_match =
   [49849, 51064, 46108, 32, 100, 101, 112, 108, 111, 121, 109, 101, 110, 116, 32, 105, 100,
    101, 110, 116, 105, 116, 121, 50752, 32, 108, 105, 118, 101, 32, 116, 97, 114, 103, 101,
    116, 51060, 32, 51068, 52824, 54633, 45768, 45796, 46]"

definition msg_boundary_failed :: ustr where \<comment> \<open>the request to the executor boundary failed\<close>
  "msg_boundary_failed =
   [101, 120, 101, 99, 117, 116, 111, 114, 32, 44221, 44228, 32, 50836, 52397, 50640, 32,
    49892, 54056, 54664, 49845, 45768, 45796, 46]"

definition msg_grpc_observe_prefix :: ustr where \<comment> \<open>the gRPC observe request failed: (code): (details)\<close>
  "msg_grpc_observe_prefix =
   [103, 82, 80, 67, 32, 44288, 52272, 32, 50836, 52397, 32, 49892, 54056, 58, 32]"

definition msg_grpc_execute_prefix :: ustr where \<comment> \<open>the gRPC execute request failed: (code): (details)\<close>
  "msg_grpc_execute_prefix =
   [103, 82, 80, 67, 32, 49892, 54665, 32, 50836, 52397, 32, 49892, 54056, 58, 32]"


section \<open>File services\<close>

definition msg_epoch_created_prefix :: ustr where \<comment> \<open>deployment epoch created: (project)/(environment)\<close>
  "msg_epoch_created_prefix =
   [68, 101, 112, 108, 111, 121, 109, 101, 110, 116, 32, 101, 112, 111, 99, 104, 32, 49373,
    49457, 58, 32]"

definition msg_pipeline_before_approval :: ustr where \<comment> \<open>the verified pipeline must have succeeded before the approval\<close>
  "msg_pipeline_before_approval =
   [49849, 51064, 32, 51204, 50640, 32, 44160, 51613, 46108, 32, 71, 105, 116, 76, 97, 98,
    32, 112, 105, 112, 101, 108, 105, 110, 101, 51060, 32, 49457, 44277, 32, 49345, 53468,
    50668, 50556, 32, 54633, 45768, 45796, 46]"

definition msg_approved_summary :: ustr where \<comment> \<open>a human approver bound the approval to the release fingerprint\<close>
  "msg_approved_summary =
   [49324, 46988, 32, 49849, 51064, 51088, 44032, 32, 105, 109, 109, 117, 116, 97, 98, 108,
    101, 32, 114, 101, 108, 101, 97, 115, 101, 32, 102, 105, 110, 103, 101, 114, 112, 114,
    105, 110, 116, 50640, 32, 49849, 51064, 51012, 32, 50672, 44208, 54664, 49845, 45768,
    45796, 46]"

definition msg_only_agent_changes :: ustr where \<comment> \<open>capabilities are issued for agent changes only\<close>
  "msg_only_agent_changes =
   [115, 99, 111, 112, 101, 100, 32, 99, 97, 112, 97, 98, 105, 108, 105, 116, 121, 45716,
    32, 65, 73, 32, 65, 103, 101, 110, 116, 44032, 32, 49884, 51089, 54620, 32, 48320,
    44221, 50640, 47564, 32, 48156, 44553, 46121, 45768, 45796, 46]"

definition msg_pipeline_before_capability :: ustr where \<comment> \<open>a verified pipeline is needed before a capability is issued\<close>
  "msg_pipeline_before_capability =
   [99, 97, 112, 97, 98, 105, 108, 105, 116, 121, 32, 48156, 44553, 32, 51204, 50640, 32,
    44160, 51613, 46108, 32, 112, 105, 112, 101, 108, 105, 110, 101, 51060, 32, 54596,
    50836, 54633, 45768, 45796, 46]"

definition msg_policy_decision_prefix :: ustr where \<comment> \<open>policy decision (decision): (reason)\<close>
  "msg_policy_decision_prefix =
   [51221, 52293, 32, 44208, 51221, 32]"

definition msg_approval_before_capability :: ustr where \<comment> \<open>the policy demands a human approval before a capability is issued\<close>
  "msg_approval_before_capability =
   [51221, 52293, 49345, 32, 99, 97, 112, 97, 98, 105, 108, 105, 116, 121, 32, 48156, 44553,
    32, 51204, 50640, 32, 47749, 49884, 51201, 51064, 32, 49324, 46988, 32, 49849, 51064,
    51060, 32, 54596, 50836, 54633, 45768, 45796, 46]"

definition msg_capability_issued_infix :: ustr where \<comment> \<open>Scoped (action) capability issued to: (actor)\<close>
  "msg_capability_issued_infix =
   [32, 99, 97, 112, 97, 98, 105, 108, 105, 116, 121, 32, 48156, 44553, 32, 45824, 49345,
    58, 32]"

definition msg_not_agent_epoch :: ustr where \<comment> \<open>the epoch does not come from an agent change\<close>
  "msg_not_agent_epoch =
   [51060, 32, 101, 112, 111, 99, 104, 45716, 32, 65, 73, 32, 65, 103, 101, 110, 116, 44032,
    32, 49884, 51089, 54620, 32, 48320, 44221, 51060, 32, 50500, 45785, 45768, 45796, 46]"

definition msg_grant_inactive :: ustr where \<comment> \<open>the capability grant is not active\<close>
  "msg_grant_inactive =
   [99, 97, 112, 97, 98, 105, 108, 105, 116, 121, 32, 103, 114, 97, 110, 116, 44032, 32,
    54876, 49457, 32, 49345, 53468, 44032, 32, 50500, 45785, 45768, 45796, 46]"

definition msg_grant_expired :: ustr where \<comment> \<open>the capability grant has expired\<close>
  "msg_grant_expired =
   [99, 97, 112, 97, 98, 105, 108, 105, 116, 121, 32, 103, 114, 97, 110, 116, 44032, 32,
    47564, 47308, 46104, 50632, 49845, 45768, 45796, 46]"

definition msg_observe_unavailable :: ustr where \<comment> \<open>the executor cannot take observations\<close>
  "msg_observe_unavailable =
   [101, 120, 101, 99, 117, 116, 111, 114, 32, 44288, 52272, 32, 44592, 45733, 51012, 32,
    49324, 50857, 54624, 32, 49688, 32, 50630, 49845, 45768, 45796, 46]"

definition msg_state_prefix :: ustr where \<comment> \<open>the epoch cannot be executed in its state: (state)\<close>
  "msg_state_prefix =
   [54788, 51116, 32, 49345, 53468, 50640, 49436, 45716, 32, 101, 112, 111, 99, 104, 47484,
    32, 49892, 54665, 54624, 32, 49688, 32, 50630, 49845, 45768, 45796, 58, 32]"

definition msg_no_valid_approval :: ustr where \<comment> \<open>no approval is bound to the current fingerprint\<close>
  "msg_no_valid_approval =
   [54788, 51116, 32, 102, 105, 110, 103, 101, 114, 112, 114, 105, 110, 116, 50640, 32,
    50672, 44208, 46108, 32, 50976, 54952, 54620, 32, 49849, 51064, 51060, 32, 50630, 49845,
    45768, 45796, 46]"

definition msg_no_live_target :: ustr where \<comment> \<open>the live target has not been observed yet\<close>
  "msg_no_live_target =
   [108, 105, 118, 101, 32, 116, 97, 114, 103, 101, 116, 51060, 32, 50500, 51649, 32, 44288,
    52272, 46104, 51648, 32, 50506, 50520, 49845, 45768, 45796, 46]"

definition msg_executor_unavailable :: ustr where \<comment> \<open>the executor boundary is not available\<close>
  "msg_executor_unavailable =
   [101, 120, 101, 99, 117, 116, 111, 114, 32, 49892, 54665, 32, 44221, 44228, 47484, 32,
    49324, 50857, 54624, 32, 49688, 32, 50630, 49845, 45768, 45796, 46]"

definition msg_evidence_too_large :: ustr where \<comment> \<open>the evidence file is too large\<close>
  "msg_evidence_too_large =
   [101, 118, 105, 100, 101, 110, 99, 101, 32, 54028, 51068, 51060, 32, 45320, 47924, 32,
    53373, 45768, 45796, 46]"

definition msg_evidence_prefix :: ustr where \<comment> \<open>evidence attached: (name)\<close>
  "msg_evidence_prefix =
   [69, 118, 105, 100, 101, 110, 99, 101, 32, 52392, 48512, 58, 32]"


section \<open>File main\<close>

definition msg_not_found :: ustr where \<comment> \<open>not found\<close>
  "msg_not_found =
   [52286, 51012, 32, 49688, 32, 50630, 49845, 45768, 45796, 46]"

definition msg_login_failed :: ustr where \<comment> \<open>wrong user name or password\<close>
  "msg_login_failed =
   [50500, 51060, 46356, 32, 46608, 45716, 32, 48708, 48128, 48264, 54840, 44032, 32, 50732,
    48148, 47476, 51648, 32, 50506, 49845, 45768, 45796, 46]"

definition msg_configured :: ustr where \<comment> \<open>configured\<close>
  "msg_configured =
   [49444, 51221, 46120]"

definition msg_unconfigured :: ustr where \<comment> \<open>not configured\<close>
  "msg_unconfigured =
   [48120, 49444, 51221]"

definition msg_pipeline_binding :: ustr where \<comment> \<open>pipeline id bound to the immutable commit SHA\<close>
  "msg_pipeline_binding =
   [112, 105, 112, 101, 108, 105, 110, 101, 32, 105, 100, 32, 43, 32, 105, 109, 109, 117,
    116, 97, 98, 108, 101, 32, 99, 111, 109, 109, 105, 116, 32, 83, 72, 65, 32, 44208, 54633]"

definition msg_auth_metadata :: ustr where \<comment> \<open>HMAC-SHA256 signed metadata\<close>
  "msg_auth_metadata =
   [72, 77, 65, 67, 45, 83, 72, 65, 50, 53, 54, 32, 49436, 47749, 32, 109, 101, 116, 97,
    100, 97, 116, 97]"

definition msg_auth_body :: ustr where \<comment> \<open>HMAC-SHA256 signed request body\<close>
  "msg_auth_body =
   [72, 77, 65, 67, 45, 83, 72, 65, 50, 53, 54, 32, 49436, 47749, 32, 114, 101, 113, 117,
    101, 115, 116, 32, 98, 111, 100, 121]"

definition msg_target_observation :: ustr where \<comment> \<open>kept by the executor itself\<close>
  "msg_target_observation =
   [101, 120, 101, 99, 117, 116, 111, 114, 44032, 32, 51649, 51217, 32, 44288, 47532]"

definition msg_grpc_active :: ustr where \<comment> \<open>active\<close>
  "msg_grpc_active =
   [54876, 49457]"

definition msg_grpc_implemented :: ustr where \<comment> \<open>implemented\<close>
  "msg_grpc_implemented =
   [44396, 54788, 46120]"

definition msg_webhook_token :: ustr where \<comment> \<open>the webhook token is not valid\<close>
  "msg_webhook_token =
   [71, 105, 116, 76, 97, 98, 32, 119, 101, 98, 104, 111, 111, 107, 32, 116, 111, 107, 101,
    110, 51060, 32, 50976, 54952, 54616, 51648, 32, 50506, 49845, 45768, 45796, 46]"

definition msg_webhook_too_large :: ustr where \<comment> \<open>the webhook payload is too large\<close>
  "msg_webhook_too_large =
   [71, 105, 116, 76, 97, 98, 32, 119, 101, 98, 104, 111, 111, 107, 32, 112, 97, 121, 108,
    111, 97, 100, 44032, 32, 45320, 47924, 32, 53373, 45768, 45796, 46]"

definition msg_bad_json :: ustr where \<comment> \<open>malformed JSON\<close>
  "msg_bad_json =
   [74, 83, 79, 78, 32, 54805, 49885, 51060, 32, 50732, 48148, 47476, 51648, 32, 50506,
    49845, 45768, 45796, 46]"

definition msg_pipeline_verified :: ustr where \<comment> \<open>the pipeline evidence matches the immutable commit SHA\<close>
  "msg_pipeline_verified =
   [71, 105, 116, 76, 97, 98, 32, 112, 105, 112, 101, 108, 105, 110, 101, 32, 101, 118, 105,
    100, 101, 110, 99, 101, 44032, 32, 105, 109, 109, 117, 116, 97, 98, 108, 101, 32, 99,
    111, 109, 109, 105, 116, 32, 83, 72, 65, 50752, 32, 51068, 52824, 54664, 49845, 45768,
    45796, 46]"

definition msg_pipeline_rejected :: ustr where \<comment> \<open>the pipeline SHA does not match the epoch\<close>
  "msg_pipeline_rejected =
   [71, 105, 116, 76, 97, 98, 32, 112, 105, 112, 101, 108, 105, 110, 101, 32, 83, 72, 65,
    44032, 32, 100, 101, 112, 108, 111, 121, 109, 101, 110, 116, 32, 101, 112, 111, 99, 104,
    50752, 32, 51068, 52824, 54616, 51648, 32, 50506, 50520, 49845, 45768, 45796, 46]"

definition msg_demo_reason :: ustr where \<comment> \<open>the reason of the demo change\<close>
  "msg_demo_reason =
   [44208, 51228, 32, 51116, 49884, 46020, 32, 51221, 52293, 32, 48320, 44221, 32, 51060,
    54980, 32, 50868, 50689, 32, 54872, 44221, 50640, 49436, 32, 44036, 54736, 51201, 51064,
    32, 116, 105, 109, 101, 111, 117, 116, 51060, 32, 48156, 49373, 54664, 49845, 45768,
    45796, 46]"

definition msg_demo_pipeline_verified :: ustr where \<comment> \<open>demo pipeline evidence verified\<close>
  "msg_demo_pipeline_verified =
   [45936, 47784, 32, 71, 105, 116, 76, 97, 98, 32, 112, 105, 112, 101, 108, 105, 110, 101,
    32, 101, 118, 105, 100, 101, 110, 99, 101, 32, 44160, 51613, 32, 50756, 47308]"

definition msg_bad_drift_field :: ustr where \<comment> \<open>unsupported drift field\<close>
  "msg_bad_drift_field =
   [51648, 50896, 54616, 51648, 32, 50506, 45716, 32, 100, 114, 105, 102, 116, 32, 102, 105,
    101, 108, 100, 51077, 45768, 45796, 46]"

definition msg_no_target_for_drift :: ustr where \<comment> \<open>there is no live target\<close>
  "msg_no_target_for_drift =
   [108, 105, 118, 101, 32, 116, 97, 114, 103, 101, 116, 51060, 32, 50630, 49845, 45768,
    45796, 46]"

definition msg_epoch_not_found :: ustr where \<comment> \<open>the epoch does not exist\<close>
  "msg_epoch_not_found =
   [101, 112, 111, 99, 104, 47484, 32, 52286, 51012, 32, 49688, 32, 50630, 49845, 45768,
    45796, 46]"


end
