(* ===== verification/Fingerprint.thy ===== *)
theory Fingerprint
  imports Sha256 Messages
begin

text \<open>
  \<open>orchestrator/app/fingerprint.py\<close>: the identity of a deployment, its canonical form, its
  fingerprint and the field-wise difference of two identities.

  The dictionaries the code passes have exactly the keys of \<open>FIELDS\<close>; they are the record
  \<open>identity\<close>, whose fields are read by name with \<open>ident_get\<close>.
\<close>

section \<open>Identities\<close>

record identity =
  project :: ustr
  environment :: ustr
  commit_sha :: ustr
  artifact_digest :: ustr
  config_hash :: ustr

datatype field = Project | Environment | CommitSha | ArtifactDigest | ConfigHash

fun field_name :: "field \<Rightarrow> ustr" where
  "field_name Project = u ''project''"
| "field_name Environment = u ''environment''"
| "field_name CommitSha = u ''commit_sha''"
| "field_name ArtifactDigest = u ''artifact_digest''"
| "field_name ConfigHash = u ''config_hash''"

fun ident_get :: "identity \<Rightarrow> field \<Rightarrow> ustr" where
  "ident_get i Project = project i"
| "ident_get i Environment = environment i"
| "ident_get i CommitSha = commit_sha i"
| "ident_get i ArtifactDigest = artifact_digest i"
| "ident_get i ConfigHash = config_hash i"

definition FIELDS :: "field list" where
  "FIELDS = [Project, Environment, CommitSha, ArtifactDigest, ConfigHash]"

lemma set_FIELDS [simp]: "set FIELDS = UNIV"
  using field.exhaust by (auto simp: FIELDS_def)

lemma distinct_FIELDS [simp]: "distinct FIELDS"
  by (simp add: FIELDS_def)

text \<open>\<open>canonical_identity\<close>: every field stripped, in the order of \<open>FIELDS\<close>.\<close>

definition canonical_identity :: "identity \<Rightarrow> (ustr \<times> ustr) list" where
  "canonical_identity i = map (\<lambda>k. (field_name k, py_strip (ident_get i k))) FIELDS"

text \<open>The text whose hash is the fingerprint: \<open>json.dumps(..., sort_keys=True)\<close>.\<close>

definition fingerprint_payload :: "identity \<Rightarrow> ustr" where
  "fingerprint_payload i =
     json_dumps (JObj (map (\<lambda>(k, v). (k, JStr v)) (sort_keys (canonical_identity i))))"

definition fingerprint :: "identity \<Rightarrow> ustr" where
  "fingerprint i = sha256_hex (utf8 (fingerprint_payload i))"

record difference =
  df_field :: ustr
  df_expected :: ustr
  df_observed :: ustr

definition diff_identity :: "identity \<Rightarrow> identity \<Rightarrow> difference list" where
  "diff_identity expected observed =
     concat (map (\<lambda>k.
       let e = py_strip (ident_get expected k); o' = py_strip (ident_get observed k)
       in if e \<noteq> o' then [\<lparr>df_field = field_name k, df_expected = e, df_observed = o'\<rparr>] else [])
     FIELDS)"

section \<open>Canonical identities\<close>

lemma canonical_eq_iff:
  "canonical_identity i = canonical_identity j \<longleftrightarrow>
     (\<forall>k. py_strip (ident_get i k) = py_strip (ident_get j k))"
  by (auto simp: canonical_identity_def)

lemma field_name_inj [simp]: "field_name k = field_name l \<longleftrightarrow> k = l"
  by (cases k; cases l) simp_all

lemma diff_identity_Nil_iff:
  "diff_identity e o' = [] \<longleftrightarrow> canonical_identity e = canonical_identity o'"
  by (auto simp: diff_identity_def canonical_eq_iff Let_def)

text \<open>The keys in the order of the JSON text.\<close>

lemma sort_canonical:
  "sort_keys (canonical_identity i) =
    map (\<lambda>k. (field_name k, py_strip (ident_get i k)))
      [ArtifactDigest, CommitSha, ConfigHash, Environment, Project]"
  by (simp add: sort_keys_def canonical_identity_def FIELDS_def u_def)

text \<open>The text of the payload determines the canonical identity: \<open>json.dumps\<close> loses nothing.\<close>

lemma json_string_append_eq:
  "json_string s @ xs = json_string t @ ys \<longleftrightarrow> s = t \<and> xs = ys"
  using json_string_prefix_free by blast

lemma fingerprint_payload_eq:
  "fingerprint_payload i =
    u ''{'' @ json_string (u ''artifact_digest'') @ u '':'' @ json_string (py_strip (artifact_digest i))
    @ u '','' @ json_string (u ''commit_sha'') @ u '':'' @ json_string (py_strip (commit_sha i))
    @ u '','' @ json_string (u ''config_hash'') @ u '':'' @ json_string (py_strip (config_hash i))
    @ u '','' @ json_string (u ''environment'') @ u '':'' @ json_string (py_strip (environment i))
    @ u '','' @ json_string (u ''project'') @ u '':'' @ json_string (py_strip (project i)) @ u ''}''"
  by (simp add: fingerprint_payload_def sort_canonical)

lemma all_fields:
  "(\<forall>k. P k) \<longleftrightarrow> P ArtifactDigest \<and> P CommitSha \<and> P ConfigHash \<and> P Environment \<and> P Project"
  by (metis field.exhaust)

lemma fingerprint_payload_inj:
  "fingerprint_payload i = fingerprint_payload j \<longleftrightarrow> canonical_identity i = canonical_identity j"
  unfolding fingerprint_payload_eq canonical_eq_iff all_fields ident_get.simps
  by (simp only: same_append_eq json_string_append_eq simp_thms conj_assoc)

lemma fingerprint_canonical:
  "canonical_identity i = canonical_identity j \<Longrightarrow> fingerprint i = fingerprint j"
  by (metis fingerprint_def fingerprint_payload_inj)

lemma length_fingerprint [simp]: "length (fingerprint i) = 64"
  by (simp add: fingerprint_def)

lemma fingerprint_not_Nil [simp]: "fingerprint i \<noteq> []"
  by (simp add: fingerprint_def)

text \<open>
  The bytes SHA-256 hashes for an identity. Two identities collide when these differ and their
  hashes agree; the theorems that go from equal fingerprints to equal identities carry the
  hypothesis that the two identities at hand do not.
\<close>

definition no_collision :: "identity \<Rightarrow> identity \<Rightarrow> bool" where
  "no_collision i j \<longleftrightarrow>
     (fingerprint i = fingerprint j \<longrightarrow> utf8 (fingerprint_payload i) = utf8 (fingerprint_payload j))"

lemma fingerprint_eq_iff:
  assumes "no_collision i j"
  shows "fingerprint i = fingerprint j \<longleftrightarrow> canonical_identity i = canonical_identity j"
proof
  assume "fingerprint i = fingerprint j"
  with assms have "utf8 (fingerprint_payload i) = utf8 (fingerprint_payload j)"
    by (simp only: no_collision_def simp_thms)
  then show "canonical_identity i = canonical_identity j"
    by (simp only: utf8_inj fingerprint_payload_inj)
qed (rule fingerprint_canonical)

lemma fingerprint_eq_iff_diff:
  "no_collision i j \<Longrightarrow> fingerprint i = fingerprint j \<longleftrightarrow> diff_identity i j = []"
  by (simp add: fingerprint_eq_iff diff_identity_Nil_iff)

lemma no_collision_refl [simp]: "no_collision i i"
  by (simp add: no_collision_def)

text \<open>The reported differences: one for each field that differs, in order, with both values.\<close>

lemma diff_identity_fields:
  "map df_field (diff_identity e o') =
    map field_name (filter (\<lambda>k. py_strip (ident_get e k) \<noteq> py_strip (ident_get o' k)) FIELDS)"
proof -
  have "map df_field (concat (map (\<lambda>k. if P k then [\<lparr>df_field = field_name k, df_expected = f k,
      df_observed = g k\<rparr>] else []) ks)) = map field_name (filter P ks)" for P f g ks
    by (induction ks) auto
  then show ?thesis by (simp add: diff_identity_def Let_def)
qed

lemma diff_identity_member:
  "d \<in> set (diff_identity e o') \<longleftrightarrow>
    (\<exists>k. py_strip (ident_get e k) \<noteq> py_strip (ident_get o' k) \<and>
      d = \<lparr>df_field = field_name k, df_expected = py_strip (ident_get e k),
           df_observed = py_strip (ident_get o' k)\<rparr>)"
  by (auto simp: diff_identity_def Let_def split: if_splits)

section \<open>Properties\<close>

lemma fingerprint_chars:
  "c \<in> set (fingerprint i) \<Longrightarrow> 48 \<le> c \<and> c \<le> 57 \<or> 97 \<le> c \<and> c \<le> 102"
  unfolding fingerprint_def by (rule sha256_hex_chars)

text \<open>The fingerprint of an identity is always a text of 64 lower-case hexadecimal digits.\<close>

lemma fingerprint_format:
  "length (fingerprint i) = 64 \<and>
   list_all (\<lambda>c. 48 \<le> c \<and> c \<le> 57 \<or> 97 \<le> c \<and> c \<le> 102) (fingerprint i)"
  by (simp add: list_all_iff fingerprint_chars)

text \<open>
  C7: For two identities whose payloads do not collide under SHA-256, comparing the fingerprints
  and comparing the stripped fields agree: the fingerprints are equal exactly when \<open>diff_identity\<close>
  reports no difference. (\<open>no_collision\<close> excludes only two different payload texts of the pair at
  hand with the same digest; it is shown to hold for the repository's test vector.)
\<close>

theorem fingerprint_detects_drift:
  assumes "no_collision expected observed"
  shows "fingerprint expected = fingerprint observed \<longleftrightarrow> diff_identity expected observed = []"
  using assms by (rule fingerprint_eq_iff_diff)

text \<open>
  The difference report names exactly the fields whose stripped values differ, each once and in
  the order of \<open>FIELDS\<close>, with both stripped values.
\<close>

lemma diff_reports_fields:
  "map df_field (diff_identity e ob) =
     map field_name (filter (\<lambda>k. py_strip (ident_get e k) \<noteq> py_strip (ident_get ob k)) FIELDS) \<and>
   (d \<in> set (diff_identity e ob) \<longleftrightarrow>
     (\<exists>k. py_strip (ident_get e k) \<noteq> py_strip (ident_get ob k) \<and>
       d = \<lparr>df_field = field_name k, df_expected = py_strip (ident_get e k),
            df_observed = py_strip (ident_get ob k)\<rparr>))"
  by (simp only: diff_identity_fields diff_identity_member simp_thms)

end
