(* ===== verification/Database.thy ===== *)
theory Database
  imports Fingerprint
begin

text \<open>
  \<open>orchestrator/app/models.py\<close> and \<open>db.py\<close>: the tables, their keys and the transaction of a request.

  A table is the list of its rows in the order of insertion. \<open>db_ok\<close> says what the declared
  constraints say: primary keys and unique columns hold no value twice, and every \<open>epoch_id\<close>
  names an epoch. A handler works on a copy of the database (the session); \<open>commit\<close> publishes
  it, or raises \<open>IntegrityError\<close> and leaves the database as it was. A handler that raises before its
  commit has changed nothing, because closing the session rolls it back.

  The engine's own columns lengths (\<open>VARCHAR(n)\<close>) are not enforced by SQLite and not modelled.
\<close>

section \<open>Rows\<close>

record user_row =
  us_id :: nat
  us_username :: ustr
  us_password_hash :: ustr
  us_role :: ustr
  us_created_at :: int

record epoch_row =
  ep_id :: ustr
  ep_project :: ustr
  ep_environment :: ustr
  ep_commit_sha :: ustr
  ep_artifact_digest :: ustr
  ep_config_hash :: ustr
  ep_pipeline_id :: ustr
  ep_pipeline_status :: ustr
  ep_fingerprint :: ustr
  ep_state :: ustr
  ep_created_by :: ustr
  ep_created_at :: int
  ep_updated_at :: int

record approval_row =
  ap_id :: nat
  ap_epoch_id :: ustr
  ap_approver :: ustr
  ap_approved_fingerprint :: ustr
  ap_created_at :: int

record evidence_row =
  ev_id :: nat
  ev_epoch_id :: ustr
  ev_kind :: ustr
  ev_filename :: ustr
  ev_sha256 :: ustr
  ev_content_type :: ustr
  ev_size_bytes :: int
  ev_storage_path :: ustr
  ev_created_at :: int

record target_row =
  lt_id :: nat
  lt_project :: ustr
  lt_environment :: ustr
  lt_commit_sha :: ustr
  lt_artifact_digest :: ustr
  lt_config_hash :: ustr
  lt_updated_at :: int

record receipt_row =
  rc_id :: nat
  rc_epoch_id :: ustr
  rc_outcome :: ustr
  rc_expected_fingerprint :: ustr
  rc_observed_fingerprint :: ustr
  rc_reason :: ustr
  rc_idempotency_key :: ustr
  rc_differences :: json
  rc_latency_ms :: int
  rc_created_at :: int

record change_row =
  cr_id :: ustr
  cr_epoch_id :: ustr
  cr_external_ref :: ustr
  cr_reason :: ustr
  cr_actor_type :: ustr
  cr_actor_id :: ustr
  cr_requested_by :: ustr
  cr_action :: ustr
  cr_created_at :: int

record event_row =
  pe_id :: nat
  pe_epoch_id :: ustr
  pe_event_type :: ustr
  pe_actor_type :: ustr
  pe_actor_id :: ustr
  pe_summary :: ustr
  pe_details :: json
  pe_created_at :: int

record grant_row =
  cg_id :: ustr
  cg_epoch_id :: ustr
  cg_actor_type :: ustr
  cg_actor_id :: ustr
  cg_project :: ustr
  cg_environment :: ustr
  cg_action :: ustr
  cg_fingerprint :: ustr
  cg_issued_by :: ustr
  cg_expires_at :: int
  cg_revoked_at :: "int option"
  cg_created_at :: int

record webhook_row =
  wh_id :: nat
  wh_provider :: ustr
  wh_event_type :: ustr
  wh_external_id :: ustr
  wh_payload_hash :: ustr
  wh_received_at :: int

record outbox_row =
  ob_id :: nat
  ob_topic :: ustr
  ob_payload :: json
  ob_published :: bool
  ob_created_at :: int

record db =
  users :: "user_row list"
  epochs :: "epoch_row list"
  approvals :: "approval_row list"
  evidences :: "evidence_row list"
  targets :: "target_row list"
  receipts :: "receipt_row list"
  changes :: "change_row list"
  events :: "event_row list"
  grants :: "grant_row list"
  webhooks :: "webhook_row list"
  outbox :: "outbox_row list"

definition empty_db :: db where
  "empty_db = \<lparr>users = [], epochs = [], approvals = [], evidences = [], targets = [],
     receipts = [], changes = [], events = [], grants = [], webhooks = [], outbox = []\<rparr>"

section \<open>Constraints\<close>

abbreviation target_key :: "target_row \<Rightarrow> ustr \<times> ustr" where
  "target_key r \<equiv> (lt_project r, lt_environment r)"

abbreviation receipt_key :: "receipt_row \<Rightarrow> ustr \<times> ustr" where
  "receipt_key r \<equiv> (rc_epoch_id r, rc_idempotency_key r)"

definition unique_keys :: "db \<Rightarrow> bool" where
  "unique_keys d \<longleftrightarrow>
     distinct (map us_username (users d)) \<and>
     distinct (map ep_id (epochs d)) \<and>
     distinct (map ap_epoch_id (approvals d)) \<and>
     distinct (map target_key (targets d)) \<and>
     distinct (map receipt_key (receipts d)) \<and>
     distinct (map cr_id (changes d)) \<and>
     distinct (map cr_epoch_id (changes d)) \<and>
     distinct (map cg_id (grants d)) \<and>
     distinct (map wh_payload_hash (webhooks d))"

definition integer_keys :: "db \<Rightarrow> bool" where
  "integer_keys d \<longleftrightarrow>
     distinct (map us_id (users d)) \<and>
     distinct (map ap_id (approvals d)) \<and>
     distinct (map ev_id (evidences d)) \<and>
     distinct (map lt_id (targets d)) \<and>
     distinct (map rc_id (receipts d)) \<and>
     distinct (map pe_id (events d)) \<and>
     distinct (map wh_id (webhooks d)) \<and>
     distinct (map ob_id (outbox d))"

definition foreign_keys :: "db \<Rightarrow> bool" where
  "foreign_keys d \<longleftrightarrow>
     (let ids = set (map ep_id (epochs d)) in
      ap_epoch_id ` set (approvals d) \<subseteq> ids \<and>
      ev_epoch_id ` set (evidences d) \<subseteq> ids \<and>
      rc_epoch_id ` set (receipts d) \<subseteq> ids \<and>
      cr_epoch_id ` set (changes d) \<subseteq> ids \<and>
      pe_epoch_id ` set (events d) \<subseteq> ids \<and>
      cg_epoch_id ` set (grants d) \<subseteq> ids)"

definition db_ok :: "db \<Rightarrow> bool" where
  "db_ok d \<longleftrightarrow> unique_keys d \<and> integer_keys d \<and> foreign_keys d"

lemma db_ok_empty [simp]: "db_ok empty_db"
  by (simp add: db_ok_def unique_keys_def integer_keys_def foreign_keys_def empty_db_def)

lemmas db_ok_defs = db_ok_def unique_keys_def integer_keys_def foreign_keys_def

section \<open>Transactions\<close>

definition commit :: "db \<Rightarrow> db \<Rightarrow> 'a \<Rightarrow> 'a res \<times> db" where
  "commit old new x = (if db_ok new then (Inr x, new) else (Inl IntegrityError, old))"

lemma commit_ok: "db_ok old \<Longrightarrow> db_ok (snd (commit old new x))"
  by (simp add: commit_def)

lemma commit_cases: "commit old new x = (r, d) \<Longrightarrow>
    r = Inr x \<and> d = new \<and> db_ok new \<or> r = Inl IntegrityError \<and> d = old"
  by (auto simp: commit_def split: if_splits)

text \<open>
  Sequencing: a value that may be an exception, before the database is touched; and two operations
  one after the other, the second on the database the first has left.
\<close>

definition on_ok :: "'a res \<Rightarrow> db \<Rightarrow> ('a \<Rightarrow> 'b res \<times> db) \<Rightarrow> 'b res \<times> db" where
  "on_ok r d f = (case r of Inl e \<Rightarrow> (Inl e, d) | Inr x \<Rightarrow> f x)"

definition then_ok :: "'a res \<times> db \<Rightarrow> ('a \<Rightarrow> db \<Rightarrow> 'b res \<times> db) \<Rightarrow> 'b res \<times> db" where
  "then_ok p f = (case p of (Inl e, d) \<Rightarrow> (Inl e, d) | (Inr x, d) \<Rightarrow> f x d)"

lemma on_ok_simps [simp]: "on_ok (Inl e) d f = (Inl e, d)" "on_ok (Inr x) d f = f x"
  by (simp_all add: on_ok_def)

lemma then_ok_simps [simp]: "then_ok (Inl e, d) f = (Inl e, d)" "then_ok (Inr x, d) f = f x d"
  by (simp_all add: then_ok_def)

lemma on_ok_cases: "on_ok r d f = (y, d') \<Longrightarrow> (\<exists>e. r = Inl e \<and> y = Inl e \<and> d' = d) \<or>
    (\<exists>x. r = Inr x \<and> f x = (y, d'))"
  by (cases r) auto

lemma then_ok_cases: "then_ok p f = (y, d') \<Longrightarrow> (\<exists>e. p = (Inl e, d') \<and> y = Inl e) \<or>
    (\<exists>x d1. p = (Inr x, d1) \<and> f x d1 = (y, d'))"
  by (cases p; cases "fst p") auto

lemma on_ok_Inr: "on_ok r d f = (Inr y, d') \<Longrightarrow> \<exists>x. r = Inr x \<and> f x = (Inr y, d')"
  by (cases r) auto

text \<open>A property that every stage keeps holds of the database at the end.\<close>

lemma on_ok_snd: "P d \<Longrightarrow> (\<And>x. r = Inr x \<Longrightarrow> P (snd (f x))) \<Longrightarrow> P (snd (on_ok r d f))"
  by (cases r) simp_all

lemma then_ok_snd: "P (snd p) \<Longrightarrow> (\<And>x d1. p = (Inr x, d1) \<Longrightarrow> P d1 \<Longrightarrow> P (snd (f x d1))) \<Longrightarrow>
    P (snd (then_ok p f))"
  by (cases p; cases "fst p") auto

lemma if_snd: "(b \<Longrightarrow> P (snd x)) \<Longrightarrow> (\<not> b \<Longrightarrow> P (snd y)) \<Longrightarrow> P (snd (if b then x else y))"
  by simp

lemma pair_snd: "P d \<Longrightarrow> P (snd (x, d))"
  by simp

lemma commit_snd: "P old \<Longrightarrow> (db_ok new \<Longrightarrow> P new) \<Longrightarrow> P (snd (commit old new x))"
  by (simp add: commit_def)

lemmas keep_intros = on_ok_snd then_ok_snd if_snd pair_snd commit_snd

text \<open>\<open>db.get(DeploymentEpoch, id)\<close>.\<close>

definition get_epoch :: "db \<Rightarrow> ustr \<Rightarrow> epoch_row option" where
  "get_epoch d i = find (\<lambda>r. ep_id r = i) (epochs d)"

text \<open>
  \<open>select(DeploymentEpoch).where(id == epoch.id).with_for_update()\<close>, then \<open>scalar_one()\<close>. The session
  already holds the row as the object \<open>epoch\<close>, and SQLAlchemy's identity map returns that object,
  with the attributes it was loaded with: a query overwrites a loaded object only under
  \<open>populate_existing\<close>, which the code does not ask for. Only the existence of the row is read anew.
\<close>

definition for_update :: "db \<Rightarrow> epoch_row \<Rightarrow> epoch_row res" where
  "for_update d loaded =
     (if ep_id loaded \<in> set (map ep_id (epochs d)) then Inr loaded else Inl NoResultFound)"

text \<open>
  The \<open>UPDATE\<close> of a changed attribute of a loaded epoch: SQLAlchemy writes the column only when the
  value differs from the loaded one, and \<open>onupdate\<close> then sets \<open>updated_at\<close>.
\<close>

definition set_state :: "int \<Rightarrow> epoch_row \<Rightarrow> ustr \<Rightarrow> db \<Rightarrow> db" where
  "set_state t locked s d =
     (if ep_state locked = s then d
      else d\<lparr>epochs := update_where (\<lambda>r. ep_id r = ep_id locked)
               (\<lambda>r. r\<lparr>ep_state := s, ep_updated_at := t\<rparr>) (epochs d)\<rparr>)"

section \<open>Tables with a key\<close>

text \<open>
  What the code relies on when it queries by a unique column and calls \<open>one_or_none()\<close>: at most one
  row can match, so the call does not raise.
\<close>

locale keyed_table =
  fixes rows :: "db \<Rightarrow> 'r list"
    and key :: "'r \<Rightarrow> 'k"
  assumes distinct_keys: "db_ok d \<Longrightarrow> distinct (map key (rows d))"
begin

lemma select_one:
  "db_ok d \<Longrightarrow> one_or_none (filter (\<lambda>r. key r = k) (rows d)) = Inr (find (\<lambda>r. key r = k) (rows d))"
  by (rule one_or_none_distinct) (rule distinct_keys)

lemma same_row: "db_ok d \<Longrightarrow> r \<in> set (rows d) \<Longrightarrow> s \<in> set (rows d) \<Longrightarrow> key r = key s \<Longrightarrow> r = s"
  using distinct_keys [of d] by (metis distinct_map inj_onD)

lemma find_row: "db_ok d \<Longrightarrow> r \<in> set (rows d) \<Longrightarrow> find (\<lambda>s. key s = key r) (rows d) = Some r"
proof (cases "find (\<lambda>s. key s = key r) (rows d)")
  case None
  assume "r \<in> set (rows d)"
  with None show ?thesis by (auto simp: find_None_iff)
next
  case (Some s)
  assume "db_ok d" "r \<in> set (rows d)"
  with Some show ?thesis using find_Some_D [OF Some] same_row by blast
qed

lemma count_row: "db_ok d \<Longrightarrow> length (filter (\<lambda>r. key r = k) (rows d)) \<le> 1"
proof -
  assume ok: "db_ok d"
  have "one_or_none (filter (\<lambda>r. key r = k) (rows d)) \<noteq> Inl MultipleResultsFound"
    by (simp add: select_one [OF ok])
  then show ?thesis
    by (cases "filter (\<lambda>r. key r = k) (rows d)" rule: one_or_none.cases) auto
qed

end

interpretation users_t: keyed_table users us_username
  by unfold_locales (simp add: db_ok_defs)

interpretation epochs_t: keyed_table epochs ep_id
  by unfold_locales (simp add: db_ok_defs)

interpretation approvals_t: keyed_table approvals ap_epoch_id
  by unfold_locales (simp add: db_ok_defs)

interpretation targets_t: keyed_table targets target_key
  by unfold_locales (simp add: db_ok_defs)

interpretation receipts_t: keyed_table receipts receipt_key
  by unfold_locales (simp add: db_ok_defs)

interpretation changes_t: keyed_table changes cr_epoch_id
  by unfold_locales (simp add: db_ok_defs)

interpretation grants_t: keyed_table grants cg_id
  by unfold_locales (simp add: db_ok_defs)

interpretation webhooks_t: keyed_table webhooks wh_payload_hash
  by unfold_locales (simp add: db_ok_defs)

section \<open>Facts about epochs in the database\<close>

lemma get_epoch_Some: "get_epoch d i = Some e \<Longrightarrow> e \<in> set (epochs d) \<and> ep_id e = i"
  unfolding get_epoch_def by (auto dest: find_Some_D)

lemma get_epoch_iff:
  assumes "db_ok d"
  shows "get_epoch d i = Some e \<longleftrightarrow> e \<in> set (epochs d) \<and> ep_id e = i"
proof
  assume "e \<in> set (epochs d) \<and> ep_id e = i"
  with epochs_t.find_row [OF assms, of e] show "get_epoch d i = Some e"
    by (auto simp: get_epoch_def)
qed (rule get_epoch_Some)

lemma for_update_loaded:
  "e \<in> set (epochs d) \<Longrightarrow> for_update d e = Inr e"
  by (simp add: for_update_def)

lemma for_update_id:
  "ep_id e \<in> ep_id ` set (epochs d) \<Longrightarrow> for_update d e = Inr e"
  by (simp add: for_update_def)

lemma for_update_Inr: "for_update d e = Inr l \<Longrightarrow> l = e \<and> ep_id e \<in> ep_id ` set (epochs d)"
  by (auto simp: for_update_def split: if_splits)

lemma set_state_simps [simp]:
  "users (set_state t l s d) = users d"
  "approvals (set_state t l s d) = approvals d"
  "evidences (set_state t l s d) = evidences d"
  "targets (set_state t l s d) = targets d"
  "receipts (set_state t l s d) = receipts d"
  "changes (set_state t l s d) = changes d"
  "events (set_state t l s d) = events d"
  "grants (set_state t l s d) = grants d"
  "webhooks (set_state t l s d) = webhooks d"
  "outbox (set_state t l s d) = outbox d"
  "map ep_id (epochs (set_state t l s d)) = map ep_id (epochs d)"
  by (simp_all add: set_state_def)

lemma epoch_ids_set_state [simp]: "ep_id ` set (epochs (set_state t l s d)) = ep_id ` set (epochs d)"
  by (metis list.set_map set_state_simps(11))

lemma set_state_reached:
  assumes "e \<in> set (epochs d)"
  shows "\<exists>e' \<in> set (epochs (set_state t e s d)). ep_id e' = ep_id e \<and> ep_state e' = s"
proof (cases "ep_state e = s")
  case True
  with assms show ?thesis by (intro bexI [of _ e]) (simp_all add: set_state_def)
next
  case False
  with assms have "e\<lparr>ep_state := s, ep_updated_at := t\<rparr> \<in> set (epochs (set_state t e s d))"
    by (force simp: set_state_def set_update_where)
  then show ?thesis by (intro bexI) simp_all
qed

end
