(* ===== verification/Governance.thy ===== *)
theory Governance
  imports Database "HOL-Library.Product_Lexorder"
begin

text \<open>
  \<open>orchestrator/app/governance.py\<close>: the passport of a change. \<open>record_event\<close> appends an event to the
  session, \<open>create_change_request\<close> registers an agent's change, and \<open>build_passport\<close> collects what the
  database holds about an epoch, in the order of time.
\<close>

section \<open>Events and change requests\<close>

definition record_event ::
  "int \<Rightarrow> db \<Rightarrow> ustr \<Rightarrow> ustr \<Rightarrow> ustr \<Rightarrow> ustr \<Rightarrow> ustr \<Rightarrow> json \<Rightarrow> db" where
  "record_event t d epoch_id event_type actor_type actor_id summary details =
     d\<lparr>events := events d @
        [\<lparr>pe_id = next_id (map pe_id (events d)),
          pe_epoch_id = epoch_id,
          pe_event_type = event_type,
          pe_actor_type = actor_type,
          pe_actor_id = actor_id,
          pe_summary = take 255 summary,
          pe_details = (if py_truthy details then details else JObj []),
          pe_created_at = t\<rparr>]\<rparr>"

definition new_change ::
  "int \<Rightarrow> ustr \<Rightarrow> epoch_row \<Rightarrow> ustr \<Rightarrow> ustr \<Rightarrow> ustr \<Rightarrow> ustr \<Rightarrow> ustr \<Rightarrow> ustr \<Rightarrow> change_row" where
  "new_change t new_id epoch external_ref reason actor_type actor_id requested_by action =
     \<lparr>cr_id = new_id,
      cr_epoch_id = ep_id epoch,
      cr_external_ref = external_ref,
      cr_reason = reason,
      cr_actor_type = actor_type,
      cr_actor_id = actor_id,
      cr_requested_by = requested_by,
      cr_action = action,
      cr_created_at = t\<rparr>"

definition changed_db :: "int \<Rightarrow> db \<Rightarrow> change_row \<Rightarrow> db" where
  "changed_db t d row =
     record_event t (d\<lparr>changes := changes d @ [row]\<rparr>) (cr_epoch_id row) (u ''CHANGE_REQUESTED'')
       (cr_actor_type row) (cr_actor_id row) (cr_external_ref row @ u '': '' @ cr_reason row)
       (JObj [(u ''external_ref'', JStr (cr_external_ref row)),
              (u ''requested_by'', JStr (cr_requested_by row)),
              (u ''action'', JStr (cr_action row))])"

text \<open>The result is the new row, or the error of the commit.\<close>

definition create_change_request ::
  "int \<Rightarrow> ustr \<Rightarrow> db \<Rightarrow> epoch_row \<Rightarrow> ustr \<Rightarrow> ustr \<Rightarrow> ustr \<Rightarrow> ustr \<Rightarrow> ustr \<Rightarrow> ustr
    \<Rightarrow> change_row res \<times> db" where
  "create_change_request t new_id d epoch external_ref reason actor_type actor_id requested_by action =
    (let row = new_change t new_id epoch external_ref reason actor_type actor_id requested_by action
     in commit d (changed_db t d row) row)"

section \<open>The passport\<close>

definition py_or :: "json \<Rightarrow> json \<Rightarrow> json" where
  "py_or a b = (if py_truthy a then a else b)"

definition release_view :: "epoch_row \<Rightarrow> view" where
  "release_view epoch = VDict
     [(u ''project'', VStr (ep_project epoch)),
      (u ''environment'', VStr (ep_environment epoch)),
      (u ''commit_sha'', VStr (ep_commit_sha epoch)),
      (u ''artifact_digest'', VStr (ep_artifact_digest epoch)),
      (u ''config_hash'', VStr (ep_config_hash epoch)),
      (u ''pipeline_id'', VStr (ep_pipeline_id epoch)),
      (u ''pipeline_status'', VStr (ep_pipeline_status epoch)),
      (u ''fingerprint'', VStr (ep_fingerprint epoch)),
      (u ''state'', VStr (ep_state epoch))]"

definition change_view :: "change_row \<Rightarrow> view" where
  "change_view change = VDict
     [(u ''id'', VStr (cr_id change)),
      (u ''external_ref'', VStr (cr_external_ref change)),
      (u ''reason'', VStr (cr_reason change)),
      (u ''actor_type'', VStr (cr_actor_type change)),
      (u ''actor_id'', VStr (cr_actor_id change)),
      (u ''requested_by'', VStr (cr_requested_by change)),
      (u ''action'', VStr (cr_action change)),
      (u ''created_at'', VTime (cr_created_at change))]"

definition approval_view :: "approval_row \<Rightarrow> view" where
  "approval_view approval = VDict
     [(u ''approver'', VStr (ap_approver approval)),
      (u ''approved_fingerprint'', VStr (ap_approved_fingerprint approval)),
      (u ''created_at'', VTime (ap_created_at approval))]"

definition evidence_view :: "evidence_row \<Rightarrow> view" where
  "evidence_view row = VDict
     [(u ''id'', VInt (int (ev_id row))),
      (u ''kind'', VStr (ev_kind row)),
      (u ''filename'', VStr (ev_filename row)),
      (u ''sha256'', VStr (ev_sha256 row)),
      (u ''size_bytes'', VInt (ev_size_bytes row)),
      (u ''content_type'', VStr (ev_content_type row)),
      (u ''created_at'', VTime (ev_created_at row))]"

definition capability_view :: "grant_row \<Rightarrow> view" where
  "capability_view row = VDict
     [(u ''id'', VStr (cg_id row)),
      (u ''actor_type'', VStr (cg_actor_type row)),
      (u ''actor_id'', VStr (cg_actor_id row)),
      (u ''project'', VStr (cg_project row)),
      (u ''environment'', VStr (cg_environment row)),
      (u ''action'', VStr (cg_action row)),
      (u ''fingerprint'', VStr (cg_fingerprint row)),
      (u ''issued_by'', VStr (cg_issued_by row)),
      (u ''expires_at'', VTime (cg_expires_at row)),
      (u ''revoked_at'', case cg_revoked_at row of None \<Rightarrow> VNone | Some t \<Rightarrow> VTime t),
      (u ''created_at'', VTime (cg_created_at row))]"

definition execution_view :: "receipt_row \<Rightarrow> view" where
  "execution_view row = VDict
     [(u ''id'', VInt (int (rc_id row))),
      (u ''outcome'', VStr (rc_outcome row)),
      (u ''expected_fingerprint'', VStr (rc_expected_fingerprint row)),
      (u ''observed_fingerprint'', VStr (rc_observed_fingerprint row)),
      (u ''reason'', VStr (rc_reason row)),
      (u ''differences'', VJson (py_or (rc_differences row) (JArr []))),
      (u ''latency_ms'', VInt (rc_latency_ms row)),
      (u ''created_at'', VTime (rc_created_at row))]"

definition timeline_view :: "event_row \<Rightarrow> view" where
  "timeline_view row = VDict
     [(u ''id'', VInt (int (pe_id row))),
      (u ''event_type'', VStr (pe_event_type row)),
      (u ''actor_type'', VStr (pe_actor_type row)),
      (u ''actor_id'', VStr (pe_actor_id row)),
      (u ''summary'', VStr (pe_summary row)),
      (u ''details'', VJson (py_or (pe_details row) (JObj []))),
      (u ''created_at'', VTime (pe_created_at row))]"

text \<open>
  The queries order by \<open>created_at\<close>, the timeline by \<open>created_at\<close> and then \<open>id\<close>. Rows that a query
  leaves in a tie keep the order of the table.
\<close>

definition epoch_timeline :: "db \<Rightarrow> ustr \<Rightarrow> event_row list" where
  "epoch_timeline d i = sort_key (\<lambda>e. (pe_created_at e, pe_id e)) (filter (\<lambda>e. pe_epoch_id e = i) (events d))"

definition build_passport :: "db \<Rightarrow> epoch_row \<Rightarrow> view res" where
  "build_passport d epoch =
    res_bind (one_or_none (filter (\<lambda>c. cr_epoch_id c = ep_id epoch) (changes d))) (\<lambda>change.
    res_bind (one_or_none (filter (\<lambda>a. ap_epoch_id a = ep_id epoch) (approvals d))) (\<lambda>approval.
    let evidence = sort_key ev_created_at (filter (\<lambda>r. ev_epoch_id r = ep_id epoch) (evidences d));
        receipt_rows = sort_key rc_created_at (filter (\<lambda>r. rc_epoch_id r = ep_id epoch) (receipts d));
        capabilities = sort_key cg_created_at (filter (\<lambda>r. cg_epoch_id r = ep_id epoch) (grants d))
    in Inr (VDict
      [(u ''epoch_id'', VStr (ep_id epoch)),
       (u ''change'', case change of None \<Rightarrow> VNone | Some c \<Rightarrow> change_view c),
       (u ''release'', release_view epoch),
       (u ''approval'', case approval of None \<Rightarrow> VNone | Some a \<Rightarrow> approval_view a),
       (u ''evidence'', VList (map evidence_view evidence)),
       (u ''capabilities'', VList (map capability_view capabilities)),
       (u ''executions'', VList (map execution_view receipt_rows)),
       (u ''timeline'', VList (map timeline_view (epoch_timeline d (ep_id epoch))))])))"

section \<open>Lemmas\<close>

lemma record_event_simps [simp]:
  "users (record_event t d i ty a b s j) = users d"
  "epochs (record_event t d i ty a b s j) = epochs d"
  "approvals (record_event t d i ty a b s j) = approvals d"
  "evidences (record_event t d i ty a b s j) = evidences d"
  "targets (record_event t d i ty a b s j) = targets d"
  "receipts (record_event t d i ty a b s j) = receipts d"
  "changes (record_event t d i ty a b s j) = changes d"
  "grants (record_event t d i ty a b s j) = grants d"
  "webhooks (record_event t d i ty a b s j) = webhooks d"
  "outbox (record_event t d i ty a b s j) = outbox d"
  by (simp_all add: record_event_def)

lemma events_record_event:
  "\<exists>e. events (record_event t d i ty a b s j) = events d @ [e] \<and> pe_epoch_id e = i \<and>
     pe_event_type e = ty \<and> pe_actor_type e = a \<and> pe_actor_id e = b \<and> pe_created_at e = t"
  by (simp add: record_event_def)

lemma record_event_append:
  "\<exists>ev. record_event t d i ty a b s j = d\<lparr>events := events d @ [ev]\<rparr> \<and> pe_epoch_id ev = i \<and>
     pe_event_type ev = ty \<and> pe_actor_type ev = a \<and> pe_actor_id ev = b \<and> pe_created_at ev = t"
  unfolding record_event_def by (rule exI, rule conjI, rule refl) simp

lemma record_event_ok:
  "db_ok d \<Longrightarrow> i \<in> ep_id ` set (epochs d) \<Longrightarrow> db_ok (record_event t d i ty a b s j)"
  by (auto simp: db_ok_defs Let_def record_event_def)

lemma changed_db_simps [simp]:
  "users (changed_db t d c) = users d"
  "epochs (changed_db t d c) = epochs d"
  "approvals (changed_db t d c) = approvals d"
  "evidences (changed_db t d c) = evidences d"
  "targets (changed_db t d c) = targets d"
  "receipts (changed_db t d c) = receipts d"
  "changes (changed_db t d c) = changes d @ [c]"
  "grants (changed_db t d c) = grants d"
  "webhooks (changed_db t d c) = webhooks d"
  "outbox (changed_db t d c) = outbox d"
  by (simp_all add: changed_db_def)

text \<open>A second change of an epoch, or a used identifier, is what the constraints refuse.\<close>

lemma changed_db_ok:
  "db_ok d \<Longrightarrow> cr_epoch_id c \<in> ep_id ` set (epochs d) \<Longrightarrow>
    cr_epoch_id c \<notin> cr_epoch_id ` set (changes d) \<Longrightarrow> cr_id c \<notin> cr_id ` set (changes d) \<Longrightarrow>
    db_ok (changed_db t d c)"
  unfolding changed_db_def by (rule record_event_ok) (auto simp: db_ok_defs Let_def)

lemma create_change_request_cases:
  "create_change_request t i d e x rs ty a by act = (r, d') \<Longrightarrow>
    (\<exists>err. r = Inl err \<and> d' = d) \<or>
    r = Inr (new_change t i e x rs ty a by act) \<and>
      d' = changed_db t d (new_change t i e x rs ty a by act) \<and> db_ok d'"
  by (auto simp: create_change_request_def Let_def commit_def split: if_splits)

text \<open>A passport event keeps a summary of at most 255 characters and always has a details object.\<close>

lemma record_event_bounded:
  "\<forall>e \<in> set (events d). length (pe_summary e) \<le> 255 \<Longrightarrow>
    e \<in> set (events (record_event t d i ty a b s j)) \<Longrightarrow> length (pe_summary e) \<le> 255"
  by (auto simp: record_event_def)

lemma set_epoch_timeline: "set (epoch_timeline d i) = {e \<in> set (events d). pe_epoch_id e = i}"
  by (simp add: epoch_timeline_def)

lemma sorted_epoch_timeline:
  "sorted (map (\<lambda>e. (pe_created_at e, pe_id e)) (epoch_timeline d i))"
  by (simp add: epoch_timeline_def)

lemma build_passport_no_error: "db_ok d \<Longrightarrow> \<exists>v. build_passport d e = Inr v"
  by (simp add: build_passport_def changes_t.select_one approvals_t.select_one Let_def)

section \<open>Properties\<close>

text \<open>
  In a database that satisfies its constraints the passport of an epoch is always built, and its
  timeline holds exactly the epoch's events, ordered by time and then by identifier.
\<close>

lemma passport_complete:
  assumes "db_ok d"
  shows "(\<exists>kvs. build_passport d e = Inr (VDict kvs) \<and>
      map_of kvs (u ''timeline'') = Some (VList (map timeline_view (epoch_timeline d (ep_id e))))) \<and>
    set (epoch_timeline d (ep_id e)) = {x \<in> set (events d). pe_epoch_id x = ep_id e} \<and>
    length (epoch_timeline d (ep_id e)) = length (filter (\<lambda>x. pe_epoch_id x = ep_id e) (events d)) \<and>
    sorted (map (\<lambda>x. (pe_created_at x, pe_id x)) (epoch_timeline d (ep_id e)))"
  using sorted_epoch_timeline set_epoch_timeline
  by (simp add: build_passport_def changes_t.select_one [OF assms] approvals_t.select_one [OF assms]
      Let_def epoch_timeline_def)

end
