(* ===== verification/Config.thy ===== *)
theory Config
  imports Py_Str
begin

text \<open>
  \<open>orchestrator/app/config.py\<close>: the settings, read once from the environment variables
  (\<open>getenv\<close>, a map) when the module is imported.
\<close>

text \<open>
  \<open>int(s)\<close> on a string: blanks around it, a sign, at most 4300 ASCII digits with single underscores
  between them; None stands for ValueError. (Digits of other scripts, which Python accepts too, are
  left out.)
\<close>

fun py_digits :: "nat \<Rightarrow> bool \<Rightarrow> ustr \<Rightarrow> nat option" where
  "py_digits acc ok [] = (if ok then Some acc else None)"
| "py_digits acc ok (c # s) =
     (if 48 \<le> c \<and> c \<le> 57 then py_digits (acc * 10 + (c - 48)) True s
      else if c = 95 \<and> ok then py_digits acc False s
      else None)"

definition py_int :: "ustr \<Rightarrow> int option" where
  "py_int s =
    (if 4300 < length (filter (\<lambda>c. 48 \<le> c \<and> c \<le> 57) s) then None
     else case py_strip s of
       [] \<Rightarrow> None
     | c # t \<Rightarrow>
         if c = 45 then map_option (\<lambda>n. - int n) (py_digits 0 False t)
         else if c = 43 then map_option int (py_digits 0 False t)
         else map_option int (py_digits 0 False (c # t)))"

type_synonym environ = "ustr \<Rightarrow> ustr option"

definition getenv :: "environ \<Rightarrow> ustr \<Rightarrow> ustr \<Rightarrow> ustr" where
  "getenv env name dflt = (case env name of None \<Rightarrow> dflt | Some s \<Rightarrow> s)"

definition config_int :: "environ \<Rightarrow> ustr \<Rightarrow> int \<Rightarrow> int" where
  "config_int env name dflt =
    (case py_int (getenv env name (int_str dflt)) of Some n \<Rightarrow> n | None \<Rightarrow> dflt)"

definition config_bool :: "environ \<Rightarrow> ustr \<Rightarrow> bool \<Rightarrow> bool" where
  "config_bool env name dflt =
    (case env name of
       None \<Rightarrow> dflt
     | Some raw \<Rightarrow> py_lower (py_strip raw) \<in> {u ''1'', u ''true'', u ''yes'', u ''on''})"

record settings =
  database_url :: ustr
  jwt_secret :: ustr
  gitlab_webhook_token :: ustr
  executor_url :: ustr
  executor_grpc_target :: ustr
  executor_mode :: ustr
  executor_hmac_secret :: ustr
  capability_secret :: ustr
  upload_dir :: ustr
  max_upload_bytes :: int
  max_webhook_bytes :: int
  demo_mode :: bool

definition load_settings :: "environ \<Rightarrow> settings" where
  "load_settings env =
     \<lparr>database_url = getenv env (u ''EPOCHDEPLOY_DATABASE_URL'') (u ''sqlite:///./epochdeploy.db''),
      jwt_secret = getenv env (u ''EPOCHDEPLOY_JWT_SECRET'') (u ''dev-only-secret''),
      gitlab_webhook_token =
        getenv env (u ''EPOCHDEPLOY_GITLAB_WEBHOOK_TOKEN'') (u ''local-demo-token''),
      executor_url = getenv env (u ''EPOCHDEPLOY_EXECUTOR_URL'') (u ''http://127.0.0.1:9080''),
      executor_grpc_target =
        getenv env (u ''EPOCHDEPLOY_EXECUTOR_GRPC_TARGET'') (u ''127.0.0.1:9090''),
      executor_mode = getenv env (u ''EPOCHDEPLOY_EXECUTOR_MODE'') (u ''local''),
      executor_hmac_secret =
        getenv env (u ''EPOCHDEPLOY_EXECUTOR_HMAC_SECRET'') (u ''local-executor-secret''),
      capability_secret =
        getenv env (u ''EPOCHDEPLOY_CAPABILITY_SECRET'')
          (u ''local-capability-secret-change-me-32bytes''),
      upload_dir = getenv env (u ''EPOCHDEPLOY_UPLOAD_DIR'') (u ''./var/evidence''),
      max_upload_bytes = config_int env (u ''EPOCHDEPLOY_MAX_UPLOAD_BYTES'') (5 * 1024 * 1024),
      max_webhook_bytes = config_int env (u ''EPOCHDEPLOY_MAX_WEBHOOK_BYTES'') (1024 * 1024),
      demo_mode = config_bool env (u ''EPOCHDEPLOY_DEMO_MODE'') False\<rparr>"

section \<open>Reading back a printed integer\<close>

lemma py_digits_append:
  "\<forall>c \<in> set s. 48 \<le> c \<and> c \<le> 57 \<Longrightarrow> s \<noteq> [] \<Longrightarrow>
    py_digits acc ok (s @ t) = py_digits (foldl (\<lambda>a c. a * 10 + (c - 48)) acc s) True t"
proof (induction s arbitrary: acc ok)
  case Nil
  then show ?case by simp
next
  case (Cons c s)
  then show ?case by (cases s) auto
qed

lemma py_digits_dec: "py_digits 0 False (dec_digits n) = Some n"
  using py_digits_append [of "dec_digits n" 0 False "[]"] dec_digits_props [of n] by simp

lemma digits_stripped:
  assumes "\<forall>c \<in> set s. 45 \<le> c \<and> c \<le> 57"
  shows "py_strip s = s"
proof (cases "s = []")
  case False
  then have "hd s \<in> set s" "last s \<in> set s" by simp_all
  with assms have "\<not> is_py_space (hd s)" "\<not> is_py_space (last s)"
    by (auto simp: is_py_space_def is_rust_space_def)
  then show ?thesis unfolding py_strip_def by (intro strip_by_id) simp
qed (simp add: py_strip_def strip_by_def)

lemma digits_int_str: "filter (\<lambda>c. 48 \<le> c \<and> c \<le> 57) (int_str n) = dec_digits (nat \<bar>n\<bar>)"
  using dec_digits_props [of "nat n"] dec_digits_props [of "nat (- n)"] by (simp add: int_str_def)

lemma py_int_int_str:
  "py_int (int_str n) = (if length (dec_digits (nat \<bar>n\<bar>)) \<le> 4300 then Some n else None)"
proof (cases "n < 0")
  case True
  have "py_strip (45 # dec_digits (nat (- n))) = 45 # dec_digits (nat (- n))"
    using dec_digits_props [of "nat (- n)"] by (intro digits_stripped) auto
  with True show ?thesis
    using digits_int_str [of n] by (simp add: py_int_def) (simp add: int_str_def py_digits_dec)
next
  case False
  let ?d = "dec_digits (nat n)"
  have "py_strip ?d = ?d"
    using dec_digits_props [of "nat n"] by (intro digits_stripped) auto
  moreover obtain c t where d: "?d = c # t"
    using dec_digits_props [of "nat n"] by (cases ?d) auto
  moreover from d have "48 \<le> c" using dec_digits_props [of "nat n"] by auto
  ultimately show ?thesis
    using False py_digits_dec [of "nat n"] digits_int_str [of n] by (simp add: py_int_def) (simp add: int_str_def)
qed

lemma config_int_unset: "env name = None \<Longrightarrow> config_int env name d = d"
  by (simp add: config_int_def getenv_def py_int_int_str)

section \<open>Properties\<close>

text \<open>
  An integer setting that was printed by \<open>str()\<close> is read back as that integer, unless it has more
  than 4300 digits, and an unset or unreadable variable gives the default.
\<close>

lemma config_int_reads_back:
  "(length (dec_digits (nat \<bar>n\<bar>)) \<le> 4300 \<longrightarrow> config_int (env(name \<mapsto> int_str n)) name dflt = n) \<and>
   config_int (env(name := None)) name dflt = dflt \<and>
   (py_int raw = None \<longrightarrow> config_int (env(name \<mapsto> raw)) name dflt = dflt)"
  by (simp add: config_int_def getenv_def py_int_int_str)

end
