(* ===== verification/Json.thy ===== *)
theory Json
  imports Py_Str
begin

text \<open>
  \<open>json.loads\<close> of Python's standard library on the bytes of a request: the detection of the encoding,
  the decoders of UTF-8, UTF-16 and UTF-32 (with \<open>surrogatepass\<close>), and the scanner, as CPython's
  \<open>_json\<close> module has it. The only parameters are the conversion of a decimal fraction to the \<open>repr\<close> of
  its float, and the depth of nesting at which the interpreter raises RecursionError. The decoder of
  Go's \<open>encoding/json\<close>, which the executors use, accepts nearly the same texts; the differences are
  the \<open>dialect\<close> of the scanner. The theory \<open>Json_Read\<close> shows that the scanner reads back what
  \<open>json.dumps\<close> prints.
\<close>

datatype loads_error = JSONDecodeError | NotUnicode | IntTooLong | TooDeep

section \<open>Decoding the bytes\<close>

definition is_high :: "nat \<Rightarrow> bool" where
  "is_high c \<longleftrightarrow> 55296 \<le> c \<and> c \<le> 56319"

definition is_low :: "nat \<Rightarrow> bool" where
  "is_low c \<longleftrightarrow> 56320 \<le> c \<and> c \<le> 57343"

definition join_surrogates :: "nat \<Rightarrow> nat \<Rightarrow> nat" where
  "join_surrogates h l = 65536 + (h - 55296) * 1024 + (l - 56320)"

text \<open>A continuation byte and the six bits it carries.\<close>

fun continuation :: "bytes \<Rightarrow> (nat \<times> bytes) option" where
  "continuation [] = None"
| "continuation (b # bs) = (if 128 \<le> b \<and> b < 192 then Some (b - 128, bs) else None)"

lemma continuation_shorter: "continuation bs = Some (x, r) \<Longrightarrow> length r < length bs"
  by (cases bs) (auto split: if_splits)

text \<open>
  One character of UTF-8 with what follows it. Overlong forms and characters beyond U+10FFFF are
  refused; surrogates pass.
\<close>

fun utf8_next :: "bytes \<Rightarrow> (nat \<times> bytes) option" where
  "utf8_next [] = None"
| "utf8_next (b # bs) =
     (if b < 128 then Some (b, bs)
      else if b < 194 then None
      else if b < 224 then
        (case continuation bs of None \<Rightarrow> None
         | Some (x, r) \<Rightarrow> Some ((b - 192) * 64 + x, r))
      else if b < 240 then
        (case continuation bs of None \<Rightarrow> None
         | Some (x, q) \<Rightarrow> (case continuation q of None \<Rightarrow> None
           | Some (y, r) \<Rightarrow>
               (let c = ((b - 224) * 64 + x) * 64 + y in if c < 2048 then None else Some (c, r))))
      else if b < 245 then
        (case continuation bs of None \<Rightarrow> None
         | Some (x, p) \<Rightarrow> (case continuation p of None \<Rightarrow> None
           | Some (y, q) \<Rightarrow> (case continuation q of None \<Rightarrow> None
             | Some (z, r) \<Rightarrow>
                 (let c = (((b - 240) * 64 + x) * 64 + y) * 64 + z
                  in if c < 65536 \<or> 1114112 \<le> c then None else Some (c, r)))))
      else None)"

lemma utf8_next_shorter: "utf8_next bs = Some (c, r) \<Longrightarrow> length r < length bs"
  by (cases bs) (auto simp: Let_def dest!: continuation_shorter split: if_splits option.splits)

function utf8_decode :: "bytes \<Rightarrow> ustr option" where
  "utf8_decode [] = Some []"
| "utf8_decode (b # bs) =
     (case utf8_next (b # bs) of None \<Rightarrow> None
      | Some (c, r) \<Rightarrow> map_option (Cons c) (utf8_decode r))"
  by pat_completeness auto
termination
  by (relation "measure length") (auto dest: utf8_next_shorter simp del: utf8_next.simps)

text \<open>The 16-bit and 32-bit units of UTF-16 and UTF-32 in the order of their bytes.\<close>

fun units16 :: "bool \<Rightarrow> bytes \<Rightarrow> nat list option" where
  "units16 le [] = Some []"
| "units16 le [_] = None"
| "units16 le (a # b # bs) =
     map_option (Cons (if le then a + 256 * b else 256 * a + b)) (units16 le bs)"

fun join_units :: "nat list \<Rightarrow> ustr" where
  "join_units (h # l # us) =
     (if is_high h \<and> is_low l then join_surrogates h l # join_units us else h # join_units (l # us))"
| "join_units us = us"

fun utf32_decode :: "bool \<Rightarrow> bytes \<Rightarrow> ustr option" where
  "utf32_decode le [] = Some []"
| "utf32_decode le (a # b # c # d # bs) =
     (let x = (if le then ((d * 256 + c) * 256 + b) * 256 + a else ((a * 256 + b) * 256 + c) * 256 + d)
      in if 1114112 \<le> x then None else map_option (Cons x) (utf32_decode le bs))"
| "utf32_decode le _ = None"

datatype encoding = Utf8 | Utf16 bool | Utf32 bool \<comment> \<open>True: little endian\<close>

text \<open>\<open>detect_encoding\<close>: the encoding, with the number of bytes of the mark that is dropped.\<close>

definition detect_encoding :: "bytes \<Rightarrow> encoding \<times> nat" where
  "detect_encoding b =
    (if take 4 b = [0, 0, 254, 255] then (Utf32 False, 4)
     else if take 4 b = [255, 254, 0, 0] then (Utf32 True, 4)
     else if take 2 b = [254, 255] then (Utf16 False, 2)
     else if take 2 b = [255, 254] then (Utf16 True, 2)
     else if take 3 b = [239, 187, 191] then (Utf8, 3)
     else if 4 \<le> length b then
       if b ! 0 = 0 then (if b ! 1 \<noteq> 0 then Utf16 False else Utf32 False, 0)
       else if b ! 1 = 0 then (if b ! 2 \<noteq> 0 \<or> b ! 3 \<noteq> 0 then Utf16 True else Utf32 True, 0)
       else (Utf8, 0)
     else if length b = 2 then
       if b ! 0 = 0 then (Utf16 False, 0)
       else if b ! 1 = 0 then (Utf16 True, 0)
       else (Utf8, 0)
     else (Utf8, 0))"

definition decode_bytes :: "bytes \<Rightarrow> ustr option" where
  "decode_bytes b =
    (let (enc, n) = detect_encoding b; raw = drop n b
     in case enc of
          Utf8 \<Rightarrow> utf8_decode raw
        | Utf16 le \<Rightarrow> map_option join_units (units16 le raw)
        | Utf32 le \<Rightarrow> utf32_decode le raw)"

section \<open>The scanner\<close>

definition is_json_space :: "nat \<Rightarrow> bool" where
  "is_json_space c \<longleftrightarrow> c = 32 \<or> c = 9 \<or> c = 10 \<or> c = 13"

definition skip_ws :: "ustr \<Rightarrow> ustr" where
  "skip_ws s = dropWhile is_json_space s"

fun next_is :: "nat \<Rightarrow> ustr \<Rightarrow> bool" where
  "next_is c [] = False"
| "next_is c (x # _) = (x = c)"

type_synonym 'a scanned = "loads_error + 'a \<times> ustr"

text \<open>A string, after its opening quote.\<close>

definition escape_char :: "nat \<Rightarrow> nat option" where
  "escape_char c =
     (if c = 34 \<or> c = 92 \<or> c = 47 then Some c
      else if c = 98 then Some 8
      else if c = 102 then Some 12
      else if c = 110 then Some 10
      else if c = 114 then Some 13
      else if c = 116 then Some 9
      else None)"

fun hex4 :: "ustr \<Rightarrow> nat option" where
  "hex4 (a # b # c # d # _) =
     (case (hex_value a, hex_value b, hex_value c, hex_value d) of
        (Some w, Some x, Some y, Some z) \<Rightarrow> Some (((w * 16 + x) * 16 + y) * 16 + z)
      | _ \<Rightarrow> None)"
| "hex4 _ = None"

text \<open>The low surrogate that an escape gives after a high one.\<close>

definition low_escape :: "ustr \<Rightarrow> nat option" where
  "low_escape s =
     (if take 2 s = [92, 117] then
        case hex4 (drop 2 s) of Some l \<Rightarrow> if is_low l then Some l else None | None \<Rightarrow> None
      else None)"

fun add_char :: "nat \<Rightarrow> ustr scanned \<Rightarrow> ustr scanned" where
  "add_char c (Inl e) = Inl e"
| "add_char c (Inr (s, r)) = Inr (c # s, r)"

function scan_string :: "ustr \<Rightarrow> ustr scanned" where
  "scan_string [] = Inl JSONDecodeError"
| "scan_string (c # s) =
     (if c = 34 then Inr ([], s)
      else if c < 32 then Inl JSONDecodeError
      else if c \<noteq> 92 then add_char c (scan_string s)
      else case s of
          [] \<Rightarrow> Inl JSONDecodeError
        | e # t \<Rightarrow>
            if e \<noteq> 117 then
              (case escape_char e of None \<Rightarrow> Inl JSONDecodeError | Some x \<Rightarrow> add_char x (scan_string t))
            else
              (case hex4 t of
                 None \<Rightarrow> Inl JSONDecodeError
               | Some h \<Rightarrow>
                   (case if is_high h then low_escape (drop 4 t) else None of
                      Some l \<Rightarrow> add_char (join_surrogates h l) (scan_string (drop 10 t))
                    | None \<Rightarrow> add_char h (scan_string (drop 4 t)))))"
  by pat_completeness auto
termination
  by (relation "measure length") auto

declare scan_string.simps [simp del]

text \<open>A number: an int without fraction and exponent, otherwise a float.\<close>

definition digits_of :: "ustr \<Rightarrow> ustr" where
  "digits_of s = takeWhile (\<lambda>c. 48 \<le> c \<and> c \<le> 57) s"

definition digits_value :: "ustr \<Rightarrow> nat" where
  "digits_value s = foldl (\<lambda>a c. a * 10 + (c - 48)) 0 s"

definition scan_fraction :: "ustr \<Rightarrow> ustr" where
  "scan_fraction s =
     (case s of [] \<Rightarrow> []
      | c # t \<Rightarrow> if c = 46 \<and> digits_of t \<noteq> [] then c # digits_of t else [])"

definition scan_exponent :: "ustr \<Rightarrow> ustr" where
  "scan_exponent s =
     (case s of [] \<Rightarrow> []
      | c # t \<Rightarrow>
          if c = 69 \<or> c = 101 then
            (let sign = (case t of [] \<Rightarrow> [] | x # _ \<Rightarrow> if x = 43 \<or> x = 45 then [x] else []);
                 ds = digits_of (drop (length sign) t)
             in if ds = [] then [] else c # sign @ ds)
          else [])"

text \<open>
  The dialects. Python knows NaN and the infinities and gives a float by its \<open>repr\<close>; \<open>int()\<close> refuses more
  than 4300 digits; a dictionary has the last value of a repeated key. Go has only the three
  constants of the standard, keeps a number as it is written until it knows the field it is for, sees
  every member of an object in turn, and replaces lone surrogates by U+FFFD.
\<close>

datatype dialect = PyJson "ustr \<Rightarrow> ustr" | GoJson

fun float_text :: "dialect \<Rightarrow> ustr \<Rightarrow> ustr" where
  "float_text (PyJson float_repr) s = float_repr s"
| "float_text GoJson s = s"

fun int_too_long :: "dialect \<Rightarrow> nat \<Rightarrow> bool" where
  "int_too_long (PyJson _) n = (4300 < n)"
| "int_too_long GoJson n = False"

definition scan_number :: "dialect \<Rightarrow> ustr \<Rightarrow> json scanned" where
  "scan_number D s =
    (let sign = (if next_is 45 s then [45] else []);
         t = drop (length sign) s;
         ip = (if next_is 48 t then [48] else digits_of t)
     in if ip = [] then Inl JSONDecodeError
        else
          let r = drop (length ip) t;
              frac = scan_fraction r;
              ex = scan_exponent (drop (length frac) r);
              rest = drop (length frac + length ex) r
          in if frac \<noteq> [] \<or> ex \<noteq> [] then Inr (JFloat (float_text D (sign @ ip @ frac @ ex)), rest)
             else if int_too_long D (length ip) then Inl IntTooLong
             else Inr (JInt (if sign = [] then int (digits_value ip) else - int (digits_value ip)), rest))"

text \<open>
  The items of an array and the pairs of an object, with the scanner for the values inside. A value
  takes at least one character (\<open>scan_shorter\<close>), so the comparison of the lengths, there for the
  termination of the loop, never fails.
\<close>

function scan_items :: "(ustr \<Rightarrow> json scanned) \<Rightarrow> ustr \<Rightarrow> json list scanned" where
  "scan_items f s =
    (case f s of
       Inl e \<Rightarrow> Inl e
     | Inr (v, r) \<Rightarrow>
         (case skip_ws r of
            [] \<Rightarrow> Inl JSONDecodeError
          | c # t \<Rightarrow>
              if c = 93 then Inr ([v], t)
              else if c \<noteq> 44 \<or> length s \<le> length (skip_ws t) then Inl JSONDecodeError
              else (case scan_items f (skip_ws t) of
                  Inl e \<Rightarrow> Inl e
                | Inr (vs, q) \<Rightarrow> Inr (v # vs, q))))"
  by pat_completeness auto
termination
  by (relation "measure (\<lambda>(f, s). length s)") auto

declare scan_items.simps [simp del]

function scan_pairs :: "(ustr \<Rightarrow> json scanned) \<Rightarrow> ustr \<Rightarrow> (ustr \<times> json) list scanned" where
  "scan_pairs f s =
    (if \<not> next_is 34 s then Inl JSONDecodeError
     else case scan_string (tl s) of
       Inl e \<Rightarrow> Inl e
     | Inr (k, r) \<Rightarrow>
         if \<not> next_is 58 (skip_ws r) then Inl JSONDecodeError
         else case f (skip_ws (tl (skip_ws r))) of
           Inl e \<Rightarrow> Inl e
         | Inr (v, r') \<Rightarrow>
             (case skip_ws r' of
                [] \<Rightarrow> Inl JSONDecodeError
              | c # t \<Rightarrow>
                  if c = 125 then Inr ([(k, v)], t)
                  else if c \<noteq> 44 \<or> length s \<le> length (skip_ws t) then Inl JSONDecodeError
                  else (case scan_pairs f (skip_ws t) of
                      Inl e \<Rightarrow> Inl e
                    | Inr (kvs, q) \<Rightarrow> Inr ((k, v) # kvs, q))))"
  by pat_completeness auto
termination
  by (relation "measure (\<lambda>(f, s). length s)") auto

declare scan_pairs.simps [simp del]

text \<open>The dictionary of the pairs: a repeated key keeps its place and takes the last value.\<close>

fun dict_set :: "'k \<Rightarrow> 'v \<Rightarrow> ('k \<times> 'v) list \<Rightarrow> ('k \<times> 'v) list" where
  "dict_set k v [] = [(k, v)]"
| "dict_set k v ((k', v') # kvs) = (if k' = k then (k, v) # kvs else (k', v') # dict_set k v kvs)"

definition dict_of :: "('k \<times> 'v) list \<Rightarrow> ('k \<times> 'v) list" where
  "dict_of kvs = foldl (\<lambda>d (k, v). dict_set k v d) [] kvs"

fun scanned_text :: "dialect \<Rightarrow> ustr \<Rightarrow> ustr" where
  "scanned_text (PyJson _) s = s"
| "scanned_text GoJson s = map (\<lambda>c. if is_high c \<or> is_low c then 65533 else c) s"

fun members_of :: "dialect \<Rightarrow> (ustr \<times> json) list \<Rightarrow> (ustr \<times> json) list" where
  "members_of (PyJson _) kvs = dict_of kvs"
| "members_of GoJson kvs = map (\<lambda>(k, v). (scanned_text GoJson k, v)) kvs"

definition scan_array :: "(ustr \<Rightarrow> json scanned) \<Rightarrow> ustr \<Rightarrow> json scanned" where
  "scan_array f s =
    (if next_is 93 (skip_ws s) then Inr (JArr [], tl (skip_ws s))
     else case scan_items f (skip_ws s) of Inl e \<Rightarrow> Inl e | Inr (vs, r) \<Rightarrow> Inr (JArr vs, r))"

definition scan_object :: "dialect \<Rightarrow> (ustr \<Rightarrow> json scanned) \<Rightarrow> ustr \<Rightarrow> json scanned" where
  "scan_object D f s =
    (if next_is 125 (skip_ws s) then Inr (JObj [], tl (skip_ws s))
     else case scan_pairs f (skip_ws s) of Inl e \<Rightarrow> Inl e | Inr (kvs, r) \<Rightarrow> Inr (JObj (members_of D kvs), r))"

text \<open>The constants, with the values of NaN and the infinities by their \<open>repr\<close>.\<close>

definition json_constants :: "(ustr \<times> json) list" where
  "json_constants = [(u ''null'', JNull), (u ''true'', JBool True), (u ''false'', JBool False)]"

fun constants_of :: "dialect \<Rightarrow> (ustr \<times> json) list" where
  "constants_of (PyJson _) = json_constants @
     [(u ''NaN'', JFloat (u ''nan'')), (u ''Infinity'', JFloat (u ''inf'')),
      (u ''-Infinity'', JFloat (u ''-inf''))]"
| "constants_of GoJson = json_constants"

definition scan_constant :: "dialect \<Rightarrow> ustr \<Rightarrow> (json \<times> ustr) option" where
  "scan_constant D s =
     map_option (\<lambda>(w, j). (j, drop (length w) s))
       (find (\<lambda>(w, j). take (length w) s = w) (constants_of D))"

text \<open>A value, with the scanners for an array and an object after the opening bracket.\<close>

definition scan_value ::
  "dialect \<Rightarrow> (ustr \<Rightarrow> json scanned) \<Rightarrow> (ustr \<Rightarrow> json scanned) \<Rightarrow> ustr \<Rightarrow> json scanned" where
  "scan_value D array object s =
    (case s of
       [] \<Rightarrow> Inl JSONDecodeError
     | c # t \<Rightarrow>
         if c = 34 then
           (case scan_string t of Inl e \<Rightarrow> Inl e | Inr (x, r) \<Rightarrow> Inr (JStr (scanned_text D x), r))
         else if c = 123 then object t
         else if c = 91 then array t
         else (case scan_constant D s of Some p \<Rightarrow> Inr p | None \<Rightarrow> scan_number D s))"

text \<open>\<open>scan_once\<close> with the number of brackets that may still be opened.\<close>

primrec scan_once :: "dialect \<Rightarrow> nat \<Rightarrow> ustr \<Rightarrow> json scanned" where
  "scan_once D 0 = scan_value D (\<lambda>_. Inl TooDeep) (\<lambda>_. Inl TooDeep)"
| "scan_once D (Suc d) = scan_value D (scan_array (scan_once D d)) (scan_object D (scan_once D d))"

definition json_decode :: "dialect \<Rightarrow> nat \<Rightarrow> ustr \<Rightarrow> loads_error + json" where
  "json_decode D depth s =
    (case scan_once D depth (skip_ws s) of
       Inl e \<Rightarrow> Inl e
     | Inr (j, r) \<Rightarrow> if skip_ws r \<noteq> [] then Inl JSONDecodeError else Inr j)"

definition json_loads :: "(ustr \<Rightarrow> ustr) \<Rightarrow> nat \<Rightarrow> bytes \<Rightarrow> loads_error + json" where
  "json_loads fr depth raw =
    (case decode_bytes raw of None \<Rightarrow> Inl NotUnicode | Some s \<Rightarrow> json_decode (PyJson fr) depth s)"

section \<open>Every value takes a character\<close>

definition shortens :: "(ustr \<Rightarrow> 'a scanned) \<Rightarrow> bool" where
  "shortens f \<longleftrightarrow> (\<forall>s v r. f s = Inr (v, r) \<longrightarrow> length r < length s)"

lemma shortensI: "(\<And>s v r. f s = Inr (v, r) \<Longrightarrow> length r < length s) \<Longrightarrow> shortens f"
  by (simp add: shortens_def)

lemma shortensD: "shortens f \<Longrightarrow> f s = Inr (v, r) \<Longrightarrow> length r < length s"
  by (auto simp: shortens_def)

lemma add_char_Inr: "add_char c x = Inr (s, r) \<longleftrightarrow> (\<exists>t. x = Inr (t, r) \<and> s = c # t)"
  by (cases "(c, x)" rule: add_char.cases) auto

lemma scan_string_shorter: "scan_string s = Inr (x, r) \<Longrightarrow> length r < length s"
proof (induction "length s" arbitrary: s x r rule: less_induct)
  case less
  show ?case
  proof (cases s)
    case (Cons c t)
    have IH: "length r < Suc n" if "scan_string q = Inr (y, r)" "length q \<le> n" "n = length t" for q y n
      using less.hyps [of q y r] Cons that by fastforce
    from less.prems show ?thesis
      by (auto simp: Cons scan_string.simps(2) add_char_Inr elim!: IH split: if_splits list.splits option.splits)
  qed (use less.prems in \<open>simp add: scan_string.simps\<close>)
qed

lemma length_skip_ws: "length (skip_ws s) \<le> length s"
  by (simp add: skip_ws_def length_dropWhile_le)

lemma skip_ws_Cons: "skip_ws r = c # t \<Longrightarrow> length (skip_ws t) < length r"
  using length_skip_ws [of r] length_skip_ws [of t] by simp

text \<open>With such a scanner for the values the loops run without their guard.\<close>

lemma scan_items_loop:
  assumes "shortens f"
  shows "scan_items f s =
    (case f s of Inl e \<Rightarrow> Inl e
     | Inr (v, r) \<Rightarrow> (case skip_ws r of
         [] \<Rightarrow> Inl JSONDecodeError
       | c # t \<Rightarrow>
           if c = 93 then Inr ([v], t)
           else if c \<noteq> 44 then Inl JSONDecodeError
           else (case scan_items f (skip_ws t) of Inl e \<Rightarrow> Inl e | Inr (vs, q) \<Rightarrow> Inr (v # vs, q))))"
  by (subst scan_items.simps)
    (auto split: sum.split list.split dest!: shortensD [OF assms] skip_ws_Cons)

lemma scan_items_shorter: "scan_items f s = Inr (vs, r) \<Longrightarrow> shortens f \<Longrightarrow> length r < length s"
proof (induction f s arbitrary: vs r rule: scan_items.induct)
  case (1 f s)
  have skip: "length t < length s \<and> length (skip_ws t) < length s" if "f s = Inr (v, q)" "skip_ws q = c # t" for v q c t
    using shortensD [OF "1.prems"(2) that(1)] that(2) length_skip_ws [of q] length_skip_ws [of t] by simp
  show ?case
    using "1.prems"(1) skip
    by (subst (asm) scan_items.simps)
      (fastforce split: sum.splits prod.splits list.splits if_splits dest: "1.IH" [OF _ _ _ _ _ _ "1.prems"(2)])
qed


lemma pair_shorter:
  assumes "shortens f" and "next_is 34 s" and "scan_string (tl s) = Inr (k, r)"
    and "f (skip_ws (tl (skip_ws r))) = Inr (v, q)" and "skip_ws q = c # t"
  shows "length t < length s \<and> length (skip_ws t) < length s"
proof -
  have "length r < length s" using scan_string_shorter [OF assms(3)] assms(2) by simp
  moreover have "length q \<le> length r"
    using shortensD [OF assms(1,4)] length_skip_ws [of r] length_skip_ws [of "tl (skip_ws r)"] by simp
  moreover have "length t < length q" using assms(5) length_skip_ws [of q] by simp
  ultimately show ?thesis using length_skip_ws [of t] by simp
qed

lemma scan_pairs_loop:
  assumes "shortens f"
  shows "scan_pairs f s =
    (if \<not> next_is 34 s then Inl JSONDecodeError
     else case scan_string (tl s) of Inl e \<Rightarrow> Inl e
     | Inr (k, r) \<Rightarrow>
         if \<not> next_is 58 (skip_ws r) then Inl JSONDecodeError
         else case f (skip_ws (tl (skip_ws r))) of Inl e \<Rightarrow> Inl e
         | Inr (v, r') \<Rightarrow> (case skip_ws r' of
             [] \<Rightarrow> Inl JSONDecodeError
           | c # t \<Rightarrow>
               if c = 125 then Inr ([(k, v)], t)
               else if c \<noteq> 44 then Inl JSONDecodeError
               else (case scan_pairs f (skip_ws t) of Inl e \<Rightarrow> Inl e | Inr (kvs, q) \<Rightarrow> Inr ((k, v) # kvs, q))))"
  by (subst scan_pairs.simps)
    (auto split: sum.split list.split dest!: pair_shorter [OF assms])

lemma scan_pairs_shorter: "scan_pairs f s = Inr (kvs, r) \<Longrightarrow> shortens f \<Longrightarrow> length r < length s"
proof (induction "length s" arbitrary: s kvs r rule: less_induct)
  case less
  have "length q < length s" if "scan_pairs f (skip_ws t) = Inr (kvs', q)" "length (skip_ws t) < length s" for t kvs' q
    using less.hyps [OF that(2) that(1) less.prems(2)] that(2) by simp
  note IH = this
  from less.prems(1) show ?case
    unfolding scan_pairs_loop [OF less.prems(2), of s]
    by (auto split: if_splits sum.splits prod.splits list.splits
        dest: pair_shorter [OF less.prems(2)] IH)
qed

lemma scan_array_shortens: "shortens f \<Longrightarrow> scan_array f s = Inr (v, r) \<Longrightarrow> length r \<le> length s"
  using length_skip_ws [of s]
  by (auto simp: scan_array_def dest!: scan_items_shorter split: if_splits sum.splits)

lemma scan_object_shortens: "shortens f \<Longrightarrow> scan_object D f s = Inr (v, r) \<Longrightarrow> length r \<le> length s"
  using length_skip_ws [of s]
  by (auto simp: scan_object_def dest!: scan_pairs_shorter split: if_splits sum.splits)

lemma digits_of_nonempty: "digits_of s \<noteq> [] \<Longrightarrow> 0 < length s"
  by (cases s) (auto simp: digits_of_def)

lemma scan_number_shorter: "scan_number D s = Inr (v, r) \<Longrightarrow> length r < length s"
  by (cases s) (auto simp: scan_number_def Let_def digits_of_def split: if_splits)

lemma scan_constant_shorter: "scan_constant D s = Some (v, r) \<Longrightarrow> length r < length s"
proof -
  assume "scan_constant D s = Some (v, r)"
  then obtain w where w: "(w, v) \<in> set (constants_of D)" "take (length w) s = w" "r = drop (length w) s"
    by (auto simp: scan_constant_def find_Some_iff) (metis nth_mem)
  then have "w \<noteq> []" by (cases D) (auto simp: json_constants_def)
  with w(2) have "s \<noteq> []" by auto
  with w \<open>w \<noteq> []\<close> show ?thesis by simp
qed

lemma scan_value_shortens:
  assumes "\<And>s v r. array s = Inr (v, r) \<Longrightarrow> length r \<le> length s"
    and "\<And>s v r. object s = Inr (v, r) \<Longrightarrow> length r \<le> length s"
  shows "shortens (scan_value D array object)"
proof (rule shortensI)
  fix s v r
  assume "scan_value D array object s = Inr (v, r)"
  then show "length r < length s"
    by (auto simp: scan_value_def le_imp_less_Suc assms dest: scan_string_shorter scan_constant_shorter scan_number_shorter
        split: list.splits if_splits sum.splits option.splits)
qed

lemma scan_shorter: "shortens (scan_once D d)"
  by (induction d) (auto intro!: scan_value_shortens dest: scan_array_shortens scan_object_shortens)

end
