(* ===== verification/Environment.thy ===== *)
theory Environment
  imports Config Json
begin

text \<open>
  Everything a request meets that is not the program's own code or its database: the settings, the
  clock, fresh identifiers, and the third-party code the program calls (PyJWT, httpx, the gRPC
  channel to the executor, protobuf serialisation). It is one record, \<open>env\<close>, which every handler
  takes as its argument; no theorem assumes anything about a component of it unless it says so.

  The messages of \<open>proto/executor.proto\<close>, whose Python classes are generated, are records with the
  same fields.
\<close>

section \<open>Messages of proto/executor.proto\<close>

record pb_identity =
  pb_project :: ustr
  pb_environment :: ustr
  pb_commit_sha :: ustr
  pb_artifact_digest :: ustr
  pb_config_hash :: ustr

record pb_context =
  pb_epoch_id :: ustr
  pb_actor_type :: ustr
  pb_actor_id :: ustr
  pb_action :: ustr
  pb_approved_fingerprint :: ustr
  pb_capability_token :: ustr
  pb_policy_decision :: ustr
  pb_policy_rule :: ustr

record pb_difference =
  pb_field :: ustr
  pb_expected :: ustr
  pb_observed :: ustr

datatype pb_request =
    ObserveRequest pb_identity
  | ExecuteRequest pb_identity "pb_context option"

record pb_execute_response =
  pb_outcome :: ustr
  pb_observed_fingerprint :: ustr
  pb_reason :: ustr
  pb_differences :: "pb_difference list"

record pb_health_response =
  pb_status :: ustr
  pb_service :: ustr
  pb_implementation :: ustr
  pb_transport :: ustr

section \<open>Third-party code\<close>

text \<open>
  PyJWT: \<open>jwt.encode\<close> of a payload with a key (HS256), and \<open>jwt.decode\<close> at a time of the clock,
  which raises \<open>ExpiredSignatureError\<close> or another \<open>PyJWTError\<close>, or returns the claims.
\<close>

datatype jwt_failure = ExpiredSignatureError | OtherPyJWTError

record jwt_lib =
  jwt_encode :: "(ustr \<times> view) list \<Rightarrow> ustr \<Rightarrow> ustr"
  jwt_decode :: "int \<Rightarrow> ustr \<Rightarrow> ustr \<Rightarrow> jwt_failure + (ustr \<times> json) list"

text \<open>
  PyJWT writes a \<open>datetime\<close> claim as whole seconds, refuses a token at or after its \<open>exp\<close> and
  before its \<open>iat\<close>, and otherwise returns the claims that were encoded.
\<close>

fun jwt_claim :: "view \<Rightarrow> json" where
  "jwt_claim (VJson j) = j"
| "jwt_claim (VTime t) = JInt (t div 1000000)"
| "jwt_claim (VDict _) = JNull"
| "jwt_claim (VList _) = JNull"

definition jwt_claims :: "(ustr \<times> view) list \<Rightarrow> (ustr \<times> json) list" where
  "jwt_claims cs = map (\<lambda>(k, x). (k, jwt_claim x)) cs"

definition jwt_live :: "(ustr \<times> view) list \<Rightarrow> int \<Rightarrow> bool" where
  "jwt_live cs now \<longleftrightarrow>
     (case map_of cs (u ''exp'') of Some (VTime t) \<Rightarrow> now < (t div 1000000) * 1000000 | _ \<Rightarrow> True) \<and>
     (case map_of cs (u ''iat'') of Some (VTime t) \<Rightarrow> (t div 1000000) * 1000000 \<le> now | _ \<Rightarrow> True)"

definition jwt_returns_claims :: "jwt_lib \<Rightarrow> (ustr \<times> view) list \<Rightarrow> ustr \<Rightarrow> int \<Rightarrow> bool" where
  "jwt_returns_claims J cs key now \<longleftrightarrow>
     (jwt_live cs now \<longrightarrow> jwt_decode J now (jwt_encode J cs key) key = Inr (jwt_claims cs))"

lemma map_of_jwt_claims: "map_of (jwt_claims cs) k = map_option jwt_claim (map_of cs k)"
  by (induction cs) (auto simp: jwt_claims_def)

text \<open>
  httpx: a transport failure, or a response with its status and its body as \<open>response.json()\<close>
  reads it (None: the body is not JSON). gRPC: an \<open>RpcError\<close> with the name of its code and its
  details, or the response message.
\<close>

datatype http_result = HttpFailure | HttpResponse int "json option"

datatype 'a rpc_result = RpcError ustr ustr | RpcOk 'a

text \<open>
  \<open>write_bytes\<close> of a file: it opens the file and cuts it to nothing, then writes; both can fail.
\<close>

datatype file_write = Written | NotOpened | CutOff nat

section \<open>The environment of a request\<close>

text \<open>
  \<open>clock E i\<close> is the i-th reading of the clock on the request's path, in microseconds; \<open>stamp E\<close> is
  what \<open>utcnow\<close> gives the rows the request writes; \<open>uuid4 E i\<close> is the i-th fresh identifier, as the
  text of a UUID, and \<open>urandom E i\<close> the i-th draw of 16 random bytes. \<open>float_repr\<close> is \<open>repr(float(s))\<close> on
  the text of a decimal fraction, and \<open>nesting\<close> the number of brackets \<open>json.loads\<close> may open before the
  interpreter raises RecursionError. \<open>py_repr\<close> is \<open>str()\<close> on the JSON values whose text the model does
  not spell out (lists, objects), and \<open>lax_int\<close> is pydantic's conversion of a JSON value to an int.
  \<open>fs_write\<close> is the file system's answer to a write of a file with this path: a name may be too long to be
  opened, and a disk may be full after some of the bytes. \<open>commit_lost\<close> says that the database does not
  carry out the commit of an upload, for reasons of its own (a lost connection).
\<close>

record env =
  cfg :: settings
  clock :: "nat \<Rightarrow> int"
  stamp :: int
  uuid4 :: "nat \<Rightarrow> ustr"
  urandom :: "nat \<Rightarrow> bytes"
  latency :: int
  jwt :: jwt_lib
  http_post :: "ustr \<Rightarrow> bytes \<Rightarrow> (ustr \<times> ustr) list \<Rightarrow> http_result"
  http_get :: "ustr \<Rightarrow> http_result"
  pb_serialize :: "pb_request \<Rightarrow> bytes"
  grpc_observe :: "ustr \<Rightarrow> pb_request \<Rightarrow> (ustr \<times> ustr) list \<Rightarrow> ustr rpc_result"
  grpc_execute :: "ustr \<Rightarrow> pb_request \<Rightarrow> (ustr \<times> ustr) list \<Rightarrow> pb_execute_response rpc_result"
  grpc_health :: "ustr \<Rightarrow> pb_health_response rpc_result"
  float_repr :: "ustr \<Rightarrow> ustr"
  nesting :: nat
  py_repr :: "json \<Rightarrow> ustr"
  lax_int :: "json \<Rightarrow> int option"
  fs_write :: "ustr \<Rightarrow> file_write"
  commit_lost :: bool

text \<open>\<open>str(x)\<close> of a JSON value.\<close>

fun py_str :: "env \<Rightarrow> json \<Rightarrow> ustr" where
  "py_str E JNull = u ''None''"
| "py_str E (JBool b) = (if b then u ''True'' else u ''False'')"
| "py_str E (JInt n) = int_str n"
| "py_str E (JFloat r) = r"
| "py_str E (JStr s) = s"
| "py_str E j = py_repr E j"

end
