(* ===== verification/Schemas.thy ===== *)
theory Schemas
  imports Fingerprint Environment
begin

text \<open>
  \<open>orchestrator/app/schemas.py\<close>: the request bodies. Every model forbids unknown keys and strips
  the white space around its strings (pydantic's \<open>extra="forbid"\<close> and \<open>str_strip_whitespace\<close>); a field
  then checks its length and pattern, and its validator may rewrite it. A body that fails is a
  \<open>RequestValidationError\<close> (status 422) with the names of the offending keys.
\<close>

section \<open>Patterns\<close>

definition is_hex :: "nat \<Rightarrow> bool" where
  "is_hex c \<longleftrightarrow> 48 \<le> c \<and> c \<le> 57 \<or> 97 \<le> c \<and> c \<le> 102 \<or> 65 \<le> c \<and> c \<le> 70"

definition is_lower :: "nat \<Rightarrow> bool" where
  "is_lower c \<longleftrightarrow> 97 \<le> c \<and> c \<le> 122"

definition is_digit :: "nat \<Rightarrow> bool" where
  "is_digit c \<longleftrightarrow> 48 \<le> c \<and> c \<le> 57"

definition is_name_char :: "nat \<Rightarrow> bool" where
  "is_name_char c \<longleftrightarrow> is_lower c \<or> is_digit c \<or> c = 95 \<or> c = 45"

text \<open>\<open>^[...][a-z0-9_-]{1,n}$\<close>\<close>

definition match_name :: "(nat \<Rightarrow> bool) \<Rightarrow> nat \<Rightarrow> ustr \<Rightarrow> bool" where
  "match_name first n s =
     (case s of [] \<Rightarrow> False
      | c # t \<Rightarrow> first c \<and> 1 \<le> length t \<and> length t \<le> n \<and> list_all is_name_char t)"

definition environment_pattern :: "ustr \<Rightarrow> bool" where
  "environment_pattern s = match_name (\<lambda>c. is_lower c \<or> is_digit c) 31 s"

definition action_pattern :: "ustr \<Rightarrow> bool" where
  "action_pattern s = match_name is_lower 39 s"

definition actor_type_pattern :: "ustr \<Rightarrow> bool" where
  "actor_type_pattern s = match_name is_lower 31 s"

definition hex_re :: "ustr \<Rightarrow> bool" where
  "hex_re s \<longleftrightarrow> s \<noteq> [] \<and> list_all is_hex s"

definition prefixed_hex :: "ustr \<Rightarrow> nat \<Rightarrow> nat \<Rightarrow> ustr \<Rightarrow> bool" where
  "prefixed_hex p lo hi s \<longleftrightarrow>
     take (length p) s = p \<and>
     (let t = drop (length p) s in lo \<le> length t \<and> length t \<le> hi \<and> list_all is_hex t)"

definition sha256_re :: "ustr \<Rightarrow> bool" where
  "sha256_re s = prefixed_hex (u ''sha256:'') 64 64 s"

definition config_re :: "ustr \<Rightarrow> bool" where
  "config_re s \<longleftrightarrow> prefixed_hex (u ''cfg:'') 32 64 s \<or> prefixed_hex (u ''sha256:'') 64 64 s"

text \<open>The field validators: None stands for ValueError.\<close>

definition immutable_commit :: "ustr \<Rightarrow> ustr option" where
  "immutable_commit value = (if \<not> hex_re value then None else Some (py_lower value))"

definition immutable_artifact :: "ustr \<Rightarrow> ustr option" where
  "immutable_artifact value = (if \<not> sha256_re value then None else Some (py_lower value))"

definition immutable_config :: "ustr \<Rightarrow> ustr option" where
  "immutable_config value = (if \<not> config_re value then None else Some (py_lower value))"

section \<open>Fields and models\<close>

record StrField =
  sf_name :: ustr
  sf_min :: nat
  sf_max :: "nat option"
  sf_pattern :: "ustr \<Rightarrow> bool"
  sf_validator :: "ustr \<Rightarrow> ustr option"
  sf_default :: "ustr option"

definition str_field :: "string \<Rightarrow> nat \<Rightarrow> nat \<Rightarrow> StrField" where
  "str_field name lo hi =
     \<lparr>sf_name = u name, sf_min = lo, sf_max = Some hi, sf_pattern = (\<lambda>_. True),
      sf_validator = Some, sf_default = None\<rparr>"

definition pattern_field :: "string \<Rightarrow> (ustr \<Rightarrow> bool) \<Rightarrow> StrField" where
  "pattern_field name P =
     \<lparr>sf_name = u name, sf_min = 0, sf_max = None, sf_pattern = P,
      sf_validator = Some, sf_default = None\<rparr>"

definition validate_str :: "StrField \<Rightarrow> (ustr \<times> json) list \<Rightarrow> ustr option" where
  "validate_str f body =
    (case map_of body (sf_name f) of
       None \<Rightarrow> sf_default f
     | Some (JStr s) \<Rightarrow>
         (let t = rust_trim s in
          if sf_min f \<le> length t \<and> (case sf_max f of None \<Rightarrow> True | Some n \<Rightarrow> length t \<le> n) \<and>
             sf_pattern f t
          then sf_validator f t
          else None)
     | Some _ \<Rightarrow> None)"

text \<open>
  A model of string fields: the values by field name, or the keys in error: the fields that fail,
  in the order of the model, and then the keys the model does not have.
\<close>

definition validate_model :: "StrField list \<Rightarrow> ustr list \<Rightarrow> json \<Rightarrow> (ustr \<Rightarrow> ustr) res" where
  "validate_model fs others body =
    (case body of
       JObj kvs \<Rightarrow>
         (let errors = map sf_name (filter (\<lambda>f. validate_str f kvs = None) fs) @
                filter (\<lambda>k. k \<notin> set (map sf_name fs) \<and> k \<notin> set others) (map fst kvs)
          in if errors \<noteq> [] then Inl (RequestValidationError errors)
             else Inr (\<lambda>k. case find (\<lambda>f. sf_name f = k) fs of
                         None \<Rightarrow> []
                       | Some f \<Rightarrow> (case validate_str f kvs of None \<Rightarrow> [] | Some s \<Rightarrow> s)))
     | _ \<Rightarrow> Inl (RequestValidationError [u ''body'']))"

definition identity_fields :: "StrField list" where
  "identity_fields =
     [str_field ''project'' 2 120,
      pattern_field ''environment'' environment_pattern,
      (str_field ''commit_sha'' 7 64)\<lparr>sf_validator := immutable_commit\<rparr>,
      (str_field ''artifact_digest'' 71 71)\<lparr>sf_validator := immutable_artifact\<rparr>,
      (str_field ''config_hash'' 36 71)\<lparr>sf_validator := immutable_config\<rparr>]"

definition epoch_create_fields :: "StrField list" where
  "epoch_create_fields = identity_fields @ [str_field ''pipeline_id'' 1 80]"

definition agent_change_fields :: "StrField list" where
  "agent_change_fields = epoch_create_fields @
     [str_field ''change_request_id'' 2 120,
      str_field ''reason'' 8 1000,
      str_field ''actor_id'' 2 120,
      (pattern_field ''action'' action_pattern)\<lparr>sf_default := Some (u ''deploy'')\<rparr>]"

section \<open>Request bodies\<close>

text \<open>The payloads extend one another as the classes do.\<close>

record EpochCreate = identity +
  pipeline_id :: ustr

record AgentChangeCreate = EpochCreate +
  change_request_id :: ustr
  ac_reason :: ustr
  ac_actor_id :: ustr
  ac_action :: ustr

definition target_observation :: "json \<Rightarrow> identity res" where
  "target_observation body =
    res_bind (validate_model identity_fields [] body) (\<lambda>v. Inr
      \<lparr>project = v (u ''project''), environment = v (u ''environment''),
       commit_sha = v (u ''commit_sha''), artifact_digest = v (u ''artifact_digest''),
       config_hash = v (u ''config_hash'')\<rparr>)"

definition epoch_create :: "json \<Rightarrow> EpochCreate res" where
  "epoch_create body =
    res_bind (validate_model epoch_create_fields [] body) (\<lambda>v. Inr
      \<lparr>project = v (u ''project''), environment = v (u ''environment''),
       commit_sha = v (u ''commit_sha''), artifact_digest = v (u ''artifact_digest''),
       config_hash = v (u ''config_hash''), pipeline_id = v (u ''pipeline_id'')\<rparr>)"

definition agent_change_create :: "json \<Rightarrow> AgentChangeCreate res" where
  "agent_change_create body =
    res_bind (validate_model agent_change_fields [] body) (\<lambda>v. Inr
      \<lparr>project = v (u ''project''), environment = v (u ''environment''),
       commit_sha = v (u ''commit_sha''), artifact_digest = v (u ''artifact_digest''),
       config_hash = v (u ''config_hash''), pipeline_id = v (u ''pipeline_id''),
       change_request_id = v (u ''change_request_id''), ac_reason = v (u ''reason''),
       ac_actor_id = v (u ''actor_id''), ac_action = v (u ''action'')\<rparr>)"

definition execute_request :: "json \<Rightarrow> ustr res" where
  "execute_request body =
    res_bind (validate_model [str_field ''idempotency_key'' 8 120] [] body)
      (\<lambda>v. Inr (v (u ''idempotency_key'')))"

text \<open>The pair of the idempotency key and the capability token.\<close>

definition agent_execute_request :: "json \<Rightarrow> (ustr \<times> ustr) res" where
  "agent_execute_request body =
    res_bind (validate_model
        [str_field ''idempotency_key'' 8 120, str_field ''capability_token'' 32 4096] [] body)
      (\<lambda>v. Inr (v (u ''idempotency_key''), v (u ''capability_token'')))"

text \<open>The pair of the user name and the password.\<close>

definition login_request :: "json \<Rightarrow> (ustr \<times> ustr) res" where
  "login_request body =
    res_bind (validate_model [str_field ''username'' 1 80, str_field ''password'' 1 256] [] body)
      (\<lambda>v. Inr (v (u ''username''), v (u ''password'')))"

text \<open>\<open>ttl_seconds\<close>: an int between 30 and 900, 300 when it is not given.\<close>

definition capability_issue_request :: "env \<Rightarrow> json \<Rightarrow> int res" where
  "capability_issue_request E body =
    (case body of
       JObj kvs \<Rightarrow>
         (let ttl = (case map_of kvs (u ''ttl_seconds'') of
                       None \<Rightarrow> Some 300
                     | Some j \<Rightarrow> (case lax_int E j of
                         Some n \<Rightarrow> if 30 \<le> n \<and> n \<le> 900 then Some n else None
                       | None \<Rightarrow> None));
              errors = (if ttl = None then [u ''ttl_seconds''] else []) @
                filter (\<lambda>k. k \<noteq> u ''ttl_seconds'') (map fst kvs)
          in if errors \<noteq> [] then Inl (RequestValidationError errors)
             else Inr (case ttl of None \<Rightarrow> 300 | Some n \<Rightarrow> n))
     | _ \<Rightarrow> Inl (RequestValidationError [u ''body'']))"

record PolicyDryRun =
  dr_actor_type :: ustr
  dr_action :: ustr
  dr_project :: ustr
  dr_environment :: ustr

definition policy_dry_run_request :: "json \<Rightarrow> PolicyDryRun res" where
  "policy_dry_run_request body =
    res_bind (validate_model
        [(pattern_field ''actor_type'' actor_type_pattern)\<lparr>sf_default := Some (u ''ai_agent'')\<rparr>,
         pattern_field ''action'' action_pattern,
         str_field ''project'' 2 120,
         pattern_field ''environment'' environment_pattern] [] body)
      (\<lambda>v. Inr \<lparr>dr_actor_type = v (u ''actor_type''), dr_action = v (u ''action''),
               dr_project = v (u ''project''), dr_environment = v (u ''environment'')\<rparr>)"

text \<open>The pair of the field and the value; the field is a plain \<open>str\<close>.\<close>

definition drift_request :: "json \<Rightarrow> (ustr \<times> ustr) res" where
  "drift_request body =
    res_bind (validate_model
        [(str_field ''field'' 0 0)\<lparr>sf_max := None\<rparr>, str_field ''value'' 1 256] [] body)
      (\<lambda>v. Inr (v (u ''field''), v (u ''value'')))"

lemma capability_ttl_bounds: "capability_issue_request E body = Inr ttl \<Longrightarrow> 30 \<le> ttl \<and> ttl \<le> 900"
  by (auto simp: capability_issue_request_def Let_def split: json.splits option.splits if_splits)

section \<open>Accepted identities are immutable references\<close>

definition lower_hex :: "ustr \<Rightarrow> bool" where
  "lower_hex s \<longleftrightarrow> list_all (\<lambda>c. 48 \<le> c \<and> c \<le> 57 \<or> 97 \<le> c \<and> c \<le> 102) s"

lemma lower_hex_py_lower: "list_all is_hex s \<Longrightarrow> lower_hex (py_lower s)"
  by (induction s) (auto simp: lower_hex_def py_lower_def lower_char_def is_hex_def)

lemma immutable_commit_Some:
  "immutable_commit s = Some t \<Longrightarrow> lower_hex t \<and> t \<noteq> [] \<and> length t = length s"
  by (auto simp: immutable_commit_def hex_re_def lower_hex_py_lower split: if_splits)
     (metis length_py_lower length_0_conv)

lemma prefixed_hex_lower:
  assumes "prefixed_hex p lo hi s" and "py_lower p = p"
  shows "\<exists>t. py_lower s = p @ t \<and> lower_hex t \<and> lo \<le> length t \<and> length t \<le> hi"
proof -
  let ?t = "drop (length p) s"
  from assms(1) have s: "s = p @ ?t" and t: "list_all is_hex ?t" "lo \<le> length ?t" "length ?t \<le> hi"
    unfolding prefixed_hex_def Let_def by (metis append_take_drop_id)+
  from s have "py_lower s = py_lower p @ py_lower ?t"
    by (metis map_append py_lower_def)
  with assms(2) t show ?thesis
    by (intro exI [of _ "py_lower ?t"]) (simp add: lower_hex_py_lower)
qed

lemma immutable_artifact_Some:
  assumes "immutable_artifact s = Some t"
  shows "\<exists>h. t = u ''sha256:'' @ h \<and> lower_hex h \<and> length h = 64"
proof -
  from assms have "prefixed_hex (u ''sha256:'') 64 64 s" "t = py_lower s"
    by (auto simp: immutable_artifact_def sha256_re_def split: if_splits)
  then show ?thesis
    using prefixed_hex_lower [of "u ''sha256:''" 64 64 s]
    by (auto simp: py_lower_def lower_char_def u_def)
qed

lemma immutable_config_Some:
  assumes "immutable_config s = Some t"
  shows "\<exists>h. lower_hex h \<and>
    (t = u ''cfg:'' @ h \<and> 32 \<le> length h \<and> length h \<le> 64 \<or> t = u ''sha256:'' @ h \<and> length h = 64)"
proof -
  from assms have "config_re s" and t: "t = py_lower s"
    by (auto simp: immutable_config_def split: if_splits)
  then consider "prefixed_hex (u ''cfg:'') 32 64 s" | "prefixed_hex (u ''sha256:'') 64 64 s"
    by (auto simp: config_re_def)
  then show ?thesis
  proof cases
    case 1
    from prefixed_hex_lower [OF this] show ?thesis
      by (auto simp: t py_lower_def lower_char_def u_def)
  next
    case 2
    from prefixed_hex_lower [OF this] show ?thesis
      by (auto simp: t py_lower_def lower_char_def u_def)
  qed
qed

text \<open>The value a successful validation returns for a field.\<close>

lemma validate_model_Inr:
  assumes "validate_model fs others body = Inr v" and "distinct (map sf_name fs)" and "f \<in> set fs"
  shows "\<exists>kvs. body = JObj kvs \<and> validate_str f kvs = Some (v (sf_name f))"
proof -
  from assms(1) obtain kvs where kvs: "body = JObj kvs"
    and all: "\<forall>f \<in> set fs. validate_str f kvs \<noteq> None"
    and v: "v = (\<lambda>k. case find (\<lambda>f. sf_name f = k) fs of None \<Rightarrow> []
      | Some f \<Rightarrow> (case validate_str f kvs of None \<Rightarrow> [] | Some s \<Rightarrow> s))"
    by (auto simp: validate_model_def Let_def filter_empty_conv split: json.splits if_splits)
  have "find (\<lambda>g. sf_name g = sf_name f) fs = Some f"
    using one_or_none_distinct [OF assms(2), of "sf_name f"] filter_key_distinct [OF assms(2,3)]
    by simp
  with all assms(3) v kvs show ?thesis by auto
qed

lemma validate_str_validator:
  assumes "validate_str f kvs = Some t" and "sf_default f = None"
  shows "\<exists>s. map_of kvs (sf_name f) = Some (JStr s) \<and> sf_validator f (rust_trim s) = Some t \<and>
    sf_min f \<le> length (rust_trim s) \<and> sf_pattern f (rust_trim s)"
  using assms by (auto simp: validate_str_def Let_def split: option.splits json.splits if_splits)

text \<open>No model accepts a key it does not declare.\<close>

lemma validate_model_extra:
  "k \<in> fst ` set kvs \<Longrightarrow> k \<notin> sf_name ` set fs \<Longrightarrow> k \<notin> set others \<Longrightarrow>
    \<exists>ks. validate_model fs others (JObj kvs) = Inl (RequestValidationError ks) \<and> k \<in> set ks"
proof -
  assume k: "k \<in> fst ` set kvs" "k \<notin> sf_name ` set fs" "k \<notin> set others"
  let ?extra = "filter (\<lambda>k. k \<notin> set (map sf_name fs) \<and> k \<notin> set others) (map fst kvs)"
  from k have "k \<in> set ?extra" by simp
  then have "?extra \<noteq> []" by (metis length_greater_0_conv length_pos_if_in_set)
  with \<open>k \<in> set ?extra\<close> show ?thesis
    by (simp add: validate_model_def Let_def del: filter.simps set_map)
qed

definition immutable_identity :: "'a identity_scheme \<Rightarrow> bool" where
  "immutable_identity i \<longleftrightarrow>
     7 \<le> length (commit_sha i) \<and> lower_hex (commit_sha i) \<and>
     (\<exists>h. artifact_digest i = u ''sha256:'' @ h \<and> lower_hex h \<and> length h = 64) \<and>
     (\<exists>h. lower_hex h \<and>
       (config_hash i = u ''cfg:'' @ h \<and> 32 \<le> length h \<and> length h \<le> 64 \<or>
        config_hash i = u ''sha256:'' @ h \<and> length h = 64))"

lemma identity_values_immutable:
  assumes v: "validate_model fs others body = Inr v" and d: "distinct (map sf_name fs)"
    and sub: "set identity_fields \<subseteq> set fs"
  shows "7 \<le> length (v (u ''commit_sha'')) \<and> lower_hex (v (u ''commit_sha'')) \<and>
    (\<exists>h. v (u ''artifact_digest'') = u ''sha256:'' @ h \<and> lower_hex h \<and> length h = 64) \<and>
    (\<exists>h. lower_hex h \<and>
      (v (u ''config_hash'') = u ''cfg:'' @ h \<and> 32 \<le> length h \<and> length h \<le> 64 \<or>
       v (u ''config_hash'') = u ''sha256:'' @ h \<and> length h = 64))"
proof -
  have fld: "\<exists>s. sf_validator f s = Some (v (sf_name f)) \<and> sf_min f \<le> length s"
    if f: "f \<in> set identity_fields" for f
  proof -
    from f have "sf_default f = None"
      by (auto simp: identity_fields_def str_field_def pattern_field_def)
    moreover from f sub have "f \<in> set fs" by (rule rev_subsetD)
    from validate_model_Inr [OF v d this] obtain kvs where "validate_str f kvs = Some (v (sf_name f))"
      by (elim exE conjE)
    ultimately obtain s where "sf_validator f (rust_trim s) = Some (v (sf_name f))"
      "sf_min f \<le> length (rust_trim s)"
      using validate_str_validator [of f kvs "v (sf_name f)"] by metis
    then show ?thesis by blast
  qed
  let ?c = "(str_field ''commit_sha'' 7 64)\<lparr>sf_validator := immutable_commit\<rparr>"
  let ?a = "(str_field ''artifact_digest'' 71 71)\<lparr>sf_validator := immutable_artifact\<rparr>"
  let ?g = "(str_field ''config_hash'' 36 71)\<lparr>sf_validator := immutable_config\<rparr>"
  have mem: "?c \<in> set identity_fields" "?a \<in> set identity_fields" "?g \<in> set identity_fields"
    by (simp_all add: identity_fields_def)
  from fld [OF mem(1)] have "7 \<le> length (v (u ''commit_sha'')) \<and> lower_hex (v (u ''commit_sha''))"
    by (auto simp: str_field_def dest!: immutable_commit_Some)
  moreover from fld [OF mem(2)] have "\<exists>h. v (u ''artifact_digest'') = u ''sha256:'' @ h \<and> lower_hex h \<and> length h = 64"
    by (auto simp: str_field_def dest!: immutable_artifact_Some)
  moreover from fld [OF mem(3)] obtain s where "immutable_config s = Some (v (u ''config_hash''))"
    by (auto simp: str_field_def)
  from immutable_config_Some [OF this] have "\<exists>h. lower_hex h \<and>
      (v (u ''config_hash'') = u ''cfg:'' @ h \<and> 32 \<le> length h \<and> length h \<le> 64 \<or>
       v (u ''config_hash'') = u ''sha256:'' @ h \<and> length h = 64)" .
  ultimately show ?thesis by blast
qed

lemma distinct_field_names:
  "distinct (map sf_name identity_fields)"
  "distinct (map sf_name epoch_create_fields)"
  "distinct (map sf_name agent_change_fields)"
  by (simp_all add: identity_fields_def epoch_create_fields_def agent_change_fields_def
      str_field_def pattern_field_def)

lemma target_observation_immutable: "target_observation body = Inr i \<Longrightarrow> immutable_identity i"
  using identity_values_immutable [OF _ distinct_field_names(1)]
  by (fastforce simp: target_observation_def res_bind_Inr_iff immutable_identity_def)

lemma epoch_create_immutable: "epoch_create body = Inr p \<Longrightarrow> immutable_identity p"
  using identity_values_immutable [OF _ distinct_field_names(2)]
  by (fastforce simp: epoch_create_def res_bind_Inr_iff immutable_identity_def epoch_create_fields_def)

lemma agent_change_immutable: "agent_change_create body = Inr p \<Longrightarrow> immutable_identity p"
  using identity_values_immutable [OF _ distinct_field_names(3)]
  by (fastforce simp: agent_change_create_def res_bind_Inr_iff immutable_identity_def
      agent_change_fields_def epoch_create_fields_def)

section \<open>Validated values are valid\<close>

text \<open>A field whose valid values are accepted again as they are.\<close>

definition stable_field :: "StrField \<Rightarrow> bool" where
  "stable_field f \<longleftrightarrow>
     (\<forall>s t. sf_pattern f s \<and> sf_validator f s = Some t \<and> rust_trim s = s \<longrightarrow>
        rust_trim t = t \<and> length t = length s \<and> sf_pattern f t \<and> sf_validator f t = Some t)"

lemma rust_trim_idem [simp]: "rust_trim (rust_trim s) = rust_trim s"
  by (simp add: rust_trim_def)

lemma stable_fieldD:
  "stable_field f \<Longrightarrow> sf_pattern f s \<Longrightarrow> sf_validator f s = Some t \<Longrightarrow> rust_trim s = s \<Longrightarrow>
   rust_trim t = t \<and> length t = length s \<and> sf_pattern f t \<and> sf_validator f t = Some t"
  unfolding stable_field_def by blast

lemma validate_str_again:
  assumes "stable_field f" and "sf_default f = None" and "validate_str f kvs = Some t"
    and "map_of kvs' (sf_name f) = Some (JStr t)"
  shows "validate_str f kvs' = Some t"
proof -
  from assms(2,3) obtain s where s: "sf_min f \<le> length (rust_trim s)"
    "case sf_max f of None \<Rightarrow> True | Some n \<Rightarrow> length (rust_trim s) \<le> n"
    "sf_pattern f (rust_trim s)" "sf_validator f (rust_trim s) = Some t"
    by (auto simp: validate_str_def Let_def split: option.splits json.splits if_splits)
  from stable_fieldD [OF assms(1) s(3,4)]
  have t: "rust_trim t = t" "length t = length (rust_trim s)" "sf_pattern f t" "sf_validator f t = Some t"
    by simp_all
  from s(1,2) show ?thesis
    unfolding t(2) [symmetric] by (simp add: validate_str_def assms(4) t(1,3,4))
qed

lemma hex_no_space: "list_all is_hex s \<Longrightarrow> x \<in> set s \<Longrightarrow> \<not> is_rust_space x"
  by (auto simp: list_all_iff is_hex_def is_rust_space_def)

lemma no_space_trim: "(\<And>x. x \<in> set s \<Longrightarrow> \<not> is_rust_space x) \<Longrightarrow> rust_trim s = s"
  by (cases "s = []") (simp_all add: rust_trim_def strip_by_id)

lemma hex_lower: "list_all is_hex s \<Longrightarrow> list_all is_hex (py_lower s)"
  by (auto simp: list_all_iff is_hex_def py_lower_def lower_char_def)

lemma prefixed_hex_split:
  "prefixed_hex p lo hi s \<longleftrightarrow> (\<exists>h. s = p @ h \<and> lo \<le> length h \<and> length h \<le> hi \<and> list_all is_hex h)"
proof
  assume "prefixed_hex p lo hi s"
  then show "\<exists>h. s = p @ h \<and> lo \<le> length h \<and> length h \<le> hi \<and> list_all is_hex h"
    unfolding prefixed_hex_def Let_def by (metis append_take_drop_id)
qed (auto simp: prefixed_hex_def)

lemma prefixed_again:
  assumes "prefixed_hex p lo hi s" and "py_lower p = p" and "\<And>x. x \<in> set p \<Longrightarrow> \<not> is_rust_space x"
  shows "prefixed_hex p lo hi (py_lower s) \<and> rust_trim (py_lower s) = py_lower s"
proof -
  from assms(1) obtain h where h: "s = p @ h" "lo \<le> length h" "length h \<le> hi" "list_all is_hex h"
    by (auto simp: prefixed_hex_split)
  have "py_lower s = p @ py_lower h" using assms(2) h(1) by (simp add: py_lower_def)
  with h hex_lower [OF h(4)] show ?thesis
    using assms(3) by (auto simp: prefixed_hex_split intro!: no_space_trim dest: hex_no_space [OF hex_lower [OF h(4)]])
qed

lemma prefixes:
  "py_lower (u ''sha256:'') = u ''sha256:''" "py_lower (u ''cfg:'') = u ''cfg:''"
  "x \<in> set (u ''sha256:'') \<Longrightarrow> \<not> is_rust_space x" "x \<in> set (u ''cfg:'') \<Longrightarrow> \<not> is_rust_space x"
  by (auto simp: u_def py_lower_def lower_char_def is_rust_space_def)

lemma stable_fields:
  "stable_field (str_field n lo hi)" "stable_field (pattern_field n P)"
  "stable_field ((str_field n lo hi)\<lparr>sf_validator := immutable_commit\<rparr>)"
  "stable_field ((str_field n lo hi)\<lparr>sf_validator := immutable_artifact\<rparr>)"
  "stable_field ((str_field n lo hi)\<lparr>sf_validator := immutable_config\<rparr>)"
proof -
  show "stable_field (str_field n lo hi)" "stable_field (pattern_field n P)"
    by (simp_all add: stable_field_def str_field_def pattern_field_def)
  show "stable_field ((str_field n lo hi)\<lparr>sf_validator := immutable_commit\<rparr>)"
    by (auto simp: stable_field_def str_field_def immutable_commit_def hex_re_def hex_lower
        intro!: no_space_trim dest: hex_no_space [OF hex_lower] split: if_splits) (simp add: py_lower_def)
  show "stable_field ((str_field n lo hi)\<lparr>sf_validator := immutable_artifact\<rparr>)"
    using prefixed_again [OF _ prefixes(1,3)]
    by (auto simp: stable_field_def str_field_def immutable_artifact_def sha256_re_def split: if_splits)
  show "stable_field ((str_field n lo hi)\<lparr>sf_validator := immutable_config\<rparr>)"
    using prefixed_again [OF _ prefixes(1,3)] prefixed_again [OF _ prefixes(2,4)]
    by (auto simp: stable_field_def str_field_def immutable_config_def config_re_def split: if_splits)
qed

text \<open>Whoever has all the fields, and no others, is accepted.\<close>

lemma validate_model_complete:
  assumes "distinct (map sf_name fs)" and "\<And>f. f \<in> set fs \<Longrightarrow> validate_str f kvs = Some (v (sf_name f))"
    and "fst ` set kvs \<subseteq> sf_name ` set fs"
  shows "\<exists>v'. validate_model fs [] (JObj kvs) = Inr v' \<and> (\<forall>f \<in> set fs. v' (sf_name f) = v (sf_name f))"
proof -
  have none: "filter (\<lambda>f. validate_str f kvs = None) fs = []" using assms(2) by (auto simp: filter_empty_conv)
  have extra: "filter (\<lambda>k. k \<notin> set (map sf_name fs) \<and> k \<notin> set []) (map fst kvs) = []"
    using assms(3) by (auto simp: filter_empty_conv)
  obtain v' where v': "validate_model fs [] (JObj kvs) = Inr v'"
    unfolding validate_model_def json.case none extra by simp
  have "v' (sf_name f) = v (sf_name f)" if "f \<in> set fs" for f
    using validate_model_Inr [OF v' assms(1) that] assms(2) [OF that] by simp
  with v' show ?thesis by blast
qed

text \<open>
  The values of a validated model, given by name to a model with some of its fields, are accepted
  there as they are.
\<close>

lemma validate_model_again:
  assumes "validate_model gs others body = Inr v" and "distinct (map sf_name gs)"
    and "set fs \<subseteq> set gs" and "distinct (map sf_name fs)"
    and "\<And>f. f \<in> set fs \<Longrightarrow> stable_field f \<and> sf_default f = None"
    and "\<forall>n \<in> sf_name ` set fs. map_of kvs n = Some (JStr (v n))"
    and "fst ` set kvs \<subseteq> sf_name ` set fs"
  shows "\<exists>v'. validate_model fs [] (JObj kvs) = Inr v' \<and> (\<forall>n \<in> sf_name ` set fs. v' n = v n)"
proof -
  have "validate_str f kvs = Some (v (sf_name f))" if f: "f \<in> set fs" for f
  proof -
    from f assms(3) have "f \<in> set gs" by blast
    from validate_model_Inr [OF assms(1,2) this]
    obtain body' where "validate_str f body' = Some (v (sf_name f))" by blast
    moreover have "map_of kvs (sf_name f) = Some (JStr (v (sf_name f)))" using assms(6) f by blast
    ultimately show ?thesis using validate_str_again [of f body' "v (sf_name f)" kvs] assms(5) [OF f] by simp
  qed
  from validate_model_complete [where v = v, OF assms(4) this assms(7)] show ?thesis by blast
qed

lemma stable_identity_fields: "f \<in> set identity_fields \<Longrightarrow> stable_field f \<and> sf_default f = None"
  by (simp only: identity_fields_def list.set insert_iff empty_iff, elim disjE)
    (simp_all add: stable_fields, simp_all add: str_field_def pattern_field_def)

lemma stable_epoch_fields: "f \<in> set epoch_create_fields \<Longrightarrow> stable_field f \<and> sf_default f = None"
  using stable_identity_fields by (auto simp: epoch_create_fields_def stable_fields) (simp add: str_field_def)

lemma identity_field_names:
  "sf_name ` set identity_fields =
     {u ''project'', u ''environment'', u ''commit_sha'', u ''artifact_digest'', u ''config_hash''}"
  "sf_name ` set epoch_create_fields = insert (u ''pipeline_id'') (sf_name ` set identity_fields)"
  by (simp add: identity_fields_def str_field_def pattern_field_def)
    (simp add: epoch_create_fields_def str_field_def)

section \<open>Properties\<close>

text \<open>
  C39: A release the API accepts, for a human's epoch, an agent's change or an observation, is
  immutable: its commit is at least seven lower-case hexadecimal digits, its artifact is a full
  SHA-256 digest, and its configuration a 32 to 64 digit \<open>cfg:\<close> hash or a full SHA-256 digest.
\<close>

theorem accepted_release_immutable:
  "(epoch_create body = Inr p \<longrightarrow> immutable_identity p) \<and>
   (agent_change_create body = Inr q \<longrightarrow> immutable_identity q) \<and>
   (target_observation body = Inr i \<longrightarrow> immutable_identity i)"
  using epoch_create_immutable agent_change_immutable target_observation_immutable by blast

text \<open>
  No request body may carry a key its model does not declare: such a body is refused with a
  validation error that names the key.
\<close>

lemma unknown_keys_refused:
  assumes "k \<in> set (map fst kvs)" and "k \<notin> set (map sf_name epoch_create_fields)"
  shows "\<exists>ks. epoch_create (JObj kvs) = Inl (RequestValidationError ks) \<and> k \<in> set ks"
proof -
  from assms obtain ks where "validate_model epoch_create_fields [] (JObj kvs) = Inl (RequestValidationError ks)"
    "k \<in> set ks"
    using validate_model_extra [of k kvs epoch_create_fields "[]"] by auto
  then show ?thesis by (simp add: epoch_create_def)
qed

text \<open>The life time of a capability that a request may ask for is between 30 and 900 seconds.\<close>

lemma requested_ttl_bounded:
  assumes "capability_issue_request E body = Inr ttl"
  shows "30 \<le> ttl \<and> ttl \<le> 900"
  using assms by (rule capability_ttl_bounds)

end
