(* ===== verification/Lifecycle.thy ===== *)
theory Lifecycle
  imports Governance Schemas
begin

text \<open>
  \<open>orchestrator/app/services.py\<close>, first part: an epoch is created and approved.

  Every operation of the services takes the environment, the database and the object its caller has
  loaded, and returns its result or the exception, with the database afterwards. Writes happen on a
  copy and reach the database by \<open>commit\<close>; a branch that raises earlier returns the database as it
  was.
\<close>

section \<open>Operations\<close>

definition epoch_identity :: "epoch_row \<Rightarrow> identity" where
  "epoch_identity epoch =
     \<lparr>project = ep_project epoch, environment = ep_environment epoch,
      commit_sha = ep_commit_sha epoch, artifact_digest = ep_artifact_digest epoch,
      config_hash = ep_config_hash epoch\<rparr>"

text \<open>\<open>payload.model_dump(include=...)\<close>: the five identity fields of any payload that extends them.\<close>

definition payload_identity :: "'a identity_scheme \<Rightarrow> identity" where
  "payload_identity p =
     \<lparr>project = project p, environment = environment p, commit_sha = commit_sha p,
      artifact_digest = artifact_digest p, config_hash = config_hash p\<rparr>"

definition new_epoch :: "env \<Rightarrow> EpochCreate \<Rightarrow> ustr \<Rightarrow> ustr \<Rightarrow> epoch_row" where
  "new_epoch E payload created_by pipeline_status =
     \<lparr>ep_id = uuid4 E 0,
      ep_project = project payload,
      ep_environment = environment payload,
      ep_commit_sha = commit_sha payload,
      ep_artifact_digest = artifact_digest payload,
      ep_config_hash = config_hash payload,
      ep_pipeline_id = pipeline_id payload,
      ep_pipeline_status = pipeline_status,
      ep_fingerprint = fingerprint (payload_identity payload),
      ep_state = u ''DRAFT'',
      ep_created_by = created_by,
      ep_created_at = stamp E,
      ep_updated_at = stamp E\<rparr>"

definition created_db :: "env \<Rightarrow> db \<Rightarrow> epoch_row \<Rightarrow> ustr \<Rightarrow> db" where
  "created_db E d row created_by =
     record_event (stamp E) (d\<lparr>epochs := epochs d @ [row]\<rparr>) (ep_id row) (u ''EPOCH_CREATED'')
       (u ''human'') created_by
       (msg_epoch_created_prefix @ ep_project row @ u ''/'' @ ep_environment row)
       (JObj [(u ''fingerprint'', JStr (ep_fingerprint row)),
              (u ''pipeline_id'', JStr (ep_pipeline_id row))])"

definition create_epoch :: "env \<Rightarrow> db \<Rightarrow> EpochCreate \<Rightarrow> ustr \<Rightarrow> ustr \<Rightarrow> epoch_row res \<times> db" where
  "create_epoch E d payload created_by pipeline_status =
    (let row = new_epoch E payload created_by pipeline_status
     in commit d (created_db E d row created_by) row)"

text \<open>
  The session after an approval (lines 64 to 75), and the operation. Its result is the approval and
  the epoch object, whose state the caller reads.
\<close>

definition new_approval :: "env \<Rightarrow> db \<Rightarrow> epoch_row \<Rightarrow> ustr \<Rightarrow> approval_row" where
  "new_approval E d locked approver =
     \<lparr>ap_id = next_id (map ap_id (approvals d)),
      ap_epoch_id = ep_id locked,
      ap_approver = approver,
      ap_approved_fingerprint = ep_fingerprint locked,
      ap_created_at = stamp E\<rparr>"

definition approved_db :: "env \<Rightarrow> db \<Rightarrow> epoch_row \<Rightarrow> ustr \<Rightarrow> db" where
  "approved_db E d locked approver =
    (let d1 = set_state (stamp E) locked (u ''APPROVED'') d;
         d2 = d1\<lparr>approvals := approvals d1 @ [new_approval E d locked approver]\<rparr>
     in record_event (stamp E) d2 (ep_id locked) (u ''APPROVED'') (u ''human'') approver
          msg_approved_summary
          (JObj [(u ''approved_fingerprint'', JStr (ep_fingerprint locked))]))"

definition approve_epoch ::
  "env \<Rightarrow> db \<Rightarrow> epoch_row \<Rightarrow> ustr \<Rightarrow> (approval_row \<times> epoch_row) res \<times> db" where
  "approve_epoch E d epoch approver =
    (case for_update d epoch of
       Inl e \<Rightarrow> (Inl e, d)
     | Inr locked \<Rightarrow>
        if ep_pipeline_status locked \<noteq> u ''success'' then
          (Inl (HTTPException 409 msg_pipeline_before_approval), d)
        else
          (case one_or_none (filter (\<lambda>a. ap_epoch_id a = ep_id locked) (approvals d)) of
             Inl e \<Rightarrow> (Inl e, d)
           | Inr (Some existing) \<Rightarrow> (Inr (existing, locked), d)
           | Inr None \<Rightarrow>
               commit d (approved_db E d locked approver)
                 (new_approval E d locked approver, locked\<lparr>ep_state := u ''APPROVED''\<rparr>)))"

section \<open>Lemmas\<close>

lemma created_db_simps [simp]:
  "users (created_db E d r by) = users d"
  "epochs (created_db E d r by) = epochs d @ [r]"
  "approvals (created_db E d r by) = approvals d"
  "evidences (created_db E d r by) = evidences d"
  "targets (created_db E d r by) = targets d"
  "receipts (created_db E d r by) = receipts d"
  "changes (created_db E d r by) = changes d"
  "grants (created_db E d r by) = grants d"
  "webhooks (created_db E d r by) = webhooks d"
  "outbox (created_db E d r by) = outbox d"
  by (simp_all add: created_db_def)

lemma approved_db_simps [simp]:
  "users (approved_db E d l by) = users d"
  "epochs (approved_db E d l by) = epochs (set_state (stamp E) l (u ''APPROVED'') d)"
  "approvals (approved_db E d l by) = approvals d @ [new_approval E d l by]"
  "evidences (approved_db E d l by) = evidences d"
  "targets (approved_db E d l by) = targets d"
  "receipts (approved_db E d l by) = receipts d"
  "changes (approved_db E d l by) = changes d"
  "grants (approved_db E d l by) = grants d"
  "webhooks (approved_db E d l by) = webhooks d"
  "outbox (approved_db E d l by) = outbox d"
  by (simp_all add: approved_db_def Let_def)

lemma created_db_ok:
  "db_ok d \<Longrightarrow> ep_id r \<notin> ep_id ` set (epochs d) \<Longrightarrow> db_ok (created_db E d r by)"
  unfolding created_db_def by (rule record_event_ok) (auto simp: db_ok_defs Let_def)

lemma set_state_ok: "db_ok d \<Longrightarrow> db_ok (set_state t l s d)"
  by (simp add: db_ok_defs Let_def)

lemma approved_db_ok:
  assumes "db_ok d" and "ep_id l \<in> ep_id ` set (epochs d)" and "ep_id l \<notin> ap_epoch_id ` set (approvals d)"
  shows "db_ok (approved_db E d l by)"
  unfolding approved_db_def Let_def
proof (rule record_event_ok)
  show "db_ok (set_state (stamp E) l (u ''APPROVED'') d
      \<lparr>approvals := approvals (set_state (stamp E) l (u ''APPROVED'') d) @ [new_approval E d l by]\<rparr>)"
    using assms by (auto simp: db_ok_defs Let_def new_approval_def)
qed (use assms(2) in simp)

text \<open>What the two operations can do to the database.\<close>

lemma create_epoch_cases:
  "create_epoch E d p by st = (r, d') \<Longrightarrow>
    (\<exists>err. r = Inl err \<and> d' = d) \<or>
    r = Inr (new_epoch E p by st) \<and> d' = created_db E d (new_epoch E p by st) by \<and> db_ok d'"
  by (auto simp: create_epoch_def Let_def commit_def split: if_splits)

lemma approve_epoch_cases:
  assumes "approve_epoch E d e by = (r, d')"
  shows "(\<exists>err. r = Inl err \<and> d' = d) \<or>
    (\<exists>a \<in> set (approvals d). ap_epoch_id a = ep_id e \<and> r = Inr (a, e) \<and> d' = d) \<or>
    r = Inr (new_approval E d e by, e\<lparr>ep_state := u ''APPROVED''\<rparr>) \<and> d' = approved_db E d e by \<and>
      db_ok d' \<and> ep_pipeline_status e = u ''success'' \<and> ep_id e \<in> ep_id ` set (epochs d) \<and>
      ep_id e \<notin> ap_epoch_id ` set (approvals d)"
proof (cases "for_update d e")
  case (Inl x)
  with assms show ?thesis by (auto simp: approve_epoch_def)
next
  case (Inr l)
  note l = for_update_Inr [OF this]
  show ?thesis
  proof (cases rule: one_or_none_cases [where P = "\<lambda>a. ap_epoch_id a = ep_id e" and xs = "approvals d"])
    case no_row
    then have "ep_id e \<notin> ap_epoch_id ` set (approvals d)" by auto
    with no_row(1) assms Inr l show ?thesis
      by (auto simp: approve_epoch_def commit_def split: if_splits)
  next
    case (row a)
    with assms Inr l show ?thesis
      by (auto simp: approve_epoch_def split: if_splits)
  next
    case rows
    with assms Inr l show ?thesis
      by (auto simp: approve_epoch_def split: if_splits)
  qed
qed

text \<open>An approval that may be given is given: the commit cannot fail.\<close>

lemma approve_epoch_success:
  assumes "db_ok d" and "e \<in> set (epochs d)" and "ep_pipeline_status e = u ''success''"
    and "ep_id e \<notin> ap_epoch_id ` set (approvals d)"
  shows "approve_epoch E d e by =
    (Inr (new_approval E d e by, e\<lparr>ep_state := u ''APPROVED''\<rparr>), approved_db E d e by)"
proof -
  from assms(4) have "filter (\<lambda>a. ap_epoch_id a = ep_id e) (approvals d) = []"
    by (simp add: table_simps)
  moreover have "db_ok (approved_db E d e by)"
    using assms by (intro approved_db_ok) auto
  ultimately show ?thesis
    using assms(2,3) by (simp add: approve_epoch_def for_update_loaded commit_def)
qed

lemma approve_epoch_again:
  assumes "db_ok d" and "e \<in> set (epochs d)" and "ep_pipeline_status e = u ''success''"
    and "a \<in> set (approvals d)" and "ap_epoch_id a = ep_id e"
  shows "approve_epoch E d e by = (Inr (a, e), d)"
  using filter_key_distinct [OF approvals_t.distinct_keys [OF assms(1)] assms(4)] assms
  by (simp add: approve_epoch_def for_update_loaded)

section \<open>Properties\<close>

text \<open>
  A new epoch whose identifier is fresh is always stored: as a draft with the fingerprint of
  its own identity, with one EPOCH_CREATED event, and with every other row as it was.
\<close>

lemma create_epoch_stores:
  assumes "db_ok d" and "uuid4 E 0 \<notin> set (map ep_id (epochs d))"
  shows "\<exists>row ev. create_epoch E d p by st =
      (Inr row, d\<lparr>epochs := epochs d @ [row], events := events d @ [ev]\<rparr>) \<and>
    ep_state row = u ''DRAFT'' \<and> ep_pipeline_status row = st \<and>
    epoch_identity row = payload_identity p \<and> ep_fingerprint row = fingerprint (epoch_identity row) \<and>
    pe_event_type ev = u ''EPOCH_CREATED'' \<and> pe_epoch_id ev = ep_id row \<and> pe_actor_id ev = by"
proof -
  let ?row = "new_epoch E p by st"
  have "db_ok (created_db E d ?row by)"
    using assms by (intro created_db_ok) (simp_all add: new_epoch_def)
  then have "create_epoch E d p by st = (Inr ?row, created_db E d ?row by)"
    by (simp add: create_epoch_def commit_def Let_def)
  moreover obtain ev where "created_db E d ?row by = d\<lparr>epochs := epochs d @ [?row], events := events d @ [ev]\<rparr>"
    "pe_event_type ev = u ''EPOCH_CREATED''" "pe_epoch_id ev = ep_id ?row" "pe_actor_id ev = by"
    using record_event_append [of "stamp E" "d\<lparr>epochs := epochs d @ [?row]\<rparr>"]
    unfolding created_db_def by fastforce
  ultimately show ?thesis
    by (intro exI [of _ ?row] exI [of _ ev])
      (simp add: new_epoch_def epoch_identity_def payload_identity_def)
qed

text \<open>
  A human approval of an epoch whose pipeline succeeded binds the approver to the epoch's
  current fingerprint and moves the epoch, and no other one, to APPROVED; it never fails.
\<close>

lemma approval_binds_fingerprint:
  assumes "db_ok d" and "e \<in> set (epochs d)" and "ep_pipeline_status e = u ''success''"
    and "ep_id e \<notin> ap_epoch_id ` set (approvals d)"
  shows "\<exists>a e' d'. approve_epoch E d e by = (Inr (a, e'), d') \<and> db_ok d' \<and>
    approvals d' = approvals d @ [a] \<and> ap_epoch_id a = ep_id e \<and> ap_approver a = by \<and>
    ap_approved_fingerprint a = ep_fingerprint e \<and> ep_state e' = u ''APPROVED'' \<and>
    map (\<lambda>r. (ep_id r, ep_state r)) (epochs d') =
      map (\<lambda>r. (ep_id r, if ep_id r = ep_id e then u ''APPROVED'' else ep_state r)) (epochs d)"
proof -
  have ok: "db_ok (approved_db E d e by)"
    using assms by (intro approved_db_ok) auto
  have "r = e" if "r \<in> set (epochs d)" "ep_id r = ep_id e" for r
    using epochs_t.same_row [OF assms(1) that(1) assms(2)] that(2) by simp
  then have "map (\<lambda>r. (ep_id r, ep_state r)) (epochs (approved_db E d e by)) =
      map (\<lambda>r. (ep_id r, if ep_id r = ep_id e then u ''APPROVED'' else ep_state r)) (epochs d)"
    by (auto simp: set_state_def update_where_def)
  with ok show ?thesis
    by (simp add: approve_epoch_success [OF assms]) (simp add: new_approval_def)
qed

text \<open>
  Approving is idempotent: an epoch that has an approval keeps it, whoever approves again, and
  the database does not change.
\<close>

lemma approval_idempotent:
  assumes "db_ok d" and "e \<in> set (epochs d)" and "ep_pipeline_status e = u ''success''"
    and "a \<in> set (approvals d)" and "ap_epoch_id a = ep_id e"
  shows "approve_epoch E d e by = (Inr (a, e), d)"
  using assms by (rule approve_epoch_again)

text \<open>Without a successful pipeline no approval is given, and nothing is written.\<close>

lemma approval_needs_pipeline:
  assumes "e \<in> set (epochs d)" and "ep_pipeline_status e \<noteq> u ''success''"
  shows "approve_epoch E d e by = (Inl (HTTPException 409 msg_pipeline_before_approval), d)"
  using assms by (simp add: approve_epoch_def for_update_loaded)

text \<open>
  C27: The outcome of an approval in a consistent database, on every branch. Without a successful
  pipeline it is refused with 409 and nothing is written. An epoch that has an approval keeps it,
  whoever approves again, and the database does not change. Otherwise one approval is added, which
  binds the approver to the epoch's current fingerprint, and this epoch, no other one, moves to APPROVED.
\<close>

theorem approval_outcomes:
  assumes "db_ok d" and "e \<in> set (epochs d)"
  shows "if ep_pipeline_status e \<noteq> u ''success'' then
      approve_epoch E d e by = (Inl (HTTPException 409 msg_pipeline_before_approval), d)
    else (case find (\<lambda>a. ap_epoch_id a = ep_id e) (approvals d) of
      Some a \<Rightarrow> approve_epoch E d e by = (Inr (a, e), d)
    | None \<Rightarrow> \<exists>a e' d'. approve_epoch E d e by = (Inr (a, e'), d') \<and> db_ok d' \<and>
        approvals d' = approvals d @ [a] \<and> ap_epoch_id a = ep_id e \<and> ap_approver a = by \<and>
        ap_approved_fingerprint a = ep_fingerprint e \<and> ep_state e' = u ''APPROVED'' \<and>
        map (\<lambda>r. (ep_id r, ep_state r)) (epochs d') =
          map (\<lambda>r. (ep_id r, if ep_id r = ep_id e then u ''APPROVED'' else ep_state r)) (epochs d))"
proof (cases "ep_pipeline_status e = u ''success''")
  case False
  with approval_needs_pipeline [OF assms(2)] show ?thesis by simp
next
  case True
  show ?thesis
  proof (cases "find (\<lambda>a. ap_epoch_id a = ep_id e) (approvals d)")
    case None
    then have "ep_id e \<notin> ap_epoch_id ` set (approvals d)" by (auto simp: find_None_iff)
    from approval_binds_fingerprint [OF assms True this, of E "by"] True None show ?thesis by simp
  next
    case (Some a)
    with find_Some_D [OF Some] approval_idempotent [OF assms True, of a E "by"] True show ?thesis by simp
  qed
qed

end
