(* ===== verification/Capability.thy ===== *)
theory Capability
  imports Environment Messages
begin

text \<open>
  \<open>orchestrator/app/capability.py\<close>: the short-lived token that lets an agent execute one epoch. The
  token carries the seven fields of its scope; verification compares each of them with the scope
  the caller expects.
\<close>

section \<open>Issuing and verifying\<close>

record capability_scope =
  sc_epoch_id :: ustr
  sc_actor_type :: ustr
  sc_actor_id :: ustr
  sc_project :: ustr
  sc_environment :: ustr
  sc_action :: ustr
  sc_fingerprint :: ustr

definition capability_payload :: "capability_scope \<Rightarrow> ustr \<Rightarrow> int \<Rightarrow> int \<Rightarrow> (ustr \<times> view) list" where
  "capability_payload scope jti now expires =
     [(u ''ver'', VInt 1),
      (u ''jti'', VStr jti),
      (u ''typ'', VStr (u ''epochdeploy-capability'')),
      (u ''epoch_id'', VStr (sc_epoch_id scope)),
      (u ''actor_type'', VStr (sc_actor_type scope)),
      (u ''actor_id'', VStr (sc_actor_id scope)),
      (u ''project'', VStr (sc_project scope)),
      (u ''environment'', VStr (sc_environment scope)),
      (u ''action'', VStr (sc_action scope)),
      (u ''fingerprint'', VStr (sc_fingerprint scope)),
      (u ''iat'', VTime now),
      (u ''exp'', VTime expires)]"

text \<open>The result is the token, its identifier and its expiry.\<close>

definition issue_capability :: "env \<Rightarrow> capability_scope \<Rightarrow> int \<Rightarrow> ustr \<times> ustr \<times> int" where
  "issue_capability E scope ttl_seconds =
    (let now = clock E 1;
         expires = now + ttl_seconds * 1000000;
         jti = uuid4 E 0
     in (jwt_encode (jwt E) (capability_payload scope jti now expires) (capability_secret (cfg E)),
         jti, expires))"

definition expected_claims :: "capability_scope \<Rightarrow> (ustr \<times> ustr) list" where
  "expected_claims expected =
     [(u ''typ'', u ''epochdeploy-capability''),
      (u ''epoch_id'', sc_epoch_id expected),
      (u ''actor_type'', sc_actor_type expected),
      (u ''actor_id'', sc_actor_id expected),
      (u ''project'', sc_project expected),
      (u ''environment'', sc_environment expected),
      (u ''action'', sc_action expected),
      (u ''fingerprint'', sc_fingerprint expected)]"

definition check_claims :: "(ustr \<times> json) list \<Rightarrow> capability_scope \<Rightarrow> (ustr \<times> json) list res" where
  "check_claims claims expected =
    (case find (\<lambda>(key, value). map_of claims key \<noteq> Some (JStr value)) (expected_claims expected) of
       Some (key, _) \<Rightarrow> Inl (CapabilityError (msg_cap_scope_prefix @ key))
     | None \<Rightarrow>
         if \<not> (case map_of claims (u ''ver'') of Some j \<Rightarrow> py_eq_one j | None \<Rightarrow> False) \<or>
            \<not> (case map_of claims (u ''jti'') of Some j \<Rightarrow> py_truthy j | None \<Rightarrow> False)
         then Inl (CapabilityError msg_cap_unsupported)
         else Inr claims)"

definition verify_capability ::
  "env \<Rightarrow> int \<Rightarrow> ustr \<Rightarrow> capability_scope \<Rightarrow> (ustr \<times> json) list res" where
  "verify_capability E now token expected =
    (case jwt_decode (jwt E) now token (capability_secret (cfg E)) of
       Inl ExpiredSignatureError \<Rightarrow> Inl (CapabilityError msg_cap_expired)
     | Inl OtherPyJWTError \<Rightarrow> Inl (CapabilityError msg_cap_signature)
     | Inr claims \<Rightarrow> check_claims claims expected)"

section \<open>What verification establishes\<close>

definition claims_match :: "(ustr \<times> json) list \<Rightarrow> capability_scope \<Rightarrow> bool" where
  "claims_match claims s \<longleftrightarrow>
     map_of claims (u ''typ'') = Some (JStr (u ''epochdeploy-capability'')) \<and>
     map_of claims (u ''epoch_id'') = Some (JStr (sc_epoch_id s)) \<and>
     map_of claims (u ''actor_type'') = Some (JStr (sc_actor_type s)) \<and>
     map_of claims (u ''actor_id'') = Some (JStr (sc_actor_id s)) \<and>
     map_of claims (u ''project'') = Some (JStr (sc_project s)) \<and>
     map_of claims (u ''environment'') = Some (JStr (sc_environment s)) \<and>
     map_of claims (u ''action'') = Some (JStr (sc_action s)) \<and>
     map_of claims (u ''fingerprint'') = Some (JStr (sc_fingerprint s))"

lemma check_claims_Inr:
  "check_claims claims s = Inr c \<longleftrightarrow> c = claims \<and> claims_match claims s \<and>
     (\<exists>j. map_of claims (u ''ver'') = Some j \<and> py_eq_one j) \<and>
     (\<exists>j. map_of claims (u ''jti'') = Some j \<and> py_truthy j)"
proof -
  have "find (\<lambda>(key, value). map_of claims key \<noteq> Some (JStr value)) (expected_claims s) = None
      \<longleftrightarrow> claims_match claims s"
    by (simp add: find_None_iff expected_claims_def claims_match_def)
  then show ?thesis
    by (auto simp: check_claims_def split: option.splits if_splits)
qed

lemma claims_match_unique: "claims_match claims s \<Longrightarrow> claims_match claims t \<Longrightarrow> s = t"
  by (cases s; cases t) (simp add: claims_match_def)

lemma verify_capability_Inr:
  "verify_capability E now token s = Inr claims \<longleftrightarrow>
     jwt_decode (jwt E) now token (capability_secret (cfg E)) = Inr claims \<and>
     check_claims claims s = Inr claims"
  by (auto simp: verify_capability_def check_claims_Inr split: sum.splits jwt_failure.splits)

text \<open>Every failure is a \<open>CapabilityError\<close>, the exception the callers handle.\<close>

lemma verify_capability_Inl: "verify_capability E now token s = Inl e \<Longrightarrow> \<exists>m. e = CapabilityError m"
  by (auto simp: verify_capability_def check_claims_def split: sum.splits jwt_failure.splits
      option.splits if_splits)

lemma payload_claims_match: "claims_match (jwt_claims (capability_payload s jti now expires)) s"
  by (simp add: claims_match_def map_of_jwt_claims capability_payload_def)

lemma payload_claims_checked:
  "jti \<noteq> [] \<Longrightarrow> check_claims (jwt_claims (capability_payload s jti now expires)) s =
     Inr (jwt_claims (capability_payload s jti now expires))"
  by (simp add: check_claims_Inr payload_claims_match)
     (simp add: map_of_jwt_claims capability_payload_def)

text \<open>The token is live from its issue to the last whole second before its expiry.\<close>

lemma payload_live:
  "jwt_live (capability_payload s jti now expires) t \<longleftrightarrow>
     t < (expires div 1000000) * 1000000 \<and> (now div 1000000) * 1000000 \<le> t"
  by (simp add: jwt_live_def capability_payload_def)

lemma issued_verifies:
  assumes "jti \<noteq> []" and "now \<le> t" and "t < (expires div 1000000) * 1000000"
    and "jwt_returns_claims (jwt E) (capability_payload s jti now expires) (capability_secret (cfg E)) t"
  shows "verify_capability E t
      (jwt_encode (jwt E) (capability_payload s jti now expires) (capability_secret (cfg E))) s =
    Inr (jwt_claims (capability_payload s jti now expires))"
proof -
  have "(now div 1000000) * 1000000 \<le> now" by simp
  with assms(2,3) have "jwt_live (capability_payload s jti now expires) t"
    by (simp add: payload_live)
  with assms(4) show ?thesis
    by (simp add: jwt_returns_claims_def verify_capability_Inr payload_claims_checked [OF assms(1)])
qed

lemma payload_jti [simp]:
  "map_of (jwt_claims (capability_payload s jti now expires)) (u ''jti'') = Some (JStr jti)"
  by (simp add: map_of_jwt_claims capability_payload_def)

section \<open>Properties\<close>

text \<open>
  C17: A capability that was issued verifies for its own scope from the second of its issue until
  the last whole second before its expiry. Assumed of PyJWT: a live token decodes, with the key it was
  encoded with, to the claims that were encoded.
\<close>

theorem capability_roundtrip:
  assumes "issue_capability E scope ttl = (token, jti, expires)" and "jti \<noteq> []"
    and "jwt_returns_claims (jwt E) (capability_payload scope jti (clock E 1) expires)
      (capability_secret (cfg E)) now"
    and "clock E 1 \<le> now" and "now < (expires div 1000000) * 1000000"
  shows "\<exists>claims. verify_capability E now token scope = Inr claims \<and>
    map_of claims (u ''jti'') = Some (JStr jti) \<and> expires = clock E 1 + ttl * 1000000"
proof -
  from assms(1) have "token = jwt_encode (jwt E)
      (capability_payload scope jti (clock E 1) expires) (capability_secret (cfg E))"
    "expires = clock E 1 + ttl * 1000000"
    by (auto simp: issue_capability_def Let_def)
  with issued_verifies [OF assms(2,4,5,3)] show ?thesis by simp
qed

text \<open>
  C16: A token is good for one scope only. Where it verifies for the scope s, it is refused for every
  other scope, with the name of a claim in which the two scopes differ.
\<close>

theorem capability_single_scope:
  assumes "verify_capability E now token s = Inr claims" and "t \<noteq> s"
  shows "\<exists>k v. (k, v) \<in> set (expected_claims t) \<and> (k, v) \<notin> set (expected_claims s) \<and>
    verify_capability E now token t = Inl (CapabilityError (msg_cap_scope_prefix @ k))"
proof -
  let ?bad = "\<lambda>(key, value). map_of claims key \<noteq> Some (JStr value)"
  from assms(1) have dec: "jwt_decode (jwt E) now token (capability_secret (cfg E)) = Inr claims"
    and s: "claims_match claims s"
    by (auto simp: verify_capability_Inr check_claims_Inr)
  from s have all: "\<forall>(k, v) \<in> set (expected_claims s). map_of claims k = Some (JStr v)"
    by (simp add: claims_match_def expected_claims_def)
  from s assms(2) have "\<not> claims_match claims t" using claims_match_unique by blast
  then have "find ?bad (expected_claims t) \<noteq> None"
    by (auto simp: find_None_iff expected_claims_def claims_match_def)
  then obtain k v where f: "find ?bad (expected_claims t) = Some (k, v)" by auto
  from find_Some_D [OF f] have "(k, v) \<in> set (expected_claims t)" "map_of claims k \<noteq> Some (JStr v)"
    by auto
  with all f dec show ?thesis
    by (intro exI [of _ k] exI [of _ v]) (auto simp: verify_capability_def check_claims_def)
qed

end
