(* ===== verification/Executor_Client.thy ===== *)
theory Executor_Client
  imports Capability Fingerprint
begin

text \<open>
  \<open>orchestrator/app/executor_client.py\<close>: the three clients of the execution boundary. The local one
  decides itself; the HTTP and the gRPC client sign their request and return what the remote
  executor answers. \<open>executor_client\<close> picks one by the setting \<open>executor_mode\<close>.

  The readings of the clock: 1 and 2 belong to the checks of \<open>services.py\<close>, 3 is the local client's
  verification of the capability, 4 the time stamp of a signed request.
\<close>

section \<open>Data\<close>

record executor_result =
  er_outcome :: ustr
  er_observed_fingerprint :: ustr
  er_reason :: ustr
  er_latency_ms :: int
  er_differences :: json

text \<open>The \<open>execution_context\<close> dictionary of an agent execution.\<close>

record exec_context =
  cx_epoch_id :: ustr
  cx_actor_type :: ustr
  cx_actor_id :: ustr
  cx_action :: ustr
  cx_approved_fingerprint :: ustr
  cx_capability_token :: ustr
  cx_policy_decision :: ustr
  cx_policy_rule :: ustr

definition difference_json :: "difference \<Rightarrow> json" where
  "difference_json d = JObj [(u ''field'', JStr (df_field d)), (u ''expected'', JStr (df_expected d)),
     (u ''observed'', JStr (df_observed d))]"

definition identity_json :: "identity \<Rightarrow> json" where
  "identity_json i = JObj (map (\<lambda>k. (field_name k, JStr (ident_get i k))) FIELDS)"

definition context_json :: "exec_context \<Rightarrow> json" where
  "context_json c = JObj
     [(u ''epoch_id'', JStr (cx_epoch_id c)),
      (u ''actor_type'', JStr (cx_actor_type c)),
      (u ''actor_id'', JStr (cx_actor_id c)),
      (u ''action'', JStr (cx_action c)),
      (u ''approved_fingerprint'', JStr (cx_approved_fingerprint c)),
      (u ''capability_token'', JStr (cx_capability_token c)),
      (u ''policy_decision'', JStr (cx_policy_decision c)),
      (u ''policy_rule'', JStr (cx_policy_rule c))]"

section \<open>The local client\<close>

definition context_scope :: "exec_context \<Rightarrow> identity \<Rightarrow> capability_scope" where
  "context_scope c expected =
     \<lparr>sc_epoch_id = cx_epoch_id c, sc_actor_type = cx_actor_type c, sc_actor_id = cx_actor_id c,
      sc_project = project expected, sc_environment = environment expected,
      sc_action = cx_action c, sc_fingerprint = cx_approved_fingerprint c\<rparr>"

definition local_check :: "env \<Rightarrow> identity \<Rightarrow> exec_context option \<Rightarrow> unit res" where
  "local_check E expected context =
    (case context of
       None \<Rightarrow> Inr ()
     | Some c \<Rightarrow>
         if cx_actor_type c = u ''ai_agent'' then
           (case verify_capability E (clock E 3) (cx_capability_token c) (context_scope c expected) of
              Inl (CapabilityError m) \<Rightarrow> Inl (ExecutorBoundaryError m)
            | Inl e \<Rightarrow> Inl e
            | Inr _ \<Rightarrow> Inr ())
         else Inr ())"

definition local_execute ::
  "env \<Rightarrow> identity \<Rightarrow> identity \<Rightarrow> exec_context option \<Rightarrow> executor_result res" where
  "local_execute E expected observed context =
    res_bind (local_check E expected context) (\<lambda>_.
      let expected_fp = fingerprint expected;
          observed_fp = fingerprint observed;
          diffs = diff_identity expected observed;
          diffs_json = JArr (map difference_json diffs)
      in Inr (if expected_fp \<noteq> observed_fp then
           \<lparr>er_outcome = u ''DENIED_STALE'', er_observed_fingerprint = observed_fp,
            er_reason = msg_stale_prefix @ join_with (u '', '') (map df_field diffs),
            er_latency_ms = latency E, er_differences = diffs_json\<rparr>
         else
           \<lparr>er_outcome = u ''EXECUTED'', er_observed_fingerprint = observed_fp,
            er_reason = msg_identity_match,
            er_latency_ms = latency E, er_differences = diffs_json\<rparr>))"

definition local_observe :: "identity \<Rightarrow> unit res" where
  "local_observe identity = Inr ()"

section \<open>The HTTP client\<close>

definition rstrip_slash :: "ustr \<Rightarrow> ustr" where
  "rstrip_slash s = rev (dropWhile (\<lambda>c. c = 47) (rev s))"

text \<open>The text that is signed: the time stamp, a dot and the body.\<close>

definition http_signature :: "ustr \<Rightarrow> ustr \<Rightarrow> bytes \<Rightarrow> ustr" where
  "http_signature secret timestamp body =
     u ''sha256='' @ hmac_sha256_hex (utf8 secret) (utf8 timestamp @ [46] @ body)"

definition signed_post :: "env \<Rightarrow> ustr \<Rightarrow> json \<Rightarrow> json res" where
  "signed_post E path payload =
    (let body = utf8 (json_dumps payload);
         timestamp = int_str (clock E 4 div 1000000);
         headers = [(u ''Content-Type'', u ''application/json''),
                    (u ''X-EpochDeploy-Timestamp'', timestamp),
                    (u ''X-EpochDeploy-Signature'',
                      http_signature (executor_hmac_secret (cfg E)) timestamp body)]
     in case http_post E (rstrip_slash (executor_url (cfg E)) @ path) body headers of
          HttpFailure \<Rightarrow> Inl (ExecutorBoundaryError msg_boundary_failed)
        | HttpResponse status content \<Rightarrow>
            if status < 200 \<or> 300 \<le> status then Inl (ExecutorBoundaryError msg_boundary_failed)
            else (case content of
                    None \<Rightarrow> Inl (ExecutorBoundaryError msg_boundary_failed)
                  | Some data \<Rightarrow> Inr data))"

definition http_observe :: "env \<Rightarrow> identity \<Rightarrow> unit res" where
  "http_observe E identity =
     res_bind (signed_post E (u ''/v1/targets/observe'') (JObj [(u ''identity'', identity_json identity)]))
       (\<lambda>_. Inr ())"

text \<open>
  \<open>data[key]\<close>, outside the \<open>try\<close> of \<open>_signed_post\<close>: a missing key is a KeyError, anything but an
  object a TypeError. A value that is not a string would only be refused later, by the database
  driver or the response model; the model refuses it here, also with a TypeError.
\<close>

definition subscript_str :: "json \<Rightarrow> ustr \<Rightarrow> ustr res" where
  "subscript_str data key =
    (case data of
       JObj kvs \<Rightarrow> (case map_of kvs key of
           None \<Rightarrow> Inl (KeyError key)
         | Some (JStr s) \<Rightarrow> Inr s
         | Some _ \<Rightarrow> Inl TypeError)
     | _ \<Rightarrow> Inl TypeError)"

definition get_differences :: "json \<Rightarrow> json" where
  "get_differences data =
    (case data of
       JObj kvs \<Rightarrow> (case map_of kvs (u ''differences'') of None \<Rightarrow> JArr [] | Some j \<Rightarrow> j)
     | _ \<Rightarrow> JArr [])"

definition http_execute ::
  "env \<Rightarrow> identity \<Rightarrow> identity \<Rightarrow> exec_context option \<Rightarrow> executor_result res" where
  "http_execute E expected observed context =
    (let payload = JObj ((u ''expected'', identity_json expected) #
           (case context of None \<Rightarrow> [] | Some c \<Rightarrow> [(u ''context'', context_json c)]))
     in res_bind (signed_post E (u ''/v1/execute'') payload) (\<lambda>data.
        res_bind (subscript_str data (u ''outcome'')) (\<lambda>outcome.
        res_bind (subscript_str data (u ''observed_fingerprint'')) (\<lambda>observed_fp.
        res_bind (subscript_str data (u ''reason'')) (\<lambda>reason.
        Inr \<lparr>er_outcome = outcome, er_observed_fingerprint = observed_fp, er_reason = reason,
             er_latency_ms = latency E, er_differences = get_differences data\<rparr>)))))"

section \<open>The gRPC client\<close>

definition grpc_health_method :: ustr where
  "grpc_health_method = u ''/epochdeploy.executor.v1.Executor/Health''"

definition grpc_observe_method :: ustr where
  "grpc_observe_method = u ''/epochdeploy.executor.v1.Executor/Observe''"

definition grpc_execute_method :: ustr where
  "grpc_execute_method = u ''/epochdeploy.executor.v1.Executor/Execute''"

definition grpc_metadata :: "env \<Rightarrow> ustr \<Rightarrow> pb_request \<Rightarrow> (ustr \<times> ustr) list" where
  "grpc_metadata E rpc_method request =
    (let body = pb_serialize E request;
         timestamp = int_str (clock E 4 div 1000000);
         mac = hmac_sha256_hex (utf8 (executor_hmac_secret (cfg E)))
                 (utf8 timestamp @ [46] @ utf8 rpc_method @ [46] @ body)
     in [(u ''x-epochdeploy-timestamp'', timestamp),
         (u ''x-epochdeploy-signature'', u ''sha256='' @ mac)])"

definition pb_identity_of :: "identity \<Rightarrow> pb_identity" where
  "pb_identity_of i =
     \<lparr>pb_project = project i, pb_environment = environment i, pb_commit_sha = commit_sha i,
      pb_artifact_digest = artifact_digest i, pb_config_hash = config_hash i\<rparr>"

definition pb_context_of :: "exec_context option \<Rightarrow> pb_context option" where
  "pb_context_of context =
    (case context of
       None \<Rightarrow> None
     | Some c \<Rightarrow> Some
        \<lparr>pb_epoch_id = cx_epoch_id c, pb_actor_type = cx_actor_type c, pb_actor_id = cx_actor_id c,
         pb_action = cx_action c, pb_approved_fingerprint = cx_approved_fingerprint c,
         pb_capability_token = cx_capability_token c, pb_policy_decision = cx_policy_decision c,
         pb_policy_rule = cx_policy_rule c\<rparr>)"

definition grpc_client_observe :: "env \<Rightarrow> identity \<Rightarrow> unit res" where
  "grpc_client_observe E identity =
    (let request = ObserveRequest (pb_identity_of identity)
     in case grpc_observe E (executor_grpc_target (cfg E)) request
              (grpc_metadata E grpc_observe_method request) of
          RpcError code details \<Rightarrow>
            Inl (ExecutorBoundaryError (msg_grpc_observe_prefix @ code @ u '': '' @ details))
        | RpcOk _ \<Rightarrow> Inr ())"

definition pb_difference_json :: "pb_difference \<Rightarrow> json" where
  "pb_difference_json item = JObj [(u ''field'', JStr (pb_field item)),
     (u ''expected'', JStr (pb_expected item)), (u ''observed'', JStr (pb_observed item))]"

definition grpc_client_execute ::
  "env \<Rightarrow> identity \<Rightarrow> identity \<Rightarrow> exec_context option \<Rightarrow> executor_result res" where
  "grpc_client_execute E expected observed context =
    (let request = ExecuteRequest (pb_identity_of expected) (pb_context_of context)
     in case grpc_execute E (executor_grpc_target (cfg E)) request
              (grpc_metadata E grpc_execute_method request) of
          RpcError code details \<Rightarrow>
            Inl (ExecutorBoundaryError (msg_grpc_execute_prefix @ code @ u '': '' @ details))
        | RpcOk response \<Rightarrow> Inr
            \<lparr>er_outcome = pb_outcome response,
             er_observed_fingerprint = pb_observed_fingerprint response,
             er_reason = pb_reason response,
             er_latency_ms = latency E,
             er_differences = JArr (map pb_difference_json (pb_differences response))\<rparr>)"

section \<open>Choosing a client\<close>

datatype executor_kind = GRPCExecutorClient | HTTPExecutorClient | LocalExecutorClient

definition executor_client :: "env \<Rightarrow> executor_kind" where
  "executor_client E =
    (if executor_mode (cfg E) = u ''grpc'' then GRPCExecutorClient
     else if executor_mode (cfg E) = u ''http'' then HTTPExecutorClient
     else LocalExecutorClient)"

fun client_observe :: "executor_kind \<Rightarrow> env \<Rightarrow> identity \<Rightarrow> unit res" where
  "client_observe GRPCExecutorClient E identity = grpc_client_observe E identity"
| "client_observe HTTPExecutorClient E identity = http_observe E identity"
| "client_observe LocalExecutorClient E identity = local_observe identity"

fun client_execute ::
  "executor_kind \<Rightarrow> env \<Rightarrow> identity \<Rightarrow> identity \<Rightarrow> exec_context option \<Rightarrow> executor_result res" where
  "client_execute GRPCExecutorClient E expected observed context =
     grpc_client_execute E expected observed context"
| "client_execute HTTPExecutorClient E expected observed context =
     http_execute E expected observed context"
| "client_execute LocalExecutorClient E expected observed context =
     local_execute E expected observed context"

text \<open>
  \<open>executor_runtime_info()\<close>: the pair of the implementation and the transport. In HTTP mode a
  health answer that is JSON but no object makes \<open>data.get\<close> raise.
\<close>

definition executor_runtime_info :: "env \<Rightarrow> (ustr \<times> ustr) res" where
  "executor_runtime_info E =
    (if executor_mode (cfg E) = u ''grpc'' then
       (case grpc_health E (executor_grpc_target (cfg E)) of
          RpcError _ _ \<Rightarrow> Inr (u ''unavailable'', u ''grpc'')
        | RpcOk response \<Rightarrow> Inr
            (if pb_implementation response = [] then u ''unknown'' else pb_implementation response,
             if pb_transport response = [] then u ''grpc'' else pb_transport response))
     else if executor_mode (cfg E) = u ''http'' then
       (case http_get E (rstrip_slash (executor_url (cfg E)) @ u ''/healthz'') of
          HttpFailure \<Rightarrow> Inr (u ''unavailable'', u ''http-json'')
        | HttpResponse status content \<Rightarrow>
            if status < 200 \<or> 300 \<le> status then Inr (u ''unavailable'', u ''http-json'')
            else (case content of
                None \<Rightarrow> Inr (u ''unavailable'', u ''http-json'')
              | Some (JObj kvs) \<Rightarrow> Inr
                  (case map_of kvs (u ''implementation'') of
                     Some j \<Rightarrow> if py_truthy j then py_str E j else u ''unknown''
                   | None \<Rightarrow> u ''unknown'',
                   u ''http-json'')
              | Some _ \<Rightarrow> Inl AttributeError))
     else Inr (u ''local'', u ''local''))"

definition executor_implementation :: "env \<Rightarrow> ustr res" where
  "executor_implementation E = res_bind (executor_runtime_info E) (\<lambda>info. Inr (fst info))"

definition executor_transport :: "env \<Rightarrow> ustr res" where
  "executor_transport E = res_bind (executor_runtime_info E) (\<lambda>info. Inr (snd info))"

section \<open>The contract of the boundary\<close>

text \<open>
  What the services rely on when they run an epoch through a client: the outcome is one of two
  values, it is EXECUTED exactly when the observed fingerprint is the one of the expected release,
  and an agent's execution is only decided under a capability for its own scope.
\<close>

locale executor_boundary =
  fixes execute :: "env \<Rightarrow> identity \<Rightarrow> identity \<Rightarrow> exec_context option \<Rightarrow> executor_result res"
  assumes outcome_cases: "execute E e ob c = Inr r \<Longrightarrow>
      er_outcome r = u ''EXECUTED'' \<or> er_outcome r = u ''DENIED_STALE''"
    and executed_iff: "execute E e ob c = Inr r \<Longrightarrow>
      er_outcome r = u ''EXECUTED'' \<longleftrightarrow> er_observed_fingerprint r = fingerprint e"
    and observed_fp: "execute E e ob c = Inr r \<Longrightarrow> er_observed_fingerprint r = fingerprint ob"
    and agent_checked: "execute E e ob (Some cx) = Inr r \<Longrightarrow> cx_actor_type cx = u ''ai_agent'' \<Longrightarrow>
      \<exists>now claims. verify_capability E now (cx_capability_token cx) (context_scope cx e) = Inr claims"
begin

lemma executed_identity:
  assumes "execute E e ob c = Inr r" and "er_outcome r = u ''EXECUTED''" and "no_collision e ob"
  shows "canonical_identity e = canonical_identity ob"
proof -
  from assms(1,2) have "fingerprint e = fingerprint ob"
    using executed_iff observed_fp by metis
  with assms(3) show ?thesis by (simp add: fingerprint_eq_iff)
qed

lemma drift_denied:
  assumes "execute E e ob c = Inr r" and "no_collision e ob"
    and "canonical_identity e \<noteq> canonical_identity ob"
  shows "er_outcome r = u ''DENIED_STALE''"
  using executed_identity [OF assms(1) _ assms(2)] outcome_cases [OF assms(1)] assms(3) by blast

lemma no_drift_executed:
  assumes "execute E e ob c = Inr r" and "canonical_identity e = canonical_identity ob"
  shows "er_outcome r = u ''EXECUTED''"
  using executed_iff [OF assms(1)] observed_fp [OF assms(1)] fingerprint_canonical [OF assms(2)]
  by simp

end

lemma local_check_cases:
  "local_check E e c = Inl err \<Longrightarrow> \<exists>m. err = ExecutorBoundaryError m"
  by (auto simp: local_check_def split: option.splits sum.splits if_splits py_error.splits
      dest: verify_capability_Inl)

lemma local_execute_Inr:
  "local_execute E e ob c = Inr r \<longleftrightarrow> local_check E e c = Inr () \<and>
    r = \<lparr>er_outcome = (if fingerprint e = fingerprint ob then u ''EXECUTED'' else u ''DENIED_STALE''),
         er_observed_fingerprint = fingerprint ob,
         er_reason = (if fingerprint e = fingerprint ob then msg_identity_match
           else msg_stale_prefix @ join_with (u '', '') (map df_field (diff_identity e ob))),
         er_latency_ms = latency E,
         er_differences = JArr (map difference_json (diff_identity e ob))\<rparr>"
  by (auto simp: local_execute_def res_bind_Inr_iff Let_def)

lemma local_execute_Inl:
  "local_execute E e ob c = Inl err \<Longrightarrow> \<exists>m. err = ExecutorBoundaryError m"
  using local_check_cases [of E e c]
  by (cases "local_check E e c") (auto simp: local_execute_def Let_def)

interpretation local_client: executor_boundary local_execute
proof
  fix E e ob c r
  assume r: "local_execute E e ob c = Inr r"
  show "er_outcome r = u ''EXECUTED'' \<or> er_outcome r = u ''DENIED_STALE''"
    using r by (simp add: local_execute_Inr)
  show "er_outcome r = u ''EXECUTED'' \<longleftrightarrow> er_observed_fingerprint r = fingerprint e"
    using r by (auto simp: local_execute_Inr)
  show "er_observed_fingerprint r = fingerprint ob"
    using r by (simp add: local_execute_Inr)
next
  fix E e ob c r
  assume "local_execute E e ob (Some c) = Inr r" and "cx_actor_type c = u ''ai_agent''"
  then have "local_check E e (Some c) = Inr ()" by (simp add: local_execute_Inr)
  with \<open>cx_actor_type c = u ''ai_agent''\<close>
  show "\<exists>now claims. verify_capability E now (cx_capability_token c) (context_scope c e) = Inr claims"
    by (auto simp: local_check_def split: sum.splits py_error.splits)
qed

text \<open>The HTTP and gRPC clients report a failure of the transport as the error the services handle.\<close>

lemma grpc_execute_Inl:
  "grpc_client_execute E e ob c = Inl err \<Longrightarrow> \<exists>m. err = ExecutorBoundaryError m"
  by (auto simp: grpc_client_execute_def Let_def split: rpc_result.splits)

lemma signed_post_Inl: "signed_post E path p = Inl err \<Longrightarrow> err = ExecutorBoundaryError msg_boundary_failed"
  by (auto simp: signed_post_def Let_def split: http_result.splits if_splits option.splits)

lemma client_observe_Inl: "client_observe k E i = Inl err \<Longrightarrow> \<exists>m. err = ExecutorBoundaryError m"
proof (cases k)
  case HTTPExecutorClient
  assume "client_observe k E i = Inl err"
  with HTTPExecutorClient show ?thesis
    by (cases "signed_post E (u ''/v1/targets/observe'') (JObj [(u ''identity'', identity_json i)])")
      (auto simp: http_observe_def dest: signed_post_Inl)
qed (auto simp: grpc_client_observe_def local_observe_def Let_def split: rpc_result.splits)

end
