(* ===== verification/Policy.thy ===== *)
theory Policy
  imports Py_Str Messages
begin

text \<open>
  \<open>orchestrator/app/policy.py\<close>: the deterministic policy engine that the dry-run route and the
  capability gate share. The decision is one of the strings ALLOW, ASK and DENY; the order
  \<open>Deny < Ask < Allow\<close> on \<open>verdict\<close> compares decisions by how much they permit.
\<close>

section \<open>The engine\<close>

record policy_decision =
  pd_decision :: ustr
  pd_rule_id :: ustr
  pd_reason :: ustr
  pd_required_controls :: "ustr list"

definition evaluate_policy :: "ustr \<Rightarrow> ustr \<Rightarrow> ustr \<Rightarrow> policy_decision" where
  "evaluate_policy actor_type action environment =
    (let actor = py_lower (py_strip actor_type);
         act = py_lower (py_strip action);
         env = py_lower (py_strip environment)
     in
     if act \<in> {u ''delete'', u ''destroy'', u ''drop'', u ''purge''} then
       \<lparr>pd_decision = u ''DENY'',
        pd_rule_id = u ''deny-destructive-action'',
        pd_reason = msg_policy_destructive,
        pd_required_controls = [u ''manual-operator'']\<rparr>
     else if act \<in> {u ''read'', u ''inspect'', u ''status''} then
       \<lparr>pd_decision = u ''ALLOW'',
        pd_rule_id = u ''allow-readonly'',
        pd_reason = msg_policy_readonly,
        pd_required_controls = []\<rparr>
     else if actor = u ''ai_agent'' \<and> env \<in> {u ''prod'', u ''production''} \<and>
             act \<in> {u ''deploy'', u ''write'', u ''promote''} then
       \<lparr>pd_decision = u ''ASK'',
        pd_rule_id = u ''ask-agent-production-write'',
        pd_reason = msg_policy_agent_prod,
        pd_required_controls = [u ''verified-pipeline'', u ''human-approval'', u ''scoped-capability'']\<rparr>
     else if actor = u ''ai_agent'' \<and>
             env \<in> {u ''dev'', u ''development'', u ''staging'', u ''stage''} \<and>
             act \<in> {u ''deploy'', u ''write'', u ''promote''} then
       \<lparr>pd_decision = u ''ALLOW'',
        pd_rule_id = u ''allow-agent-nonprod-write'',
        pd_reason = msg_policy_agent_nonprod,
        pd_required_controls = [u ''verified-pipeline'', u ''scoped-capability'']\<rparr>
     else
       \<lparr>pd_decision = u ''ASK'',
        pd_rule_id = u ''ask-default-mutating-action'',
        pd_reason = msg_policy_default,
        pd_required_controls = [u ''human-approval'']\<rparr>)"

section \<open>Decisions ordered by permissiveness\<close>

datatype verdict = Deny | Ask | Allow

fun verdict_rank :: "verdict \<Rightarrow> nat" where
  "verdict_rank Deny = 0"
| "verdict_rank Ask = 1"
| "verdict_rank Allow = 2"

lemma verdict_rank_inj [simp]: "verdict_rank a = verdict_rank b \<longleftrightarrow> a = b"
  by (cases a; cases b) simp_all

instantiation verdict :: linorder
begin

definition less_eq_verdict :: "verdict \<Rightarrow> verdict \<Rightarrow> bool" where
  "a \<le> b \<longleftrightarrow> verdict_rank a \<le> verdict_rank b"

definition less_verdict :: "verdict \<Rightarrow> verdict \<Rightarrow> bool" where
  "a < b \<longleftrightarrow> verdict_rank a < verdict_rank b"

instance
  by standard (auto simp: less_eq_verdict_def less_verdict_def)

end

definition verdict_of :: "policy_decision \<Rightarrow> verdict" where
  "verdict_of p =
     (if pd_decision p = u ''DENY'' then Deny else if pd_decision p = u ''ASK'' then Ask else Allow)"

lemma Deny_le [simp]: "Deny \<le> v"
  by (cases v) (simp_all add: less_eq_verdict_def)

lemma le_Allow [simp]: "v \<le> Allow"
  by (cases v) (simp_all add: less_eq_verdict_def)

section \<open>What the engine decides\<close>

abbreviation normalized :: "ustr \<Rightarrow> ustr" where
  "normalized s \<equiv> py_lower (py_strip s)"

definition destructive_action :: "ustr \<Rightarrow> bool" where
  "destructive_action a \<longleftrightarrow> normalized a \<in> {u ''delete'', u ''destroy'', u ''drop'', u ''purge''}"

definition readonly_action :: "ustr \<Rightarrow> bool" where
  "readonly_action a \<longleftrightarrow> normalized a \<in> {u ''read'', u ''inspect'', u ''status''}"

definition write_action :: "ustr \<Rightarrow> bool" where
  "write_action a \<longleftrightarrow> normalized a \<in> {u ''deploy'', u ''write'', u ''promote''}"

definition nonprod_environment :: "ustr \<Rightarrow> bool" where
  "nonprod_environment e \<longleftrightarrow>
     normalized e \<in> {u ''dev'', u ''development'', u ''staging'', u ''stage''}"

definition prod_environment :: "ustr \<Rightarrow> bool" where
  "prod_environment e \<longleftrightarrow> normalized e \<in> {u ''prod'', u ''production''}"

lemmas action_class_defs = destructive_action_def readonly_action_def write_action_def
  nonprod_environment_def prod_environment_def

lemma decision_range:
  "pd_decision (evaluate_policy a act e) \<in> {u ''DENY'', u ''ASK'', u ''ALLOW''}"
  by (simp add: evaluate_policy_def Let_def)

lemma deny_iff: "pd_decision (evaluate_policy a act e) = u ''DENY'' \<longleftrightarrow> destructive_action act"
  by (simp add: evaluate_policy_def Let_def destructive_action_def)

lemma allow_iff:
  "pd_decision (evaluate_policy a act e) = u ''ALLOW'' \<longleftrightarrow>
     readonly_action act \<or>
     normalized a = u ''ai_agent'' \<and> nonprod_environment e \<and> write_action act"
  by (auto simp: evaluate_policy_def Let_def action_class_defs)

lemma ask_iff:
  "pd_decision (evaluate_policy a act e) = u ''ASK'' \<longleftrightarrow>
     \<not> destructive_action act \<and> pd_decision (evaluate_policy a act e) \<noteq> u ''ALLOW''"
proof -
  have "pd_decision (evaluate_policy a act e) = u ''ASK'' \<longleftrightarrow>
      pd_decision (evaluate_policy a act e) \<noteq> u ''DENY'' \<and>
      pd_decision (evaluate_policy a act e) \<noteq> u ''ALLOW''"
    using decision_range [of a act e] by auto
  then show ?thesis by (simp add: deny_iff)
qed

lemma prod_not_nonprod: "prod_environment e \<Longrightarrow> \<not> nonprod_environment e"
  by (auto simp: action_class_defs)

lemma verdict_of_cases:
  "verdict_of (evaluate_policy a act e) =
    (if destructive_action act then Deny
     else if readonly_action act \<or>
       normalized a = u ''ai_agent'' \<and> nonprod_environment e \<and> write_action act then Allow
     else Ask)"
  using deny_iff [of a act e] allow_iff [of a act e] decision_range [of a act e]
  by (auto simp: verdict_of_def)

text \<open>Only the stripped, lower-cased inputs matter.\<close>

lemma evaluate_policy_normalized:
  "evaluate_policy (normalized a) (normalized act) (normalized e) = evaluate_policy a act e"
proof -
  have "py_strip (normalized s) = normalized s" for s
  proof -
    have "is_py_space (lower_char c) = is_py_space c" for c
      by (auto simp: lower_char_def is_py_space_def is_rust_space_def)
    then have "dropWhile is_py_space (py_lower xs) = py_lower (dropWhile is_py_space xs)" for xs
      by (induction xs) (auto simp: py_lower_def)
    then have "py_strip (py_lower xs) = py_lower (py_strip xs)" for xs
      by (simp add: py_strip_def strip_by_def) (simp add: py_lower_def rev_map)
    then show ?thesis by simp
  qed
  then show ?thesis by (simp add: evaluate_policy_def)
qed

section \<open>Properties\<close>

text \<open>
  Production is the strictest environment: for the same actor and action no environment gets a
  less permissive decision than production.
\<close>

lemma production_strictest:
  assumes "prod_environment p"
  shows "verdict_of (evaluate_policy actor act p) \<le> verdict_of (evaluate_policy actor act env)"
  using prod_not_nonprod [OF assms] by (simp add: verdict_of_cases less_eq_verdict_def)

text \<open>
  An agent can never be allowed a write or an unknown action in production without a human:
  unless the action is read-only the decision there is ASK or DENY.
\<close>

lemma agent_production_needs_human:
  assumes "prod_environment env" and "\<not> readonly_action act"
  shows "pd_decision (evaluate_policy actor act env) \<in> {u ''ASK'', u ''DENY''}"
  using allow_iff [of actor act env] decision_range [of actor act env] prod_not_nonprod [OF assms(1)] assms(2)
  by auto

end
