(* ===== verification/Py_Lib.thy ===== *)
theory Py_Lib
  imports Py_Str
begin

text \<open>
  The two parts of Python's standard library that \<open>services.py\<close> writes into its rows:
  \<open>datetime.isoformat()\<close> of a UTC time and the paths of \<open>pathlib\<close>.
\<close>

section \<open>datetime.isoformat()\<close>

text \<open>Year, month and day of a day counted from 1 January 1970 (proleptic Gregorian calendar).\<close>

definition civil_from_days :: "int \<Rightarrow> int \<times> int \<times> int" where
  "civil_from_days days =
    (let z = days + 719468;
         era = z div 146097;
         doe = z mod 146097;
         yoe = (doe - doe div 1460 + doe div 36524 - doe div 146096) div 365;
         doy = doe - (365 * yoe + yoe div 4 - yoe div 100);
         mp = (5 * doy + 2) div 153;
         d = doy - (153 * mp + 2) div 5 + 1;
         m = (if mp < 10 then mp + 3 else mp - 9)
     in (yoe + era * 400 + (if m \<le> 2 then 1 else 0), m, d))"

text \<open>A number written with at least n digits.\<close>

definition padded :: "nat \<Rightarrow> int \<Rightarrow> ustr" where
  "padded n k = (let s = int_str k in replicate (n - length s) 48 @ s)"

definition isoformat :: "int \<Rightarrow> ustr" where
  "isoformat t =
    (let us = t mod 1000000;
         secs = t div 1000000;
         (y, m, d) = civil_from_days (secs div 86400);
         r = secs mod 86400
     in padded 4 y @ u ''-'' @ padded 2 m @ u ''-'' @ padded 2 d @ u ''T''
        @ padded 2 (r div 3600) @ u '':'' @ padded 2 (r mod 3600 div 60) @ u '':'' @ padded 2 (r mod 60)
        @ (if us = 0 then [] else u ''.'' @ padded 6 us)
        @ u ''+00:00'')"

section \<open>pathlib\<close>

text \<open>A path is its root and its parts; empty parts and \<open>.\<close> are dropped (the slash is code 47).\<close>

definition path_root :: "ustr \<Rightarrow> ustr" where
  "path_root s =
    (let n = length (takeWhile (\<lambda>c. c = 47) s)
     in if n = 0 then [] else if n = 2 then [47, 47] else [47])"

fun split_slash :: "ustr \<Rightarrow> ustr list" where
  "split_slash [] = [[]]"
| "split_slash (c # s) =
     (if c = 47 then [] # split_slash s
      else (case split_slash s of [] \<Rightarrow> [[c]] | w # ws \<Rightarrow> (c # w) # ws))"

definition path_parts :: "ustr \<Rightarrow> ustr list" where
  "path_parts s = filter (\<lambda>w. w \<noteq> [] \<and> w \<noteq> u ''.'') (split_slash s)"

definition path_str :: "ustr \<Rightarrow> ustr list \<Rightarrow> ustr" where
  "path_str root parts =
     (if root = [] \<and> parts = [] then u ''.'' else root @ join_with [47] parts)"

text \<open>\<open>str(Path(a) / b)\<close>: an absolute b replaces a.\<close>

definition path_join :: "ustr \<Rightarrow> ustr \<Rightarrow> ustr" where
  "path_join a b =
     (if path_root b \<noteq> [] then path_str (path_root b) (path_parts b)
      else path_str (path_root a) (path_parts a @ path_parts b))"

text \<open>\<open>Path(s).name\<close>: the last part, empty when there is none.\<close>

definition path_name :: "ustr \<Rightarrow> ustr" where
  "path_name s = (case rev (path_parts s) of [] \<Rightarrow> [] | w # _ \<Rightarrow> w)"

text \<open>No part of a path holds a slash, so a name cannot lead out of its directory by itself.\<close>

lemma split_slash_no_slash: "w \<in> set (split_slash s) \<Longrightarrow> 47 \<notin> set w"
proof (induction s arbitrary: w)
  case Nil
  then show ?case by simp
next
  case (Cons c s)
  then show ?case by (cases "split_slash s") (auto split: if_splits)
qed

lemma path_name_no_slash: "47 \<notin> set (path_name s)"
proof (cases "rev (path_parts s)")
  case Nil
  then show ?thesis by (simp add: path_name_def)
next
  case (Cons w ws)
  then have "w \<in> set (path_parts s)" by (metis list.set_intros(1) set_rev)
  then have "w \<in> set (split_slash s)" by (simp add: path_parts_def)
  then show ?thesis using split_slash_no_slash Cons by (simp add: path_name_def)
qed

lemma split_slash_append: "47 \<notin> set a \<Longrightarrow> split_slash (a @ 47 # b) = a # split_slash b"
  by (induction a) auto

lemma split_slash_single: "47 \<notin> set a \<Longrightarrow> split_slash a = [a]"
  by (induction a) auto

lemma path_parts_name: "47 \<notin> set a \<Longrightarrow> a \<noteq> [] \<Longrightarrow> a \<noteq> u ''.'' \<Longrightarrow> path_parts a = [a]"
  by (simp add: path_parts_def split_slash_single)

lemma path_root_name: "47 \<notin> set a \<Longrightarrow> path_root a = []"
  by (cases a) (auto simp: path_root_def)

text \<open>A name joined to a directory stays in this directory.\<close>

lemma path_join_name:
  "47 \<notin> set a \<Longrightarrow> a \<noteq> [] \<Longrightarrow> a \<noteq> u ''.'' \<Longrightarrow>
    path_join dir a = path_str (path_root dir) (path_parts dir @ [a])"
  by (simp add: path_join_def path_root_name path_parts_name)

text \<open>Writing a path and reading it again gives the same root and parts.\<close>

definition path_word :: "ustr \<Rightarrow> bool" where
  "path_word w \<longleftrightarrow> 47 \<notin> set w \<and> w \<noteq> [] \<and> w \<noteq> u ''.''"

lemma path_parts_words: "w \<in> set (path_parts s) \<Longrightarrow> path_word w"
  by (auto simp: path_parts_def path_word_def dest: split_slash_no_slash)

lemma split_slash_join:
  "list_all path_word ws \<Longrightarrow> ws \<noteq> [] \<Longrightarrow> split_slash (join_with [47] ws) = ws"
  by (induction "[47]::ustr" ws rule: join_with.induct)
    (auto simp: path_word_def split_slash_append split_slash_single)

lemma filter_words: "list_all path_word ws \<Longrightarrow> filter (\<lambda>w. w \<noteq> [] \<and> w \<noteq> u ''.'') ws = ws"
  by (induction ws) (auto simp: path_word_def)

lemma path_parts_join: "list_all path_word ws \<Longrightarrow> path_parts (join_with [47] ws) = ws"
  by (cases "ws = []") (auto simp: path_parts_def split_slash_join filter_words)

lemma path_parts_slash [simp]: "path_parts (47 # s) = path_parts s"
  by (simp add: path_parts_def)

lemma path_root_cases: "path_root s = [] \<or> path_root s = [47] \<or> path_root s = [47, 47]"
  by (simp add: path_root_def Let_def)

lemma join_head: "list_all path_word ws \<Longrightarrow> takeWhile (\<lambda>c. c = 47) (join_with [47] ws) = []"
  by (induction "[47]::ustr" ws rule: join_with.induct) (auto simp: path_word_def neq_Nil_conv)

lemma path_str_roundtrip:
  assumes "list_all path_word ws"
  shows "path_parts (path_str (path_root s) ws) = ws" "path_root (path_str (path_root s) ws) = path_root s"
proof -
  have dot: "path_parts (u ''.'') = []" "path_root (u ''.'') = []"
    by (simp_all add: path_parts_def path_root_def u_def)
  show "path_parts (path_str (path_root s) ws) = ws"
    using path_root_cases [of s] path_parts_join [OF assms] dot by (auto simp: path_str_def)
  show "path_root (path_str (path_root s) ws) = path_root s"
  proof (cases "path_root s = [] \<and> ws = []")
    case True
    with dot show ?thesis by (simp add: path_str_def)
  next
    case False
    with path_root_cases [of s] show ?thesis
      by (auto simp: path_str_def path_root_def [of "_ @ _"] path_root_def [of "_ # _"]
          path_root_def [of "join_with _ _"] join_head [OF assms])
  qed
qed

lemma path_join_word:
  "path_word a \<Longrightarrow> path_join dir a = path_str (path_root dir) (path_parts dir @ [a])"
  by (simp add: path_word_def path_join_name)

lemma path_join_words:
  assumes "path_word a" "path_word b"
  shows "path_join (path_join dir a) b = path_str (path_root dir) (path_parts dir @ [a, b])"
proof -
  have "list_all path_word (path_parts dir @ [a])"
    using assms by (auto simp: list_all_iff path_parts_words)
  with assms show ?thesis by (simp add: path_join_word path_str_roundtrip)
qed

end
