(* ===== verification/Grants.thy ===== *)
theory Grants
  imports Lifecycle Executor_Client Policy Py_Lib
begin

text \<open>
  \<open>orchestrator/app/services.py\<close>, second part: an agent asks for a capability, and presents it.
\<close>

section \<open>Issuing a capability\<close>

definition agent_scope :: "epoch_row \<Rightarrow> change_row \<Rightarrow> capability_scope" where
  "agent_scope epoch change =
     \<lparr>sc_epoch_id = ep_id epoch,
      sc_actor_type = cr_actor_type change,
      sc_actor_id = cr_actor_id change,
      sc_project = ep_project epoch,
      sc_environment = ep_environment epoch,
      sc_action = cr_action change,
      sc_fingerprint = ep_fingerprint epoch\<rparr>"

text \<open>The event of the decision, recorded before the decision is acted on.\<close>

definition record_policy ::
  "env \<Rightarrow> db \<Rightarrow> epoch_row \<Rightarrow> change_row \<Rightarrow> policy_decision \<Rightarrow> db" where
  "record_policy E d locked change decision =
     record_event (stamp E) d (ep_id locked) (u ''POLICY_EVALUATED'') (u ''system'') (u ''policy-engine'')
       (msg_policy_decision_prefix @ pd_decision decision @ u '': '' @ pd_reason decision)
       (JObj [(u ''decision'', JStr (pd_decision decision)),
              (u ''rule_id'', JStr (pd_rule_id decision)),
              (u ''required_controls'', JArr (map JStr (pd_required_controls decision))),
              (u ''action'', JStr (cr_action change)),
              (u ''environment'', JStr (ep_environment locked))])"

text \<open>Lines 126 to 173: the token, the grant and the event of its issue.\<close>

definition new_grant :: "env \<Rightarrow> epoch_row \<Rightarrow> change_row \<Rightarrow> ustr \<Rightarrow> ustr \<Rightarrow> int \<Rightarrow> grant_row" where
  "new_grant E locked change issued_by jti expires_at =
     \<lparr>cg_id = jti,
      cg_epoch_id = ep_id locked,
      cg_actor_type = cr_actor_type change,
      cg_actor_id = cr_actor_id change,
      cg_project = ep_project locked,
      cg_environment = ep_environment locked,
      cg_action = cr_action change,
      cg_fingerprint = ep_fingerprint locked,
      cg_issued_by = issued_by,
      cg_expires_at = expires_at,
      cg_revoked_at = None,
      cg_created_at = stamp E\<rparr>"

definition granted_db ::
  "env \<Rightarrow> db \<Rightarrow> epoch_row \<Rightarrow> change_row \<Rightarrow> policy_decision \<Rightarrow> ustr \<Rightarrow> grant_row \<Rightarrow> db" where
  "granted_db E d locked change decision issued_by grant =
     record_event (stamp E) (d\<lparr>grants := grants d @ [grant]\<rparr>) (ep_id locked) (u ''CAPABILITY_ISSUED'')
       (if pd_decision decision = u ''ASK'' then u ''human'' else u ''system'')
       (if pd_decision decision = u ''ASK'' then issued_by else u ''policy-engine'')
       (u ''Scoped '' @ cr_action change @ msg_capability_issued_infix @
        cr_actor_type change @ u '':'' @ cr_actor_id change)
       (JObj [(u ''capability_id'', JStr (cg_id grant)),
              (u ''policy_decision'', JStr (pd_decision decision)),
              (u ''policy_rule'', JStr (pd_rule_id decision)),
              (u ''actor_type'', JStr (cr_actor_type change)),
              (u ''actor_id'', JStr (cr_actor_id change)),
              (u ''project'', JStr (ep_project locked)),
              (u ''environment'', JStr (ep_environment locked)),
              (u ''action'', JStr (cr_action change)),
              (u ''fingerprint'', JStr (ep_fingerprint locked)),
              (u ''expires_at'', JStr (isoformat (cg_expires_at grant)))])"

definition grant_capability ::
  "env \<Rightarrow> db \<Rightarrow> epoch_row \<Rightarrow> change_row \<Rightarrow> policy_decision \<Rightarrow> ustr \<Rightarrow> int
    \<Rightarrow> (grant_row \<times> ustr) res \<times> db" where
  "grant_capability E d locked change decision issued_by ttl_seconds =
    (let (token, jti, expires_at) = issue_capability E (agent_scope locked change) ttl_seconds;
         grant = new_grant E locked change issued_by jti expires_at
     in commit d
          (granted_db E (record_policy E d locked change decision) locked change decision issued_by grant)
          (grant, token))"

definition issue_execution_capability ::
  "env \<Rightarrow> db \<Rightarrow> epoch_row \<Rightarrow> ustr \<Rightarrow> int \<Rightarrow> (grant_row \<times> ustr) res \<times> db" where
  "issue_execution_capability E d epoch issued_by ttl_seconds =
    (case for_update d epoch of
       Inl e \<Rightarrow> (Inl e, d)
     | Inr locked \<Rightarrow>
     (case one_or_none (filter (\<lambda>c. cr_epoch_id c = ep_id locked) (changes d)) of
       Inl e \<Rightarrow> (Inl e, d)
     | Inr None \<Rightarrow> (Inl (HTTPException 409 msg_only_agent_changes), d)
     | Inr (Some change) \<Rightarrow>
        if cr_actor_type change \<noteq> u ''ai_agent'' then
          (Inl (HTTPException 409 msg_only_agent_changes), d)
        else if ep_pipeline_status locked \<noteq> u ''success'' then
          (Inl (HTTPException 409 msg_pipeline_before_capability), d)
        else
          (let decision = evaluate_policy (cr_actor_type change) (cr_action change) (ep_environment locked);
               d1 = record_policy E d locked change decision
           in
           if pd_decision decision = u ''DENY'' then
             (case commit d d1 () of
                (Inl e, d') \<Rightarrow> (Inl e, d')
              | (Inr _, d') \<Rightarrow> (Inl (HTTPException 403 (pd_reason decision)), d'))
           else
             (case one_or_none (filter (\<lambda>a. ap_epoch_id a = ep_id locked) (approvals d)) of
                Inl e \<Rightarrow> (Inl e, d)
              | Inr approval \<Rightarrow>
                 if pd_decision decision = u ''ASK'' \<and>
                    (ep_state locked \<noteq> u ''APPROVED'' \<or>
                     (case approval of
                        None \<Rightarrow> True
                      | Some a \<Rightarrow> ap_approved_fingerprint a \<noteq> ep_fingerprint locked)) then
                   (case commit d d1 () of
                      (Inl e, d') \<Rightarrow> (Inl e, d')
                    | (Inr _, d') \<Rightarrow> (Inl (HTTPException 409 msg_approval_before_capability), d'))
                 else grant_capability E d locked change decision issued_by ttl_seconds))))"

section \<open>Presenting a capability\<close>


text \<open>
  \<open>db.get(CapabilityGrant, claims["jti"])\<close>: the claims have passed \<open>verify_capability\<close>, so \<open>jti\<close> is
  there; a value that is not a string names no grant.
\<close>

definition get_grant :: "db \<Rightarrow> (ustr \<times> json) list \<Rightarrow> grant_row option" where
  "get_grant d claims = find (\<lambda>g. map_of claims (u ''jti'') = Some (JStr (cg_id g))) (grants d)"

definition agent_context ::
  "epoch_row \<Rightarrow> change_row \<Rightarrow> policy_decision \<Rightarrow> ustr \<Rightarrow> exec_context" where
  "agent_context epoch change decision capability_token =
     \<lparr>cx_epoch_id = ep_id epoch,
      cx_actor_type = cr_actor_type change,
      cx_actor_id = cr_actor_id change,
      cx_action = cr_action change,
      cx_approved_fingerprint = ep_fingerprint epoch,
      cx_capability_token = capability_token,
      cx_policy_decision = pd_decision decision,
      cx_policy_rule = pd_rule_id decision\<rparr>"

text \<open>Lines 182 to 223, everything up to the call of \<open>execute_epoch\<close>: the context it is called with.\<close>

definition authorize_agent :: "env \<Rightarrow> db \<Rightarrow> epoch_row \<Rightarrow> ustr \<Rightarrow> exec_context res" where
  "authorize_agent E d epoch capability_token =
    (case one_or_none (filter (\<lambda>c. cr_epoch_id c = ep_id epoch) (changes d)) of
       Inl e \<Rightarrow> Inl e
     | Inr None \<Rightarrow> Inl (HTTPException 409 msg_not_agent_epoch)
     | Inr (Some change) \<Rightarrow>
        if cr_actor_type change \<noteq> u ''ai_agent'' then Inl (HTTPException 409 msg_not_agent_epoch)
        else
          (case verify_capability E (clock E 1) capability_token (agent_scope epoch change) of
             Inl (CapabilityError m) \<Rightarrow> Inl (HTTPException 403 m)
           | Inl e \<Rightarrow> Inl e
           | Inr claims \<Rightarrow>
              (case get_grant d claims of
                 None \<Rightarrow> Inl (HTTPException 403 msg_grant_inactive)
               | Some grant \<Rightarrow>
                  if cg_epoch_id grant \<noteq> ep_id epoch \<or> cg_revoked_at grant \<noteq> None then
                    Inl (HTTPException 403 msg_grant_inactive)
                  else if cg_expires_at grant \<le> clock E 2 then
                    Inl (HTTPException 403 msg_grant_expired)
                  else
                    (let decision = evaluate_policy (cr_actor_type change) (cr_action change)
                                      (ep_environment epoch)
                     in if pd_decision decision = u ''DENY'' then
                          Inl (HTTPException 403 (pd_reason decision))
                        else Inr (agent_context epoch change decision capability_token)))))"

section \<open>Lemmas\<close>

lemma record_policy_simps [simp]:
  "users (record_policy E d l c p) = users d"
  "epochs (record_policy E d l c p) = epochs d"
  "approvals (record_policy E d l c p) = approvals d"
  "evidences (record_policy E d l c p) = evidences d"
  "targets (record_policy E d l c p) = targets d"
  "receipts (record_policy E d l c p) = receipts d"
  "changes (record_policy E d l c p) = changes d"
  "grants (record_policy E d l c p) = grants d"
  "webhooks (record_policy E d l c p) = webhooks d"
  "outbox (record_policy E d l c p) = outbox d"
  by (simp_all add: record_policy_def)

lemma granted_db_simps [simp]:
  "users (granted_db E d l c p by g) = users d"
  "epochs (granted_db E d l c p by g) = epochs d"
  "approvals (granted_db E d l c p by g) = approvals d"
  "evidences (granted_db E d l c p by g) = evidences d"
  "targets (granted_db E d l c p by g) = targets d"
  "receipts (granted_db E d l c p by g) = receipts d"
  "changes (granted_db E d l c p by g) = changes d"
  "grants (granted_db E d l c p by g) = grants d @ [g]"
  "webhooks (granted_db E d l c p by g) = webhooks d"
  "outbox (granted_db E d l c p by g) = outbox d"
  by (simp_all add: granted_db_def)

lemma record_policy_ok:
  "db_ok d \<Longrightarrow> ep_id l \<in> ep_id ` set (epochs d) \<Longrightarrow> db_ok (record_policy E d l c p)"
  unfolding record_policy_def by (rule record_event_ok)

lemma granted_db_ok:
  "db_ok d \<Longrightarrow> ep_id l \<in> ep_id ` set (epochs d) \<Longrightarrow> cg_epoch_id g = ep_id l \<Longrightarrow>
    cg_id g \<notin> cg_id ` set (grants d) \<Longrightarrow> db_ok (granted_db E d l c p by g)"
  unfolding granted_db_def by (rule record_event_ok) (auto simp: db_ok_defs Let_def)

lemma issue_capability_simps:
  "issue_capability E s ttl =
    (jwt_encode (jwt E) (capability_payload s (uuid4 E 0) (clock E 1) (clock E 1 + ttl * 1000000))
       (capability_secret (cfg E)),
     uuid4 E 0, clock E 1 + ttl * 1000000)"
  by (simp add: issue_capability_def Let_def)

lemma grant_capability_simps:
  "grant_capability E d l c p by ttl =
    (let g = new_grant E l c by (uuid4 E 0) (clock E 1 + ttl * 1000000)
     in commit d (granted_db E (record_policy E d l c p) l c p by g)
          (g, jwt_encode (jwt E) (capability_payload (agent_scope l c) (uuid4 E 0) (clock E 1)
                (clock E 1 + ttl * 1000000)) (capability_secret (cfg E))))"
  by (simp add: grant_capability_def issue_capability_simps)

text \<open>
  The condition under which a capability may be issued: an agent's change, a verified pipeline, and
  a decision that is ALLOW, or ASK with an approval of the epoch as it is.
\<close>

definition may_grant :: "db \<Rightarrow> epoch_row \<Rightarrow> change_row \<Rightarrow> bool" where
  "may_grant d epoch change \<longleftrightarrow>
     change \<in> set (changes d) \<and> cr_epoch_id change = ep_id epoch \<and>
     cr_actor_type change = u ''ai_agent'' \<and> ep_pipeline_status epoch = u ''success'' \<and>
     (let p = pd_decision (evaluate_policy (cr_actor_type change) (cr_action change) (ep_environment epoch))
      in p = u ''ALLOW'' \<or>
         p = u ''ASK'' \<and> ep_state epoch = u ''APPROVED'' \<and>
         (\<exists>a \<in> set (approvals d). ap_epoch_id a = ep_id epoch \<and>
            ap_approved_fingerprint a = ep_fingerprint epoch))"

lemma issue_cases:
  assumes "issue_execution_capability E d e by ttl = (r, d')"
  shows "(\<exists>err. r = Inl err \<and> d' = d) \<or>
    (\<exists>err c. r = Inl err \<and> d' = record_policy E d e c
        (evaluate_policy (cr_actor_type c) (cr_action c) (ep_environment e)) \<and> db_ok d' \<and>
      ep_id e \<in> ep_id ` set (epochs d)) \<or>
    (\<exists>c. may_grant d e c \<and> ep_id e \<in> ep_id ` set (epochs d) \<and>
      grant_capability E d e c (evaluate_policy (cr_actor_type c) (cr_action c) (ep_environment e)) by ttl
        = (r, d'))"
proof (cases "for_update d e")
  case (Inl x)
  with assms show ?thesis by (auto simp: issue_execution_capability_def)
next
  case (Inr l)
  note l = for_update_Inr [OF this]
  show ?thesis
  proof (cases rule: one_or_none_cases [where P = "\<lambda>c. cr_epoch_id c = ep_id e" and xs = "changes d"])
    case no_row
    with assms Inr l show ?thesis by (auto simp: issue_execution_capability_def)
  next
    case rows
    with assms Inr l show ?thesis by (auto simp: issue_execution_capability_def)
  next
    case (row c)
    let ?p = "evaluate_policy (cr_actor_type c) (cr_action c) (ep_environment e)"
    show ?thesis
    proof (cases "cr_actor_type c = u ''ai_agent'' \<and> ep_pipeline_status e = u ''success''")
      case False
      with row assms Inr l show ?thesis
        by (auto simp: issue_execution_capability_def split: if_splits)
    next
      case True
      show ?thesis
      proof (cases rule: one_or_none_cases [where P = "\<lambda>a. ap_epoch_id a = ep_id e" and xs = "approvals d"])
        case no_row
        with True row assms Inr l decision_range [of "cr_actor_type c" "cr_action c" "ep_environment e"]
        show ?thesis
          by (auto simp: issue_execution_capability_def Let_def commit_def may_grant_def
              split: if_splits intro!: exI [of _ c])
      next
        case rows
        with True row assms Inr l show ?thesis
          by (auto simp: issue_execution_capability_def Let_def commit_def split: if_splits
              intro!: exI [of _ c])
      next
        case (row a)
        note a = this
        with True \<open>c \<in> set (changes d)\<close> row assms Inr l
          decision_range [of "cr_actor_type c" "cr_action c" "ep_environment e"]
        show ?thesis
          using \<open>one_or_none (filter (\<lambda>c. cr_epoch_id c = ep_id e) (changes d)) = Inr (Some c)\<close>
            \<open>cr_epoch_id c = ep_id e\<close>
          by (auto simp: issue_execution_capability_def Let_def commit_def may_grant_def
              split: if_splits intro!: exI [of _ c])
      qed
    qed
  qed
qed

definition grant_scope :: "grant_row \<Rightarrow> capability_scope" where
  "grant_scope g =
     \<lparr>sc_epoch_id = cg_epoch_id g, sc_actor_type = cg_actor_type g, sc_actor_id = cg_actor_id g,
      sc_project = cg_project g, sc_environment = cg_environment g, sc_action = cg_action g,
      sc_fingerprint = cg_fingerprint g\<rparr>"


lemma new_grant_simps [simp]:
  "cg_id (new_grant E l c by jti x) = jti"
  "cg_epoch_id (new_grant E l c by jti x) = ep_id l"
  "cg_issued_by (new_grant E l c by jti x) = by"
  "cg_expires_at (new_grant E l c by jti x) = x"
  "cg_revoked_at (new_grant E l c by jti x) = None"
  by (simp_all add: new_grant_def)

lemma grant_scope_new [simp]:
  "grant_scope (new_grant E l c by jti x) = agent_scope l c"
  by (simp add: grant_scope_def new_grant_def agent_scope_def)

text \<open>The three refusals and the grant, when the change of the epoch and its pipeline are in order.\<close>

lemma issue_decided:
  assumes ok: "db_ok d" and e: "e \<in> set (epochs d)" and c: "c \<in> set (changes d)"
    and ce: "cr_epoch_id c = ep_id e" "cr_actor_type c = u ''ai_agent''"
    and pipe: "ep_pipeline_status e = u ''success''"
  shows "issue_execution_capability E d e by ttl =
    (let p = evaluate_policy (cr_actor_type c) (cr_action c) (ep_environment e) in
     if pd_decision p = u ''DENY'' then
       (Inl (HTTPException 403 (pd_reason p)), record_policy E d e c p)
     else if \<not> may_grant d e c then
       (Inl (HTTPException 409 msg_approval_before_capability), record_policy E d e c p)
     else grant_capability E d e c p by ttl)"
proof -
  let ?p = "evaluate_policy (cr_actor_type c) (cr_action c) (ep_environment e)"
  have ch: "one_or_none (filter (\<lambda>c. cr_epoch_id c = ep_id e) (changes d)) = Inr (Some c)"
    using changes_t.select_one [OF ok] changes_t.find_row [OF ok c] ce(1) by simp
  have ap: "one_or_none (filter (\<lambda>a. ap_epoch_id a = ep_id e) (approvals d)) =
      Inr (find (\<lambda>a. ap_epoch_id a = ep_id e) (approvals d))"
    by (rule approvals_t.select_one [OF ok])
  have rp: "commit d (record_policy E d e c ?p) () = (Inr (), record_policy E d e c ?p)"
    using record_policy_ok [OF ok] e by (simp add: commit_def)
  have found: "(\<exists>a \<in> set (approvals d). ap_epoch_id a = ep_id e \<and> ap_approved_fingerprint a = ep_fingerprint e)
      \<longleftrightarrow> (\<exists>a. find (\<lambda>a. ap_epoch_id a = ep_id e) (approvals d) = Some a \<and>
            ap_approved_fingerprint a = ep_fingerprint e)" (is "?l = ?r")
  proof
    assume ?l
    then obtain a where a: "a \<in> set (approvals d)" "ap_epoch_id a = ep_id e"
      "ap_approved_fingerprint a = ep_fingerprint e" by blast
    from approvals_t.find_row [OF ok a(1)] a show ?r by auto
  qed (auto dest: find_Some_D)
  show ?thesis
  proof (cases "pd_decision ?p = u ''ASK''")
    case True
    then show ?thesis
      unfolding issue_execution_capability_def for_update_loaded [OF e] sum.case ch option.case ap Let_def
      using ce c pipe rp by (simp add: may_grant_def Let_def found split: option.split)
  next
    case False
    with decision_range [of "cr_actor_type c" "cr_action c" "ep_environment e"]
    have "pd_decision ?p = u ''DENY'' \<or> pd_decision ?p = u ''ALLOW''" by blast
    then show ?thesis
      unfolding issue_execution_capability_def for_update_loaded [OF e] sum.case ch option.case ap Let_def
      using ce c pipe rp by (auto simp: may_grant_def Let_def)
  qed
qed

text \<open>The decision of the policy engine on an agent's change of an epoch.\<close>

definition change_decision :: "epoch_row \<Rightarrow> change_row \<Rightarrow> ustr" where
  "change_decision e c = pd_decision (evaluate_policy (cr_actor_type c) (cr_action c) (ep_environment e))"

definition agent_change :: "db \<Rightarrow> epoch_row \<Rightarrow> change_row \<Rightarrow> bool" where
  "agent_change d e c \<longleftrightarrow>
     c \<in> set (changes d) \<and> cr_epoch_id c = ep_id e \<and> cr_actor_type c = u ''ai_agent''"

text \<open>An agent that is authorised acts for its change, under the decision of the policy on it.\<close>

lemma authorize_agent_Inr:
  assumes "authorize_agent E d e tok = Inr c"
  shows "\<exists>ch g claims. agent_change d e ch \<and>
    verify_capability E (clock E 1) tok (agent_scope e ch) = Inr claims \<and>
    g \<in> set (grants d) \<and> map_of claims (u ''jti'') = Some (JStr (cg_id g)) \<and>
    cg_epoch_id g = ep_id e \<and> cg_revoked_at g = None \<and> clock E 2 < cg_expires_at g \<and>
    change_decision e ch \<noteq> u ''DENY'' \<and>
    c = agent_context e ch (evaluate_policy (cr_actor_type ch) (cr_action ch) (ep_environment e)) tok"
proof (cases rule: one_or_none_cases [where P = "\<lambda>c. cr_epoch_id c = ep_id e" and xs = "changes d"])
  case (row ch)
  with assms show ?thesis
    by (intro exI [of _ ch])
      (auto simp: authorize_agent_def agent_change_def change_decision_def get_grant_def Let_def
        split: if_splits sum.splits py_error.splits option.splits dest!: find_Some_D)
qed (use assms in \<open>simp_all add: authorize_agent_def\<close>)

lemma issue_granted:
  assumes "db_ok d" and "e \<in> set (epochs d)" and "may_grant d e c"
    and "uuid4 E 0 \<notin> set (map cg_id (grants d))"
    and p_def: "p = evaluate_policy (cr_actor_type c) (cr_action c) (ep_environment e)"
    and x_def: "x = clock E 1 + ttl * 1000000"
  shows "issue_execution_capability E d e by ttl =
      (Inr (new_grant E e c by (uuid4 E 0) x, jwt_encode (jwt E)
          (capability_payload (agent_scope e c) (uuid4 E 0) (clock E 1) x) (capability_secret (cfg E))),
       granted_db E (record_policy E d e c p) e c p by (new_grant E e c by (uuid4 E 0) x)) \<and>
    db_ok (granted_db E (record_policy E d e c p) e c p by (new_grant E e c by (uuid4 E 0) x))"
proof -
  from assms(3) have c: "c \<in> set (changes d)" "cr_epoch_id c = ep_id e" "cr_actor_type c = u ''ai_agent''"
    "ep_pipeline_status e = u ''success''" "pd_decision p \<noteq> u ''DENY''"
    by (auto simp: may_grant_def Let_def p_def)
  have ok: "db_ok (granted_db E (record_policy E d e c p) e c p by (new_grant E e c by (uuid4 E 0) x))"
    using assms(1,2,4) by (intro granted_db_ok record_policy_ok) simp_all
  moreover have "issue_execution_capability E d e by ttl = grant_capability E d e c p by ttl"
    using issue_decided [OF assms(1,2) c(1-4)] assms(3) c(5) by (simp add: Let_def p_def)
  ultimately show ?thesis
    by (simp add: grant_capability_simps Let_def commit_def x_def)
qed

section \<open>Properties\<close>

text \<open>
  A capability is only ever issued for an epoch with a successful pipeline that an agent's
  change belongs to, and only when the policy allows the action, or asks for a human and the epoch is
  in state APPROVED with an approval of its current fingerprint. The grant and the token carry the
  scope of this epoch and change.
\<close>

theorem capability_issue_gate:
  assumes "issue_execution_capability E d e by ttl = (Inr (g, token), d')"
  shows "\<exists>c. may_grant d e c \<and> grant_scope g = agent_scope e c \<and> cg_issued_by g = by \<and>
    cg_expires_at g = clock E 1 + ttl * 1000000 \<and> cg_revoked_at g = None \<and>
    grants d' = grants d @ [g] \<and>
    token = jwt_encode (jwt E)
      (capability_payload (agent_scope e c) (cg_id g) (clock E 1) (cg_expires_at g))
      (capability_secret (cfg E))"
  using issue_cases [OF assms]
proof (elim disjE exE conjE)
  fix c
  assume "may_grant d e c" and "grant_capability E d e c
      (evaluate_policy (cr_actor_type c) (cr_action c) (ep_environment e)) by ttl = (Inr (g, token), d')"
  then show ?thesis
    by (intro exI [of _ c])
      (auto simp: grant_capability_simps Let_def commit_def split: if_splits)
qed simp_all

text \<open>
  C36: When the policy refuses an agent's change (it denies it, or asks for a human who has not
  approved the epoch as it is) no grant is made, the answer is 403 or 409, and the refusal leaves
  exactly one POLICY_EVALUATED event in the passport.
\<close>

theorem capability_refusal_recorded:
  assumes "db_ok d" and "e \<in> set (epochs d)" and "c \<in> set (changes d)"
    and "cr_epoch_id c = ep_id e" and "cr_actor_type c = u ''ai_agent''"
    and "ep_pipeline_status e = u ''success''" and "\<not> may_grant d e c"
  shows "\<exists>code m ev. issue_execution_capability E d e by ttl =
      (Inl (HTTPException code m), d\<lparr>events := events d @ [ev]\<rparr>) \<and>
    code = (if destructive_action (cr_action c) then 403 else 409) \<and>
    pe_event_type ev = u ''POLICY_EVALUATED'' \<and> pe_epoch_id ev = ep_id e"
proof -
  let ?p = "evaluate_policy (cr_actor_type c) (cr_action c) (ep_environment e)"
  obtain ev where "record_policy E d e c ?p = d\<lparr>events := events d @ [ev]\<rparr>"
    "pe_event_type ev = u ''POLICY_EVALUATED''" "pe_epoch_id ev = ep_id e"
    using record_event_append unfolding record_policy_def by blast
  then show ?thesis
    using issue_decided [OF assms(1-6), of E "by" ttl] assms(7)
      deny_iff [of "cr_actor_type c" "cr_action c" "ep_environment e"]
    by (auto simp: Let_def)
qed

text \<open>
  A capability that may be issued is issued: with a fresh identifier the request of an agent
  whose change satisfies the conditions never fails.
\<close>

lemma capability_issue_succeeds:
  assumes "db_ok d" and "e \<in> set (epochs d)" and "may_grant d e c"
    and "uuid4 E 0 \<notin> set (map cg_id (grants d))"
  shows "\<exists>g token d'. issue_execution_capability E d e by ttl = (Inr (g, token), d') \<and> db_ok d' \<and>
    cg_id g = uuid4 E 0 \<and> g \<in> set (grants d')"
  using issue_granted [OF assms refl refl, of "by" ttl] by force

end
