(* ===== verification/Targets.thy ===== *)
theory Targets
  imports Database Executor_Client
begin

text \<open>
  \<open>orchestrator/app/services.py\<close>, third part: the live target of a project and environment, and its
  observation by the executor.
\<close>

section \<open>Operations\<close>

definition target_identity :: "target_row \<Rightarrow> identity" where
  "target_identity live =
     \<lparr>project = lt_project live, environment = lt_environment live, commit_sha = lt_commit_sha live,
      artifact_digest = lt_artifact_digest live, config_hash = lt_config_hash live\<rparr>"

definition live_target :: "db \<Rightarrow> ustr \<Rightarrow> ustr \<Rightarrow> target_row option res" where
  "live_target d p e = one_or_none (filter (\<lambda>r. target_key r = (p, e)) (targets d))"

definition sync_executor_observation :: "env \<Rightarrow> identity \<Rightarrow> unit res" where
  "sync_executor_observation E identity =
    (case client_observe (executor_client E) E identity of
       Inl (ExecutorBoundaryError m) \<Rightarrow> Inl (HTTPException 502 msg_observe_unavailable)
     | r \<Rightarrow> r)"

text \<open>
  Lines 228 to 238, up to the commit. A row that keeps its values is not updated.
\<close>

definition store_target :: "env \<Rightarrow> db \<Rightarrow> identity \<Rightarrow> target_row res \<times> db" where
  "store_target E d payload =
    (case live_target d (project payload) (environment payload) of
       Inl e \<Rightarrow> (Inl e, d)
     | Inr None \<Rightarrow>
        (let row = \<lparr>lt_id = next_id (map lt_id (targets d)),
                    lt_project = project payload,
                    lt_environment = environment payload,
                    lt_commit_sha = commit_sha payload,
                    lt_artifact_digest = artifact_digest payload,
                    lt_config_hash = config_hash payload,
                    lt_updated_at = stamp E\<rparr>
         in commit d (d\<lparr>targets := targets d @ [row]\<rparr>) row)
     | Inr (Some row) \<Rightarrow>
        (let new = (if target_identity row = payload then row
              else row\<lparr>lt_project := project payload,
                       lt_environment := environment payload,
                       lt_commit_sha := commit_sha payload,
                       lt_artifact_digest := artifact_digest payload,
                       lt_config_hash := config_hash payload,
                       lt_updated_at := stamp E\<rparr>)
         in commit d (d\<lparr>targets := update_where (\<lambda>r. lt_id r = lt_id row) (\<lambda>_. new) (targets d)\<rparr>) new))"

text \<open>The observation is sent after the commit: a failing executor is a 502 for a stored target.\<close>

definition upsert_target :: "env \<Rightarrow> db \<Rightarrow> identity \<Rightarrow> target_row res \<times> db" where
  "upsert_target E d payload =
    (case store_target E d payload of
       (Inl e, d') \<Rightarrow> (Inl e, d')
     | (Inr row, d') \<Rightarrow> (res_bind (sync_executor_observation E payload) (\<lambda>_. Inr row), d'))"

section \<open>Lemmas\<close>

lemma target_identity_simps [simp]:
  "project (target_identity r) = lt_project r"
  "environment (target_identity r) = lt_environment r"
  "commit_sha (target_identity r) = lt_commit_sha r"
  "artifact_digest (target_identity r) = lt_artifact_digest r"
  "config_hash (target_identity r) = lt_config_hash r"
  by (simp_all add: target_identity_def)

lemma target_identity_eq:
  "target_identity r = i \<longleftrightarrow> lt_project r = project i \<and> lt_environment r = environment i \<and>
     lt_commit_sha r = commit_sha i \<and> lt_artifact_digest r = artifact_digest i \<and>
     lt_config_hash r = config_hash i"
  by (cases i) (simp add: target_identity_def)

lemma live_target_find:
  "db_ok d \<Longrightarrow> live_target d p e = Inr (find (\<lambda>r. target_key r = (p, e)) (targets d))"
  unfolding live_target_def by (rule targets_t.select_one)

text \<open>Rows that are updated under their key keep the keys of the table.\<close>

lemma map_update_row:
  assumes "\<And>r. r \<in> set rows \<Longrightarrow> P r \<Longrightarrow> key (f r) = key r"
  shows "map key (update_where P f rows) = map key rows"
  using assms by (induction rows) (auto simp: update_where_def)

lemma targets_update_ok:
  "db_ok d \<Longrightarrow> map lt_id ts = map lt_id (targets d) \<Longrightarrow> map target_key ts = map target_key (targets d)
    \<Longrightarrow> db_ok (d\<lparr>targets := ts\<rparr>)"
  by (simp add: db_ok_defs Let_def)

lemma targets_insert_ok:
  "db_ok d \<Longrightarrow> target_key row \<notin> target_key ` set (targets d) \<Longrightarrow> lt_id row = next_id (map lt_id (targets d))
    \<Longrightarrow> db_ok (d\<lparr>targets := targets d @ [row]\<rparr>)"
  by (auto simp: db_ok_defs Let_def)

lemma store_target_cases:
  assumes "store_target E d i = (r, d')"
  shows "(\<exists>err. r = Inl err \<and> d' = d) \<or>
    (\<exists>row ts. r = Inr row \<and> target_identity row = i \<and> d' = d\<lparr>targets := ts\<rparr> \<and> db_ok d')"
proof (cases rule: one_or_none_cases
    [where P = "\<lambda>r. target_key r = (project i, environment i)" and xs = "targets d"])
  case no_row
  with assms show ?thesis
    by (auto simp: store_target_def live_target_def Let_def commit_def target_identity_eq
        split: if_splits)
next
  case (row x)
  with assms show ?thesis
    by (auto simp: store_target_def live_target_def Let_def commit_def target_identity_eq
        split: if_splits)
next
  case rows
  with assms show ?thesis by (auto simp: store_target_def live_target_def)
qed

text \<open>
  In a consistent database the target is always stored: afterwards exactly one row has the key of
  the payload, this row is the payload, and the rows of other keys are as before.
\<close>

lemma store_target_success:
  assumes ok: "db_ok d"
  shows "\<exists>row ts. store_target E d i = (Inr row, d\<lparr>targets := ts\<rparr>) \<and> db_ok (d\<lparr>targets := ts\<rparr>) \<and>
    row \<in> set ts \<and> target_identity row = i \<and>
    filter (\<lambda>r. target_key r \<noteq> target_key row) ts =
      filter (\<lambda>r. target_key r \<noteq> target_key row) (targets d)"
proof (cases "find (\<lambda>r. target_key r = (project i, environment i)) (targets d)")
  case None
  then have new: "(project i, environment i) \<notin> target_key ` set (targets d)"
    by (auto simp: find_None_iff)
  let ?row = "\<lparr>lt_id = next_id (map lt_id (targets d)), lt_project = project i,
    lt_environment = environment i, lt_commit_sha = commit_sha i,
    lt_artifact_digest = artifact_digest i, lt_config_hash = config_hash i, lt_updated_at = stamp E\<rparr>"
  have ok': "db_ok (d\<lparr>targets := targets d @ [?row]\<rparr>)"
    using new by (intro targets_insert_ok [OF ok]) auto
  moreover have "store_target E d i = (Inr ?row, d\<lparr>targets := targets d @ [?row]\<rparr>)"
    using ok' unfolding store_target_def live_target_find [OF ok] None
    by (simp add: commit_def Let_def)
  ultimately show ?thesis
    by (intro exI [of _ ?row] exI [of _ "targets d @ [?row]"]) (simp add: target_identity_eq)
next
  case (Some x)
  from find_Some_D [OF Some] have x: "x \<in> set (targets d)" "target_key x = (project i, environment i)"
    by auto
  let ?new = "if target_identity x = i then x
    else x\<lparr>lt_project := project i, lt_environment := environment i, lt_commit_sha := commit_sha i,
      lt_artifact_digest := artifact_digest i, lt_config_hash := config_hash i, lt_updated_at := stamp E\<rparr>"
  let ?ts = "update_where (\<lambda>r. lt_id r = lt_id x) (\<lambda>_. ?new) (targets d)"
  have same: "r = x" if "r \<in> set (targets d)" "lt_id r = lt_id x" for r
    using ok that x(1) by (auto simp: db_ok_defs distinct_map dest: inj_onD)
  have ids: "map lt_id ?ts = map lt_id (targets d)"
    by (rule map_update_row) auto
  have keys: "map target_key ?ts = map target_key (targets d)"
    by (rule map_update_row) (use same x(2) in \<open>fastforce dest: same\<close>)
  have ok': "db_ok (d\<lparr>targets := ?ts\<rparr>)" by (rule targets_update_ok [OF ok ids keys])
  have mem: "?new \<in> set ?ts"
    using x(1) by (force simp: set_update_where)
  have "filter (\<lambda>r. target_key r \<noteq> target_key ?new) (update_where (\<lambda>r. lt_id r = lt_id x) (\<lambda>_. ?new) ts)
      = filter (\<lambda>r. target_key r \<noteq> target_key ?new) ts" if "set ts \<subseteq> set (targets d)" for ts
    using that same x(2) by (induction ts) (auto simp: update_where_def)
  from this [of "targets d"] have "filter (\<lambda>r. target_key r \<noteq> target_key ?new) ?ts =
      filter (\<lambda>r. target_key r \<noteq> target_key ?new) (targets d)" by simp
  moreover have "store_target E d i = (Inr ?new, d\<lparr>targets := ?ts\<rparr>)"
    using ok' unfolding store_target_def live_target_find [OF ok] Some
    by (simp add: commit_def Let_def)
  moreover have "target_identity ?new = i" by (simp add: target_identity_eq)
  ultimately show ?thesis using mem ok' by blast
qed

lemma sync_Inl: "sync_executor_observation E i = Inl e \<Longrightarrow> e = HTTPException 502 msg_observe_unavailable"
  using client_observe_Inl [of "executor_client E" E i]
  by (auto simp: sync_executor_observation_def split: sum.splits py_error.splits)

lemma upsert_target_cases:
  assumes "upsert_target E d i = (r, d')"
  shows "d' = snd (store_target E d i) \<and>
    ((\<exists>err. r = Inl err) \<or> (\<exists>row. r = Inr row \<and> target_identity row = i))"
  using assms store_target_cases [of E d i]
  by (auto simp: upsert_target_def res_bind_Inr_iff split: prod.splits sum.splits)
    (cases "sync_executor_observation E i"; fastforce)

section \<open>Properties\<close>

text \<open>
  An observation of a project and environment is always stored in a consistent database:
  afterwards exactly one target has this key, it is the observed release, the targets of other
  keys and all other tables are as before, and the constraints hold.
\<close>

lemma observation_stored:
  assumes "db_ok d"
  shows "\<exists>row ts. store_target E d i = (Inr row, d\<lparr>targets := ts\<rparr>) \<and> db_ok (d\<lparr>targets := ts\<rparr>) \<and>
    live_target (d\<lparr>targets := ts\<rparr>) (project i) (environment i) = Inr (Some row) \<and>
    target_identity row = i \<and>
    filter (\<lambda>r. target_key r \<noteq> (project i, environment i)) ts =
      filter (\<lambda>r. target_key r \<noteq> (project i, environment i)) (targets d)"
proof -
  obtain row ts where *: "store_target E d i = (Inr row, d\<lparr>targets := ts\<rparr>)" "db_ok (d\<lparr>targets := ts\<rparr>)"
    "row \<in> set ts" "target_identity row = i"
    "filter (\<lambda>r. target_key r \<noteq> target_key row) ts = filter (\<lambda>r. target_key r \<noteq> target_key row) (targets d)"
    using store_target_success [OF assms, of E i] by blast
  from *(4) have key: "target_key row = (project i, environment i)"
    by (simp add: target_identity_eq)
  have "live_target (d\<lparr>targets := ts\<rparr>) (project i) (environment i) = Inr (Some row)"
    using targets_t.find_row [OF *(2), of row] *(3) unfolding live_target_find [OF *(2)] key by simp
  with * key show ?thesis by metis
qed

text \<open>
  An observation in a consistent database is stored before the executor hears of it: afterwards
  exactly one target has its project and environment, it is the observed release, and the targets of
  other keys and all other tables are as before. When the executor cannot be reached the caller gets
  a 502, but the stored target stays; otherwise the caller gets the stored row.
\<close>

lemma observation_outcome:
  assumes "db_ok d"
  shows "\<exists>row ts. upsert_target E d i =
      (if isl (client_observe (executor_client E) E i) then Inl (HTTPException 502 msg_observe_unavailable)
       else Inr row, d\<lparr>targets := ts\<rparr>) \<and>
    db_ok (d\<lparr>targets := ts\<rparr>) \<and>
    live_target (d\<lparr>targets := ts\<rparr>) (project i) (environment i) = Inr (Some row) \<and>
    target_identity row = i \<and>
    filter (\<lambda>r. target_key r \<noteq> (project i, environment i)) ts =
      filter (\<lambda>r. target_key r \<noteq> (project i, environment i)) (targets d)"
proof -
  obtain row ts where row: "store_target E d i = (Inr row, d\<lparr>targets := ts\<rparr>)" "db_ok (d\<lparr>targets := ts\<rparr>)"
    "live_target (d\<lparr>targets := ts\<rparr>) (project i) (environment i) = Inr (Some row)"
    "target_identity row = i" "filter (\<lambda>r. target_key r \<noteq> (project i, environment i)) ts =
      filter (\<lambda>r. target_key r \<noteq> (project i, environment i)) (targets d)"
    using observation_stored [OF assms, of E i] by blast
  have "upsert_target E d i =
      (if isl (client_observe (executor_client E) E i) then Inl (HTTPException 502 msg_observe_unavailable)
       else Inr row, d\<lparr>targets := ts\<rparr>)"
    using client_observe_Inl [of "executor_client E" E i]
    by (cases "client_observe (executor_client E) E i")
      (auto simp: upsert_target_def sync_executor_observation_def row(1))
  with row(2-) show ?thesis by blast
qed

end
