(* ===== verification/Execution.thy ===== *)
theory Execution
  imports Grants Targets
begin

text \<open>
  \<open>orchestrator/app/services.py\<close>, fourth part: the execution of an epoch, by a human or by an agent.
\<close>

section \<open>Operations\<close>

text \<open>\<open>list(x or [])\<close> of a JSON column: the keys of an object, the characters of a string.\<close>

fun py_list :: "json \<Rightarrow> json res" where
  "py_list (JArr xs) = Inr (JArr xs)"
| "py_list (JObj kvs) = Inr (JArr (map (\<lambda>(k, _). JStr k) kvs))"
| "py_list (JStr s) = Inr (JArr (map (\<lambda>c. JStr [c]) s))"
| "py_list j = (if py_truthy j then Inl TypeError else Inr (JArr []))"

definition policy_allows_without_approval :: "exec_context option \<Rightarrow> bool" where
  "policy_allows_without_approval execution_context =
    (case execution_context of
       None \<Rightarrow> False
     | Some c \<Rightarrow> cx_actor_type c = u ''ai_agent'' \<and> cx_policy_decision c = u ''ALLOW'')"

text \<open>Lines 257 to 290, the guards: a stored receipt, or the live target of an execution that may start.\<close>

datatype admission = Replay receipt_row json | Start epoch_row target_row

definition admit_execution ::
  "db \<Rightarrow> epoch_row \<Rightarrow> ustr \<Rightarrow> exec_context option \<Rightarrow> admission res" where
  "admit_execution d epoch idempotency_key execution_context =
    res_bind (for_update d epoch) (\<lambda>locked.
    res_bind (one_or_none (filter (\<lambda>r. receipt_key r = (ep_id locked, idempotency_key)) (receipts d)))
      (\<lambda>existing.
      case existing of
        Some r \<Rightarrow> res_bind (py_list (rc_differences r)) (\<lambda>ds. Inr (Replay r ds))
      | None \<Rightarrow>
        if ep_state locked \<noteq> u ''APPROVED'' \<and>
           \<not> (policy_allows_without_approval execution_context \<and> ep_state locked = u ''DRAFT'') then
          Inl (HTTPException 409 (msg_state_prefix @ ep_state locked))
        else
          res_bind (one_or_none (filter (\<lambda>a. ap_epoch_id a = ep_id locked) (approvals d))) (\<lambda>approval.
          if \<not> policy_allows_without_approval execution_context \<and>
             (case approval of
                None \<Rightarrow> True
              | Some a \<Rightarrow> ap_approved_fingerprint a \<noteq> ep_fingerprint locked) then
            Inl (HTTPException 409 msg_no_valid_approval)
          else
            res_bind (live_target d (ep_project locked) (ep_environment locked)) (\<lambda>live.
            case live of
              None \<Rightarrow> Inl (HTTPException 409 msg_no_live_target)
            | Some t \<Rightarrow> Inr (Start locked t)))))"

text \<open>Lines 295 to 328: the receipt, the new state, the outbox message and the event, in one commit.\<close>

definition new_receipt :: "env \<Rightarrow> db \<Rightarrow> epoch_row \<Rightarrow> ustr \<Rightarrow> executor_result \<Rightarrow> receipt_row" where
  "new_receipt E d locked idempotency_key result =
     \<lparr>rc_id = next_id (map rc_id (receipts d)),
      rc_epoch_id = ep_id locked,
      rc_outcome = er_outcome result,
      rc_expected_fingerprint = ep_fingerprint locked,
      rc_observed_fingerprint = er_observed_fingerprint result,
      rc_reason = er_reason result,
      rc_idempotency_key = idempotency_key,
      rc_differences = er_differences result,
      rc_latency_ms = er_latency_ms result,
      rc_created_at = stamp E\<rparr>"

definition executed_db :: "env \<Rightarrow> db \<Rightarrow> epoch_row \<Rightarrow> ustr \<Rightarrow> executor_result \<Rightarrow> db" where
  "executed_db E d locked idempotency_key result =
    (let d1 = set_state (stamp E) locked (er_outcome result) d;
         d2 = d1\<lparr>receipts := receipts d1 @ [new_receipt E d locked idempotency_key result]\<rparr>;
         d3 = d2\<lparr>outbox := outbox d2 @
               [\<lparr>ob_id = next_id (map ob_id (outbox d2)),
                 ob_topic = u ''deployment.execution'',
                 ob_payload = JObj
                   [(u ''epoch_id'', JStr (ep_id locked)),
                    (u ''outcome'', JStr (er_outcome result)),
                    (u ''expected_fingerprint'', JStr (ep_fingerprint locked)),
                    (u ''observed_fingerprint'', JStr (er_observed_fingerprint result))],
                 ob_published = False,
                 ob_created_at = stamp E\<rparr>]\<rparr>
     in record_event (stamp E) d3 (ep_id locked) (er_outcome result) (u ''service'')
          (u ''go-executor'') (er_reason result)
          (JObj [(u ''expected_fingerprint'', JStr (ep_fingerprint locked)),
                 (u ''observed_fingerprint'', JStr (er_observed_fingerprint result)),
                 (u ''differences'', er_differences result),
                 (u ''latency_ms'', JInt (er_latency_ms result))]))"

text \<open>The body of \<open>execute_epoch\<close>, over the client that \<open>executor_client()\<close> returns.\<close>

definition execute_with ::
  "(env \<Rightarrow> identity \<Rightarrow> identity \<Rightarrow> exec_context option \<Rightarrow> executor_result res) \<Rightarrow>
    env \<Rightarrow> db \<Rightarrow> epoch_row \<Rightarrow> ustr \<Rightarrow> exec_context option \<Rightarrow> (receipt_row \<times> json) res \<times> db" where
  "execute_with execute E d epoch idempotency_key execution_context =
    (case admit_execution d epoch idempotency_key execution_context of
       Inl e \<Rightarrow> (Inl e, d)
     | Inr (Replay r ds) \<Rightarrow> (Inr (r, ds), d)
     | Inr (Start locked live) \<Rightarrow>
        (case execute E (epoch_identity locked) (target_identity live) execution_context of
           Inl (ExecutorBoundaryError m) \<Rightarrow> (Inl (HTTPException 502 msg_executor_unavailable), d)
         | Inl e \<Rightarrow> (Inl e, d)
         | Inr result \<Rightarrow>
             commit d (executed_db E d locked idempotency_key result)
               (new_receipt E d locked idempotency_key result, er_differences result)))"

definition execute_epoch ::
  "env \<Rightarrow> db \<Rightarrow> epoch_row \<Rightarrow> ustr \<Rightarrow> exec_context option \<Rightarrow> (receipt_row \<times> json) res \<times> db" where
  "execute_epoch E d epoch idempotency_key execution_context =
     execute_with (client_execute (executor_client E)) E d epoch idempotency_key execution_context"

definition execute_agent_epoch ::
  "env \<Rightarrow> db \<Rightarrow> epoch_row \<Rightarrow> ustr \<Rightarrow> ustr \<Rightarrow> (receipt_row \<times> json) res \<times> db" where
  "execute_agent_epoch E d epoch idempotency_key capability_token =
    (case authorize_agent E d epoch capability_token of
       Inl e \<Rightarrow> (Inl e, d)
     | Inr context \<Rightarrow> execute_epoch E d epoch idempotency_key (Some context))"

section \<open>Lemmas\<close>

lemma executed_db_simps [simp]:
  "users (executed_db E d l k x) = users d"
  "epochs (executed_db E d l k x) = epochs (set_state (stamp E) l (er_outcome x) d)"
  "approvals (executed_db E d l k x) = approvals d"
  "evidences (executed_db E d l k x) = evidences d"
  "targets (executed_db E d l k x) = targets d"
  "receipts (executed_db E d l k x) = receipts d @ [new_receipt E d l k x]"
  "changes (executed_db E d l k x) = changes d"
  "grants (executed_db E d l k x) = grants d"
  "webhooks (executed_db E d l k x) = webhooks d"
  by (simp_all add: executed_db_def Let_def)

lemma executed_db_ok:
  assumes "db_ok d" and "ep_id l \<in> ep_id ` set (epochs d)"
    and "(ep_id l, k) \<notin> receipt_key ` set (receipts d)"
  shows "db_ok (executed_db E d l k x)"
  unfolding executed_db_def Let_def
  by (rule record_event_ok) (use assms in \<open>auto simp: db_ok_defs Let_def new_receipt_def\<close>)

text \<open>What the guards establish.\<close>

definition approval_bound :: "db \<Rightarrow> epoch_row \<Rightarrow> bool" where
  "approval_bound d e \<longleftrightarrow>
     (\<exists>a \<in> set (approvals d). ap_epoch_id a = ep_id e \<and> ap_approved_fingerprint a = ep_fingerprint e)"

definition may_execute :: "db \<Rightarrow> epoch_row \<Rightarrow> exec_context option \<Rightarrow> bool" where
  "may_execute d e context \<longleftrightarrow>
     ep_state e = u ''APPROVED'' \<and> approval_bound d e \<or>
     policy_allows_without_approval context \<and> ep_state e \<in> {u ''APPROVED'', u ''DRAFT''}"

lemma admit_execution_cases:
  "(\<exists>err. admit_execution d e k c = Inl err) \<or>
   (\<exists>r ds. admit_execution d e k c = Inr (Replay r ds) \<and> r \<in> set (receipts d) \<and>
      receipt_key r = (ep_id e, k) \<and> py_list (rc_differences r) = Inr ds) \<or>
   (\<exists>t. admit_execution d e k c = Inr (Start e t) \<and> t \<in> set (targets d) \<and>
      target_key t = (ep_project e, ep_environment e) \<and>
      (ep_id e, k) \<notin> receipt_key ` set (receipts d) \<and> ep_id e \<in> ep_id ` set (epochs d) \<and>
      may_execute d e c)"
proof (cases "for_update d e")
  case (Inl x)
  then show ?thesis by (simp add: admit_execution_def)
next
  case (Inr l)
  note l = for_update_Inr [OF this]
  show ?thesis
  proof (cases rule: one_or_none_cases
      [where P = "\<lambda>r. receipt_key r = (ep_id e, k)" and xs = "receipts d"])
    case rows
    with Inr l show ?thesis by (simp add: admit_execution_def)
  next
    case (row r)
    with Inr l show ?thesis
      by (cases "py_list (rc_differences r)") (auto simp: admit_execution_def)
  next
    case no_row
    note r = this
    then have k: "(ep_id e, k) \<notin> receipt_key ` set (receipts d)" by auto
    show ?thesis
    proof (cases rule: one_or_none_cases [where P = "\<lambda>a. ap_epoch_id a = ep_id e" and xs = "approvals d"])
      case rows
      with Inr l r show ?thesis by (simp add: admit_execution_def)
    next
      case no_row
      note a = this
      show ?thesis
      proof (cases rule: one_or_none_cases
          [where P = "\<lambda>r. target_key r = (ep_project e, ep_environment e)" and xs = "targets d"])
        case (row t)
        with Inr l r(1) a k show ?thesis
          by (auto simp: admit_execution_def live_target_def may_execute_def)
      qed (use Inr l r(1) a in \<open>simp_all add: admit_execution_def live_target_def\<close>)
    next
      case (row a)
      note a = this
      show ?thesis
      proof (cases rule: one_or_none_cases
          [where P = "\<lambda>r. target_key r = (ep_project e, ep_environment e)" and xs = "targets d"])
        case (row t)
        with Inr l r(1) a k show ?thesis
          by (auto simp: admit_execution_def live_target_def may_execute_def approval_bound_def)
      qed (use Inr l r(1) a in \<open>simp_all add: admit_execution_def live_target_def\<close>)
    qed
  qed
qed

text \<open>What an execution can do to the database, whatever the client.\<close>

lemma execute_with_cases:
  assumes "execute_with ex E d e k c = (r, d')"
  shows "(\<exists>err. r = Inl err \<and> d' = d) \<or>
    (\<exists>x ds. r = Inr (x, ds) \<and> x \<in> set (receipts d) \<and> receipt_key x = (ep_id e, k) \<and>
       py_list (rc_differences x) = Inr ds \<and> d' = d) \<or>
    (\<exists>t x. ex E (epoch_identity e) (target_identity t) c = Inr x \<and>
       r = Inr (new_receipt E d e k x, er_differences x) \<and> d' = executed_db E d e k x \<and> db_ok d' \<and>
       t \<in> set (targets d) \<and> target_key t = (ep_project e, ep_environment e) \<and>
       (ep_id e, k) \<notin> receipt_key ` set (receipts d) \<and> ep_id e \<in> ep_id ` set (epochs d) \<and>
       may_execute d e c)"
  using admit_execution_cases [of d e k c]
proof (elim disjE exE conjE)
  fix t
  assume t: "admit_execution d e k c = Inr (Start e t)" "t \<in> set (targets d)"
    "target_key t = (ep_project e, ep_environment e)"
    "(ep_id e, k) \<notin> receipt_key ` set (receipts d)" "ep_id e \<in> ep_id ` set (epochs d)"
    "may_execute d e c"
  show ?thesis
  proof (cases "ex E (epoch_identity e) (target_identity t) c")
    case (Inl x)
    with assms t(1) show ?thesis
      by (auto simp: execute_with_def split: py_error.splits)
  next
    case (Inr x)
    with assms t(1) have "(r = Inl IntegrityError \<and> d' = d) \<or>
        r = Inr (new_receipt E d e k x, er_differences x) \<and> d' = executed_db E d e k x \<and> db_ok d'"
      by (auto simp: execute_with_def commit_def split: if_splits)
    with Inr t show ?thesis by blast
  qed
qed (use assms in \<open>auto simp: execute_with_def\<close>)

lemma execute_agent_cases:
  "execute_agent_epoch E d e k tok = (r, d') \<Longrightarrow>
    (\<exists>err. authorize_agent E d e tok = Inl err \<and> r = Inl err \<and> d' = d) \<or>
    (\<exists>c. authorize_agent E d e tok = Inr c \<and> execute_epoch E d e k (Some c) = (r, d'))"
  by (cases "authorize_agent E d e tok") (auto simp: execute_agent_epoch_def)

lemma admit_execution_replay:
  assumes "db_ok d" and "e \<in> set (epochs d)" and "r \<in> set (receipts d)"
    and "receipt_key r = (ep_id e, k)" and "rc_differences r = JArr ds"
  shows "admit_execution d e k c = Inr (Replay r (JArr ds))"
proof -
  from filter_key_distinct [OF receipts_t.distinct_keys [OF assms(1)] assms(3)]
  have "filter (\<lambda>x. receipt_key x = (ep_id e, k)) (receipts d) = [r]"
    by (simp only: assms(4))
  then show ?thesis
    using assms(2,5) unfolding admit_execution_def for_update_loaded [OF assms(2)]
    by simp
qed

text \<open>
  An execution the guards admit, on the live target t, ends with the client's result. (The loaded
  object e may be stale: only its identifier has to be in the table.)
\<close>

lemma admit_execution_start:
  assumes ok: "db_ok d" and e: "ep_id e \<in> ep_id ` set (epochs d)" and t: "t \<in> set (targets d)"
    and key: "target_key t = (ep_project e, ep_environment e)"
    and new: "(ep_id e, k) \<notin> receipt_key ` set (receipts d)" and may: "may_execute d e c"
  shows "admit_execution d e k c = Inr (Start e t)"
proof -
  have live: "live_target d (ep_project e) (ep_environment e) = Inr (Some t)"
    using targets_t.find_row [OF ok t] unfolding live_target_find [OF ok] key by simp
  have nor: "one_or_none (filter (\<lambda>r. receipt_key r = (ep_id e, k)) (receipts d)) = Inr None"
    unfolding receipts_t.select_one [OF ok] using new by (force simp: find_None_iff)
  have app: "one_or_none (filter (\<lambda>a. ap_epoch_id a = ep_id e) (approvals d)) =
      Inr (find (\<lambda>a. ap_epoch_id a = ep_id e) (approvals d))"
    by (rule approvals_t.select_one [OF ok])
  show ?thesis
  proof (cases "policy_allows_without_approval c")
    case True
    with may have "ep_state e = u ''APPROVED'' \<or> ep_state e = u ''DRAFT''" by (auto simp: may_execute_def)
    with True show ?thesis
      unfolding admit_execution_def for_update_id [OF e] res_bind.simps nor app live
      by (auto simp: live)
  next
    case False
    with may have "ep_state e = u ''APPROVED''" "approval_bound d e" by (auto simp: may_execute_def)
    then obtain a where "find (\<lambda>a. ap_epoch_id a = ep_id e) (approvals d) = Some a"
      "ap_approved_fingerprint a = ep_fingerprint e"
      using approvals_t.find_row [OF ok] unfolding approval_bound_def by metis
    with False \<open>ep_state e = u ''APPROVED''\<close> show ?thesis
      unfolding admit_execution_def for_update_id [OF e] res_bind.simps nor app
      by (simp add: live)
  qed
qed

lemma execute_with_start:
  assumes "db_ok d" and e: "ep_id e \<in> ep_id ` set (epochs d)" and "t \<in> set (targets d)"
    and "target_key t = (ep_project e, ep_environment e)"
    and new: "(ep_id e, k) \<notin> receipt_key ` set (receipts d)" and "may_execute d e c"
    and x: "ex E (epoch_identity e) (target_identity t) c = Inr x"
  shows "execute_with ex E d e k c =
    (Inr (new_receipt E d e k x, er_differences x), executed_db E d e k x)"
proof -
  have "db_ok (executed_db E d e k x)"
    by (rule executed_db_ok [OF assms(1) e new])
  with admit_execution_start [OF assms(1-6)] x show ?thesis
    by (simp add: execute_with_def commit_def)
qed

context executor_boundary
begin

text \<open>The receipt of a new execution through a client that keeps the contract.\<close>

lemma new_execution:
  assumes "execute_with execute E d e k c = (Inr (x, ds), d')"
    and "(ep_id e, k) \<notin> receipt_key ` set (receipts d)"
  shows "\<exists>t \<in> set (targets d). target_key t = (ep_project e, ep_environment e) \<and>
    rc_observed_fingerprint x = fingerprint (target_identity t) \<and>
    rc_expected_fingerprint x = ep_fingerprint e \<and>
    rc_outcome x \<in> {u ''EXECUTED'', u ''DENIED_STALE''} \<and>
    (rc_outcome x = u ''EXECUTED'' \<longleftrightarrow> fingerprint (target_identity t) = fingerprint (epoch_identity e))"
  using execute_with_cases [OF assms(1)]
proof (elim disjE exE conjE)
  fix t y
  assume y: "execute E (epoch_identity e) (target_identity t) c = Inr y"
    and r: "Inr (x, ds) = Inr (new_receipt E d e k y, er_differences y)"
    and t: "t \<in> set (targets d)" "target_key t = (ep_project e, ep_environment e)"
  from r have "rc_observed_fingerprint x = er_observed_fingerprint y" "rc_outcome x = er_outcome y"
    "rc_expected_fingerprint x = ep_fingerprint e"
    by (simp_all add: new_receipt_def)
  with observed_fp [OF y] executed_iff [OF y] outcome_cases [OF y] t show ?thesis
    by (intro bexI [of _ t]) auto
qed (use assms(2) in force)+

text \<open>After it, the epoch is in the state the receipt names, which no execution may start from.\<close>

lemma execution_state:
  assumes "execute_with execute E d e k c = (Inr (x, ds), d')"
    and "(ep_id e, k) \<notin> receipt_key ` set (receipts d)"
    and "e' \<in> set (epochs d')" and "ep_id e' = ep_id e"
  shows "ep_state e' = rc_outcome x \<and> \<not> may_execute d' e' c'"
  using execute_with_cases [OF assms(1)]
proof (elim disjE exE conjE)
  fix t y
  assume y: "execute E (epoch_identity e) (target_identity t) c = Inr y"
    and r: "Inr (x, ds) = Inr (new_receipt E d e k y, er_differences y)"
    and d': "d' = executed_db E d e k y" and may: "may_execute d e c"
  from r have x: "rc_outcome x = er_outcome y" by (simp add: new_receipt_def)
  with outcome_cases [OF y] may have "ep_state e \<noteq> er_outcome y"
    by (auto simp: may_execute_def)
  with d' x assms(3,4) have "ep_state e' = rc_outcome x"
    by (auto simp: set_state_def set_update_where split: if_splits)
  with x outcome_cases [OF y] show ?thesis
    by (auto simp: may_execute_def)
qed (use assms(2) in force)+

end

lemma local_client_execute: "executor_mode (cfg E) \<notin> {u ''grpc'', u ''http''} \<Longrightarrow>
    client_execute (executor_client E) = local_execute"
  by (rule ext)+ (simp add: executor_client_def)

section \<open>Properties\<close>

text \<open>
  C25: Whatever client is configured, a new receipt is only written for an epoch that may be
  executed: it is APPROVED with an approval of its current fingerprint, or an agent acts under an
  ALLOW decision on a draft or approved epoch; and there is a live target of its project and
  environment, whose identity the client was asked about.
\<close>

theorem execution_gate:
  assumes "execute_epoch E d e k c = (Inr (r, ds), d')" and "(ep_id e, k) \<notin> receipt_key ` set (receipts d)"
  shows "may_execute d e c \<and> receipts d' = receipts d @ [r] \<and> rc_epoch_id r = ep_id e \<and>
    rc_idempotency_key r = k \<and>
    (\<exists>t \<in> set (targets d). \<exists>x. target_key t = (ep_project e, ep_environment e) \<and>
       client_execute (executor_client E) E (epoch_identity e) (target_identity t) c = Inr x \<and>
       rc_outcome r = er_outcome x)"
  using execute_with_cases [OF assms(1) [unfolded execute_epoch_def]]
proof (elim disjE exE conjE)
  fix t x
  assume "client_execute (executor_client E) E (epoch_identity e) (target_identity t) c = Inr x"
    and "Inr (r, ds) = Inr (new_receipt E d e k x, er_differences x)" and "d' = executed_db E d e k x"
    and "may_execute d e c" and "t \<in> set (targets d)" and "target_key t = (ep_project e, ep_environment e)"
  then show ?thesis
    by (auto simp: new_receipt_def intro!: bexI [of _ t])
qed (use assms(2) in force)+

text \<open>
  With the local executor an admitted execution always ends with a receipt, and its outcome is decided by the
  fingerprints alone: EXECUTED when the live target has the release's fingerprint, DENIED_STALE
  otherwise, with the differences of the two identities. The epoch takes the outcome as its state.
\<close>

lemma local_execution_outcome:
  assumes "db_ok d" and "e \<in> set (epochs d)" and "executor_mode (cfg E) \<notin> {u ''grpc'', u ''http''}"
    and "may_execute d e c" and "(ep_id e, k) \<notin> receipt_key ` set (receipts d)"
    and "t \<in> set (targets d)" and "target_key t = (ep_project e, ep_environment e)"
    and check: "local_check E (epoch_identity e) c = Inr ()"
  shows "\<exists>r d'. execute_epoch E d e k c = (Inr (r, rc_differences r), d') \<and> db_ok d' \<and>
    rc_outcome r = (if fingerprint (epoch_identity e) = fingerprint (target_identity t)
      then u ''EXECUTED'' else u ''DENIED_STALE'') \<and>
    rc_observed_fingerprint r = fingerprint (target_identity t) \<and>
    rc_reason r = (if fingerprint (epoch_identity e) = fingerprint (target_identity t) then msg_identity_match
      else msg_stale_prefix @ join_with (u '', '') (map df_field (diff_identity (epoch_identity e) (target_identity t)))) \<and>
    rc_differences r = JArr (map difference_json (diff_identity (epoch_identity e) (target_identity t))) \<and>
    receipts d' = receipts d @ [r] \<and>
    (\<exists>e' \<in> set (epochs d'). ep_id e' = ep_id e \<and> ep_state e' = rc_outcome r)"
proof -
  obtain x where x: "local_execute E (epoch_identity e) (target_identity t) c = Inr x"
    by (simp add: local_execute_Inr check)
  have id: "ep_id e \<in> ep_id ` set (epochs d)" using assms(2) by simp
  let ?d = "executed_db E d e k x"
  have "execute_epoch E d e k c = (Inr (new_receipt E d e k x, er_differences x), ?d)"
    unfolding execute_epoch_def local_client_execute [OF assms(3)]
    by (rule execute_with_start [where ex = local_execute, OF assms(1) id assms(6,7,5,4) x])
  moreover have "\<exists>e' \<in> set (epochs ?d). ep_id e' = ep_id e \<and> ep_state e' = er_outcome x"
    using set_state_reached [OF assms(2)] by simp
  ultimately show ?thesis
    using executed_db_ok [OF assms(1) id assms(5), of E x] x
    by (intro exI [of _ "new_receipt E d e k x"] exI [of _ ?d]) (auto simp: new_receipt_def local_execute_Inr)
qed

text \<open>
  C13: Executing is idempotent: a second request with the same key, by whoever and in whatever
  state the epoch is by then, returns the stored receipt and its differences, asks no executor and
  writes nothing.
\<close>

theorem execution_idempotent:
  assumes "execute_epoch E d e k c = (Inr (r, JArr ds), d')" and "db_ok d'"
    and "rc_differences r = JArr ds" and "e' \<in> set (epochs d')" and "ep_id e' = ep_id e"
  shows "execute_epoch E' d' e' k c' = (Inr (r, JArr ds), d')"
proof -
  have "r \<in> set (receipts d')" "receipt_key r = (ep_id e, k)"
    using execute_with_cases [OF assms(1) [unfolded execute_epoch_def]] by (auto simp: new_receipt_def)
  then have "admit_execution d' e' k c' = Inr (Replay r (JArr ds))"
    using assms(5) by (intro admit_execution_replay [OF assms(2,4) _ _ assms(3)]) auto
  then show ?thesis by (simp add: execute_epoch_def execute_with_def)
qed

text \<open>
  C12: An approval is spent by one execution. After a new receipt of the local executor the epoch
  has left the states an execution may start from, so a request that reads it then, with any other
  key, gets a 409 and writes nothing.
\<close>

theorem execution_once:
  assumes "execute_epoch E d e k c = (Inr (r, ds), d')" and "(ep_id e, k) \<notin> receipt_key ` set (receipts d)"
    and "executor_mode (cfg E) \<notin> {u ''grpc'', u ''http''}"
    and "e' \<in> set (epochs d')" and "ep_id e' = ep_id e"
    and "db_ok d'" and "(ep_id e, k') \<notin> receipt_key ` set (receipts d')"
  shows "execute_epoch E' d' e' k' c' = (Inl (HTTPException 409 (msg_state_prefix @ rc_outcome r)), d')"
proof -
  have ex: "execute_with local_execute E d e k c = (Inr (r, ds), d')"
    using assms(1) by (simp add: execute_epoch_def local_client_execute [OF assms(3)])
  from local_client.execution_state [OF ex assms(2,4,5)] have st: "ep_state e' = rc_outcome r"
    by blast
  from local_client.new_execution [OF ex assms(2)]
  have out: "rc_outcome r \<in> {u ''EXECUTED'', u ''DENIED_STALE''}" by blast
  have no: "one_or_none (filter (\<lambda>r. receipt_key r = (ep_id e', k')) (receipts d')) = Inr None"
    unfolding receipts_t.select_one [OF assms(6)] using assms(5,7) by (force simp: find_None_iff)
  have "admit_execution d' e' k' c' = Inl (HTTPException 409 (msg_state_prefix @ rc_outcome r))"
    using out st unfolding admit_execution_def for_update_loaded [OF assms(4)] res_bind.simps no
    by auto
  then show ?thesis by (simp add: execute_epoch_def execute_with_def)
qed

text \<open>
  C14: An agent's execution needs a live capability: the token verifies for the scope of the epoch
  and of the agent's change as they are stored, it names a grant of this epoch that is stored, not
  revoked and not expired, and the policy does not deny the action.
\<close>

theorem agent_execution_gate:
  assumes "execute_agent_epoch E d e k token = (Inr (r, ds), d')"
  shows "\<exists>c g claims. agent_change d e c \<and>
    verify_capability E (clock E 1) token (agent_scope e c) = Inr claims \<and>
    g \<in> set (grants d) \<and> map_of claims (u ''jti'') = Some (JStr (cg_id g)) \<and>
    cg_epoch_id g = ep_id e \<and> cg_revoked_at g = None \<and> clock E 2 < cg_expires_at g \<and>
    \<not> destructive_action (cr_action c)"
proof (cases "authorize_agent E d e token")
  case (Inl err)
  with assms show ?thesis by (simp add: execute_agent_epoch_def)
next
  case (Inr c)
  from authorize_agent_Inr [OF this] show ?thesis
    unfolding change_decision_def deny_iff by blast
qed

end
