(* ===== verification/Security.thy ===== *)
theory Security
  imports Database Environment
begin

text \<open>
  \<open>orchestrator/app/security.py\<close>: password hashes, bearer tokens, and the role gate of the routes.
\<close>

section \<open>Passwords\<close>

text \<open>
  \<open>hash_password(password, salt)\<close>: a missing or empty salt is replaced by 16 random bytes. The
  text is the method, the salt and the digest, separated by dollar signs (code 36).
\<close>

definition hash_password :: "bytes \<Rightarrow> ustr \<Rightarrow> bytes option \<Rightarrow> ustr" where
  "hash_password random password salt_arg =
    (let salt = (case salt_arg of Some s \<Rightarrow> (if s = [] then random else s) | None \<Rightarrow> random);
         digest = pbkdf2_sha256 (utf8 password) salt 180000
     in u ''pbkdf2_sha256'' @ 36 # bytes_hex salt @ 36 # bytes_hex digest)"

text \<open>Any exception on the way (too few parts, a salt that is not hexadecimal) is False.\<close>

definition verify_password :: "ustr \<Rightarrow> ustr \<Rightarrow> bool" where
  "verify_password password encoded =
    (case split_char 36 2 encoded of
       [_, salt_hex, digest_hex] \<Rightarrow>
         (case bytes_fromhex salt_hex of
            None \<Rightarrow> False
          | Some salt \<Rightarrow> bytes_hex (pbkdf2_sha256 (utf8 password) salt 180000) = digest_hex)
     | _ \<Rightarrow> False)"

lemma dollar_not_hex: "\<forall>b \<in> set bs. b < 256 \<Longrightarrow> 36 \<notin> set (bytes_hex bs)"
proof
  assume "\<forall>b \<in> set bs. b < 256" "36 \<in> set (bytes_hex bs)"
  then obtain n where "n < 16" "36 = hex_digit n" using bytes_hex_chars by blast
  then show False by (simp add: hex_digit_def split: if_splits)
qed

lemma split_hash:
  assumes "\<forall>b \<in> set salt. b < 256"
  shows "split_char 36 2 (u ''pbkdf2_sha256'' @ 36 # bytes_hex salt @ 36 # h) =
    [u ''pbkdf2_sha256'', bytes_hex salt, h]"
proof -
  have "36 \<notin> set (u ''pbkdf2_sha256'')" by (simp add: u_def)
  then have "split_char 36 2 (u ''pbkdf2_sha256'' @ 36 # bytes_hex salt @ 36 # h) =
      u ''pbkdf2_sha256'' # split_char 36 (2 - 1) (bytes_hex salt @ 36 # h)"
    by (rule split_char_app) simp
  also have "(2 - 1 :: nat) = 1" by simp
  also have "split_char 36 1 (bytes_hex salt @ 36 # h) = bytes_hex salt # split_char 36 (1 - 1) h"
    by (rule split_char_app [OF dollar_not_hex [OF assms]]) simp
  also have "split_char 36 (1 - 1) h = [h]" by (simp only: diff_self_eq_0 split_char_zero)
  finally show ?thesis .
qed

lemma bytes_hex_inj:
  assumes "\<forall>b \<in> set xs. b < 256" "\<forall>b \<in> set ys. b < 256"
  shows "bytes_hex xs = bytes_hex ys \<longleftrightarrow> xs = ys"
  using fromhex_hex [OF assms(1)] fromhex_hex [OF assms(2)] by (metis option.inject)

text \<open>A hash verifies exactly the passwords with the same derived key under its salt.\<close>

lemma verify_hash_password:
  assumes "\<forall>b \<in> set salt. b < 256" and "salt \<noteq> []"
  shows "verify_password q (hash_password random p (Some salt)) \<longleftrightarrow>
    pbkdf2_sha256 (utf8 q) salt 180000 = pbkdf2_sha256 (utf8 p) salt 180000"
  using assms
  by (simp add: verify_password_def hash_password_def split_hash fromhex_hex bytes_hex_inj pbkdf2_bytes)

section \<open>Bearer tokens and roles\<close>

definition token_payload :: "user_row \<Rightarrow> int \<Rightarrow> (ustr \<times> view) list" where
  "token_payload user now =
     [(u ''sub'', VStr (us_username user)),
      (u ''role'', VStr (us_role user)),
      (u ''iat'', VTime now),
      (u ''exp'', VTime (now + 8 * 3600 * 1000000))]"

definition issue_token :: "env \<Rightarrow> user_row \<Rightarrow> ustr" where
  "issue_token E user = jwt_encode (jwt E) (token_payload user (clock E 0)) (jwt_secret (cfg E))"

text \<open>
  \<open>creds\<close> is the token of the \<open>Authorization: Bearer\<close> header, if there is one. A token without a
  \<open>sub\<close> string selects no user.
\<close>

definition current_user :: "env \<Rightarrow> db \<Rightarrow> ustr option \<Rightarrow> user_row res" where
  "current_user E d creds =
    (case creds of
       None \<Rightarrow> Inl (HTTPException 401 msg_no_bearer)
     | Some token \<Rightarrow>
        (case jwt_decode (jwt E) (clock E 0) token (jwt_secret (cfg E)) of
           Inl _ \<Rightarrow> Inl (HTTPException 401 msg_bad_token)
         | Inr payload \<Rightarrow>
            (case one_or_none (filter (\<lambda>r. map_of payload (u ''sub'') = Some (JStr (us_username r)))
                     (users d)) of
               Inl e \<Rightarrow> Inl e
             | Inr None \<Rightarrow> Inl (HTTPException 401 msg_no_user)
             | Inr (Some user) \<Rightarrow> Inr user)))"

definition require_role :: "env \<Rightarrow> db \<Rightarrow> ustr option \<Rightarrow> string list \<Rightarrow> user_row res" where
  "require_role E d creds roles =
     res_bind (current_user E d creds) (\<lambda>user.
       if us_role user \<notin> u ` set roles then Inl (HTTPException 403 msg_forbidden) else Inr user)"

lemma one_or_none_Some: "one_or_none xs = Inr (Some x) \<Longrightarrow> x \<in> set xs"
  by (cases xs rule: one_or_none.cases) auto

lemma current_user_Inr:
  assumes "current_user E d creds = Inr user"
  shows "\<exists>token payload. creds = Some token \<and>
     jwt_decode (jwt E) (clock E 0) token (jwt_secret (cfg E)) = Inr payload \<and>
     user \<in> set (users d) \<and> map_of payload (u ''sub'') = Some (JStr (us_username user))"
  using assms by (auto simp: current_user_def dest!: one_or_none_Some split: option.splits sum.splits)

lemma require_role_Inr:
  "require_role E d creds roles = Inr user \<longleftrightarrow>
     current_user E d creds = Inr user \<and> us_role user \<in> u ` set roles"
  by (auto simp: require_role_def res_bind_Inr_iff)

text \<open>The gate fails with 401 or 403 only: a bad credential is never a server error.\<close>

lemma current_user_Inl:
  assumes "db_ok d" and "current_user E d creds = Inl e"
  shows "\<exists>m. e = HTTPException 401 m"
proof -
  have sel: "one_or_none (filter (\<lambda>r. j = Some (JStr (us_username r))) (users d)) \<noteq> Inl x" for j x
  proof (cases "\<exists>n. j = Some (JStr n)")
    case True
    then obtain n where "j = Some (JStr n)" ..
    then show ?thesis using users_t.select_one [OF assms(1), of n] by (simp add: eq_commute)
  next
    case False
    then have "filter (\<lambda>r. j = Some (JStr (us_username r))) (users d) = []" by simp
    then show ?thesis by simp
  qed
  from assms(2) show ?thesis
    by (auto simp: current_user_def sel split: option.splits sum.splits)
qed

lemma require_role_Inl:
  "db_ok d \<Longrightarrow> require_role E d creds roles = Inl e \<Longrightarrow> status_of e = 401 \<or> status_of e = 403"
  using current_user_Inl [of d E creds]
  by (cases "current_user E d creds") (auto simp: require_role_def split: if_splits)

text \<open>A token issued for a user of the database authenticates this user while it is live.\<close>

lemma issued_token_authenticates:
  assumes ok: "db_ok d" and user: "user \<in> set (users d)"
    and rt: "jwt_returns_claims (jwt E) (token_payload user t) (jwt_secret (cfg E)) (clock E 0)"
    and live: "jwt_live (token_payload user t) (clock E 0)"
  shows "current_user E d (Some (jwt_encode (jwt E) (token_payload user t) (jwt_secret (cfg E)))) = Inr user"
proof -
  have "map_of (jwt_claims (token_payload user t)) (u ''sub'') = Some (JStr (us_username user))"
    by (simp add: map_of_jwt_claims token_payload_def)
  moreover have "filter (\<lambda>r. us_username user = us_username r) (users d) = [user]"
    using filter_key_distinct [OF users_t.distinct_keys [OF ok] user] by (simp add: eq_commute)
  ultimately show ?thesis
    using rt live by (simp add: current_user_def jwt_returns_claims_def)
qed

section \<open>Properties\<close>

text \<open>
  A stored password hash accepts exactly the passwords that derive, with its salt, the same
  PBKDF2 key as the password it was made from; in particular it accepts that password.
\<close>

lemma password_hash_verifies:
  assumes "list_all (\<lambda>b. b < 256) salt" and "salt \<noteq> []"
  shows "verify_password p (hash_password random p (Some salt)) \<and>
    (verify_password q (hash_password random p (Some salt)) \<longleftrightarrow>
      pbkdf2_sha256 (utf8 q) salt 180000 = pbkdf2_sha256 (utf8 p) salt 180000)"
  using assms by (simp add: verify_hash_password list_all_iff)

text \<open>
  A bearer token that was issued for a user of the database authenticates this user, and
  nobody else, for eight hours (to the whole second). Assumed of PyJWT: a live token decodes to the
  claims it was encoded with.
\<close>

lemma issued_token_valid:
  assumes "db_ok d" and "user \<in> set (users d)"
    and "jwt E' = jwt E" and "jwt_secret (cfg E') = jwt_secret (cfg E)"
    and "jwt_returns_claims (jwt E) (token_payload user (clock E 0)) (jwt_secret (cfg E)) (clock E' 0)"
    and "clock E 0 \<le> clock E' 0"
    and "clock E' 0 < ((clock E 0 + 8 * 3600 * 1000000) div 1000000) * 1000000"
  shows "current_user E' d (Some (issue_token E user)) = Inr user"
proof -
  have "(clock E 0 div 1000000) * 1000000 \<le> clock E 0" by simp
  then have "jwt_live (token_payload user (clock E 0)) (clock E' 0)"
    using assms(6,7) by (simp add: jwt_live_def token_payload_def)
  then show ?thesis
    using issued_token_authenticates [OF assms(1,2), of E' "clock E 0"] assms(3-5)
    by (simp add: issue_token_def)
qed

text \<open>
  The role gate lets a request pass only with a bearer token that decodes under the secret to a
  \<open>sub\<close> naming a stored user whose stored role is one of the allowed ones; otherwise the answer is 401
  or 403.
\<close>

lemma role_gate:
  assumes "db_ok d"
  shows "(\<exists>user token payload. require_role E d creds roles = Inr user \<and> creds = Some token \<and>
      jwt_decode (jwt E) (clock E 0) token (jwt_secret (cfg E)) = Inr payload \<and>
      map_of payload (u ''sub'') = Some (JStr (us_username user)) \<and>
      user \<in> set (users d) \<and> us_role user \<in> u ` set roles) \<or>
    (\<exists>e. require_role E d creds roles = Inl e \<and> status_of e \<in> {401, 403})"
proof (cases "require_role E d creds roles")
  case (Inl e)
  with require_role_Inl [OF assms] show ?thesis by blast
next
  case (Inr user)
  with current_user_Inr show ?thesis by (simp add: require_role_Inr) blast
qed

end
