(* ===== verification/Demo.thy ===== *)
theory Demo
  imports Lifecycle Targets Security
begin

text \<open>
  The demonstration routes of \<open>orchestrator/app/main.py\<close>: the users seeded at start-up, the
  bootstrap that replaces all epochs by one, and the drift of its target. The routes exist only in
  demo mode.
\<close>

definition demo_only :: "env \<Rightarrow> unit res" where
  "demo_only E = (if \<not> demo_mode (cfg E) then Inl (HTTPException 404 msg_not_found) else Inr ())"

section \<open>Users\<close>

definition demo_user :: "env \<Rightarrow> nat \<Rightarrow> string \<Rightarrow> string \<Rightarrow> user_row" where
  "demo_user E i name password =
     \<lparr>us_id = Suc i, us_username = u name,
      us_password_hash = hash_password (urandom E i) (u password) None,
      us_role = u name, us_created_at = stamp E\<rparr>"

definition seed_demo_users :: "env \<Rightarrow> db \<Rightarrow> unit res \<times> db" where
  "seed_demo_users E d =
    (if users d = [] then
       commit d (d\<lparr>users :=
         [demo_user E 0 ''operator'' ''operator-demo'',
          demo_user E 1 ''approver'' ''approver-demo'',
          demo_user E 2 ''admin'' ''admin-demo'']\<rparr>) ()
     else (Inr (), d))"

text \<open>\<open>lifespan\<close>: the tables are created when they are missing, then the users are seeded.\<close>

definition lifespan :: "env \<Rightarrow> db \<Rightarrow> unit res \<times> db" where
  "lifespan E d = (if demo_mode (cfg E) then seed_demo_users E d else (Inr (), d))"

section \<open>Bootstrap\<close>

text \<open>
  The deletion of the five tables; the foreign keys cascade from the epochs to their changes,
  evidence rows and passport events.
\<close>

definition cleared_db :: "db \<Rightarrow> db" where
  "cleared_db d = d\<lparr>receipts := [], grants := [], approvals := [], targets := [], epochs := [],
     changes := [], evidences := [], events := []\<rparr>"

definition demo_payload :: EpochCreate where
  "demo_payload =
     \<lparr>project = u ''payments-api'',
      environment = u ''prod'',
      commit_sha = u ''8f375e7b64f6d20a3c1a1b2a6f9a1d9e2f7c1234'',
      artifact_digest = u ''sha256:3a7d5d6259081b92f69359685c9b0f3f3f2ad7b3ce84b3ae6a711a3fa2d0ef77'',
      config_hash = u ''cfg:2e9d35a12347bd18bb3c9dcb7a4c8701'',
      pipeline_id = u ''7421''\<rparr>"

definition demo_pipeline_event :: "env \<Rightarrow> db \<Rightarrow> epoch_row \<Rightarrow> db" where
  "demo_pipeline_event E d epoch =
     record_event (stamp E) d (ep_id epoch) (u ''PIPELINE_VERIFIED'') (u ''system'') (u ''gitlab'')
       msg_demo_pipeline_verified
       (JObj [(u ''pipeline_id'', JStr (ep_pipeline_id epoch)),
              (u ''commit_sha'', JStr (ep_commit_sha epoch)),
              (u ''status'', JStr (u ''success''))])"

text \<open>
  Each stage commits before the next begins. The payload is a literal that satisfies the schemas
  (\<open>demo_payload_valid\<close> of the theory \<open>Scenario\<close>), and so is the observation made of it.
\<close>

definition demo_bootstrap :: "env \<Rightarrow> db \<Rightarrow> user_row \<Rightarrow> epoch_row res \<times> db" where
  "demo_bootstrap E d user =
    on_ok (demo_only E) d (\<lambda>_.
    then_ok (commit d (cleared_db d) ()) (\<lambda>_ d1.
    then_ok (create_epoch E d1 demo_payload (us_username user) (u ''success'')) (\<lambda>epoch d2.
    then_ok (create_change_request (stamp E) (uuid4 E 1) d2 epoch (u ''ISSUE-184'') msg_demo_reason
               (u ''ai_agent'') (u ''release-agent-01'') (us_username user) (u ''deploy'')) (\<lambda>_ d3.
    then_ok (commit d3 (demo_pipeline_event E d3 epoch) ()) (\<lambda>_ d4.
    then_ok (upsert_target E d4 (epoch_identity epoch)) (\<lambda>_ d5. (Inr epoch, d5)))))))"

section \<open>Drift\<close>

definition drift_field :: "ustr \<Rightarrow> (ustr \<Rightarrow> target_row \<Rightarrow> target_row) option" where
  "drift_field name =
    (if name = u ''commit_sha'' then Some (\<lambda>v r. r\<lparr>lt_commit_sha := v\<rparr>)
     else if name = u ''artifact_digest'' then Some (\<lambda>v r. r\<lparr>lt_artifact_digest := v\<rparr>)
     else if name = u ''config_hash'' then Some (\<lambda>v r. r\<lparr>lt_config_hash := v\<rparr>)
     else None)"

definition drift_target :: "env \<Rightarrow> db \<Rightarrow> target_row \<Rightarrow> target_row \<Rightarrow> target_row res \<times> db" where
  "drift_target E d target changed =
    (let new = (if changed = target then target else changed\<lparr>lt_updated_at := stamp E\<rparr>)
     in commit d (d\<lparr>targets := update_where (\<lambda>r. lt_id r = lt_id target) (\<lambda>_. new) (targets d)\<rparr>) new)"

text \<open>Returns the fingerprint of the drifted target.\<close>

definition demo_drift :: "env \<Rightarrow> db \<Rightarrow> epoch_row \<Rightarrow> ustr \<Rightarrow> ustr \<Rightarrow> ustr res \<times> db" where
  "demo_drift E d epoch field value =
    (case drift_field field of
       None \<Rightarrow> (Inl (HTTPException 400 msg_bad_drift_field), d)
     | Some set_field \<Rightarrow>
        on_ok (live_target d (ep_project epoch) (ep_environment epoch)) d (\<lambda>live.
        case live of
          None \<Rightarrow> (Inl (HTTPException 409 msg_no_target_for_drift), d)
        | Some target \<Rightarrow>
            then_ok (drift_target E d target (set_field value target)) (\<lambda>new d1.
            on_ok (sync_executor_observation E (target_identity new)) d1 (\<lambda>_.
            (Inr (fingerprint (target_identity new)), d1)))))"

end
