(* ===== verification/Drift.thy ===== *)
theory Drift
  imports Execution Demo
begin

text \<open>
  The story the demonstration tells: the target of an approved epoch is changed in one field, and the
  next execution is stopped and names exactly this field.
\<close>

section \<open>One field changed\<close>

fun with_field :: "field \<Rightarrow> ustr \<Rightarrow> identity \<Rightarrow> identity" where
  "with_field Project v i = i\<lparr>project := v\<rparr>"
| "with_field Environment v i = i\<lparr>environment := v\<rparr>"
| "with_field CommitSha v i = i\<lparr>commit_sha := v\<rparr>"
| "with_field ArtifactDigest v i = i\<lparr>artifact_digest := v\<rparr>"
| "with_field ConfigHash v i = i\<lparr>config_hash := v\<rparr>"

lemma ident_get_with_field: "ident_get (with_field k v i) l = (if l = k then v else ident_get i l)"
  by (cases k; cases l) simp_all

lemma diff_with_field:
  assumes "py_strip v \<noteq> py_strip (ident_get i k)"
  shows "diff_identity i (with_field k v i) =
    [\<lparr>df_field = field_name k, df_expected = py_strip (ident_get i k), df_observed = py_strip v\<rparr>]"
proof -
  have "diff_identity i (with_field k v i) = concat (map (\<lambda>l. if l = k then
      [\<lparr>df_field = field_name k, df_expected = py_strip (ident_get i k), df_observed = py_strip v\<rparr>] else []) FIELDS)"
    using assms unfolding diff_identity_def ident_get_with_field Let_def by (intro arg_cong [of _ _ concat] map_cong) auto
  also have "\<dots> = [\<lparr>df_field = field_name k, df_expected = py_strip (ident_get i k), df_observed = py_strip v\<rparr>]"
    by (cases k) (simp_all add: FIELDS_def)
  finally show ?thesis .
qed

lemma with_field_drifts:
  assumes "py_strip v \<noteq> py_strip (ident_get i k)" and "no_collision i (with_field k v i)"
  shows "fingerprint i \<noteq> fingerprint (with_field k v i)"
  using diff_with_field [OF assms(1)] by (simp add: fingerprint_eq_iff [OF assms(2)] diff_identity_Nil_iff [symmetric])

section \<open>The drift of a target\<close>

definition drift_fields :: "field set" where
  "drift_fields = {CommitSha, ArtifactDigest, ConfigHash}"

lemma drift_field_some:
  assumes "k \<in> drift_fields"
  shows "\<exists>f. drift_field (field_name k) = Some f \<and>
    (\<forall>v r. target_identity (f v r) = with_field k v (target_identity r) \<and> target_key (f v r) = target_key r \<and>
      lt_id (f v r) = lt_id r)"
  using assms by (auto simp: drift_fields_def drift_field_def target_identity_def)

lemma target_identity_updated [simp]: "target_identity (r\<lparr>lt_updated_at := n\<rparr>) = target_identity r"
  by (simp add: target_identity_def)

lemma drift_stored:
  assumes ok: "db_ok d" and t: "t \<in> set (targets d)" and key: "target_key t = (ep_project e, ep_environment e)"
    and k: "k \<in> drift_fields"
    and told: "sync_executor_observation E (with_field k v (target_identity t)) = Inr ()"
  shows "\<exists>ts t'. demo_drift E d e (field_name k) v =
      (Inr (fingerprint (with_field k v (target_identity t))), d\<lparr>targets := ts\<rparr>) \<and> db_ok (d\<lparr>targets := ts\<rparr>) \<and>
    ts = update_where (\<lambda>r. lt_id r = lt_id t) (\<lambda>_. t') (targets d) \<and>
    t' \<in> set ts \<and> target_key t' = target_key t \<and> target_identity t' = with_field k v (target_identity t)"
proof -
  obtain f where f: "drift_field (field_name k) = Some f"
    and fi: "target_identity (f v t) = with_field k v (target_identity t)" "target_key (f v t) = target_key t"
      "lt_id (f v t) = lt_id t"
    using drift_field_some [OF k] by blast
  let ?new = "if f v t = t then t else (f v t)\<lparr>lt_updated_at := stamp E\<rparr>"
  let ?ts = "update_where (\<lambda>r. lt_id r = lt_id t) (\<lambda>_. ?new) (targets d)"
  have new: "target_identity ?new = with_field k v (target_identity t)" "target_key ?new = target_key t" "lt_id ?new = lt_id t"
    using fi by auto
  have same: "r = t" if "r \<in> set (targets d)" "lt_id r = lt_id t" for r
    using ok that t by (auto simp: db_ok_defs distinct_map dest: inj_onD)
  have ok': "db_ok (d\<lparr>targets := ?ts\<rparr>)"
    by (rule targets_update_ok [OF ok]; rule map_update_row) (use new same in auto)
  have "live_target d (ep_project e) (ep_environment e) = Inr (Some t)"
    using targets_t.find_row [OF ok t] unfolding live_target_find [OF ok] key by simp
  moreover have "drift_target E d t (f v t) = (Inr ?new, d\<lparr>targets := ?ts\<rparr>)"
    using ok' by (simp add: drift_target_def commit_def Let_def)
  ultimately have "demo_drift E d e (field_name k) v =
      (Inr (fingerprint (with_field k v (target_identity t))), d\<lparr>targets := ?ts\<rparr>)"
    by (simp add: demo_drift_def f new(1) told del: if_split)
  moreover have "?new \<in> set ?ts" using t by (force simp: set_update_where)
  ultimately show ?thesis using ok' new by blast
qed

section \<open>Properties\<close>

text \<open>
  C26: A release that drifts after its approval is stopped, and the receipt says why. When the live target of
  an epoch that may be executed is changed in one of its three references to a value that is not the
  approved one, the next execution, by a human or by an agent whose capability verifies, ends with
  DENIED_STALE, the fingerprint of the changed target, and exactly this field, with the approved and
  the observed value, as its differences and its reason; the epoch takes DENIED_STALE as its state. Assumed:
  the two identities do not collide.
\<close>

theorem drift_is_caught:
  assumes "db_ok d" and "e \<in> set (epochs d)" and "t \<in> set (targets d)"
    and "target_key t = (ep_project e, ep_environment e)" and "target_identity t = epoch_identity e"
    and "k \<in> drift_fields" and "py_strip v \<noteq> py_strip (ident_get (epoch_identity e) k)"
    and "no_collision (epoch_identity e) (with_field k v (epoch_identity e))"
    and "executor_mode (cfg E) \<notin> {u ''grpc'', u ''http''}"
    and "executor_mode (cfg E') \<notin> {u ''grpc'', u ''http''}"
    and "may_execute d e c" and "(ep_id e, key) \<notin> receipt_key ` set (receipts d)"
    and "local_check E' (epoch_identity e) c = Inr ()"
  shows "\<exists>d1 r d2. demo_drift E d e (field_name k) v =
      (Inr (fingerprint (with_field k v (epoch_identity e))), d1) \<and>
    execute_epoch E' d1 e key c = (Inr (r, JArr [JObj [(u ''field'', JStr (field_name k)),
      (u ''expected'', JStr (py_strip (ident_get (epoch_identity e) k))), (u ''observed'', JStr (py_strip v))]]), d2) \<and>
    rc_outcome r = u ''DENIED_STALE'' \<and> rc_reason r = msg_stale_prefix @ field_name k \<and>
    rc_observed_fingerprint r = fingerprint (with_field k v (epoch_identity e)) \<and>
    receipts d2 = receipts d @ [r] \<and>
    (\<exists>e' \<in> set (epochs d2). ep_id e' = ep_id e \<and> ep_state e' = u ''DENIED_STALE'')"
proof -
  have "sync_executor_observation E i = Inr ()" for i
    using assms(9) by (simp add: sync_executor_observation_def executor_client_def local_observe_def)
  from drift_stored [OF assms(1,3,4,6) this, of v] obtain ts t' where drift: "demo_drift E d e (field_name k) v =
      (Inr (fingerprint (with_field k v (epoch_identity e))), d\<lparr>targets := ts\<rparr>)"
    and ok: "db_ok (d\<lparr>targets := ts\<rparr>)" and t': "t' \<in> set ts" "target_key t' = (ep_project e, ep_environment e)"
      "target_identity t' = with_field k v (epoch_identity e)"
    unfolding assms(5) assms(4) by blast
  have stale: "fingerprint (epoch_identity e) \<noteq> fingerprint (target_identity t')"
    unfolding t'(3) by (rule with_field_drifts [OF assms(7,8)])
  let ?d = "d\<lparr>targets := ts\<rparr>"
  have may: "may_execute ?d e c" using assms(11) by (simp add: may_execute_def approval_bound_def)
  have rows: "e \<in> set (epochs ?d)" "(ep_id e, key) \<notin> receipt_key ` set (receipts ?d)" "t' \<in> set (targets ?d)"
    using assms(2,12) t'(1) by simp_all
  from local_execution_outcome [OF ok rows(1) assms(10) may rows(2,3) t'(2) assms(13)]
  obtain r d2 where run: "execute_epoch E' ?d e key c = (Inr (r, rc_differences r), d2)"
    and r: "rc_outcome r = u ''DENIED_STALE''" "rc_observed_fingerprint r = fingerprint (target_identity t')"
      "rc_reason r = msg_stale_prefix @ join_with (u '', '') (map df_field (diff_identity (epoch_identity e) (target_identity t')))"
      "rc_differences r = JArr (map difference_json (diff_identity (epoch_identity e) (target_identity t')))"
    and d2: "receipts d2 = receipts ?d @ [r]" "\<exists>e' \<in> set (epochs d2). ep_id e' = ep_id e \<and> ep_state e' = rc_outcome r"
    unfolding if_not_P [OF stale] by (elim exE conjE) (rule that)
  show ?thesis
    using drift run r d2 unfolding t'(3) diff_with_field [OF assms(7)]
    by (intro exI [of _ ?d] exI [of _ r] exI [of _ d2]) (simp add: difference_json_def)
qed

end
