(* ===== verification/Fingerprint_Vector.thy ===== *)
theory Fingerprint_Vector
  imports Fingerprint
begin

text \<open>
  The fingerprint evaluated inside the kernel. \<open>vector_identity\<close> is the identity of the repository's
  cross-runtime test vector (\<open>orchestrator/tests/test_fingerprint.py\<close>); \<open>drifted_identity\<close> is the
  same release with another config hash, the drift of the tests. One lemma per SHA-256 block keeps
  each evaluation short; the two identities share their first two blocks.
\<close>

definition vector_identity :: identity where
  "vector_identity =
     \<lparr>project = u ''payments-api'', environment = u ''prod'', commit_sha = u ''abc1234'',
      artifact_digest =
        u ''sha256:1111111111111111111111111111111111111111111111111111111111111111'',
      config_hash = u ''cfg:22222222222222222222222222222222''\<rparr>"

definition drifted_identity :: identity where
  "drifted_identity = vector_identity\<lparr>config_hash := u ''cfg:33333333333333333333333333333333''\<rparr>"

text \<open>Divisions by powers of two as shifts, which the simplifier computes faster.\<close>

lemma rotr_eval: "rotr n x = (let q = drop_bit n x in q + (x - push_bit n q) * 2 ^ (32 - n))"
  by (simp add: rotr_def Let_def drop_bit_eq_div push_bit_eq_mult minus_div_mult_eq_mod)

lemma shift_eval:
  "x mod two32 = x - push_bit 32 (drop_bit 32 x)" "x div 8 = drop_bit 3 x" "x div 1024 = drop_bit 10 x" for x :: nat
  by (simp_all add: drop_bit_eq_div push_bit_eq_mult minus_div_mult_eq_mod)

lemmas sha_eval = sha_block_def round_constants_def Let_def rotr_eval shift_eval sha_ch_def sha_maj_def
  big_sigma0_def big_sigma1_def small_sigma0_def small_sigma1_def

lemmas payload_eval = fingerprint_payload_eq u_def py_strip_def strip_by_def is_py_space_def
  is_rust_space_def json_string_def esc_char_def utf8_def utf8_char_def

lemma block_vector_1:
  "sha_block (0x6a09e667, 0xbb67ae85, 0x3c6ef372, 0xa54ff53a, 0x510e527f, 0x9b05688c, 0x1f83d9ab,
    0x5be0cd19)
    [0x7b226172, 0x74696661, 0x63745f64, 0x69676573, 0x74223a22, 0x73686132, 0x35363a31,
     0x31313131, 0x31313131, 0x31313131, 0x31313131, 0x31313131, 0x31313131, 0x31313131,
     0x31313131, 0x31313131] =
   (0x6aa76054, 0xae6745f3, 0x584a0ee1, 0x3a6ed221, 0x7ee8a852, 0xc5f54e55, 0x43dcc317,
    0xa90c059a)"
  by (simp add: sha_eval)

lemma block_vector_2:
  "sha_block (0x6aa76054, 0xae6745f3, 0x584a0ee1, 0x3a6ed221, 0x7ee8a852, 0xc5f54e55, 0x43dcc317,
    0xa90c059a)
    [0x31313131, 0x31313131, 0x31313131, 0x31313131, 0x31313131, 0x31313131, 0x31313122,
     0x2c22636f, 0x6d6d6974, 0x5f736861, 0x223a2261, 0x62633132, 0x3334222c, 0x22636f6e,
     0x6669675f, 0x68617368] =
   (0xf98ce392, 0xa47be998, 0x9b72277f, 0xafd6e853, 0xfbc4d440, 0xb7ef73a6, 0x2703b5cf,
    0x6de604bf)"
  by (simp add: sha_eval)

lemma block_vector_3:
  "sha_block (0xf98ce392, 0xa47be998, 0x9b72277f, 0xafd6e853, 0xfbc4d440, 0xb7ef73a6, 0x2703b5cf,
    0x6de604bf)
    [0x223a2263, 0x66673a32, 0x32323232, 0x32323232, 0x32323232, 0x32323232, 0x32323232,
     0x32323232, 0x32323232, 0x32323222, 0x2c22656e, 0x7669726f, 0x6e6d656e, 0x74223a22,
     0x70726f64, 0x222c2270] =
   (0xd79d9f55, 0x0a7b7f1b, 0xdbb6d9b0, 0x3e620610, 0xdc5bcaec, 0xe34e60db, 0xff2a4577,
    0xd8962771)"
  by (simp add: sha_eval)

lemma block_vector_4:
  "sha_block (0xd79d9f55, 0x0a7b7f1b, 0xdbb6d9b0, 0x3e620610, 0xdc5bcaec, 0xe34e60db, 0xff2a4577,
    0xd8962771)
    [0x726f6a65, 0x6374223a, 0x22706179, 0x6d656e74, 0x732d6170, 0x69227d80, 0x00000000,
     0x00000000, 0x00000000, 0x00000000, 0x00000000, 0x00000000, 0x00000000, 0x00000000,
     0x00000000, 0x000006b8] =
   (0x074034cd, 0xaccbb753, 0x732b0212, 0xfb10ce14, 0x18aeda97, 0x1956c570, 0xf586ed6f,
    0x04bbdc13)"
  by (simp add: sha_eval)

lemma block_drifted_3:
  "sha_block (0xf98ce392, 0xa47be998, 0x9b72277f, 0xafd6e853, 0xfbc4d440, 0xb7ef73a6, 0x2703b5cf,
    0x6de604bf)
    [0x223a2263, 0x66673a33, 0x33333333, 0x33333333, 0x33333333, 0x33333333, 0x33333333,
     0x33333333, 0x33333333, 0x33333322, 0x2c22656e, 0x7669726f, 0x6e6d656e, 0x74223a22,
     0x70726f64, 0x222c2270] =
   (0x6a218f0f, 0xe954515e, 0x993e3b20, 0xfc5de91c, 0x481664cb, 0xe1fd0b93, 0xe71ef435,
    0x0ce42f9d)"
  by (simp add: sha_eval)

lemma block_drifted_4:
  "sha_block (0x6a218f0f, 0xe954515e, 0x993e3b20, 0xfc5de91c, 0x481664cb, 0xe1fd0b93, 0xe71ef435,
    0x0ce42f9d)
    [0x726f6a65, 0x6374223a, 0x22706179, 0x6d656e74, 0x732d6170, 0x69227d80, 0x00000000,
     0x00000000, 0x00000000, 0x00000000, 0x00000000, 0x00000000, 0x00000000, 0x00000000,
     0x00000000, 0x000006b8] =
   (0x21513bd9, 0x40c3e8a2, 0xad87b81b, 0x4c424727, 0x84596380, 0x488f5a55, 0x1611e24c,
    0x4c3eb69e)"
  by (simp add: sha_eval)

lemma padded_vector:
  "split_every 16 (be_words (sha_pad (utf8 (fingerprint_payload vector_identity)))) =
   [[0x7b226172, 0x74696661, 0x63745f64, 0x69676573, 0x74223a22, 0x73686132, 0x35363a31,
     0x31313131, 0x31313131, 0x31313131, 0x31313131, 0x31313131, 0x31313131, 0x31313131,
     0x31313131, 0x31313131],
    [0x31313131, 0x31313131, 0x31313131, 0x31313131, 0x31313131, 0x31313131, 0x31313122,
     0x2c22636f, 0x6d6d6974, 0x5f736861, 0x223a2261, 0x62633132, 0x3334222c, 0x22636f6e,
     0x6669675f, 0x68617368],
    [0x223a2263, 0x66673a32, 0x32323232, 0x32323232, 0x32323232, 0x32323232, 0x32323232,
     0x32323232, 0x32323232, 0x32323222, 0x2c22656e, 0x7669726f, 0x6e6d656e, 0x74223a22,
     0x70726f64, 0x222c2270],
    [0x726f6a65, 0x6374223a, 0x22706179, 0x6d656e74, 0x732d6170, 0x69227d80, 0x00000000,
     0x00000000, 0x00000000, 0x00000000, 0x00000000, 0x00000000, 0x00000000, 0x00000000,
     0x00000000, 0x000006b8]]"
  by (simp add: payload_eval vector_identity_def sha_pad_def split_every.simps be_bytes_8 be_bytes_4 replicate_numeral)

lemma vector_fingerprint:
  "fingerprint vector_identity =
   u ''074034cdaccbb753732b0212fb10ce1418aeda971956c570f586ed6f04bbdc13''"
  by (simp add: fingerprint_def sha256_hex_def sha256_digest_def padded_vector sha_init_def block_vector_1 block_vector_2 block_vector_3 block_vector_4
      bytes_hex_def hex_digit_def u_def be_bytes_4)

lemma padded_drifted:
  "split_every 16 (be_words (sha_pad (utf8 (fingerprint_payload drifted_identity)))) =
   [[0x7b226172, 0x74696661, 0x63745f64, 0x69676573, 0x74223a22, 0x73686132, 0x35363a31,
     0x31313131, 0x31313131, 0x31313131, 0x31313131, 0x31313131, 0x31313131, 0x31313131,
     0x31313131, 0x31313131],
    [0x31313131, 0x31313131, 0x31313131, 0x31313131, 0x31313131, 0x31313131, 0x31313122,
     0x2c22636f, 0x6d6d6974, 0x5f736861, 0x223a2261, 0x62633132, 0x3334222c, 0x22636f6e,
     0x6669675f, 0x68617368],
    [0x223a2263, 0x66673a33, 0x33333333, 0x33333333, 0x33333333, 0x33333333, 0x33333333,
     0x33333333, 0x33333333, 0x33333322, 0x2c22656e, 0x7669726f, 0x6e6d656e, 0x74223a22,
     0x70726f64, 0x222c2270],
    [0x726f6a65, 0x6374223a, 0x22706179, 0x6d656e74, 0x732d6170, 0x69227d80, 0x00000000,
     0x00000000, 0x00000000, 0x00000000, 0x00000000, 0x00000000, 0x00000000, 0x00000000,
     0x00000000, 0x000006b8]]"
  by (simp add: payload_eval drifted_identity_def vector_identity_def sha_pad_def split_every.simps be_bytes_8 be_bytes_4 replicate_numeral)

lemma drifted_fingerprint:
  "fingerprint drifted_identity =
   u ''21513bd940c3e8a2ad87b81b4c42472784596380488f5a551611e24c4c3eb69e''"
  by (simp add: fingerprint_def sha256_hex_def sha256_digest_def padded_drifted sha_init_def block_vector_1 block_vector_2 block_drifted_3 block_drifted_4
      bytes_hex_def hex_digit_def u_def be_bytes_4)

lemma drifted_fingerprint_neq: "fingerprint vector_identity \<noteq> fingerprint drifted_identity"
  by (simp add: vector_fingerprint drifted_fingerprint)

lemma vector_no_collision: "no_collision vector_identity drifted_identity"
  by (simp add: no_collision_def drifted_fingerprint_neq)

section \<open>Properties\<close>

text \<open>
  On the cross-runtime test vector the modelled fingerprint (canonical form, JSON text, UTF-8
  and SHA-256) is the constant that the Python and Go tests of the repository compare with.
\<close>

lemma fingerprint_test_vector:
  "fingerprint vector_identity =
   u ''074034cdaccbb753732b0212fb10ce1418aeda971956c570f586ed6f04bbdc13''"
  by (rule vector_fingerprint)

lemma fingerprint_detects_drift_witness:
  "no_collision vector_identity drifted_identity \<and>
   (fingerprint vector_identity = fingerprint drifted_identity \<longleftrightarrow>
    diff_identity vector_identity drifted_identity = [])"
  using vector_no_collision fingerprint_detects_drift [OF vector_no_collision] by (rule conjI)

end
