(* ===== verification/Json_Read.thy ===== *)
theory Json_Read
  imports Json
begin

text \<open>
  What \<open>json.dumps\<close> prints (\<open>Py_Str\<close>), encoded as UTF-8, is read back by \<open>json.loads\<close> (\<open>Json\<close>) as the
  same value, for every value without floats whose integers and nesting are within the limits of the
  interpreter.
\<close>

section \<open>Reading back what json.dumps prints\<close>

text \<open>UTF-8.\<close>

lemma div_mod_64: "c div 64 * 64 + c mod 64 = (c::nat)" by simp

lemma utf8_next_char:
  assumes "c < 1114112"
  shows "utf8_next (utf8_char c @ bs) = Some (c, bs)"
proof -
  define q1 q2 q3 where "q1 = c div 64" and "q2 = q1 div 64" and "q3 = q2 div 64"
  define r0 r1 r2 where "r0 = c mod 64" and "r1 = q1 mod 64" and "r2 = q2 mod 64"
  have sum: "c = 64 * q1 + r0" "q1 = 64 * q2 + r1" "q2 = 64 * q3 + r2"
    and small: "r0 < 64" "r1 < 64" "r2 < 64"
    by (simp_all add: q1_def q2_def q3_def r0_def r1_def r2_def)
  have q: "c div 4096 = q2" "c div 262144 = q3" "c div 64 = q1" "c mod 64 = r0"
    "q1 mod 64 = r1" "q2 mod 64 = r2"
    by (simp_all add: q1_def q2_def q3_def r0_def r1_def r2_def div_mult2_eq [symmetric])
  have u: "utf8_char c =
     (if c < 128 then [c]
      else if c < 2048 then [192 + q1, 128 + r0]
      else if c < 65536 then [224 + q2, 128 + r1, 128 + r0]
      else [240 + q3, 128 + r2, 128 + r1, 128 + r0])"
    by (simp only: utf8_char_def q)
  have c: "q1 * 64 + r0 = c" "4096 * q2 + r1 * 64 + r0 = c"
    "262144 * q3 + 4096 * r2 + r1 * 64 + r0 = c"
    using sum by simp_all
  consider "c < 128" | "128 \<le> c" "c < 2048" "2 \<le> q1" "q1 < 32" | "2048 \<le> c" "c < 65536" "q2 < 16"
    | "65536 \<le> c" "q3 < 5"
    using sum small assms by linarith
  then show ?thesis
    by cases (use assms in \<open>simp_all add: u c small Let_def\<close>)
qed

lemma utf8_decode_utf8: "\<forall>c \<in> set s. c < 1114112 \<Longrightarrow> utf8_decode (utf8 s) = Some s"
proof (induction s)
  case (Cons c s)
  have "utf8 (c # s) = utf8_char c @ utf8 s" by (simp add: utf8_def)
  moreover obtain b bs where "utf8_char c @ utf8 s = b # bs" by (cases "utf8_char c") auto
  ultimately have "utf8_decode (utf8 (c # s)) =
      (case utf8_next (utf8_char c @ utf8 s) of None \<Rightarrow> None | Some (c, r) \<Rightarrow> map_option (Cons c) (utf8_decode r))"
    by simp
  with Cons utf8_next_char [of c "utf8 s"] show ?case by simp
qed (simp add: utf8_def)

lemma utf8_no_zero: "0 \<notin> set s \<Longrightarrow> 0 \<notin> set (utf8 s)"
  by (auto simp: utf8_def utf8_char_def split: if_splits)

text \<open>A text that begins with an ASCII character and has no NUL is recognised as UTF-8.\<close>

lemma detect_utf8:
  assumes "c < 128" and "0 \<notin> set (c # s)"
  shows "detect_encoding (utf8 (c # s)) = (Utf8, 0)"
proof -
  obtain bs where b: "utf8 (c # s) = c # bs" using assms(1) by (simp add: utf8_def utf8_char_def)
  with utf8_no_zero [OF assms(2)] have z: "0 \<notin> set (c # bs)" by simp
  with assms(1) show ?thesis unfolding detect_encoding_def b by (cases bs) auto
qed

lemma decode_bytes_utf8:
  "c < 128 \<Longrightarrow> 0 \<notin> set (c # s) \<Longrightarrow> \<forall>x \<in> set s. x < 1114112 \<Longrightarrow> decode_bytes (utf8 (c # s)) = Some (c # s)"
  using detect_utf8 [of c s] utf8_decode_utf8 [of "c # s"] by (simp add: decode_bytes_def)

text \<open>Strings.\<close>

lemma scan_esc_char: "scan_string (esc_char c @ s) = add_char c (scan_string s)"
proof -
  have "c div 16 < 16" "c mod 16 < 16" if "c < 32" using that by auto
  then have "hex4 (48 # 48 # hex_digit (c div 16) # hex_digit (c mod 16) # s) = Some c" if "c < 32"
    using that by (simp add: hex_value_def [of 48])
  then show ?thesis
    by (auto simp: esc_char_def scan_string.simps(2) escape_char_def is_high_def Let_def)
qed

lemma scan_json_string: "scan_string (concat (map esc_char s) @ 34 # r) = Inr (s, r)"
  by (induction s) (simp_all add: scan_esc_char scan_string.simps(2))

text \<open>Integers.\<close>

definition number_ends :: "ustr \<Rightarrow> bool" where
  "number_ends r \<longleftrightarrow> r = [] \<or> hd r \<in> {44, 93, 125}"

lemma digits_of_append:
  "\<forall>c \<in> set s. 48 \<le> c \<and> c \<le> 57 \<Longrightarrow> number_ends r \<Longrightarrow> digits_of (s @ r) = s"
  by (cases r) (auto simp: digits_of_def number_ends_def takeWhile_append)

lemma dec_digits_zero: "next_is 48 (dec_digits n @ r) \<Longrightarrow> n = 0"
proof (induction n arbitrary: r rule: dec_digits.induct)
  case (1 n)
  show ?case
  proof (cases "n < 10")
    case True
    with "1.prems" show ?thesis by (simp add: dec_digits.simps [of n])
  next
    case False
    with "1.prems" have "next_is 48 (dec_digits (n div 10) @ [48 + n mod 10] @ r)"
      by (simp add: dec_digits.simps [of n])
    with "1.IH" [OF False] have "n div 10 = 0" by blast
    with False show ?thesis by simp
  qed
qed


lemma scan_int:
  assumes "\<not> int_too_long D (length (dec_digits (nat \<bar>n\<bar>)))" and r: "number_ends r"
  shows "scan_number D (int_str n @ r) = Inr (JInt n, r)"
proof -
  let ?m = "nat \<bar>n\<bar>"
  let ?d = "dec_digits ?m"
  let ?sign = "if n < 0 then [45] else []"
  have d: "?d \<noteq> []" "\<forall>c \<in> set ?d. 48 \<le> c \<and> c \<le> 57" "digits_value ?d = ?m"
    using dec_digits_props [of ?m] by (simp_all add: digits_value_def)
  have s: "int_str n @ r = ?sign @ ?d @ r" by (simp add: int_str_def)
  have "\<not> next_is 45 (dec_digits m @ r)" for m
    using dec_digits_props [of m] by (cases "dec_digits m") auto
  then have sign: "(if next_is 45 (int_str n @ r) then [45] else []) = ?sign"
    "drop (length ?sign) (int_str n @ r) = ?d @ r" by (simp_all add: s)
  have ip: "(if next_is 48 (?d @ r) then [48] else digits_of (?d @ r)) = ?d"
    using dec_digits_zero [of ?m r] digits_of_append [OF d(2) r] by (auto simp: dec_digits.simps [of 0])
  have "scan_fraction r = []" "scan_exponent r = []"
    using r by (auto simp: number_ends_def scan_fraction_def scan_exponent_def split: list.splits)
  then show ?thesis
    unfolding scan_number_def sign Let_def ip using assms(1) d(1,3) by simp
qed

text \<open>What is printed for a value begins with a character that is no blank.\<close>

definition json_start :: "nat set" where
  "json_start = {34, 45, 91, 102, 110, 116, 123} \<union> {48..57}"

lemma json_dumps_start: "\<exists>c t. json_dumps j = c # t \<and> c \<in> json_start" if "\<forall>r. j \<noteq> JFloat r"
proof (cases j)
  case (JInt n)
  show ?thesis
    using dec_digits_props [of "nat n"] by (cases "dec_digits (nat n)") (auto simp: JInt int_str_def json_start_def)
qed (use that in \<open>auto simp: json_string_def json_start_def u_def\<close>)

lemma skip_ws_start: "c \<in> json_start \<Longrightarrow> skip_ws (c # s) = c # s"
  by (auto simp: skip_ws_def json_start_def is_json_space_def)

lemma skip_ws_punctuation [simp]:
  "skip_ws (44 # s) = 44 # s" "skip_ws (58 # s) = 58 # s" "skip_ws (93 # s) = 93 # s"
  "skip_ws (125 # s) = 125 # s" "skip_ws (34 # s) = 34 # s" "skip_ws [] = []"
  by (simp_all add: skip_ws_def is_json_space_def)

lemma skip_ws_dumps: "\<forall>r. j \<noteq> JFloat r \<Longrightarrow> skip_ws (json_dumps j @ s) = json_dumps j @ s"
  using json_dumps_start [of j] by (auto simp: skip_ws_start)

lemma u_comma: "u '','' = [44]" "u '':'' = [58]" "u ''['' = [91]" "u '']'' = [93]" "u ''{'' = [123]" "u ''}'' = [125]"
  by (simp_all add: u_def)

text \<open>The items of an array, when each is read back.\<close>

lemma scan_items_dumps:
  assumes "shortens f" and "xs \<noteq> []"
    and "\<And>x s. x \<in> set xs \<Longrightarrow> number_ends s \<Longrightarrow> f (json_dumps x @ s) = Inr (x, s)"
    and "\<And>x s. x \<in> set xs \<Longrightarrow> skip_ws (json_dumps x @ s) = json_dumps x @ s"
  shows "scan_items f (join_with [44] (map json_dumps xs) @ 93 # r) = Inr (xs, r)"
  using assms(2-4)
proof (induction xs rule: induct_list012)
  case (2 x)
  then show ?case by (subst scan_items_loop [OF assms(1)]) (simp add: number_ends_def)
next
  case (3 x y ys)
  have f: "f (json_dumps x @ 44 # s) = Inr (x, 44 # s)" for s using 3 by (simp add: number_ends_def)
  have "skip_ws (join_with [44] (map json_dumps (y # ys)) @ 93 # r) = join_with [44] (map json_dumps (y # ys)) @ 93 # r"
    using "3.prems"(3) [of y] by (cases ys) auto
  with "3.IH"(2) 3 show ?case by (subst scan_items_loop [OF assms(1)]) (simp add: f)
qed simp

lemma scan_pairs_dumps:
  assumes "shortens f" and "kvs \<noteq> []"
    and "\<And>k x s. (k, x) \<in> set kvs \<Longrightarrow> number_ends s \<Longrightarrow> f (json_dumps x @ s) = Inr (x, s)"
    and "\<And>k x s. (k, x) \<in> set kvs \<Longrightarrow> skip_ws (json_dumps x @ s) = json_dumps x @ s"
  shows "scan_pairs f (join_with [44] (map (\<lambda>(k, v). json_string k @ 58 # json_dumps v) kvs) @ 125 # r) = Inr (kvs, r)"
  using assms(2-4)
proof (induction kvs rule: induct_list012)
  case (2 p)
  obtain k x where p: "p = (k, x)" by fastforce
  from 2 have "f (json_dumps x @ 125 # r) = Inr (x, 125 # r)" "skip_ws (json_dumps x @ 125 # r) = json_dumps x @ 125 # r"
    by (auto simp: number_ends_def p)
  then show ?case
    by (subst scan_pairs_loop [OF assms(1)]) (simp add: p json_string_def scan_json_string)
next
  case (3 p q ps)
  obtain k x where p: "p = (k, x)" by fastforce
  let ?t = "join_with [44] (map (\<lambda>(k, v). json_string k @ 58 # json_dumps v) (q # ps)) @ 125 # r"
  have "f (json_dumps x @ 44 # s) = Inr (x, 44 # s)" "skip_ws (json_dumps x @ 44 # s) = json_dumps x @ 44 # s" for s
    using "3.prems"(2) [of k x "44 # s"] "3.prems"(3) [of k x "44 # s"] by (simp_all add: number_ends_def p)
  moreover have "skip_ws ?t = ?t" by (cases ps; cases q) (simp_all add: json_string_def)
  moreover have "scan_pairs f ?t = Inr (q # ps, r)"
  proof (rule "3.IH"(2))
    fix k x s
    assume "(k, x) \<in> set (q # ps)"
    then have m: "(k, x) \<in> set (p # q # ps)" by simp
    from "3.prems"(3) [OF m] show "skip_ws (json_dumps x @ s) = json_dumps x @ s" .
    assume "number_ends s"
    from "3.prems"(2) [OF m this] show "f (json_dumps x @ s) = Inr (x, s)" .
  qed simp
  ultimately show ?case
    by (subst scan_pairs_loop [OF assms(1)]) (simp add: p json_string_def scan_json_string)
qed simp


text \<open>
  The values whose text is read back: no floats, integers of at most 4300 digits for Python, no repeated
  keys, no surrogates for Go, and no more brackets than may be nested.
\<close>

fun json_readable :: "dialect \<Rightarrow> nat \<Rightarrow> json \<Rightarrow> bool" where
  "json_readable D d (JFloat r) = False"
| "json_readable D d (JInt n) = (\<not> int_too_long D (length (dec_digits (nat \<bar>n\<bar>))))"
| "json_readable D (Suc d) (JArr xs) = list_all (json_readable D d) xs"
| "json_readable D (Suc d) (JObj kvs) =
     (distinct (map fst kvs) \<and> list_all (\<lambda>(k, v). scanned_text D k = k \<and> json_readable D d v) kvs)"
| "json_readable D 0 (JArr xs) = False"
| "json_readable D 0 (JObj kvs) = False"
| "json_readable D d (JStr s) = (scanned_text D s = s)"
| "json_readable D d _ = True"

lemma json_readable_numeral [simp]:
  "json_readable D (numeral k) (JArr xs) = list_all (json_readable D (pred_numeral k)) xs"
  "json_readable D (numeral k) (JObj kvs) =
     (distinct (map fst kvs) \<and> list_all (\<lambda>(x, v). scanned_text D x = x \<and> json_readable D (pred_numeral k) v) kvs)"
  by (simp_all add: numeral_eq_Suc)

lemma json_readable_no_float: "json_readable D d j \<Longrightarrow> \<forall>r. j \<noteq> JFloat r"
  by auto

lemma dict_set_new: "k \<notin> fst ` set kvs \<Longrightarrow> dict_set k v kvs = kvs @ [(k, v)]"
  by (induction kvs) auto

lemma dict_of_distinct: "distinct (map fst kvs) \<Longrightarrow> dict_of kvs = kvs"
proof (induction kvs rule: rev_induct)
  case (snoc p kvs)
  then have "dict_of (kvs @ [p]) = dict_set (fst p) (snd p) kvs"
    by (simp add: dict_of_def split_def)
  with snoc.prems show ?case by (simp add: dict_set_new)
qed (simp add: dict_of_def)

lemma scan_constants:
  "scan_constant D (110 # 117 # 108 # 108 # s) = Some (JNull, s)"
  "scan_constant D (116 # 114 # 117 # 101 # s) = Some (JBool True, s)"
  "scan_constant D (102 # 97 # 108 # 115 # 101 # s) = Some (JBool False, s)"
  by (cases D; simp add: scan_constant_def json_constants_def u_def)+

lemma scan_constant_digit: "48 \<le> c \<and> c \<le> 57 \<Longrightarrow> scan_constant D (c # s) = None"
  by (cases D) (auto simp: scan_constant_def json_constants_def u_def)

lemma scan_constant_minus: "48 \<le> c \<and> c \<le> 57 \<Longrightarrow> scan_constant D (45 # c # s) = None"
  by (cases D) (auto simp: scan_constant_def json_constants_def u_def)

lemma scan_value_int: "scan_value D a o' (int_str n @ s) = scan_number D (int_str n @ s)"
proof -
  obtain c t where "dec_digits (nat \<bar>n\<bar>) = c # t" "48 \<le> c" "c \<le> 57"
    using dec_digits_props [of "nat \<bar>n\<bar>"] by (cases "dec_digits (nat \<bar>n\<bar>)") auto
  then show ?thesis
    by (auto simp: int_str_def scan_value_def scan_constant_digit scan_constant_minus)
qed

lemma scan_scalar: "(\<And>a b. scan_value D a b s = x) \<Longrightarrow> scan_once D d s = x"
  by (cases d) simp_all

lemma members_of_distinct:
  "distinct (map fst kvs) \<Longrightarrow> list_all (\<lambda>(k, v). scanned_text D k = k) kvs \<Longrightarrow> members_of D kvs = kvs"
proof (cases D)
  case GoJson
  assume "list_all (\<lambda>(k, v). scanned_text D k = k) kvs"
  then show ?thesis unfolding GoJson by (induction kvs) (auto simp del: scanned_text.simps)
qed (simp add: dict_of_distinct)

lemma scan_dumps: "json_readable D d j \<Longrightarrow> number_ends r \<Longrightarrow> scan_once D d (json_dumps j @ r) = Inr (j, r)"
proof (induction D d j arbitrary: r rule: json_readable.induct)
  case (2 D d n)
  then show ?case by (cases d) (simp_all add: scan_value_int scan_int)
next
  case (3 D d xs)
  show ?case
  proof (cases "xs = []")
    case False
    have all: "x \<in> set xs \<Longrightarrow> json_readable D d x" for x using "3.prems"(1) by (simp add: list_all_iff)
    note skip = skip_ws_dumps [OF json_readable_no_float [OF all]]
    have start: "\<not> next_is 93 (json_dumps x @ s)" if "x \<in> set xs" for x s
      using json_dumps_start [OF json_readable_no_float [OF all [OF that]]] by (auto simp: json_start_def)
    have "skip_ws (join_with [44] (map json_dumps xs) @ 93 # r) = join_with [44] (map json_dumps xs) @ 93 # r"
      using False skip by (cases xs rule: remdups_adj.cases) auto
    moreover have "\<not> next_is 93 (join_with [44] (map json_dumps xs) @ 93 # r)"
      using False start by (cases xs rule: remdups_adj.cases) auto
    moreover have "scan_items (scan_once D d) (join_with [44] (map json_dumps xs) @ 93 # r) = Inr (xs, r)"
      by (rule scan_items_dumps [OF scan_shorter False])
        (use all in \<open>auto intro: "3.IH" skip\<close>)
    ultimately show ?thesis by (simp add: u_comma scan_value_def scan_array_def)
  qed (simp add: u_comma scan_value_def scan_array_def)
next
  case (4 D d kvs)
  let ?t = "join_with [44] (map (\<lambda>(k, v). json_string k @ 58 # json_dumps v) kvs) @ 125 # r"
  show ?case
  proof (cases "kvs = []")
    case False
    have all: "(k, x) \<in> set kvs \<Longrightarrow> json_readable D d x" for k x using "4.prems"(1) by (auto simp: list_all_iff)
    note skip = skip_ws_dumps [OF json_readable_no_float [OF all]]
    have "skip_ws ?t = ?t" "\<not> next_is 125 ?t"
      using False by (cases kvs rule: remdups_adj.cases; auto simp: json_string_def)+
    moreover have "scan_pairs (scan_once D d) ?t = Inr (kvs, r)"
      by (rule scan_pairs_dumps [OF scan_shorter False])
        (use all in \<open>auto intro: "4.IH" skip\<close>)
    moreover have "members_of D kvs = kvs"
      using "4.prems"(1) by (intro members_of_distinct) (auto simp: list_all_iff)
    ultimately show ?thesis by (simp add: u_comma scan_value_def scan_object_def)
  qed (simp add: u_comma scan_value_def scan_object_def)
qed (auto intro!: scan_scalar simp: scan_value_def scan_constants json_string_def scan_json_string u_def)


text \<open>The characters of a text: Unicode characters, and no NUL outside strings (inside, it is escaped).\<close>

definition text_char :: "nat \<Rightarrow> bool" where
  "text_char c \<longleftrightarrow> 0 < c \<and> c < 1114112"

fun json_unicode :: "json \<Rightarrow> bool" where
  "json_unicode (JFloat r) = list_all text_char r"
| "json_unicode (JStr s) = list_all (\<lambda>c. c < 1114112) s"
| "json_unicode (JArr xs) = list_all json_unicode xs"
| "json_unicode (JObj kvs) = list_all (\<lambda>(k, v). list_all (\<lambda>c. c < 1114112) k \<and> json_unicode v) kvs"
| "json_unicode _ = True"

lemma text_esc_char: "c < 1114112 \<Longrightarrow> list_all text_char (esc_char c)"
  by (auto simp: esc_char_def text_char_def hex_digit_def)

lemma text_json_string: "list_all (\<lambda>c. c < 1114112) s \<Longrightarrow> list_all text_char (json_string s)"
  unfolding json_string_def by (induction s) (auto simp: text_esc_char text_char_def)

lemma text_join: "list_all text_char sep \<Longrightarrow> list_all (list_all text_char) xs \<Longrightarrow> list_all text_char (join_with sep xs)"
  by (induction sep xs rule: join_with.induct) auto

lemma text_int_str: "list_all text_char (int_str n)"
  using dec_digits_props [of "nat n"] dec_digits_props [of "nat (- n)"]
  by (fastforce simp: int_str_def list_all_iff text_char_def)

lemma text_punctuation:
  "list_all text_char (u '','')" "list_all text_char (u '':'')" "list_all text_char (u ''['')"
  "list_all text_char (u '']'')" "list_all text_char (u ''{'')" "list_all text_char (u ''}'')"
  by (simp_all add: text_char_def u_def)

lemma text_dumps: "json_unicode j \<Longrightarrow> list_all text_char (json_dumps j)"
proof (induction j rule: json_unicode.induct)
  case (3 xs)
  then have "list_all text_char (join_with (u '','') (map json_dumps xs))"
    by (intro text_join text_punctuation) (auto simp: list_all_iff)
  then show ?case by (simp add: text_punctuation)
next
  case (4 kvs)
  then have "list_all text_char (join_with (u '','') (map (\<lambda>(k, v). json_string k @ u '':'' @ json_dumps v) kvs))"
    by (intro text_join text_punctuation)
      (fastforce simp: list_all_iff [of _ kvs] list.pred_map text_punctuation intro: text_json_string)
  then show ?case by (simp add: text_punctuation)
qed (simp_all add: text_int_str text_json_string, simp_all add: text_char_def u_def)

lemma json_decode_dumps:
  assumes "json_readable D d j"
  shows "json_decode D d (json_dumps j) = Inr j"
proof -
  obtain c t where "json_dumps j = c # t" "c \<in> json_start"
    using json_dumps_start [OF json_readable_no_float [OF assms]] by blast
  then have "skip_ws (json_dumps j) = json_dumps j" by (simp add: skip_ws_start)
  moreover have "scan_once D d (json_dumps j) = Inr (j, [])"
    using scan_dumps [OF assms, of "[]"] by (simp add: number_ends_def)
  ultimately show ?thesis by (simp add: json_decode_def)
qed

lemma json_loads_dumps:
  assumes "json_readable (PyJson fr) d j" and "json_unicode j"
  shows "json_loads fr d (utf8 (json_dumps j)) = Inr j"
proof -
  obtain c t where c: "json_dumps j = c # t" "c \<in> json_start"
    using json_dumps_start [OF json_readable_no_float [OF assms(1)]] by blast
  have "c < 128" using c(2) by (auto simp: json_start_def)
  moreover have "list_all text_char (c # t)" using text_dumps [OF assms(2)] c(1) by simp
  ultimately have "decode_bytes (utf8 (json_dumps j)) = Some (json_dumps j)"
    unfolding c(1) by (intro decode_bytes_utf8) (auto simp: list_all_iff text_char_def)
  with json_decode_dumps [OF assms(1)] show ?thesis by (simp add: json_loads_def)
qed

end
