(* ===== verification/Webhook.thy ===== *)
theory Webhook
  imports Governance Environment Json_Read
begin

text \<open>
  \<open>gitlab_webhook\<close> of \<open>orchestrator/app/main.py\<close>: the pipeline events of GitLab. A delivery is checked
  against the shared token, read with a limit, recognised as a duplicate by the hash of its body, and
  then updates every epoch of its pipeline.
\<close>

section \<open>The token and the body\<close>

definition is_ascii :: "ustr \<Rightarrow> bool" where
  "is_ascii s = list_all (\<lambda>c. c < 128) s"

text \<open>\<open>hmac.compare_digest\<close> on two strings raises a TypeError unless both are ASCII.\<close>

definition compare_digest :: "ustr \<Rightarrow> ustr \<Rightarrow> bool res" where
  "compare_digest a b = (if is_ascii a \<and> is_ascii b then Inr (a = b) else Inl TypeError)"

definition webhook_authorized :: "env \<Rightarrow> ustr option \<Rightarrow> unit res" where
  "webhook_authorized E x_gitlab_token =
    (case x_gitlab_token of
       None \<Rightarrow> Inl (HTTPException 401 msg_webhook_token)
     | Some token \<Rightarrow> res_bind (compare_digest token (gitlab_webhook_token (cfg E))) (\<lambda>same.
         if \<not> same then Inl (HTTPException 401 msg_webhook_token) else Inr ()))"

text \<open>The chunks of the stream are collected until they exceed the limit.\<close>

fun read_stream :: "int \<Rightarrow> bytes \<Rightarrow> bytes list \<Rightarrow> bytes res" where
  "read_stream limit buf [] = Inr buf"
| "read_stream limit buf (chunk # chunks) =
     (let buf' = buf @ chunk
      in if int (length buf') > limit then Inl (HTTPException 413 msg_webhook_too_large)
         else read_stream limit buf' chunks)"

text \<open>Of the errors of \<open>json.loads\<close> only \<open>JSONDecodeError\<close> is caught.\<close>

definition parse_body :: "env \<Rightarrow> bytes \<Rightarrow> json res" where
  "parse_body E raw =
    (case json_loads (float_repr E) (nesting E) (if raw = [] then utf8 (u ''{}'') else raw) of
       Inr j \<Rightarrow> Inr j
     | Inl JSONDecodeError \<Rightarrow> Inl (HTTPException 400 msg_bad_json)
     | Inl NotUnicode \<Rightarrow> Inl UnicodeDecodeError
     | Inl IntTooLong \<Rightarrow> Inl ValueError
     | Inl TooDeep \<Rightarrow> Inl RecursionError)"

text \<open>\<open>x.get(key, default)\<close>: only a dictionary has the method.\<close>

definition json_get :: "json \<Rightarrow> ustr \<Rightarrow> json \<Rightarrow> json res" where
  "json_get j key dflt =
    (case j of
       JObj kvs \<Rightarrow> Inr (case map_of kvs key of None \<Rightarrow> dflt | Some v \<Rightarrow> v)
     | _ \<Rightarrow> Inl AttributeError)"

definition object_attributes :: "json \<Rightarrow> json res" where
  "object_attributes payload = json_get payload (u ''object_attributes'') (JObj [])"

definition attr_text :: "env \<Rightarrow> json \<Rightarrow> string \<Rightarrow> string \<Rightarrow> ustr res" where
  "attr_text E attrs key dflt =
     res_bind (json_get attrs (u key) (JStr (u dflt))) (\<lambda>j. Inr (py_str E j))"

section \<open>Pipeline events\<close>

text \<open>Lines 357 to 378, for one epoch of the pipeline.\<close>

definition verified_status :: "ustr \<Rightarrow> ustr \<Rightarrow> epoch_row \<Rightarrow> ustr" where
  "verified_status status pipeline_sha row =
     (if pipeline_sha = ep_commit_sha row then status else u ''sha_mismatch'')"

definition set_pipeline_status :: "int \<Rightarrow> epoch_row \<Rightarrow> ustr \<Rightarrow> db \<Rightarrow> db" where
  "set_pipeline_status t row status d =
     (if ep_pipeline_status row = status then d
      else d\<lparr>epochs := update_where (\<lambda>r. ep_id r = ep_id row)
               (\<lambda>r. r\<lparr>ep_pipeline_status := status, ep_updated_at := t\<rparr>) (epochs d)\<rparr>)"

definition apply_pipeline :: "env \<Rightarrow> ustr \<Rightarrow> ustr \<Rightarrow> ustr \<Rightarrow> epoch_row \<Rightarrow> db \<Rightarrow> db" where
  "apply_pipeline E pipeline_id status pipeline_sha row d =
    (let previous = ep_pipeline_status row;
         new = verified_status status pipeline_sha row;
         d1 = set_pipeline_status (stamp E) row new d
     in if new = u ''success'' \<and> previous \<noteq> u ''success'' then
          record_event (stamp E) d1 (ep_id row) (u ''PIPELINE_VERIFIED'') (u ''system'') (u ''gitlab'')
            msg_pipeline_verified
            (JObj [(u ''pipeline_id'', JStr pipeline_id), (u ''commit_sha'', JStr pipeline_sha),
                   (u ''status'', JStr status)])
        else if new = u ''sha_mismatch'' \<and> previous \<noteq> u ''sha_mismatch'' then
          record_event (stamp E) d1 (ep_id row) (u ''PIPELINE_REJECTED'') (u ''system'') (u ''gitlab'')
            msg_pipeline_rejected
            (JObj [(u ''pipeline_id'', JStr pipeline_id), (u ''observed_sha'', JStr pipeline_sha),
                   (u ''expected_sha'', JStr (ep_commit_sha row))])
        else d1)"

fun apply_all :: "env \<Rightarrow> ustr \<Rightarrow> ustr \<Rightarrow> ustr \<Rightarrow> epoch_row list \<Rightarrow> db \<Rightarrow> db" where
  "apply_all E pid status sha [] d = d"
| "apply_all E pid status sha (row # rows) d =
     apply_all E pid status sha rows (apply_pipeline E pid status sha row d)"

definition pipeline_hook :: "env \<Rightarrow> json \<Rightarrow> db \<Rightarrow> db res" where
  "pipeline_hook E payload d =
    res_bind (object_attributes payload) (\<lambda>attrs.
    res_bind (attr_text E attrs ''id'' '''') (\<lambda>pipeline_id.
    res_bind (attr_text E attrs ''status'' ''unknown'') (\<lambda>status.
    res_bind (attr_text E attrs ''sha'' '''') (\<lambda>pipeline_sha.
    Inr (apply_all E pipeline_id status pipeline_sha
           (filter (\<lambda>r. ep_pipeline_id r = pipeline_id) (epochs d)) d)))))"

section \<open>The route\<close>

definition webhook_view :: "bool \<Rightarrow> view" where
  "webhook_view duplicate = VDict [(u ''accepted'', VBool True), (u ''duplicate'', VBool duplicate)]"

definition new_webhook :: "env \<Rightarrow> db \<Rightarrow> ustr option \<Rightarrow> ustr \<Rightarrow> ustr \<Rightarrow> webhook_row" where
  "new_webhook E d x_gitlab_event external_id payload_hash =
     \<lparr>wh_id = next_id (map wh_id (webhooks d)),
      wh_provider = u ''gitlab'',
      wh_event_type = (case x_gitlab_event of None \<Rightarrow> u ''unknown''
        | Some s \<Rightarrow> if s = [] then u ''unknown'' else s),
      wh_external_id = external_id,
      wh_payload_hash = payload_hash,
      wh_received_at = stamp E\<rparr>"

text \<open>The row is flushed before the epochs are read; a constraint it breaks makes it a duplicate.\<close>

definition is_pipeline_hook :: "ustr option \<Rightarrow> bool" where
  "is_pipeline_hook x_gitlab_event =
     (py_lower (case x_gitlab_event of None \<Rightarrow> [] | Some s \<Rightarrow> s) = u ''pipeline hook'')"

definition gitlab_webhook ::
  "env \<Rightarrow> db \<Rightarrow> ustr option \<Rightarrow> ustr option \<Rightarrow> bytes list \<Rightarrow> view res \<times> db" where
  "gitlab_webhook E d x_gitlab_token x_gitlab_event chunks =
    on_ok (webhook_authorized E x_gitlab_token) d (\<lambda>_.
    on_ok (read_stream (max_webhook_bytes (cfg E)) [] chunks) d (\<lambda>raw.
    let payload_hash = sha256_hex raw in
    on_ok (one_or_none (filter (\<lambda>w. wh_payload_hash w = payload_hash) (webhooks d))) d (\<lambda>seen.
    if seen \<noteq> None then (Inr (webhook_view True), d)
    else
      on_ok (parse_body E raw) d (\<lambda>payload.
      on_ok (object_attributes payload) d (\<lambda>attrs.
      on_ok (attr_text E attrs ''id'' '''') d (\<lambda>external_id.
      let d1 = d\<lparr>webhooks := webhooks d @ [new_webhook E d x_gitlab_event external_id payload_hash]\<rparr> in
      if \<not> db_ok d1 then (Inr (webhook_view True), d)
      else if is_pipeline_hook x_gitlab_event then
        on_ok (pipeline_hook E payload d1) d (\<lambda>d2. commit d d2 (webhook_view False))
      else commit d d1 (webhook_view False)))))))"

section \<open>Lemmas\<close>

lemma read_stream_Inr: "read_stream limit buf chunks = Inr raw \<Longrightarrow> raw = buf @ concat chunks"
  by (induction limit buf chunks rule: read_stream.induct) (auto simp: Let_def split: if_splits)

lemma read_stream_within:
  "int (length buf) \<le> limit \<Longrightarrow> read_stream limit buf chunks =
     (if int (length (buf @ concat chunks)) \<le> limit then Inr (buf @ concat chunks)
      else Inl (HTTPException 413 msg_webhook_too_large))"
  by (induction limit buf chunks rule: read_stream.induct) (auto simp: Let_def)

lemma webhook_authorized_Inr:
  "webhook_authorized E tok = Inr x \<longleftrightarrow>
     is_ascii (gitlab_webhook_token (cfg E)) \<and> tok = Some (gitlab_webhook_token (cfg E))"
  by (auto simp: webhook_authorized_def compare_digest_def split: option.splits)

lemma new_webhook_hash [simp]: "wh_payload_hash (new_webhook E d ev ext h) = h"
  by (simp add: new_webhook_def)

lemma webhooks_set_pipeline [simp]: "webhooks (set_pipeline_status t row s d) = webhooks d"
  by (simp add: set_pipeline_status_def)

lemma webhooks_apply_all [simp]: "webhooks (apply_all E p s h rows d) = webhooks d"
  by (induction rows arbitrary: d) (simp_all add: apply_pipeline_def Let_def record_event_def)

lemma pipeline_hook_webhooks: "pipeline_hook E payload d = Inr d' \<Longrightarrow> webhooks d' = webhooks d"
  by (auto simp: pipeline_hook_def res_bind_Inr_iff)

text \<open>A delivery that is accepted and is not a duplicate stores the hash of its body.\<close>

lemma gitlab_webhook_seen:
  assumes ok: "db_ok d" and raw: "webhook_authorized E tok = Inr ()"
    "read_stream (max_webhook_bytes (cfg E)) [] chunks = Inr raw"
    and seen: "sha256_hex raw \<in> wh_payload_hash ` set (webhooks d)"
  shows "gitlab_webhook E d tok ev chunks = (Inr (webhook_view True), d)"
proof -
  have "find (\<lambda>w. wh_payload_hash w = sha256_hex raw) (webhooks d) \<noteq> None"
    using seen by (auto simp: find_None_iff)
  with raw show ?thesis
    by (auto simp: gitlab_webhook_def Let_def webhooks_t.select_one [OF ok])
qed

lemma new_webhook_ok:
  "db_ok d \<Longrightarrow> h \<notin> wh_payload_hash ` set (webhooks d) \<Longrightarrow>
   db_ok (d\<lparr>webhooks := webhooks d @ [new_webhook E d ev ext h]\<rparr>)"
  by (simp add: db_ok_defs new_webhook_def Let_def)

lemma gitlab_webhook_new:
  assumes ok: "db_ok d" and auth: "webhook_authorized E tok = Inr ()"
    and raw: "read_stream (max_webhook_bytes (cfg E)) [] chunks = Inr raw"
    and new: "sha256_hex raw \<notin> wh_payload_hash ` set (webhooks d)"
  shows "gitlab_webhook E d tok ev chunks =
    on_ok (parse_body E raw) d (\<lambda>payload.
    on_ok (object_attributes payload) d (\<lambda>attrs.
    on_ok (attr_text E attrs ''id'' []) d (\<lambda>ext.
      let d1 = d\<lparr>webhooks := webhooks d @ [new_webhook E d ev ext (sha256_hex raw)]\<rparr> in
      if is_pipeline_hook ev then
        on_ok (pipeline_hook E payload d1) d (\<lambda>d2. commit d d2 (webhook_view False))
      else commit d d1 (webhook_view False))))"
proof -
  have seen: "find (\<lambda>w. wh_payload_hash w = sha256_hex raw) (webhooks d) = None"
    using new by (force simp: find_None_iff)
  show ?thesis
    by (simp add: gitlab_webhook_def Let_def webhooks_t.select_one [OF ok] auth raw seen
        new_webhook_ok [OF ok new])
qed

lemma gitlab_webhook_read:
  assumes "gitlab_webhook E d tok ev chunks = (Inr v, d')"
  shows "webhook_authorized E tok = Inr ()"
    "read_stream (max_webhook_bytes (cfg E)) [] chunks = Inr (concat chunks)"
proof -
  from assms obtain raw where "webhook_authorized E tok = Inr ()"
    and "read_stream (max_webhook_bytes (cfg E)) [] chunks = Inr raw"
    unfolding gitlab_webhook_def by (auto dest!: on_ok_cases)
  moreover from read_stream_Inr [OF this(2)] have "raw = concat chunks" by simp
  ultimately show "webhook_authorized E tok = Inr ()"
    "read_stream (max_webhook_bytes (cfg E)) [] chunks = Inr (concat chunks)" by simp_all
qed

lemma gitlab_webhook_Inr:
  assumes ok: "db_ok d" and r: "gitlab_webhook E d tok ev chunks = (Inr v, d')"
  shows "v = webhook_view (sha256_hex (concat chunks) \<in> wh_payload_hash ` set (webhooks d)) \<and> db_ok d' \<and>
    (if sha256_hex (concat chunks) \<in> wh_payload_hash ` set (webhooks d) then d' = d
     else \<exists>ext. webhooks d' = webhooks d @ [new_webhook E d ev ext (sha256_hex (concat chunks))])"
proof (cases "sha256_hex (concat chunks) \<in> wh_payload_hash ` set (webhooks d)")
  case True
  with gitlab_webhook_seen [OF ok gitlab_webhook_read [OF r]] r ok show ?thesis by auto
next
  case False
  let ?d1 = "\<lambda>ext. d\<lparr>webhooks := webhooks d @ [new_webhook E d ev ext (sha256_hex (concat chunks))]\<rparr>"
  from r gitlab_webhook_new [OF ok gitlab_webhook_read [OF r] False, of ev] obtain payload ext where
    "(if is_pipeline_hook ev then
        on_ok (pipeline_hook E payload (?d1 ext)) d (\<lambda>d2. commit d d2 (webhook_view False))
      else commit d (?d1 ext) (webhook_view False)) = (Inr v, d')"
    by (simp add: Let_def) ((drule on_ok_Inr, elim exE conjE)+, blast)
  then have "v = webhook_view False \<and> db_ok d' \<and> webhooks d' = webhooks (?d1 ext)"
    by (auto simp: commit_def new_webhook_ok [OF ok False] split: if_splits
        dest!: on_ok_cases pipeline_hook_webhooks)
  with False show ?thesis by auto
qed

text \<open>What the loop over the pipeline's epochs does to a row.\<close>

definition pipeline_row :: "int \<Rightarrow> ustr \<Rightarrow> ustr \<Rightarrow> epoch_row \<Rightarrow> epoch_row" where
  "pipeline_row t status sha r =
     (if ep_pipeline_status r = verified_status status sha r then r
      else r\<lparr>ep_pipeline_status := verified_status status sha r, ep_updated_at := t\<rparr>)"

lemma epochs_apply_pipeline:
  "row \<in> set (epochs d) \<Longrightarrow> distinct (map ep_id (epochs d)) \<Longrightarrow>
   epochs (apply_pipeline E p s h row d) =
     map (\<lambda>r. if r = row then pipeline_row (stamp E) s h r else r) (epochs d)"
  by (auto simp: apply_pipeline_def Let_def record_event_def set_pipeline_status_def pipeline_row_def
      update_where_def distinct_map dest: inj_onD intro!: map_idI [symmetric] map_cong)

lemma pipeline_row_id [simp]: "ep_id (pipeline_row t s h r) = ep_id r"
  by (simp add: pipeline_row_def)

lemma epochs_apply_all:
  "distinct (map ep_id (epochs d)) \<Longrightarrow> set rows \<subseteq> set (epochs d) \<Longrightarrow> distinct rows \<Longrightarrow>
   epochs (apply_all E p s h rows d) =
     map (\<lambda>r. if r \<in> set rows then pipeline_row (stamp E) s h r else r) (epochs d)"
proof (induction rows arbitrary: d)
  case Nil
  then show ?case by simp
next
  case (Cons row rows)
  let ?f = "\<lambda>r. if r = row then pipeline_row (stamp E) s h r else r"
  let ?d = "apply_pipeline E p s h row d"
  have e: "epochs ?d = map ?f (epochs d)"
    using Cons.prems by (intro epochs_apply_pipeline) auto
  have ids: "map ep_id (epochs ?d) = map ep_id (epochs d)" by (simp add: e)
  have rows: "set rows \<subseteq> set (epochs ?d)"
    using Cons.prems by (auto simp: e image_iff)
  have new: "pipeline_row (stamp E) s h row \<notin> set rows"
  proof
    assume "pipeline_row (stamp E) s h row \<in> set rows"
    then have "pipeline_row (stamp E) s h row = row"
      using Cons.prems(1,2) inj_onD [of ep_id "set (epochs d)" "pipeline_row (stamp E) s h row" row]
      by (auto simp: distinct_map)
    with \<open>pipeline_row (stamp E) s h row \<in> set rows\<close> Cons.prems(3) show False by simp
  qed
  let ?g = "\<lambda>r. if r \<in> set rows then pipeline_row (stamp E) s h r else r"
  have "epochs (apply_all E p s h rows ?d) = map ?g (epochs ?d)"
    using Cons.prems ids rows by (intro Cons.IH) (simp_all del: map_map)
  also have "\<dots> = map (\<lambda>r. if r \<in> set (row # rows) then pipeline_row (stamp E) s h r else r) (epochs d)"
    using Cons.prems(3) new by (auto simp: e)
  finally show ?case by simp
qed


lemma read_stream_bound:
  "read_stream limit buf chunks = Inr raw \<Longrightarrow> int (length raw) \<le> max (int (length buf)) limit"
  by (induction limit buf chunks rule: read_stream.induct) (auto simp: Let_def split: if_splits)

text \<open>What a pipeline event does to the epochs.\<close>

lemma pipeline_hook_epochs:
  assumes "db_ok d" and "pipeline_hook E payload d = Inr d'"
  shows "\<exists>attrs pid status sha. object_attributes payload = Inr attrs \<and>
    attr_text E attrs ''id'' [] = Inr pid \<and> attr_text E attrs ''status'' ''unknown'' = Inr status \<and>
    attr_text E attrs ''sha'' [] = Inr sha \<and>
    epochs d' = map (\<lambda>r. if ep_pipeline_id r = pid then pipeline_row (stamp E) status sha r else r) (epochs d)"
proof -
  from assms(1) have ids: "distinct (map ep_id (epochs d))" by (simp add: db_ok_defs)
  then have "distinct (epochs d)" by (simp add: distinct_map)
  with ids have "epochs (apply_all E pid st sha (filter (\<lambda>r. ep_pipeline_id r = pid) (epochs d)) d) =
      map (\<lambda>r. if ep_pipeline_id r = pid then pipeline_row (stamp E) st sha r else r) (epochs d)"
    for pid st sha
    by (subst epochs_apply_all) auto
  with assms(2) show ?thesis by (auto simp: pipeline_hook_def res_bind_Inr_iff)
qed

lemma gitlab_webhook_pipeline:
  assumes "db_ok d" and "gitlab_webhook E d tok ev chunks = (Inr (webhook_view False), d')"
    and "is_pipeline_hook ev"
  shows "\<exists>payload attrs pid status sha. parse_body E (concat chunks) = Inr payload \<and>
    object_attributes payload = Inr attrs \<and> attr_text E attrs ''id'' [] = Inr pid \<and>
    attr_text E attrs ''status'' ''unknown'' = Inr status \<and> attr_text E attrs ''sha'' [] = Inr sha \<and>
    epochs d' = map (\<lambda>r. if ep_pipeline_id r = pid then pipeline_row (stamp E) status sha r else r) (epochs d)"
proof -
  have new: "sha256_hex (concat chunks) \<notin> wh_payload_hash ` set (webhooks d)"
    using gitlab_webhook_Inr [OF assms(1,2)] by (auto simp: webhook_view_def)
  let ?d1 = "\<lambda>ext. d\<lparr>webhooks := webhooks d @ [new_webhook E d ev ext (sha256_hex (concat chunks))]\<rparr>"
  from assms(2,3) gitlab_webhook_new [OF assms(1) gitlab_webhook_read [OF assms(2)] new, of ev]
  obtain payload ext where p: "parse_body E (concat chunks) = Inr payload"
    "on_ok (pipeline_hook E payload (?d1 ext)) d (\<lambda>d2. commit d d2 (webhook_view False)) =
      (Inr (webhook_view False), d')"
    by (simp add: Let_def)
      (drule on_ok_Inr, elim exE conjE, drule on_ok_Inr, elim exE conjE, drule on_ok_Inr, elim exE conjE, blast)
  then have "pipeline_hook E payload (?d1 ext) = Inr d'"
    by (auto simp: commit_def split: if_splits dest!: on_ok_cases)
  from pipeline_hook_epochs [OF new_webhook_ok [OF assms(1) new] this] p(1) show ?thesis
    by auto
qed

lemma gitlab_webhook_other:
  assumes "db_ok d" and "gitlab_webhook E d tok ev chunks = (Inr v, d')"
    and "\<not> is_pipeline_hook ev \<or> v \<noteq> webhook_view False"
  shows "epochs d' = epochs d"
proof (cases "sha256_hex (concat chunks) \<in> wh_payload_hash ` set (webhooks d)")
  case True
  with gitlab_webhook_Inr [OF assms(1,2)] show ?thesis by simp
next
  case False
  with gitlab_webhook_Inr [OF assms(1,2)] assms(3) have "\<not> is_pipeline_hook ev" by auto
  with assms(2) gitlab_webhook_new [OF assms(1) gitlab_webhook_read [OF assms(2)] False, of ev]
  show ?thesis by (auto simp: Let_def commit_def split: if_splits dest!: on_ok_cases)
qed

section \<open>The properties\<close>

text \<open>
  C34: The webhook only accepts a delivery that carries exactly the configured token (which must be
  ASCII) and whose body is not larger than the limit. The answer says whether the hash of the body was
  already stored. A duplicate changes nothing, and a new delivery adds one row with the hash of
  all the bytes that were sent, and leaves the database's constraints intact.
\<close>

theorem webhook_accepts:
  assumes "db_ok d" and "gitlab_webhook E d tok ev chunks = (Inr v, d')"
  shows "tok = Some (gitlab_webhook_token (cfg E)) \<and> is_ascii (gitlab_webhook_token (cfg E)) \<and>
    int (length (concat chunks)) \<le> max 0 (max_webhook_bytes (cfg E)) \<and>
    v = webhook_view (sha256_hex (concat chunks) \<in> wh_payload_hash ` set (webhooks d)) \<and> db_ok d' \<and>
    (if sha256_hex (concat chunks) \<in> wh_payload_hash ` set (webhooks d) then d' = d
     else \<exists>row. webhooks d' = webhooks d @ [row] \<and> wh_payload_hash row = sha256_hex (concat chunks))"
  using gitlab_webhook_Inr [OF assms] gitlab_webhook_read [OF assms(2)]
    read_stream_bound [OF gitlab_webhook_read(2) [OF assms(2)]]
  by (auto simp: webhook_authorized_Inr)

text \<open>
  C33: Deliveries are idempotent: when the same body comes again, however it is cut into chunks and
  whatever the clock and the event header say, it is answered as a duplicate and nothing is written.
\<close>

theorem webhook_idempotent:
  assumes "db_ok d" and "gitlab_webhook E d tok ev chunks = (Inr v, d')"
    and "cfg E' = cfg E" and "0 \<le> max_webhook_bytes (cfg E)" and "concat chunks' = concat chunks"
  shows "gitlab_webhook E' d' tok ev' chunks' = (Inr (webhook_view True), d')"
proof (rule gitlab_webhook_seen)
  note new = gitlab_webhook_Inr [OF assms(1,2)]
  show "db_ok d'" using new by simp
  show "webhook_authorized E' tok = Inr ()"
    using gitlab_webhook_read(1) [OF assms(2)] assms(3) by (simp add: webhook_authorized_Inr)
  show "read_stream (max_webhook_bytes (cfg E')) [] chunks' = Inr (concat chunks)"
    using gitlab_webhook_read(2) [OF assms(2)] assms(3-5)
    by (simp add: read_stream_within split: if_splits)
  show "sha256_hex (concat chunks) \<in> wh_payload_hash ` set (webhooks d')"
    using new by (auto split: if_splits)
qed

text \<open>
  C32: A pipeline event sets the status of exactly the epochs of its pipeline, and an epoch gets the
  delivered status only when the delivered commit is the commit of the epoch; otherwise its status is
  \<open>sha_mismatch\<close>. So a successful pipeline for another commit never verifies an epoch.
\<close>

theorem webhook_verifies_commit:
  assumes "db_ok d" and "gitlab_webhook E d tok ev chunks = (Inr (webhook_view False), d')"
    and "is_pipeline_hook ev"
  shows "\<exists>payload attrs pid status sha. parse_body E (concat chunks) = Inr payload \<and>
    object_attributes payload = Inr attrs \<and> attr_text E attrs ''id'' [] = Inr pid \<and>
    attr_text E attrs ''status'' ''unknown'' = Inr status \<and> attr_text E attrs ''sha'' [] = Inr sha \<and>
    map ep_pipeline_status (epochs d') = map (\<lambda>r. if ep_pipeline_id r \<noteq> pid then ep_pipeline_status r
      else if sha = ep_commit_sha r then status else u ''sha_mismatch'') (epochs d) \<and>
    map ep_id (epochs d') = map ep_id (epochs d) \<and> map ep_state (epochs d') = map ep_state (epochs d)"
  using gitlab_webhook_pipeline [OF assms] by (force simp: pipeline_row_def verified_status_def)

text \<open>
  A token header with a character outside ASCII is not answered with the 401 of a wrong token: the
  comparison raises a TypeError, which ends the request with a 500, and nothing is written.
\<close>

lemma webhook_non_ascii_token:
  assumes "\<not> is_ascii token"
  shows "gitlab_webhook E d (Some token) ev chunks = (Inl TypeError, d) \<and> status_of TypeError = 500"
  using assms by (simp add: gitlab_webhook_def webhook_authorized_def compare_digest_def)

end
