(* ===== verification/Evidence.thy ===== *)
theory Evidence
  imports Governance Environment Py_Lib
begin

text \<open>
  \<open>orchestrator/app/services.py\<close>, last part: the evidence files of an epoch. The file system is a map
  from paths to contents.
\<close>

section \<open>Operations\<close>

type_synonym files = "ustr \<Rightarrow> bytes option"

text \<open>An uploaded file: its declared name and content type, and its bytes.\<close>

record upload_file =
  up_filename :: "ustr option"
  up_content_type :: "ustr option"
  up_content :: bytes

text \<open>\<open>upload.read(n)\<close>: at most n bytes, all of them for a negative n.\<close>

definition upload_read :: "upload_file \<Rightarrow> int \<Rightarrow> bytes" where
  "upload_read f n = (if n < 0 then up_content f else take (nat n) (up_content f))"

definition str_or :: "ustr option \<Rightarrow> ustr \<Rightarrow> ustr" where
  "str_or x dflt = (case x of None \<Rightarrow> dflt | Some s \<Rightarrow> if s = [] then dflt else s)"

definition safe_name :: "upload_file \<Rightarrow> ustr" where
  "safe_name f =
    (let original_name = path_name (str_or (up_filename f) (u ''evidence.bin''));
         cut = take 180 original_name
     in if cut = [] then u ''evidence.bin'' else cut)"

definition evidence_path :: "env \<Rightarrow> ustr \<Rightarrow> ustr \<Rightarrow> ustr \<Rightarrow> ustr" where
  "evidence_path E epoch_id sha name =
     path_join (path_join (upload_dir (cfg E)) epoch_id) (take 12 sha @ u ''-'' @ name)"

definition new_evidence :: "env \<Rightarrow> db \<Rightarrow> epoch_row \<Rightarrow> ustr \<Rightarrow> upload_file \<Rightarrow> bytes \<Rightarrow> evidence_row" where
  "new_evidence E d epoch kind f content =
     \<lparr>ev_id = next_id (map ev_id (evidences d)),
      ev_epoch_id = ep_id epoch,
      ev_kind = kind,
      ev_filename = safe_name f,
      ev_sha256 = sha256_hex content,
      ev_content_type = take 120 (str_or (up_content_type f) (u ''application/octet-stream'')),
      ev_size_bytes = int (length content),
      ev_storage_path = evidence_path E (ep_id epoch) (sha256_hex content) (safe_name f),
      ev_created_at = stamp E\<rparr>"

definition evidence_db :: "env \<Rightarrow> db \<Rightarrow> evidence_row \<Rightarrow> db" where
  "evidence_db E d row =
     record_event (stamp E) (d\<lparr>evidences := evidences d @ [row]\<rparr>) (ev_epoch_id row)
       (u ''EVIDENCE_ATTACHED'') (u ''service'') (u ''fastapi-orchestrator'')
       (msg_evidence_prefix @ ev_filename row)
       (JObj [(u ''kind'', JStr (ev_kind row)),
              (u ''sha256'', JStr (ev_sha256 row)),
              (u ''size_bytes'', JInt (ev_size_bytes row))])"

text \<open>
  The file is written before the row is committed and removed when the commit fails; a write that fails
  raises before any row is added, and leaves what it has written. (Directories are not modelled.)
\<close>

definition save_evidence ::
  "env \<Rightarrow> db \<Rightarrow> files \<Rightarrow> epoch_row \<Rightarrow> ustr \<Rightarrow> upload_file \<Rightarrow> evidence_row res \<times> db \<times> files" where
  "save_evidence E d fs epoch kind f =
    (let content = upload_read f (max_upload_bytes (cfg E) + 1)
     in if int (length content) > max_upload_bytes (cfg E) then
          (Inl (HTTPException 413 msg_evidence_too_large), d, fs)
        else
          (let row = new_evidence E d epoch kind f content;
               path = ev_storage_path row
           in case fs_write E path of
                NotOpened \<Rightarrow> (Inl OSError, d, fs)
              | CutOff n \<Rightarrow> (Inl OSError, d, fs(path := Some (take n content)))
              | Written \<Rightarrow>
                  (let fs1 = fs(path := Some content)
                   in case (if commit_lost E then (Inl OperationalError, d)
                            else commit d (evidence_db E d row) row) of
                        (Inl e, d') \<Rightarrow> (Inl e, d', fs1(path := None))
                      | (Inr row, d') \<Rightarrow> (Inr row, d', fs1))))"

section \<open>Lemmas\<close>

lemma evidence_db_simps [simp]:
  "users (evidence_db E d r) = users d"
  "epochs (evidence_db E d r) = epochs d"
  "approvals (evidence_db E d r) = approvals d"
  "evidences (evidence_db E d r) = evidences d @ [r]"
  "targets (evidence_db E d r) = targets d"
  "receipts (evidence_db E d r) = receipts d"
  "changes (evidence_db E d r) = changes d"
  "grants (evidence_db E d r) = grants d"
  "webhooks (evidence_db E d r) = webhooks d"
  "outbox (evidence_db E d r) = outbox d"
  by (simp_all add: evidence_db_def)

lemma evidence_db_ok:
  "db_ok d \<Longrightarrow> ep_id e \<in> ep_id ` set (epochs d) \<Longrightarrow> db_ok (evidence_db E d (new_evidence E d e k f ct))"
  unfolding evidence_db_def
  by (rule record_event_ok) (auto simp: db_ok_defs Let_def new_evidence_def)

text \<open>In a consistent database only the database itself can refuse the commit.\<close>

lemma save_evidence_eq:
  assumes "db_ok d" and "e \<in> set (epochs d)"
  shows "save_evidence E d fs e k f =
    (let content = upload_read f (max_upload_bytes (cfg E) + 1);
         row = new_evidence E d e k f content;
         path = ev_storage_path row
     in if int (length content) > max_upload_bytes (cfg E) then
          (Inl (HTTPException 413 msg_evidence_too_large), d, fs)
        else case fs_write E path of
            NotOpened \<Rightarrow> (Inl OSError, d, fs)
          | CutOff n \<Rightarrow> (Inl OSError, d, fs(path := Some (take n content)))
          | Written \<Rightarrow>
              if commit_lost E then (Inl OperationalError, d, fs(path := None))
              else (Inr row, evidence_db E d row, fs(path := Some content)))"
  using evidence_db_ok [OF assms(1), of e] assms(2)
  by (simp add: save_evidence_def Let_def commit_def split: file_write.split)

lemma save_evidence_cases:
  "save_evidence E d fs e k f = (r, d', fs') \<Longrightarrow>
    (\<exists>err. r = Inl err \<and> d' = d) \<or>
    (\<exists>ct. r = Inr (new_evidence E d e k f ct) \<and> d' = evidence_db E d (new_evidence E d e k f ct) \<and> db_ok d')"
  by (auto simp: save_evidence_def Let_def commit_def split: if_splits file_write.splits)

lemma safe_name_props: "safe_name f \<noteq> [] \<and> length (safe_name f) \<le> 180 \<and> 47 \<notin> set (safe_name f)"
proof -
  let ?n = "path_name (str_or (up_filename f) (u ''evidence.bin''))"
  have "47 \<notin> set (take 180 ?n)"
    using path_name_no_slash [of "str_or (up_filename f) (u ''evidence.bin'')"] in_set_takeD by metis
  then show ?thesis by (auto simp: safe_name_def Let_def u_def)
qed

text \<open>The whole file is stored, never a part of it.\<close>

lemma upload_read_whole:
  "\<not> int (length (upload_read f (n + 1))) > n \<Longrightarrow> upload_read f (n + 1) = up_content f \<and>
    int (length (up_content f)) \<le> n"
  by (auto simp: upload_read_def split: if_splits)

section \<open>The properties\<close>

text \<open>
  The outcome of an upload in a consistent database, on every branch: a file larger than the limit
  is refused with 413 and one whose file cannot be opened ends in an OSError, both without a change; a write
  that fails half-way leaves the first bytes of the file, and a commit the database refuses removes the file;
  any other file is stored whole under its path, where no other file changes, and one evidence row
  is added with its SHA-256, its size and a name of at most 180 characters without a slash.
\<close>

lemma evidence_stored:
  assumes "db_ok d" and "e \<in> set (epochs d)" and row: "row = new_evidence E d e k f (up_content f)"
  shows "save_evidence E d fs e k f =
      (if int (length (up_content f)) > max_upload_bytes (cfg E) then
         (Inl (HTTPException 413 msg_evidence_too_large), d, fs)
       else case fs_write E (ev_storage_path row) of
           NotOpened \<Rightarrow> (Inl OSError, d, fs)
         | CutOff n \<Rightarrow> (Inl OSError, d, fs(ev_storage_path row := Some (take n (up_content f))))
         | Written \<Rightarrow>
             if commit_lost E then (Inl OperationalError, d, fs(ev_storage_path row := None))
             else (Inr row, evidence_db E d row, fs(ev_storage_path row := Some (up_content f)))) \<and>
    evidences (evidence_db E d row) = evidences d @ [row] \<and> db_ok (evidence_db E d row) \<and>
    ev_epoch_id row = ep_id e \<and> ev_sha256 row = sha256_hex (up_content f) \<and>
    ev_size_bytes row = int (length (up_content f)) \<and>
    ev_filename row \<noteq> [] \<and> length (ev_filename row) \<le> 180 \<and> 47 \<notin> set (ev_filename row)"
proof -
  let ?m = "max_upload_bytes (cfg E)"
  have "int (length (upload_read f (?m + 1))) > ?m \<longleftrightarrow> int (length (up_content f)) > ?m"
    by (auto simp: upload_read_def)
  moreover have "upload_read f (?m + 1) = up_content f" if "\<not> int (length (up_content f)) > ?m"
    using that by (auto simp: upload_read_def)
  ultimately have "save_evidence E d fs e k f =
      (if int (length (up_content f)) > ?m then
         (Inl (HTTPException 413 msg_evidence_too_large), d, fs)
       else case fs_write E (ev_storage_path row) of
           NotOpened \<Rightarrow> (Inl OSError, d, fs)
         | CutOff n \<Rightarrow> (Inl OSError, d, fs(ev_storage_path row := Some (take n (up_content f))))
         | Written \<Rightarrow>
             if commit_lost E then (Inl OperationalError, d, fs(ev_storage_path row := None))
             else (Inr row, evidence_db E d row, fs(ev_storage_path row := Some (up_content f))))"
    by (simp add: save_evidence_eq [OF assms(1,2)] Let_def row split: file_write.split)
  moreover have "db_ok (evidence_db E d row)"
    unfolding row using assms(1,2) by (intro evidence_db_ok) auto
  ultimately show ?thesis using safe_name_props [of f] by (simp add: row new_evidence_def)
qed

text \<open>
  The path of a file depends on its epoch, its content and its name only. So when a file is uploaded again
  and this time the commit is lost, the clean-up removes the file of the first upload, whose row stays.
\<close>

lemma lost_commit_removes_earlier:
  assumes "db_ok d" and "e \<in> set (epochs d)" and "save_evidence E d fs e k f = (Inr row, d1, fs1)"
    and "epochs d1 = epochs d" and "db_ok d1"
    and "cfg E' = cfg E" and "fs_write E' (ev_storage_path row) = Written" and "commit_lost E'"
  shows "fs1 (ev_storage_path row) = Some (up_content f) \<and> row \<in> set (evidences d1) \<and>
    save_evidence E' d1 fs1 e k' f = (Inl OperationalError, d1, fs1(ev_storage_path row := None))"
proof -
  have path: "ev_storage_path (new_evidence E' d1 e k' f ct) = ev_storage_path (new_evidence E d e k f ct)" for ct
    by (simp add: new_evidence_def evidence_path_def assms(6))
  from assms(3) evidence_stored [OF assms(1,2) refl, of E fs k f]
  have row: "row = new_evidence E d e k f (up_content f)" "d1 = evidence_db E d row" "\<not> int (length (up_content f)) > max_upload_bytes (cfg E)"
    "fs1 = fs(ev_storage_path row := Some (up_content f))"
    by (auto split: if_splits file_write.splits)
  have "e \<in> set (epochs d1)" using assms(2,4) by simp
  from evidence_stored [OF assms(5) this refl, of E' fs1 k' f] show ?thesis
    using row assms(6-8) path by simp
qed

text \<open>
  C35: Whatever name a client declares for its file, the file lands in the directory of its epoch: the
  path is the upload directory, the epoch's identifier and one last component, which starts with twelve
  digits of the content's hash and is neither \<open>.\<close> nor \<open>..\<close> nor holds a slash.
\<close>

theorem evidence_confined:
  assumes "path_word (ep_id e)"
  shows "\<exists>last. ev_storage_path (new_evidence E d e k f content) =
      path_str (path_root (upload_dir (cfg E))) (path_parts (upload_dir (cfg E)) @ [ep_id e, last]) \<and>
    path_word last \<and> last \<noteq> u ''..'' \<and> take 12 last = take 12 (sha256_hex content) \<and>
    length last \<le> 193"
proof -
  let ?last = "take 12 (sha256_hex content) @ u ''-'' @ safe_name f"
  have "47 \<notin> set (take 12 (sha256_hex content))"
    by (auto dest!: in_set_takeD sha256_hex_chars)
  moreover have len: "length ?last = 13 + length (safe_name f)" by simp
  have "?last \<noteq> u s" if "length s \<le> 2" for s
  proof
    assume "?last = u s"
    then have "length ?last = length s" by simp
    with len that show False by simp
  qed
  from this [of "''.''"] this [of "''..''"] have "?last \<noteq> u ''.''" "?last \<noteq> u ''..''" by simp_all
  moreover have "take 12 ?last = take 12 (sha256_hex content)" by simp
  ultimately have "path_word ?last" "?last \<noteq> u ''..''" "take 12 ?last = take 12 (sha256_hex content)"
    "length ?last \<le> 193"
    using safe_name_props [of f] len by (auto simp: path_word_def u_def)
  then show ?thesis
    using path_join_words [OF assms, of ?last "upload_dir (cfg E)"]
    by (intro exI [of _ ?last]) (simp add: new_evidence_def evidence_path_def)
qed

end
