(* ===== verification/Api.thy ===== *)
theory Api
  imports Webhook Demo Execution Evidence
begin

text \<open>
  The routes of \<open>orchestrator/app/main.py\<close>. A handler takes the environment, the database, the bearer
  token and the parameters of its route, and returns the view it answers with, or the exception,
  and the database afterwards. FastAPI resolves the role dependency before it validates the body, so
  a caller without the role learns nothing about its body. (A body that is not JSON is refused before
  both; the model starts from parsed bodies.)
\<close>

section \<open>Views\<close>

text \<open>\<open>_epoch_or_404\<close>\<close>

definition epoch_or_404 :: "db \<Rightarrow> ustr \<Rightarrow> epoch_row res" where
  "epoch_or_404 d epoch_id =
     (case get_epoch d epoch_id of
        None \<Rightarrow> Inl (HTTPException 404 msg_epoch_not_found)
      | Some row \<Rightarrow> Inr row)"

definition epoch_view :: "db \<Rightarrow> epoch_row \<Rightarrow> view res" where
  "epoch_view d row =
    res_bind (one_or_none (filter (\<lambda>a. ap_epoch_id a = ep_id row) (approvals d))) (\<lambda>approval.
    Inr (VDict
      [(u ''id'', VStr (ep_id row)),
       (u ''project'', VStr (ep_project row)),
       (u ''environment'', VStr (ep_environment row)),
       (u ''commit_sha'', VStr (ep_commit_sha row)),
       (u ''artifact_digest'', VStr (ep_artifact_digest row)),
       (u ''config_hash'', VStr (ep_config_hash row)),
       (u ''pipeline_id'', VStr (ep_pipeline_id row)),
       (u ''pipeline_status'', VStr (ep_pipeline_status row)),
       (u ''fingerprint'', VStr (ep_fingerprint row)),
       (u ''state'', VStr (ep_state row)),
       (u ''created_by'', VStr (ep_created_by row)),
       (u ''approved_by'', case approval of None \<Rightarrow> VNone | Some a \<Rightarrow> VStr (ap_approver a)),
       (u ''created_at'', VTime (ep_created_at row))]))"

fun epoch_views :: "db \<Rightarrow> epoch_row list \<Rightarrow> view list res" where
  "epoch_views d [] = Inr []"
| "epoch_views d (row # rows) =
     res_bind (epoch_view d row) (\<lambda>v. res_bind (epoch_views d rows) (\<lambda>vs. Inr (v # vs)))"

text \<open>\<open>ReceiptOut\<close>: its \<open>differences\<close> must be a list of objects of strings.\<close>

fun is_str :: "json \<Rightarrow> bool" where
  "is_str (JStr _) = True"
| "is_str _ = False"

fun is_str_dict :: "json \<Rightarrow> bool" where
  "is_str_dict (JObj kvs) = list_all (\<lambda>(_, v). is_str v) kvs"
| "is_str_dict _ = False"

fun is_difference_list :: "json \<Rightarrow> bool" where
  "is_difference_list (JArr xs) = list_all is_str_dict xs"
| "is_difference_list _ = False"

definition receipt_out :: "ustr \<Rightarrow> receipt_row \<Rightarrow> json \<Rightarrow> view res" where
  "receipt_out epoch_id receipt diffs =
    (if \<not> is_difference_list diffs then Inl ResponseValidationError
     else Inr (VDict
       [(u ''epoch_id'', VStr epoch_id),
        (u ''outcome'', VStr (rc_outcome receipt)),
        (u ''expected_fingerprint'', VStr (rc_expected_fingerprint receipt)),
        (u ''observed_fingerprint'', VStr (rc_observed_fingerprint receipt)),
        (u ''reason'', VStr (rc_reason receipt)),
        (u ''latency_ms'', VInt (rc_latency_ms receipt)),
        (u ''differences'', VJson diffs)]))"

definition receipt_view :: "receipt_row \<Rightarrow> view" where
  "receipt_view r = VDict
     [(u ''id'', VInt (int (rc_id r))), (u ''outcome'', VStr (rc_outcome r)),
      (u ''reason'', VStr (rc_reason r)),
      (u ''expected_fingerprint'', VStr (rc_expected_fingerprint r)),
      (u ''observed_fingerprint'', VStr (rc_observed_fingerprint r)),
      (u ''latency_ms'', VInt (rc_latency_ms r)), (u ''created_at'', VTime (rc_created_at r))]"

definition identity_view :: "identity \<Rightarrow> (ustr \<times> view) list" where
  "identity_view i = map (\<lambda>k. (field_name k, VStr (ident_get i k))) FIELDS"

section \<open>Users and policy\<close>

definition healthz :: view where
  "healthz = VDict [(u ''status'', VStr (u ''ok'')), (u ''service'', VStr (u ''epochdeploy-orchestrator''))]"

text \<open>\<open>TokenResponse\<close> adds the token type.\<close>

definition token_response :: "ustr \<Rightarrow> ustr \<Rightarrow> view" where
  [simp]: "token_response access_token role =
    VDict [(u ''access_token'', VStr access_token),
           (u ''token_type'', VStr (u ''bearer'')),
           (u ''role'', VStr role)]"

definition login :: "env \<Rightarrow> db \<Rightarrow> json \<Rightarrow> view res" where
  "login E d body =
    res_bind (login_request body) (\<lambda>(username, password).
    res_bind (one_or_none (filter (\<lambda>x. us_username x = username) (users d))) (\<lambda>user.
    case user of
      None \<Rightarrow> Inl (HTTPException 401 msg_login_failed)
    | Some x \<Rightarrow>
        if \<not> verify_password password (us_password_hash x) then
          Inl (HTTPException 401 msg_login_failed)
        else Inr (token_response (issue_token E x) (us_role x))))"

definition me :: "env \<Rightarrow> db \<Rightarrow> ustr option \<Rightarrow> view res" where
  "me E d creds = res_bind (current_user E d creds) (\<lambda>user.
     Inr (VDict [(u ''username'', VStr (us_username user)), (u ''role'', VStr (us_role user))]))"

definition policy_dry_run :: "env \<Rightarrow> db \<Rightarrow> ustr option \<Rightarrow> json \<Rightarrow> view res" where
  "policy_dry_run E d creds body =
    res_bind (current_user E d creds) (\<lambda>user.
    res_bind (policy_dry_run_request body) (\<lambda>payload.
    let decision = evaluate_policy (dr_actor_type payload) (dr_action payload) (dr_environment payload)
    in Inr (VDict
      [(u ''actor_type'', VStr (dr_actor_type payload)),
       (u ''action'', VStr (dr_action payload)),
       (u ''project'', VStr (dr_project payload)),
       (u ''environment'', VStr (dr_environment payload)),
       (u ''decision'', VStr (pd_decision decision)),
       (u ''rule_id'', VStr (pd_rule_id decision)),
       (u ''reason'', VStr (pd_reason decision)),
       (u ''required_controls'', VList (map VStr (pd_required_controls decision)))])))"

section \<open>Epochs\<close>

definition api_create_epoch :: "env \<Rightarrow> db \<Rightarrow> ustr option \<Rightarrow> json \<Rightarrow> view res \<times> db" where
  "api_create_epoch E d creds body =
    on_ok (require_role E d creds [''operator'', ''admin'']) d (\<lambda>user.
    on_ok (epoch_create body) d (\<lambda>payload.
    then_ok (create_epoch E d payload (us_username user) (u ''pending'')) (\<lambda>row d1.
    (epoch_view d1 row, d1))))"

definition agent_epoch_payload :: "AgentChangeCreate \<Rightarrow> EpochCreate" where
  "agent_epoch_payload p =
     \<lparr>project = project p, environment = environment p, commit_sha = commit_sha p,
      artifact_digest = artifact_digest p, config_hash = config_hash p, pipeline_id = pipeline_id p\<rparr>"

definition create_agent_change :: "env \<Rightarrow> db \<Rightarrow> ustr option \<Rightarrow> json \<Rightarrow> view res \<times> db" where
  "create_agent_change E d creds body =
    on_ok (require_role E d creds [''operator'', ''admin'']) d (\<lambda>user.
    on_ok (agent_change_create body) d (\<lambda>payload.
    then_ok (create_epoch E d (agent_epoch_payload payload) (us_username user) (u ''pending'')) (\<lambda>epoch d1.
    then_ok (create_change_request (stamp E) (uuid4 E 1) d1 epoch (change_request_id payload)
        (ac_reason payload) (u ''ai_agent'') (ac_actor_id payload) (us_username user) (ac_action payload))
      (\<lambda>change d2.
    (res_bind (epoch_view d2 epoch) (\<lambda>v. Inr (VDict
       [(u ''epoch'', v),
        (u ''change'', VDict
          [(u ''id'', VStr (cr_id change)),
           (u ''external_ref'', VStr (cr_external_ref change)),
           (u ''reason'', VStr (cr_reason change)),
           (u ''actor_type'', VStr (cr_actor_type change)),
           (u ''actor_id'', VStr (cr_actor_id change)),
           (u ''requested_by'', VStr (cr_requested_by change)),
           (u ''action'', VStr (cr_action change))])])), d2)))))"

text \<open>The hundred newest epochs.\<close>

definition list_epochs :: "env \<Rightarrow> db \<Rightarrow> ustr option \<Rightarrow> view res" where
  "list_epochs E d creds =
    res_bind (current_user E d creds) (\<lambda>user.
    res_bind (epoch_views d (take 100 (sort_key (\<lambda>r. - ep_created_at r) (epochs d)))) (\<lambda>vs.
    Inr (VList vs)))"

definition api_get_epoch :: "env \<Rightarrow> db \<Rightarrow> ustr option \<Rightarrow> ustr \<Rightarrow> view res" where
  "api_get_epoch E d creds epoch_id =
    res_bind (current_user E d creds) (\<lambda>user.
    res_bind (epoch_or_404 d epoch_id) (\<lambda>row. epoch_view d row))"

definition change_passport :: "env \<Rightarrow> db \<Rightarrow> ustr option \<Rightarrow> ustr \<Rightarrow> view res" where
  "change_passport E d creds epoch_id =
    res_bind (current_user E d creds) (\<lambda>user.
    res_bind (epoch_or_404 d epoch_id) (\<lambda>row. build_passport d row))"

definition approve :: "env \<Rightarrow> db \<Rightarrow> ustr option \<Rightarrow> ustr \<Rightarrow> view res \<times> db" where
  "approve E d creds epoch_id =
    on_ok (require_role E d creds [''approver'', ''admin'']) d (\<lambda>user.
    on_ok (epoch_or_404 d epoch_id) d (\<lambda>row.
    then_ok (approve_epoch E d row (us_username user)) (\<lambda>(approval, row) d1.
    (Inr (VDict
       [(u ''epoch_id'', VStr (ep_id row)),
        (u ''state'', VStr (ep_state row)),
        (u ''approved_fingerprint'', VStr (ap_approved_fingerprint approval)),
        (u ''approver'', VStr (ap_approver approval))]), d1))))"

section \<open>Capabilities and execution\<close>

definition api_issue_capability :: "env \<Rightarrow> db \<Rightarrow> ustr option \<Rightarrow> ustr \<Rightarrow> json \<Rightarrow> view res \<times> db" where
  "api_issue_capability E d creds epoch_id body =
    on_ok (require_role E d creds [''operator'', ''approver'', ''admin'']) d (\<lambda>user.
    on_ok (capability_issue_request E body) d (\<lambda>ttl_seconds.
    on_ok (epoch_or_404 d epoch_id) d (\<lambda>row.
    then_ok (issue_execution_capability E d row (us_username user) ttl_seconds) (\<lambda>(grant, token) d1.
    (Inr (VDict
       [(u ''capability_token'', VStr token),
        (u ''grant'', VDict
          [(u ''id'', VStr (cg_id grant)),
           (u ''epoch_id'', VStr (cg_epoch_id grant)),
           (u ''actor_type'', VStr (cg_actor_type grant)),
           (u ''actor_id'', VStr (cg_actor_id grant)),
           (u ''project'', VStr (cg_project grant)),
           (u ''environment'', VStr (cg_environment grant)),
           (u ''action'', VStr (cg_action grant)),
           (u ''fingerprint'', VStr (cg_fingerprint grant)),
           (u ''issued_by'', VStr (cg_issued_by grant)),
           (u ''expires_at'', VTime (cg_expires_at grant))])]), d1)))))"

definition execute_as_agent :: "env \<Rightarrow> db \<Rightarrow> ustr option \<Rightarrow> ustr \<Rightarrow> json \<Rightarrow> view res \<times> db" where
  "execute_as_agent E d creds epoch_id body =
    on_ok (require_role E d creds [''operator'', ''admin'']) d (\<lambda>user.
    on_ok (agent_execute_request body) d (\<lambda>(idempotency_key, capability_token).
    on_ok (epoch_or_404 d epoch_id) d (\<lambda>row.
    then_ok (execute_agent_epoch E d row idempotency_key capability_token) (\<lambda>(receipt, diffs) d1.
    (receipt_out (ep_id row) receipt diffs, d1)))))"

definition api_execute :: "env \<Rightarrow> db \<Rightarrow> ustr option \<Rightarrow> ustr \<Rightarrow> json \<Rightarrow> view res \<times> db" where
  "api_execute E d creds epoch_id body =
    on_ok (require_role E d creds [''operator'', ''admin'']) d (\<lambda>user.
    on_ok (execute_request body) d (\<lambda>idempotency_key.
    on_ok (epoch_or_404 d epoch_id) d (\<lambda>row.
    then_ok (execute_epoch E d row idempotency_key None) (\<lambda>(receipt, diffs) d1.
    (receipt_out (ep_id row) receipt diffs, d1)))))"

definition api_receipts :: "env \<Rightarrow> db \<Rightarrow> ustr option \<Rightarrow> ustr \<Rightarrow> view res" where
  "api_receipts E d creds epoch_id =
    res_bind (current_user E d creds) (\<lambda>user.
    res_bind (epoch_or_404 d epoch_id) (\<lambda>_.
    Inr (VList (map receipt_view (sort_key (\<lambda>r. - rc_created_at r)
      (filter (\<lambda>r. rc_epoch_id r = epoch_id) (receipts d)))))))"

section \<open>Targets, evidence and integrations\<close>

definition observe_target :: "env \<Rightarrow> db \<Rightarrow> ustr option \<Rightarrow> json \<Rightarrow> view res \<times> db" where
  "observe_target E d creds body =
    on_ok (require_role E d creds [''operator'', ''admin'']) d (\<lambda>user.
    on_ok (target_observation body) d (\<lambda>payload.
    then_ok (upsert_target E d payload) (\<lambda>row d1.
    (Inr (VDict
       ([(u ''project'', VStr (project payload)),
         (u ''environment'', VStr (environment payload)),
         (u ''fingerprint'', VStr (fingerprint payload))] @ drop 2 (identity_view payload))), d1))))"

definition list_evidence :: "env \<Rightarrow> db \<Rightarrow> ustr option \<Rightarrow> ustr \<Rightarrow> view res" where
  "list_evidence E d creds epoch_id =
    res_bind (current_user E d creds) (\<lambda>user.
    res_bind (epoch_or_404 d epoch_id) (\<lambda>_.
    Inr (VList (map (\<lambda>row. VDict
        [(u ''id'', VInt (int (ev_id row))),
         (u ''kind'', VStr (ev_kind row)),
         (u ''filename'', VStr (ev_filename row)),
         (u ''sha256'', VStr (ev_sha256 row)),
         (u ''content_type'', VStr (ev_content_type row)),
         (u ''size_bytes'', VInt (ev_size_bytes row)),
         (u ''created_at'', VTime (ev_created_at row))])
      (sort_key (\<lambda>r. - ev_created_at r)
        (filter (\<lambda>r. ev_epoch_id r = epoch_id) (evidences d)))))))"

text \<open>The form of an upload: \<open>kind\<close> of 1 to 40 characters and a file, both required.\<close>

definition upload_evidence ::
  "env \<Rightarrow> db \<Rightarrow> files \<Rightarrow> ustr option \<Rightarrow> ustr \<Rightarrow> ustr option \<Rightarrow> upload_file option \<Rightarrow> view res \<times> db \<times> files"
  where
  "upload_evidence E d fs creds epoch_id kind file =
    (case require_role E d creds [''operator'', ''admin''] of
       Inl e \<Rightarrow> (Inl e, d, fs)
     | Inr user \<Rightarrow>
       (let bad = (if (case kind of None \<Rightarrow> True | Some k \<Rightarrow> length k < 1 \<or> 40 < length k)
                   then [u ''kind''] else []) @ (if file = None then [u ''file''] else [])
        in case (kind, file) of
          (Some k, Some f) \<Rightarrow>
            if bad \<noteq> [] then (Inl (RequestValidationError bad), d, fs)
            else (case epoch_or_404 d epoch_id of
                Inl e \<Rightarrow> (Inl e, d, fs)
              | Inr row \<Rightarrow>
                 (case save_evidence E d fs row k f of
                    (Inl e, d1, fs1) \<Rightarrow> (Inl e, d1, fs1)
                  | (Inr evidence, d1, fs1) \<Rightarrow>
                     (Inr (VDict
                        [(u ''id'', VInt (int (ev_id evidence))),
                         (u ''kind'', VStr (ev_kind evidence)),
                         (u ''filename'', VStr (ev_filename evidence)),
                         (u ''sha256'', VStr (ev_sha256 evidence)),
                         (u ''size_bytes'', VInt (ev_size_bytes evidence))]), d1, fs1)))
        | _ \<Rightarrow> (Inl (RequestValidationError bad), d, fs)))"

definition starts_with :: "ustr \<Rightarrow> ustr \<Rightarrow> bool" where
  "starts_with s p \<longleftrightarrow> take (length p) s = p"

definition integration_status :: "env \<Rightarrow> db \<Rightarrow> ustr option \<Rightarrow> view res" where
  "integration_status E d creds =
    res_bind (current_user E d creds) (\<lambda>user.
    res_bind (executor_implementation E) (\<lambda>implementation.
    res_bind (executor_transport E) (\<lambda>transport.
    let S = cfg E; is_grpc = executor_mode S = u ''grpc'' in
    Inr (VDict
      [(u ''gitlab'', VDict
         [(u ''status'', VStr (if gitlab_webhook_token S \<noteq> [] then msg_configured else msg_unconfigured)),
          (u ''event'', VStr (u ''Pipeline Hook'')),
          (u ''binding'', VStr msg_pipeline_binding)]),
       (u ''executor'', VDict
         [(u ''status'', VStr msg_configured),
          (u ''mode'', VStr (executor_mode S)),
          (u ''implementation'', VStr implementation),
          (u ''transport'', VStr transport),
          (u ''authentication'', VStr (if is_grpc then msg_auth_metadata else msg_auth_body)),
          (u ''target_observation'', VStr msg_target_observation)]),
       (u ''database'', VDict
         [(u ''status'', VStr msg_configured),
          (u ''backend'', VStr (if starts_with (database_url S) (u ''postgresql'')
             then u ''postgresql'' else u ''sqlite'')),
          (u ''role'', VStr (u ''epoch + approval + evidence + receipt + outbox''))]),
       (u ''grpc'', VDict
         [(u ''status'', VStr (if is_grpc then msg_grpc_active else msg_grpc_implemented)),
          (u ''contract'', VStr (u ''proto/executor.proto'')),
          (u ''runtime_transport'', VStr (if is_grpc then u ''gRPC'' else transport))])]))))"

section \<open>Demonstration\<close>

definition api_bootstrap :: "env \<Rightarrow> db \<Rightarrow> ustr option \<Rightarrow> view res \<times> db" where
  "api_bootstrap E d creds =
    on_ok (require_role E d creds [''admin'']) d (\<lambda>user.
    then_ok (demo_bootstrap E d user) (\<lambda>epoch d1. (epoch_view d1 epoch, d1)))"

definition api_drift :: "env \<Rightarrow> db \<Rightarrow> ustr option \<Rightarrow> ustr \<Rightarrow> json \<Rightarrow> view res \<times> db" where
  "api_drift E d creds epoch_id body =
    on_ok (require_role E d creds [''admin'']) d (\<lambda>user.
    on_ok (drift_request body) d (\<lambda>(field, value).
    on_ok (demo_only E) d (\<lambda>_.
    on_ok (epoch_or_404 d epoch_id) d (\<lambda>epoch.
    then_ok (demo_drift E d epoch field value) (\<lambda>fp d1.
    (Inr (VDict [(u ''field'', VStr field), (u ''value'', VStr value),
                 (u ''observed_fingerprint'', VStr fp)]), d1))))))"

section \<open>Payloads that are built from validated ones\<close>

text \<open>The keyword arguments of a model's constructor, from the values of an identity.\<close>

definition identity_kwargs :: "'a identity_scheme \<Rightarrow> (ustr \<times> json) list" where
  "identity_kwargs i =
     [(u ''project'', JStr (project i)), (u ''environment'', JStr (environment i)),
      (u ''commit_sha'', JStr (commit_sha i)), (u ''artifact_digest'', JStr (artifact_digest i)),
      (u ''config_hash'', JStr (config_hash i))]"

definition epoch_kwargs :: "'a EpochCreate_scheme \<Rightarrow> (ustr \<times> json) list" where
  "epoch_kwargs p = identity_kwargs p @ [(u ''pipeline_id'', JStr (pipeline_id p))]"

lemma agent_change_revalidates:
  assumes "agent_change_create body = Inr p"
  shows "epoch_create (JObj (epoch_kwargs p)) = Inr (agent_epoch_payload p)"
proof -
  from assms obtain v where v: "validate_model agent_change_fields [] body = Inr v"
    and p: "project p = v (u ''project'')" "environment p = v (u ''environment'')"
      "commit_sha p = v (u ''commit_sha'')" "artifact_digest p = v (u ''artifact_digest'')"
      "config_hash p = v (u ''config_hash'')" "pipeline_id p = v (u ''pipeline_id'')"
    by (auto simp: agent_change_create_def res_bind_Inr_iff)
  have "\<exists>v'. validate_model epoch_create_fields [] (JObj (epoch_kwargs p)) = Inr v' \<and>
      (\<forall>n \<in> sf_name ` set epoch_create_fields. v' n = v n)"
    by (rule validate_model_again [OF v distinct_field_names(3) _ distinct_field_names(2) stable_epoch_fields])
      (auto simp: agent_change_fields_def identity_field_names epoch_kwargs_def identity_kwargs_def p)
  then show ?thesis
    by (auto simp: epoch_create_def agent_epoch_payload_def p identity_field_names)
qed

lemma observed_epoch_revalidates:
  assumes "epoch_create body = Inr q"
  shows "target_observation (JObj (identity_kwargs q)) = Inr (payload_identity q)"
proof -
  from assms obtain v where v: "validate_model epoch_create_fields [] body = Inr v"
    and q: "project q = v (u ''project'')" "environment q = v (u ''environment'')"
      "commit_sha q = v (u ''commit_sha'')" "artifact_digest q = v (u ''artifact_digest'')"
      "config_hash q = v (u ''config_hash'')"
    by (auto simp: epoch_create_def res_bind_Inr_iff)
  have "\<exists>v'. validate_model identity_fields [] (JObj (identity_kwargs q)) = Inr v' \<and>
      (\<forall>n \<in> sf_name ` set identity_fields. v' n = v n)"
    by (rule validate_model_again [OF v distinct_field_names(2) _ distinct_field_names(1) stable_identity_fields])
      (auto simp: epoch_create_fields_def identity_field_names identity_kwargs_def q)
  then show ?thesis
    by (auto simp: target_observation_def payload_identity_def q identity_field_names)
qed

text \<open>
  What passed the validation of a request passes it again unchanged. The epoch an agent's change
  creates is validated a second time, from the normalised values (\<open>EpochCreate(**payload.model_dump(...))\<close>),
  and this never fails and gives exactly the six values; so is the target the demonstration observes
  (\<open>TargetObservation(**epoch_identity(epoch))\<close>), for the identity of every accepted release.
\<close>

lemma validated_payloads_revalidate:
  "(agent_change_create body = Inr p \<longrightarrow> epoch_create (JObj (epoch_kwargs p)) = Inr (agent_epoch_payload p)) \<and>
   (epoch_create body = Inr q \<longrightarrow> target_observation (JObj (identity_kwargs q)) = Inr (payload_identity q))"
  using agent_change_revalidates observed_epoch_revalidates by blast

end
