(* ===== verification/Consistency.thy ===== *)
theory Consistency
  imports Api
begin

text \<open>
  The invariant of the database beyond its declared constraints: what approvals, receipts, grants and
  states say about the epochs they belong to. Each part is a predicate of its own, and every
  operation is shown to preserve all of them.
\<close>

section \<open>The parts of the invariant\<close>

text \<open>An epoch's fingerprint is the fingerprint of its identity.\<close>

definition fingerprint_ok :: "epoch_row \<Rightarrow> bool" where
  "fingerprint_ok e \<longleftrightarrow> ep_fingerprint e = fingerprint (epoch_identity e)"

text \<open>An approval is bound to the fingerprint of its epoch.\<close>

definition approval_ok :: "db \<Rightarrow> approval_row \<Rightarrow> bool" where
  "approval_ok d a \<longleftrightarrow> (\<forall>e \<in> set (epochs d).
     ep_id e = ap_epoch_id a \<longrightarrow> ap_approved_fingerprint a = ep_fingerprint e)"

text \<open>Every state but DRAFT has a reason: an approval, or a receipt with this outcome.\<close>

definition state_ok :: "db \<Rightarrow> epoch_row \<Rightarrow> bool" where
  "state_ok d e \<longleftrightarrow> ep_state e = u ''DRAFT'' \<or>
     ep_state e = u ''APPROVED'' \<and> ep_id e \<in> ap_epoch_id ` set (approvals d) \<or>
     (\<exists>r \<in> set (receipts d). rc_epoch_id r = ep_id e \<and> rc_outcome r = ep_state e)"

text \<open>
  A receipt says EXECUTED exactly when the executor has observed the expected fingerprint, which is
  the one of the epoch. Nothing is executed without an approval of this fingerprint, or a policy that
  allows the agent's action.
\<close>

definition justified :: "db \<Rightarrow> epoch_row \<Rightarrow> bool" where
  "justified d e \<longleftrightarrow>
     approval_bound d e \<or> (\<exists>c. agent_change d e c \<and> change_decision e c = u ''ALLOW'')"

definition receipt_ok :: "db \<Rightarrow> receipt_row \<Rightarrow> bool" where
  "receipt_ok d r \<longleftrightarrow>
     rc_outcome r \<in> {u ''EXECUTED'', u ''DENIED_STALE''} \<and>
     (rc_outcome r = u ''EXECUTED'' \<longleftrightarrow> rc_observed_fingerprint r = rc_expected_fingerprint r) \<and>
     (\<forall>e \<in> set (epochs d). ep_id e = rc_epoch_id r \<longrightarrow>
        rc_expected_fingerprint r = ep_fingerprint e \<and> justified d e)"

text \<open>A grant has the scope of its epoch and of the agent's change, and the policy was obeyed.\<close>

definition grant_ok :: "db \<Rightarrow> grant_row \<Rightarrow> bool" where
  "grant_ok d g \<longleftrightarrow> (\<forall>e \<in> set (epochs d). ep_id e = cg_epoch_id g \<longrightarrow>
     (\<exists>c. agent_change d e c \<and> grant_scope g = agent_scope e c \<and>
        (change_decision e c = u ''ALLOW'' \<or> change_decision e c = u ''ASK'' \<and> approval_bound d e)))"

definition consistent :: "db \<Rightarrow> bool" where
  "consistent d \<longleftrightarrow> db_ok d \<and>
     (\<forall>e \<in> set (epochs d). fingerprint_ok e \<and> state_ok d e) \<and>
     (\<forall>a \<in> set (approvals d). approval_ok d a) \<and>
     (\<forall>r \<in> set (receipts d). receipt_ok d r) \<and>
     (\<forall>g \<in> set (grants d). grant_ok d g)"

lemma consistent_db_ok [simp]: "consistent d \<Longrightarrow> db_ok d"
  by (simp add: consistent_def)

lemma consistentD:
  assumes "consistent d"
  shows "e \<in> set (epochs d) \<Longrightarrow> fingerprint_ok e" "e \<in> set (epochs d) \<Longrightarrow> state_ok d e"
    "a \<in> set (approvals d) \<Longrightarrow> approval_ok d a" "r \<in> set (receipts d) \<Longrightarrow> receipt_ok d r"
    "g \<in> set (grants d) \<Longrightarrow> grant_ok d g"
  using assms by (simp_all add: consistent_def)

text \<open>Users, webhooks and messages do not matter to it.\<close>

lemma consistent_no_epochs:
  "db_ok d \<Longrightarrow> epochs d = [] \<Longrightarrow> approvals d = [] \<Longrightarrow> receipts d = [] \<Longrightarrow> grants d = [] \<Longrightarrow> consistent d"
  by (simp add: consistent_def)

section \<open>Growth\<close>

text \<open>
  What every operation but the bootstrap does to the tables: rows of epochs keep their release (they
  may change their state, their pipeline status and their time stamp), new epochs have new
  identifiers, and approvals, changes and receipts are only added.
\<close>

definition same_release :: "epoch_row \<Rightarrow> epoch_row \<Rightarrow> bool" where
  "same_release e e' \<longleftrightarrow> ep_id e' = ep_id e \<and> epoch_identity e' = epoch_identity e \<and>
     ep_fingerprint e' = ep_fingerprint e"

definition grows :: "db \<Rightarrow> db \<Rightarrow> bool" where
  "grows d d' \<longleftrightarrow>
     (\<forall>e' \<in> set (epochs d'). (\<exists>e \<in> set (epochs d). same_release e e') \<or> ep_id e' \<notin> ep_id ` set (epochs d)) \<and>
     set (approvals d) \<subseteq> set (approvals d') \<and> set (changes d) \<subseteq> set (changes d') \<and>
     set (receipts d) \<subseteq> set (receipts d')"

lemma same_releaseD:
  assumes "same_release e e'"
  shows "ep_id e' = ep_id e" "ep_fingerprint e' = ep_fingerprint e"
    "ep_project e' = ep_project e" "ep_environment e' = ep_environment e"
    "epoch_identity e' = epoch_identity e"
  using assms by (auto simp: same_release_def epoch_identity_def)

lemma same_release_refl [simp]: "same_release e e"
  by (simp add: same_release_def)

lemma growsD_epoch:
  assumes "grows d d'" and "e' \<in> set (epochs d')" and "ep_id e' = i" and "i \<in> ep_id ` set (epochs d)"
  shows "\<exists>e \<in> set (epochs d). same_release e e' \<and> ep_id e = i"
proof -
  from assms have "\<exists>e \<in> set (epochs d). same_release e e'" by (auto simp: grows_def)
  then obtain e where "e \<in> set (epochs d)" "same_release e e'" by blast
  with assms(3) show ?thesis by (auto intro!: bexI [of _ e] dest: same_releaseD(1))
qed

lemma grows_bound:
  "grows d d' \<Longrightarrow> same_release e e' \<Longrightarrow> approval_bound d e \<Longrightarrow> approval_bound d' e'"
  unfolding approval_bound_def grows_def by (metis same_releaseD(1,2) subsetD)

lemma grows_change:
  "grows d d' \<Longrightarrow> same_release e e' \<Longrightarrow> agent_change d e c \<Longrightarrow> agent_change d' e' c"
  unfolding agent_change_def grows_def by (metis same_releaseD(1) subsetD)

lemma same_release_decision: "same_release e e' \<Longrightarrow> change_decision e' c = change_decision e c"
  by (simp add: change_decision_def same_releaseD)

lemma same_release_scope: "same_release e e' \<Longrightarrow> agent_scope e' c = agent_scope e c"
  by (simp add: agent_scope_def same_releaseD)

lemma grows_justified: "grows d d' \<Longrightarrow> same_release e e' \<Longrightarrow> justified d e \<Longrightarrow> justified d' e'"
  unfolding justified_def using grows_bound grows_change same_release_decision by metis

lemma grows_approval_ok:
  assumes "db_ok d" "grows d d'" "a \<in> set (approvals d)" "approval_ok d a"
  shows "approval_ok d' a"
  unfolding approval_ok_def
proof (intro ballI impI)
  fix e' assume e': "e' \<in> set (epochs d')" "ep_id e' = ap_epoch_id a"
  have "ap_epoch_id a \<in> ep_id ` set (epochs d)"
    using assms(1,3) by (auto simp: db_ok_defs Let_def)
  from growsD_epoch [OF assms(2) e' this] assms(4)
  show "ap_approved_fingerprint a = ep_fingerprint e'"
    by (auto simp: approval_ok_def dest: same_releaseD(2))
qed

lemma grows_receipt_ok:
  assumes "db_ok d" "grows d d'" "r \<in> set (receipts d)" "receipt_ok d r"
  shows "receipt_ok d' r"
proof -
  have id: "rc_epoch_id r \<in> ep_id ` set (epochs d)"
    using assms(1,3) by (auto simp: db_ok_defs Let_def)
  have "rc_expected_fingerprint r = ep_fingerprint e' \<and> justified d' e'"
    if e': "e' \<in> set (epochs d')" "ep_id e' = rc_epoch_id r" for e'
    using growsD_epoch [OF assms(2) e' id] assms(4) grows_justified [OF assms(2)]
    by (auto simp: receipt_ok_def dest: same_releaseD(2))
  with assms(4) show ?thesis by (auto simp: receipt_ok_def)
qed

lemma grows_grant_ok:
  assumes "db_ok d" "grows d d'" "g \<in> set (grants d)" "grant_ok d g"
  shows "grant_ok d' g"
  unfolding grant_ok_def
proof (intro ballI impI)
  fix e' assume e': "e' \<in> set (epochs d')" "ep_id e' = cg_epoch_id g"
  have "cg_epoch_id g \<in> ep_id ` set (epochs d)"
    using assms(1,3) by (auto simp: db_ok_defs Let_def)
  from growsD_epoch [OF assms(2) e' this] obtain e where e: "e \<in> set (epochs d)" "same_release e e'"
    "ep_id e = cg_epoch_id g" by blast
  with assms(4) obtain c where "agent_change d e c" "grant_scope g = agent_scope e c"
    "change_decision e c = u ''ALLOW'' \<or> change_decision e c = u ''ASK'' \<and> approval_bound d e"
    by (auto simp: grant_ok_def)
  with grows_change [OF assms(2) e(2)] grows_bound [OF assms(2) e(2)]
    same_release_decision [OF e(2)] same_release_scope [OF e(2)]
  show "\<exists>c. agent_change d' e' c \<and> grant_scope g = agent_scope e' c \<and>
      (change_decision e' c = u ''ALLOW'' \<or> change_decision e' c = u ''ASK'' \<and> approval_bound d' e')"
    by metis
qed

text \<open>So it is enough to look at the new rows and at the states.\<close>

lemma consistent_grows:
  assumes "consistent d" and "db_ok d'" and "grows d d'"
    and "\<And>e. e \<in> set (epochs d') \<Longrightarrow> fingerprint_ok e \<and> state_ok d' e"
    and "\<And>a. a \<in> set (approvals d') \<Longrightarrow> a \<notin> set (approvals d) \<Longrightarrow> approval_ok d' a"
    and "\<And>r. r \<in> set (receipts d') \<Longrightarrow> r \<notin> set (receipts d) \<Longrightarrow> receipt_ok d' r"
    and "\<And>g. g \<in> set (grants d') \<Longrightarrow> g \<notin> set (grants d) \<Longrightarrow> grant_ok d' g"
  shows "consistent d'"
proof -
  from assms(1) have ok: "db_ok d" by simp
  have "approval_ok d' a" if "a \<in> set (approvals d')" for a
    using that assms(5) grows_approval_ok [OF ok assms(3)] consistentD(3) [OF assms(1)] by blast
  moreover have "receipt_ok d' r" if "r \<in> set (receipts d')" for r
    using that assms(6) grows_receipt_ok [OF ok assms(3)] consistentD(4) [OF assms(1)] by blast
  moreover have "grant_ok d' g" if "g \<in> set (grants d')" for g
    using that assms(7) grows_grant_ok [OF ok assms(3)] consistentD(5) [OF assms(1)] by blast
  ultimately show ?thesis using assms(2,4) by (simp add: consistent_def)
qed

lemma same_release_exists: "e \<in> es \<Longrightarrow> \<exists>e' \<in> es. same_release e' e"
  by (rule bexI [of _ e]) simp_all

lemma grows_refl [simp]: "grows d d"
  by (auto simp: grows_def intro: same_release_exists)

text \<open>Operations that do not touch the tables of the invariant.\<close>

lemma consistent_same_tables:
  assumes "consistent d" and "db_ok d'" and "epochs d' = epochs d" and "approvals d' = approvals d"
    and "receipts d' = receipts d" and "set (changes d) \<subseteq> set (changes d')" and "grants d' = grants d"
  shows "consistent d'"
proof (rule consistent_grows [OF assms(1,2)])
  show "grows d d'" using assms(3-6) by (auto simp: grows_def intro: same_release_exists)
  show "fingerprint_ok e \<and> state_ok d' e" if "e \<in> set (epochs d')" for e
    using that assms consistentD(1,2) [OF assms(1)] by (auto simp: state_ok_def)
qed (use assms in simp_all)

section \<open>The operations\<close>

text \<open>Changes of the state and of the pipeline status of one row.\<close>

lemma update_where_mem:
  "x \<in> set (update_where P f rows) \<Longrightarrow> \<exists>y \<in> set rows. x = (if P y then f y else y)"
  by (auto simp: set_update_where)

lemma set_state_mem:
  assumes "e' \<in> set (epochs (set_state t l s d))"
  shows "\<exists>e \<in> set (epochs d). same_release e e' \<and> (e' = e \<or> ep_id e = ep_id l \<and> ep_state e' = s)"
proof (cases "ep_state l = s")
  case True
  with assms show ?thesis by (intro bexI [of _ e']) (simp_all add: set_state_def)
next
  case False
  with assms obtain e where "e \<in> set (epochs d)"
    "e' = (if ep_id e = ep_id l then e\<lparr>ep_state := s, ep_updated_at := t\<rparr> else e)"
    by (auto simp: set_state_def dest: update_where_mem)
  then show ?thesis
    by (intro bexI [of _ e]) (simp_all add: same_release_def epoch_identity_def)
qed

lemma consistent_created:
  assumes "consistent d" and "db_ok (created_db E d (new_epoch E p by st) by)"
  shows "consistent (created_db E d (new_epoch E p by st) by)"
proof (rule consistent_grows [OF assms])
  let ?d = "created_db E d (new_epoch E p by st) by"
  from assms(2) have "ep_id (new_epoch E p by st) \<notin> ep_id ` set (epochs d)"
    by (auto simp: db_ok_defs)
  then show "grows d ?d" by (auto simp: grows_def intro: same_release_exists)
  have "fingerprint_ok (new_epoch E p by st)"
    by (simp add: fingerprint_ok_def new_epoch_def epoch_identity_def payload_identity_def)
  then show "fingerprint_ok e \<and> state_ok ?d e" if "e \<in> set (epochs ?d)" for e
    using that consistentD(1,2) [OF assms(1)] by (auto simp: state_ok_def new_epoch_def)
qed simp_all

lemma consistent_approved:
  assumes c: "consistent d" and e: "e \<in> set (epochs d)" and ok: "db_ok (approved_db E d e by)"
  shows "consistent (approved_db E d e by)"
proof (rule consistent_grows [OF c ok])
  let ?d = "approved_db E d e by"
  have mem: "\<exists>x \<in> set (epochs d). same_release x e' \<and>
      (e' = x \<or> ep_id x = ep_id e \<and> ep_state e' = u ''APPROVED'')" if "e' \<in> set (epochs ?d)" for e'
    using set_state_mem that by simp
  then show g: "grows d ?d" by (auto simp: grows_def)
  show "fingerprint_ok e' \<and> state_ok ?d e'" if "e' \<in> set (epochs ?d)" for e'
  proof -
    from mem [OF that] obtain x where x: "x \<in> set (epochs d)" "same_release x e'"
      "e' = x \<or> ep_id x = ep_id e \<and> ep_state e' = u ''APPROVED''" by blast
    then show ?thesis
      using consistentD(1,2) [OF c x(1)] same_releaseD [OF x(2)]
      by (auto simp: fingerprint_ok_def state_ok_def new_approval_def)
  qed
  show "approval_ok ?d a" if "a \<in> set (approvals ?d)" "a \<notin> set (approvals d)" for a
  proof -
    from that have a: "a = new_approval E d e by" by simp
    have "ep_fingerprint e = ep_fingerprint e'" if e': "e' \<in> set (epochs ?d)" "ep_id e' = ep_id e" for e'
    proof -
      from mem [OF e'(1)] obtain x where x: "x \<in> set (epochs d)" "same_release x e'" by blast
      with e'(2) have "ep_id x = ep_id e" by (simp add: same_releaseD(1))
      with epochs_t.same_row [OF consistent_db_ok [OF c] x(1) e] x(2) show ?thesis
        by (simp add: same_releaseD(2))
    qed
    with a show ?thesis by (simp add: approval_ok_def new_approval_def)
  qed
qed simp_all

lemma consistent_changed:
  "consistent d \<Longrightarrow> db_ok (changed_db t d c) \<Longrightarrow> consistent (changed_db t d c)"
  by (rule consistent_same_tables) auto

lemma consistent_event:
  "consistent d \<Longrightarrow> i \<in> ep_id ` set (epochs d) \<Longrightarrow> consistent (record_event t d i ty a b s j)"
  by (rule consistent_same_tables) (auto intro: record_event_ok)

lemma consistent_policy:
  "consistent d \<Longrightarrow> db_ok (record_policy E d l c p) \<Longrightarrow> consistent (record_policy E d l c p)"
  by (rule consistent_same_tables) auto

lemma consistent_evidence:
  "consistent d \<Longrightarrow> db_ok (evidence_db E d r) \<Longrightarrow> consistent (evidence_db E d r)"
  by (rule consistent_same_tables) auto

lemma consistent_targets:
  "consistent d \<Longrightarrow> db_ok (d\<lparr>targets := ts\<rparr>) \<Longrightarrow> consistent (d\<lparr>targets := ts\<rparr>)"
  by (rule consistent_same_tables) auto

lemma consistent_webhooks:
  "consistent d \<Longrightarrow> db_ok (d\<lparr>webhooks := ws\<rparr>) \<Longrightarrow> consistent (d\<lparr>webhooks := ws\<rparr>)"
  by (rule consistent_same_tables) auto

lemma consistent_users:
  "consistent d \<Longrightarrow> db_ok (d\<lparr>users := us\<rparr>) \<Longrightarrow> consistent (d\<lparr>users := us\<rparr>)"
  by (rule consistent_same_tables) auto

lemma consistent_granted:
  assumes c: "consistent d" and e: "e \<in> set (epochs d)" and may: "may_grant d e ch"
    and ok: "db_ok (granted_db E (record_policy E d e ch p) e ch p by (new_grant E e ch by jti x))"
  shows "consistent (granted_db E (record_policy E d e ch p) e ch p by (new_grant E e ch by jti x))"
    (is "consistent ?d")
proof (rule consistent_grows [OF c ok])
  show "grows d ?d" by (auto simp: grows_def intro: same_release_exists)
  show "fingerprint_ok e' \<and> state_ok ?d e'" if "e' \<in> set (epochs ?d)" for e'
    using that consistentD(1,2) [OF c, of e'] by (simp add: state_ok_def)
  show "grant_ok ?d g" if "g \<in> set (grants ?d)" "g \<notin> set (grants d)" for g
  proof -
    from that have g: "g = new_grant E e ch by jti x" by simp
    have "\<exists>c. agent_change ?d e c \<and> grant_scope g = agent_scope e c \<and>
        (change_decision e c = u ''ALLOW'' \<or> change_decision e c = u ''ASK'' \<and> approval_bound ?d e)"
      using may g by (intro exI [of _ ch])
        (auto simp: may_grant_def agent_change_def grant_scope_def agent_scope_def new_grant_def
          change_decision_def approval_bound_def Let_def)
    with g epochs_t.same_row [OF consistent_db_ok [OF c] _ e] show ?thesis
      by (auto simp: grant_ok_def new_grant_def)
  qed
qed simp_all

text \<open>
  A client is trusted with the epochs of a database when, for each of them, its outcome is one of the two
  values and EXECUTED exactly when it reports the fingerprint of the epoch's release. The local client
  always is (\<open>trusted_local\<close>); for the remote clients it is what the orchestrator relies on.
\<close>

definition result_ok :: "identity \<Rightarrow> executor_result \<Rightarrow> bool" where
  "result_ok expected x \<longleftrightarrow>
     er_outcome x \<in> {u ''EXECUTED'', u ''DENIED_STALE''} \<and>
     (er_outcome x = u ''EXECUTED'' \<longleftrightarrow> er_observed_fingerprint x = fingerprint expected)"

definition trusted_client :: "db \<Rightarrow> env \<Rightarrow> bool" where
  "trusted_client d E \<longleftrightarrow> (\<forall>e \<in> set (epochs d). \<forall>observed context x.
     client_execute (executor_client E) E (epoch_identity e) observed context = Inr x \<longrightarrow>
     result_ok (epoch_identity e) x)"

definition local_mode :: "env \<Rightarrow> bool" where
  "local_mode E \<longleftrightarrow> executor_mode (cfg E) \<notin> {u ''grpc'', u ''http''}"

lemma local_mode_client: "local_mode E \<Longrightarrow> executor_client E = LocalExecutorClient"
  by (simp add: local_mode_def executor_client_def)

lemma trusted_local: "local_mode E \<Longrightarrow> trusted_client d E"
  unfolding trusted_client_def result_ok_def
  using local_client.outcome_cases local_client.executed_iff
  by (simp add: local_mode_client)

lemma may_execute_justified:
  assumes "may_execute d e c"
    and "\<And>x. c = Some x \<Longrightarrow> cx_policy_decision x = u ''ALLOW'' \<Longrightarrow>
      \<exists>ch. agent_change d e ch \<and> change_decision e ch = u ''ALLOW''"
  shows "justified d e"
  using assms by (auto simp: may_execute_def justified_def policy_allows_without_approval_def
      split: option.splits)

lemma consistent_executed:
  assumes c: "consistent d" and e: "e \<in> set (epochs d)" and x: "result_ok (epoch_identity e) x"
    and just: "justified d e" and ok: "db_ok (executed_db E d e k x)"
  shows "consistent (executed_db E d e k x)"
proof (rule consistent_grows [OF c ok])
  let ?d = "executed_db E d e k x"
  have mem: "\<exists>y \<in> set (epochs d). same_release y e' \<and>
      (e' = y \<or> ep_id y = ep_id e \<and> ep_state e' = er_outcome x)" if "e' \<in> set (epochs ?d)" for e'
    using set_state_mem that by simp
  then show g: "grows d ?d" by (auto simp: grows_def)
  show "fingerprint_ok e' \<and> state_ok ?d e'" if "e' \<in> set (epochs ?d)" for e'
  proof -
    from mem [OF that] obtain y where y: "y \<in> set (epochs d)" "same_release y e'"
      "e' = y \<or> ep_id y = ep_id e \<and> ep_state e' = er_outcome x" by blast
    from y(3) consistentD(2) [OF c y(1)] have "state_ok ?d e'"
      using same_releaseD(1) [OF y(2)] by (auto simp: state_ok_def new_receipt_def)
    moreover have "fingerprint_ok e'"
      using consistentD(1) [OF c y(1)] same_releaseD [OF y(2)] by (simp add: fingerprint_ok_def)
    ultimately show ?thesis by simp
  qed
  show "receipt_ok ?d r" if "r \<in> set (receipts ?d)" "r \<notin> set (receipts d)" for r
  proof -
    from that have r: "r = new_receipt E d e k x" by simp
    have "ep_fingerprint e' = ep_fingerprint e \<and> justified ?d e'"
      if e': "e' \<in> set (epochs ?d)" "ep_id e' = ep_id e" for e'
    proof -
      from mem [OF e'(1)] obtain y where y: "y \<in> set (epochs d)" "same_release y e'" by blast
      with e'(2) have "ep_id y = ep_id e" by (simp add: same_releaseD(1))
      with epochs_t.same_row [OF consistent_db_ok [OF c] y(1) e] have "y = e" by simp
      with y grows_justified [OF g _ just] show ?thesis by (simp add: same_releaseD(2))
    qed
    moreover have "fingerprint (epoch_identity e) = ep_fingerprint e"
      using consistentD(1) [OF c e] by (simp add: fingerprint_ok_def)
    ultimately show ?thesis
      using x r by (auto simp: receipt_ok_def new_receipt_def result_ok_def)
  qed
qed simp_all

text \<open>The pipeline status of an epoch is no part of the invariant.\<close>

lemma pipeline_mem:
  assumes "e' \<in> set (epochs (set_pipeline_status t row s d))"
  shows "\<exists>e \<in> set (epochs d). same_release e e' \<and> ep_state e' = ep_state e"
proof (cases "ep_pipeline_status row = s")
  case True
  with assms show ?thesis by (intro bexI [of _ e']) (simp_all add: set_pipeline_status_def)
next
  case False
  with assms obtain e where "e \<in> set (epochs d)"
    "e' = (if ep_id e = ep_id row then e\<lparr>ep_pipeline_status := s, ep_updated_at := t\<rparr> else e)"
    by (auto simp: set_pipeline_status_def dest: update_where_mem)
  then show ?thesis
    by (intro bexI [of _ e]) (simp_all add: same_release_def epoch_identity_def)
qed

lemma set_pipeline_simps [simp]:
  "users (set_pipeline_status t r s d) = users d"
  "approvals (set_pipeline_status t r s d) = approvals d"
  "evidences (set_pipeline_status t r s d) = evidences d"
  "targets (set_pipeline_status t r s d) = targets d"
  "receipts (set_pipeline_status t r s d) = receipts d"
  "changes (set_pipeline_status t r s d) = changes d"
  "events (set_pipeline_status t r s d) = events d"
  "grants (set_pipeline_status t r s d) = grants d"
  "webhooks (set_pipeline_status t r s d) = webhooks d"
  "outbox (set_pipeline_status t r s d) = outbox d"
  "map ep_id (epochs (set_pipeline_status t r s d)) = map ep_id (epochs d)"
  by (simp_all add: set_pipeline_status_def)

lemma consistent_pipeline:
  assumes c: "consistent d"
  shows "consistent (set_pipeline_status t r s d)"
proof (rule consistent_grows [OF c])
  let ?d = "set_pipeline_status t r s d"
  show "db_ok ?d" using c consistent_db_ok [OF c] by (simp add: db_ok_defs Let_def)
  show "grows d ?d" using pipeline_mem [of _ t r s d] by (auto simp: grows_def)
  show "fingerprint_ok e' \<and> state_ok ?d e'" if "e' \<in> set (epochs ?d)" for e'
  proof -
    from pipeline_mem [OF that] obtain y where y: "y \<in> set (epochs d)" "same_release y e'"
      "ep_state e' = ep_state y" by blast
    with consistentD(1,2) [OF c y(1)] show ?thesis
      by (simp add: fingerprint_ok_def state_ok_def same_releaseD)
  qed
qed simp_all

lemma epoch_ids_pipeline [simp]:
  "ep_id ` set (epochs (set_pipeline_status t r s d)) = ep_id ` set (epochs d)"
  by (metis list.set_map set_pipeline_simps(11))

lemma consistent_apply_pipeline:
  "consistent d \<Longrightarrow> ep_id row \<in> ep_id ` set (epochs d) \<Longrightarrow> consistent (apply_pipeline E p s h row d)"
  by (simp add: apply_pipeline_def Let_def consistent_event consistent_pipeline)

lemma epoch_ids_apply_pipeline [simp]:
  "ep_id ` set (epochs (apply_pipeline E p s h row d)) = ep_id ` set (epochs d)"
  by (simp add: apply_pipeline_def Let_def)

lemma consistent_apply_all:
  "consistent d \<Longrightarrow> ep_id ` set rows \<subseteq> ep_id ` set (epochs d) \<Longrightarrow> consistent (apply_all E p s h rows d)"
  by (induction rows arbitrary: d) (auto simp: consistent_apply_pipeline)

lemma consistent_cleared: "consistent d \<Longrightarrow> consistent (cleared_db d)"
  using consistent_db_ok [of d]
  by (intro consistent_no_epochs) (auto simp: cleared_db_def db_ok_defs Let_def)

section \<open>Every service preserves the invariant\<close>

text \<open>In the row e of a consistent database, whatever the result of the operation.\<close>

lemma create_epoch_consistent:
  "consistent d \<Longrightarrow> create_epoch E d p by st = (r, d') \<Longrightarrow> consistent d'"
  by (drule create_epoch_cases) (auto simp: consistent_created)

lemma create_change_request_consistent:
  "consistent d \<Longrightarrow> create_change_request t i d e x rs ty a by act = (r, d') \<Longrightarrow> consistent d'"
  by (drule create_change_request_cases) (auto simp: consistent_changed)

lemma approve_epoch_consistent:
  "consistent d \<Longrightarrow> e \<in> set (epochs d) \<Longrightarrow> approve_epoch E d e by = (r, d') \<Longrightarrow> consistent d'"
  by (drule approve_epoch_cases) (auto simp: consistent_approved)

lemma issue_consistent:
  assumes "consistent d" and "e \<in> set (epochs d)"
    and "issue_execution_capability E d e by ttl = (r, d')"
  shows "consistent d'"
  using issue_cases [OF assms(3)]
proof (elim disjE exE conjE)
  fix c
  assume may: "may_grant d e c" and "grant_capability E d e c
      (evaluate_policy (cr_actor_type c) (cr_action c) (ep_environment e)) by ttl = (r, d')"
  then show "consistent d'"
    using assms(1) by (auto simp: grant_capability_simps Let_def dest!: commit_cases
        intro: consistent_granted [OF assms(1,2)])
qed (use assms(1) in \<open>auto simp: consistent_policy\<close>)

lemma execute_epoch_consistent:
  assumes "consistent d" and e: "e \<in> set (epochs d)" and "trusted_client d E"
    and just: "\<And>x. c = Some x \<Longrightarrow> cx_policy_decision x = u ''ALLOW'' \<Longrightarrow>
      \<exists>ch. agent_change d e ch \<and> change_decision e ch = u ''ALLOW''"
    and "execute_epoch E d e k c = (r, d')"
  shows "consistent d'"
  using execute_with_cases [OF assms(5) [unfolded execute_epoch_def]]
proof (elim disjE exE conjE)
  fix t x
  assume x: "client_execute (executor_client E) E (epoch_identity e) (target_identity t) c = Inr x"
    and may: "may_execute d e c" and d': "d' = executed_db E d e k x" and ok: "db_ok d'"
  from assms(3) e x have "result_ok (epoch_identity e) x"
    unfolding trusted_client_def by blast
  with ok show "consistent d'"
    using consistent_executed [OF assms(1) e _ may_execute_justified [OF may just]] by (simp add: d')
qed (use assms(1) in simp_all)

lemma execute_agent_consistent:
  assumes "consistent d" and "e \<in> set (epochs d)" and "trusted_client d E"
    and "execute_agent_epoch E d e k tok = (r, d')"
  shows "consistent d'"
  using execute_agent_cases [OF assms(4)]
proof (elim disjE exE conjE)
  fix c
  assume c: "authorize_agent E d e tok = Inr c" and ex: "execute_epoch E d e k (Some c) = (r, d')"
  from authorize_agent_Inr [OF c] have "\<exists>ch. agent_change d e ch \<and>
      cx_policy_decision c = change_decision e ch"
    by (auto simp: agent_context_def change_decision_def)
  then show "consistent d'"
    by (intro execute_epoch_consistent [OF assms(1-3) _ ex]) auto
qed (use assms(1) in simp)

lemma store_target_consistent:
  "consistent d \<Longrightarrow> store_target E d i = (r, d') \<Longrightarrow> consistent d'"
  by (drule store_target_cases) (auto simp: consistent_targets)

lemma upsert_target_consistent:
  assumes "consistent d" and "upsert_target E d i = (r, d')"
  shows "consistent d'"
  using upsert_target_cases [OF assms(2)] store_target_consistent [OF assms(1)]
  by (metis prod.collapse)

lemma save_evidence_consistent:
  "consistent d \<Longrightarrow> save_evidence E d fs e k f = (r, d', fs') \<Longrightarrow> consistent d'"
  by (drule save_evidence_cases) (auto simp: consistent_evidence)

text \<open>The same facts about the database at the end, for the chains of stages of a handler.\<close>

lemmas services_consistent =
  create_epoch_consistent create_change_request_consistent approve_epoch_consistent
  issue_consistent execute_epoch_consistent execute_agent_consistent upsert_target_consistent

lemma services_keep:
  assumes "consistent d"
  shows "consistent (snd (create_epoch E d p by st))"
    "consistent (snd (create_change_request t i d e x rs ty a by act))"
    "e \<in> set (epochs d) \<Longrightarrow> consistent (snd (approve_epoch E d e by))"
    "e \<in> set (epochs d) \<Longrightarrow> consistent (snd (issue_execution_capability E d e by ttl))"
    "e \<in> set (epochs d) \<Longrightarrow> trusted_client d E \<Longrightarrow> consistent (snd (execute_epoch E d e k None))"
    "e \<in> set (epochs d) \<Longrightarrow> trusted_client d E \<Longrightarrow> consistent (snd (execute_agent_epoch E d e k tok))"
    "consistent (snd (upsert_target E d j))"
  using services_consistent [OF assms] by (metis option.distinct(1) prod.collapse)+

lemma demo_bootstrap_consistent:
  assumes "consistent d"
  shows "consistent (snd (demo_bootstrap E d user))"
  unfolding demo_bootstrap_def
proof (intro on_ok_snd [where P = consistent] then_ok_snd [where P = consistent]
    commit_snd [where P = consistent])
  fix epoch d2 x d3
  assume "create_change_request (stamp E) (uuid4 E 1) d2 epoch (u ''ISSUE-184'') msg_demo_reason
      (u ''ai_agent'') (u ''release-agent-01'') (us_username user) (u ''deploy'') = (Inr x, d3)"
    and "consistent d3"
  then show "consistent (demo_pipeline_event E d3 epoch)"
    unfolding demo_pipeline_event_def
    by (intro consistent_event)
      (auto dest!: create_change_request_cases simp: new_change_def db_ok_defs Let_def)
qed (use assms in \<open>simp_all add: consistent_cleared services_keep\<close>)

lemma drift_target_consistent:
  "consistent d \<Longrightarrow> consistent (snd (drift_target E d t c))"
  by (auto simp: drift_target_def Let_def intro!: commit_snd [where P = consistent] consistent_targets)

lemma demo_drift_consistent:
  "consistent d \<Longrightarrow> consistent (snd (demo_drift E d e f v))"
  by (auto simp: demo_drift_def drift_target_consistent split: option.splits
      intro!: on_ok_snd [where P = consistent] then_ok_snd [where P = consistent])

lemma seed_consistent: "consistent d \<Longrightarrow> consistent (snd (lifespan E d))"
  by (auto simp: lifespan_def seed_demo_users_def intro!: commit_snd [where P = consistent] consistent_users)

lemma pipeline_hook_consistent:
  "consistent d \<Longrightarrow> pipeline_hook E payload d = Inr d' \<Longrightarrow> consistent d'"
  by (auto simp: pipeline_hook_def res_bind_Inr_iff intro!: consistent_apply_all)

lemma gitlab_webhook_consistent:
  assumes "consistent d"
  shows "consistent (snd (gitlab_webhook E d tok ev chunks))"
  unfolding gitlab_webhook_def Let_def
  by (intro keep_intros [where P = consistent])
    (simp_all add: assms, rule pipeline_hook_consistent [rotated], assumption,
      (rule consistent_webhooks [OF assms], assumption)+)

section \<open>Every route preserves the invariant\<close>

lemma epoch_or_404_Inr: "epoch_or_404 d i = Inr e \<Longrightarrow> e \<in> set (epochs d) \<and> ep_id e = i"
  by (auto simp: epoch_or_404_def dest: get_epoch_Some split: option.splits)

lemma api_consistent:
  assumes "consistent d"
  shows "consistent (snd (api_create_epoch E d creds body))"
    "consistent (snd (create_agent_change E d creds body))"
    "consistent (snd (approve E d creds i))"
    "consistent (snd (api_issue_capability E d creds i body))"
    "trusted_client d E \<Longrightarrow> consistent (snd (execute_as_agent E d creds i body))"
    "trusted_client d E \<Longrightarrow> consistent (snd (api_execute E d creds i body))"
    "consistent (snd (observe_target E d creds body))"
    "consistent (snd (api_bootstrap E d creds))"
    "consistent (snd (api_drift E d creds i body))"
  unfolding api_create_epoch_def create_agent_change_def approve_def api_issue_capability_def
    execute_as_agent_def api_execute_def observe_target_def api_bootstrap_def api_drift_def
    case_prod_unfold
  by (intro keep_intros [where P = consistent];
      simp add: assms services_keep demo_bootstrap_consistent demo_drift_consistent epoch_or_404_Inr)+

text \<open>An upload does nothing to the database but what \<open>save_evidence\<close> does.\<close>

lemma upload_snd:
  assumes "P d" and "\<And>row kd fl. P (fst (snd (save_evidence E d fs row kd fl)))"
  shows "P (fst (snd (upload_evidence E d fs creds i k f)))"
proof (cases "require_role E d creds [''operator'', ''admin'']")
  case (Inr user)
  show ?thesis
  proof (cases "k = None \<or> f = None")
    case True
    with Inr show ?thesis by (auto simp: upload_evidence_def Let_def assms(1) split: option.splits)
  next
    case False
    then obtain kd fl where kf: "k = Some kd" "f = Some fl" by auto
    show ?thesis
    proof (cases "epoch_or_404 d i")
      case (Inr row)
      obtain r d1 fs1 where s: "save_evidence E d fs row kd fl = (r, d1, fs1)"
        by (cases "save_evidence E d fs row kd fl")
      from assms(2) [of row kd fl] have "P d1" by (simp add: s)
      with \<open>require_role _ _ _ _ = Inr user\<close> kf Inr assms(1) show ?thesis
        by (cases r) (simp_all add: upload_evidence_def s)
    qed (use Inr kf assms(1) in \<open>simp add: upload_evidence_def\<close>)
  qed
qed (simp add: upload_evidence_def assms(1))

lemma upload_evidence_consistent:
  "consistent d \<Longrightarrow> upload_evidence E d fs creds i k f = (r, d', fs') \<Longrightarrow> consistent d'"
  by (auto simp: upload_evidence_def Let_def dest: save_evidence_consistent
      split: sum.splits option.splits if_splits prod.splits)

end
