(* ===== verification/System.thy ===== *)
theory System
  imports Consistency
begin

text \<open>
  The application as a whole: the world a request meets (the database and the evidence files), the
  dispatch of the routes, the middleware, and the worlds that can be reached.
\<close>

section \<open>Requests\<close>

record world =
  w_db :: db
  w_files :: files

text \<open>The routes with their parameters, in the order \<open>main.py\<close> declares them.\<close>

datatype route =
    Healthz
  | Login json
  | Me
  | CreateEpoch json
  | PolicyDryRun json
  | CreateAgentChange json
  | ListEpochs
  | GetEpoch ustr
  | ChangePassport ustr
  | Approve ustr
  | IssueCapability ustr json
  | ExecuteAsAgent ustr json
  | Execute ustr json
  | Receipts ustr
  | ObserveTarget json
  | ListEvidence ustr
  | IntegrationStatus
  | UploadEvidence ustr "ustr option" "upload_file option"
  | GitlabWebhook "ustr option" "ustr option" "bytes list"
  | DemoBootstrap
  | DemoDrift ustr json

definition on_db :: "world \<Rightarrow> view res \<times> db \<Rightarrow> view res \<times> world" where
  "on_db w p = (fst p, w\<lparr>w_db := snd p\<rparr>)"

fun handle :: "env \<Rightarrow> ustr option \<Rightarrow> route \<Rightarrow> world \<Rightarrow> view res \<times> world" where
  "handle E creds Healthz w = (Inr healthz, w)"
| "handle E creds (Login body) w = (login E (w_db w) body, w)"
| "handle E creds Me w = (me E (w_db w) creds, w)"
| "handle E creds (CreateEpoch body) w = on_db w (api_create_epoch E (w_db w) creds body)"
| "handle E creds (PolicyDryRun body) w = (policy_dry_run E (w_db w) creds body, w)"
| "handle E creds (CreateAgentChange body) w = on_db w (create_agent_change E (w_db w) creds body)"
| "handle E creds ListEpochs w = (list_epochs E (w_db w) creds, w)"
| "handle E creds (GetEpoch i) w = (api_get_epoch E (w_db w) creds i, w)"
| "handle E creds (ChangePassport i) w = (change_passport E (w_db w) creds i, w)"
| "handle E creds (Approve i) w = on_db w (approve E (w_db w) creds i)"
| "handle E creds (IssueCapability i body) w = on_db w (api_issue_capability E (w_db w) creds i body)"
| "handle E creds (ExecuteAsAgent i body) w = on_db w (execute_as_agent E (w_db w) creds i body)"
| "handle E creds (Execute i body) w = on_db w (api_execute E (w_db w) creds i body)"
| "handle E creds (Receipts i) w = (api_receipts E (w_db w) creds i, w)"
| "handle E creds (ObserveTarget body) w = on_db w (observe_target E (w_db w) creds body)"
| "handle E creds (ListEvidence i) w = (list_evidence E (w_db w) creds i, w)"
| "handle E creds IntegrationStatus w = (integration_status E (w_db w) creds, w)"
| "handle E creds (UploadEvidence i kind file) w =
     (let (r, d, fs) = upload_evidence E (w_db w) (w_files w) creds i kind file
      in (r, w\<lparr>w_db := d, w_files := fs\<rparr>))"
| "handle E creds (GitlabWebhook token event chunks) w =
     on_db w (gitlab_webhook E (w_db w) token event chunks)"
| "handle E creds DemoBootstrap w = on_db w (api_bootstrap E (w_db w) creds)"
| "handle E creds (DemoDrift i body) w = on_db w (api_drift E (w_db w) creds i body)"

section \<open>Responses\<close>

fun success_status :: "route \<Rightarrow> int" where
  "success_status (CreateEpoch _) = 201"
| "success_status (CreateAgentChange _) = 201"
| "success_status (IssueCapability _ _) = 201"
| "success_status (UploadEvidence _ _ _) = 201"
| "success_status _ = 200"

text \<open>
  The middleware sets its headers on the response of the application. FastAPI answers an
  \<open>HTTPException\<close> or a validation error inside the middleware; any other exception passes through it
  and is answered outside, without the headers.
\<close>

fun answered_inside :: "view res \<Rightarrow> bool" where
  "answered_inside (Inr _) = True"
| "answered_inside (Inl (HTTPException _ _)) = True"
| "answered_inside (Inl (RequestValidationError _)) = True"
| "answered_inside (Inl _) = False"

definition quoted :: "string \<Rightarrow> ustr" where
  "quoted s = 39 # u s @ [39]"

definition content_security_policy :: ustr where
  "content_security_policy =
     u ''default-src '' @ quoted ''self'' @ u ''; script-src '' @ quoted ''self'' @
     u ''; style-src '' @ quoted ''self'' @ u ''; img-src '' @ quoted ''self'' @ u '' data:'' @
     u ''; connect-src '' @ quoted ''self'' @ u ''; frame-ancestors '' @ quoted ''none'' @
     u ''; base-uri '' @ quoted ''none''"

definition security_headers :: "view res \<Rightarrow> (ustr \<times> ustr) list" where
  "security_headers r =
    (if answered_inside r then
       [(u ''X-Content-Type-Options'', u ''nosniff''),
        (u ''X-Frame-Options'', u ''DENY''),
        (u ''Referrer-Policy'', u ''no-referrer''),
        (u ''Content-Security-Policy'', content_security_policy)]
     else [])"

record response =
  rs_status :: int
  rs_headers :: "(ustr \<times> ustr) list"
  rs_result :: "view res"

definition serve :: "env \<Rightarrow> ustr option \<Rightarrow> route \<Rightarrow> world \<Rightarrow> response \<times> world" where
  "serve E creds rt w =
    (let (r, w') = handle E creds rt w
     in (\<lparr>rs_status = (case r of Inl e \<Rightarrow> status_of e | Inr _ \<Rightarrow> success_status rt),
          rs_headers = security_headers r, rs_result = r\<rparr>, w'))"

section \<open>Reachable worlds\<close>

text \<open>
  The application starts on an empty database and then serves requests one after the other, each in
  an environment of its own. The parameter P is a condition on the environment of a request and the
  database it finds.
\<close>

definition empty_world :: world where
  "empty_world = \<lparr>w_db = empty_db, w_files = (\<lambda>_. None)\<rparr>"

inductive reachable :: "(db \<Rightarrow> env \<Rightarrow> bool) \<Rightarrow> world \<Rightarrow> bool" for P where
  start: "reachable P (empty_world\<lparr>w_db := snd (lifespan E empty_db)\<rparr>)"
| restart: "reachable P w \<Longrightarrow> reachable P (w\<lparr>w_db := snd (lifespan E (w_db w))\<rparr>)"
| request: "reachable P w \<Longrightarrow> P (w_db w) E \<Longrightarrow> reachable P (snd (handle E creds rt w))"

section \<open>Lemmas\<close>

lemma on_db_simps [simp]:
  "fst (on_db w p) = fst p" "w_db (snd (on_db w p)) = snd p" "w_files (snd (on_db w p)) = w_files w"
  by (simp_all add: on_db_def)

lemma consistent_empty: "consistent empty_db"
  by (rule consistent_no_epochs) (simp_all add: empty_db_def db_ok_empty [unfolded empty_db_def])

lemma handle_consistent:
  assumes "consistent (w_db w)" and "trusted_client (w_db w) E"
  shows "consistent (w_db (snd (handle E creds rt w)))"
proof (cases rt)
  case (UploadEvidence i k f)
  obtain r d fs where *: "upload_evidence E (w_db w) (w_files w) creds i k f = (r, d, fs)"
    by (cases "upload_evidence E (w_db w) (w_files w) creds i k f")
  with upload_evidence_consistent [OF assms(1) *] UploadEvidence show ?thesis by simp
qed (simp_all add: assms api_consistent gitlab_webhook_consistent)

lemma reachable_consistent: "reachable trusted_client w \<Longrightarrow> consistent (w_db w)"
proof (induction rule: reachable.induct)
  case (start E)
  then show ?case by (simp add: seed_consistent consistent_empty)
next
  case (restart w E)
  then show ?case by (simp add: seed_consistent)
next
  case (request w E creds rt)
  then show ?case by (simp add: handle_consistent)
qed

section \<open>What holds in every reachable world\<close>

lemma approval_bound_alt:
  assumes "consistent d" and "e \<in> set (epochs d)"
  shows "approval_bound d e \<longleftrightarrow> ep_id e \<in> ap_epoch_id ` set (approvals d)"
  using assms(2) consistentD(3) [OF assms(1)] by (force simp: approval_bound_def approval_ok_def)

text \<open>
  C1: Every execution receipt of a reachable world is of a stored epoch; it says EXECUTED or
  DENIED_STALE, and EXECUTED exactly when the fingerprint the executor observed is that of the
  epoch's release. An epoch that has a receipt was approved by a human under this fingerprint, or an
  agent requested an action on it that the policy allows without approval.
\<close>

theorem only_approved_releases_run:
  assumes "reachable trusted_client w" and "r \<in> set (receipts (w_db w))"
  shows "\<exists>e \<in> set (epochs (w_db w)). ep_id e = rc_epoch_id r \<and>
    rc_outcome r \<in> {u ''EXECUTED'', u ''DENIED_STALE''} \<and>
    (rc_outcome r = u ''EXECUTED'' \<longleftrightarrow> rc_observed_fingerprint r = fingerprint (epoch_identity e)) \<and>
    ((\<exists>a \<in> set (approvals (w_db w)). ap_epoch_id a = ep_id e \<and>
        ap_approved_fingerprint a = fingerprint (epoch_identity e)) \<or>
     (\<exists>c. agent_change (w_db w) e c \<and> change_decision e c = u ''ALLOW''))"
proof -
  note c = reachable_consistent [OF assms(1)]
  from c assms(2) have "rc_epoch_id r \<in> ep_id ` set (epochs (w_db w))"
    by (auto simp: consistent_def db_ok_defs Let_def)
  then obtain e where e: "e \<in> set (epochs (w_db w))" "ep_id e = rc_epoch_id r" by force
  have fp: "ep_fingerprint e = fingerprint (epoch_identity e)"
    using consistentD(1) [OF c e(1)] by (simp add: fingerprint_ok_def)
  from consistentD(4) [OF c assms(2)] e have "rc_outcome r \<in> {u ''EXECUTED'', u ''DENIED_STALE''}"
    "rc_outcome r = u ''EXECUTED'' \<longleftrightarrow> rc_observed_fingerprint r = fingerprint (epoch_identity e)"
    "justified (w_db w) e"
    unfolding receipt_ok_def fp [symmetric] by auto
  with e show ?thesis unfolding justified_def approval_bound_def fp by blast
qed

text \<open>
  C15: Every capability grant of a reachable world has exactly the scope of its epoch and of the
  agent's change request (actor, action, project, environment, fingerprint), and the policy was obeyed
  when it was given: it allows the action, or it asks for a human and the epoch has the approval.
\<close>

theorem grants_follow_policy:
  assumes "reachable trusted_client w" and "g \<in> set (grants (w_db w))"
  shows "\<exists>e \<in> set (epochs (w_db w)). \<exists>c. ep_id e = cg_epoch_id g \<and> agent_change (w_db w) e c \<and>
    grant_scope g = agent_scope e c \<and> cg_fingerprint g = fingerprint (epoch_identity e) \<and>
    (change_decision e c = u ''ALLOW'' \<or>
     change_decision e c = u ''ASK'' \<and> ep_id e \<in> ap_epoch_id ` set (approvals (w_db w)))"
proof -
  note c = reachable_consistent [OF assms(1)]
  from c assms(2) have "cg_epoch_id g \<in> ep_id ` set (epochs (w_db w))"
    by (auto simp: consistent_def db_ok_defs Let_def)
  then obtain e where e: "e \<in> set (epochs (w_db w))" "ep_id e = cg_epoch_id g" by force
  from consistentD(5) [OF c assms(2)] e obtain ch where "agent_change (w_db w) e ch"
    and scope: "grant_scope g = agent_scope e ch"
    and "change_decision e ch = u ''ALLOW'' \<or> change_decision e ch = u ''ASK'' \<and> approval_bound (w_db w) e"
    unfolding grant_ok_def by blast
  moreover from scope have "cg_fingerprint g = ep_fingerprint e"
    by (simp add: grant_scope_def agent_scope_def)
  ultimately show ?thesis
    using e consistentD(1) [OF c e(1)] approval_bound_alt [OF c e(1)]
    by (intro bexI [of _ e] exI [of _ ch]) (simp_all add: fingerprint_ok_def)
qed

text \<open>
  C28: Every epoch of a reachable world is in one of the four states of the life cycle, and its state has
  a reason in the database: APPROVED only with an approval, EXECUTED and DENIED_STALE only with a
  receipt of this outcome.
\<close>

theorem states_have_reasons:
  assumes "reachable trusted_client w" and "e \<in> set (epochs (w_db w))"
  shows "ep_state e \<in> {u ''DRAFT'', u ''APPROVED'', u ''EXECUTED'', u ''DENIED_STALE''} \<and>
    (ep_state e = u ''APPROVED'' \<longrightarrow> ep_id e \<in> ap_epoch_id ` set (approvals (w_db w))) \<and>
    (ep_state e \<in> {u ''EXECUTED'', u ''DENIED_STALE''} \<longrightarrow>
      (\<exists>r \<in> set (receipts (w_db w)). rc_epoch_id r = ep_id e \<and> rc_outcome r = ep_state e))"
proof -
  note c = reachable_consistent [OF assms(1)]
  have "rc_outcome r \<in> {u ''EXECUTED'', u ''DENIED_STALE''}" if "r \<in> set (receipts (w_db w))" for r
    using consistentD(4) [OF c that] unfolding receipt_ok_def by blast
  then have "ep_state e \<in> {u ''EXECUTED'', u ''DENIED_STALE''}"
    if "r \<in> set (receipts (w_db w))" "rc_outcome r = ep_state e" for r
    using that by metis
  with consistentD(2) [OF c assms(2)] show ?thesis unfolding state_ok_def by fastforce
qed

text \<open>
  Every response to a request that is answered inside the application, a success, a refusal or a
  validation error, carries the four security headers; only an exception that no handler turns into a
  response (always a 500) is answered without them.
\<close>

lemma headers_on_answers:
  "\<exists>r h. rs_result (fst (serve E creds rt w)) = r \<and> rs_headers (fst (serve E creds rt w)) = h \<and>
    (if answered_inside r then
       map_of h (u ''X-Frame-Options'') = Some (u ''DENY'') \<and>
       map_of h (u ''X-Content-Type-Options'') = Some (u ''nosniff'') \<and>
       map_of h (u ''Referrer-Policy'') = Some (u ''no-referrer'') \<and>
       map_of h (u ''Content-Security-Policy'') = Some content_security_policy
     else h = [] \<and> rs_status (fst (serve E creds rt w)) = 500)"
proof -
  obtain r w' where "handle E creds rt w = (r, w')" by fastforce
  then show ?thesis
    by (cases r rule: answered_inside.cases) (simp_all add: serve_def security_headers_def)
qed

end
