(* ===== verification/Effects.thy ===== *)
theory Effects
  imports System
begin

text \<open>
  What a request can do to the world, over all routes: who may change it, what is only ever added to,
  and what an error leaves behind.
\<close>

section \<open>Append-only tables\<close>

definition appends :: "'a list \<Rightarrow> 'a list \<Rightarrow> bool" where
  "appends xs ys \<longleftrightarrow> take (length xs) ys = xs"

lemma appends_iff: "appends xs ys \<longleftrightarrow> (\<exists>zs. ys = xs @ zs)"
  unfolding appends_def by (metis append_eq_conv_conj append_take_drop_id)

lemma appends_refl [simp]: "appends xs xs"
  by (simp add: appends_def)

lemma appends_trans: "appends xs ys \<Longrightarrow> appends ys zs \<Longrightarrow> appends xs zs"
  by (auto simp: appends_iff)

lemma appends_append [simp]: "appends xs (xs @ zs)"
  by (simp add: appends_def)

lemma appends_set: "appends xs ys \<Longrightarrow> set xs \<subseteq> set ys"
  by (auto simp: appends_iff)

text \<open>The tables that are the record of what has happened.\<close>

definition history_kept :: "db \<Rightarrow> db \<Rightarrow> bool" where
  "history_kept d d' \<longleftrightarrow>
     appends (events d) (events d') \<and> appends (receipts d) (receipts d') \<and>
     appends (approvals d) (approvals d') \<and> appends (changes d) (changes d') \<and>
     appends (grants d) (grants d') \<and> appends (evidences d) (evidences d') \<and>
     appends (webhooks d) (webhooks d') \<and> appends (outbox d) (outbox d')"

text \<open>What an epoch is from its creation on: all of its columns but the two states and the time of the last update.\<close>

definition release_of :: "epoch_row \<Rightarrow> ustr \<times> identity \<times> ustr \<times> ustr \<times> ustr \<times> int" where
  "release_of e = (ep_id e, epoch_identity e, ep_fingerprint e, ep_pipeline_id e, ep_created_by e, ep_created_at e)"

definition record_kept :: "db \<Rightarrow> db \<Rightarrow> bool" where
  "record_kept d d' \<longleftrightarrow> history_kept d d' \<and> appends (map release_of (epochs d)) (map release_of (epochs d'))"

lemma releases_updated: "(\<And>e. release_of (f e) = release_of e) \<Longrightarrow> map release_of (update_where P f es) = map release_of es"
  by (simp add: update_where_def)

lemma release_simps [simp]:
  "release_of (e\<lparr>ep_state := x\<rparr>) = release_of e"
  "release_of (e\<lparr>ep_pipeline_status := x\<rparr>) = release_of e"
  "release_of (e\<lparr>ep_updated_at := t\<rparr>) = release_of e"
  by (simp_all add: release_of_def epoch_identity_def)

lemma history_refl [simp]: "record_kept d d"
  by (simp add: record_kept_def history_kept_def)

lemma history_trans: "record_kept d d' \<Longrightarrow> record_kept d' d'' \<Longrightarrow> record_kept d d''"
  unfolding record_kept_def history_kept_def by (blast intro: appends_trans)

lemma history_record_event [simp]: "record_kept d (record_event t d i ty a b s j)"
  by (simp add: record_kept_def history_kept_def record_event_def)

lemma history_ops [simp]:
  "record_kept d (created_db E d r by)"
  "record_kept d (changed_db t d c)"
  "record_kept d (approved_db E d l by)"
  "record_kept d (record_policy E d l c p)"
  "record_kept d (granted_db E d l c p by g)"
  "record_kept d (executed_db E d l k x)"
  "record_kept d (evidence_db E d ev)"
  "record_kept d (d\<lparr>targets := ts\<rparr>)"
  "record_kept d (set_pipeline_status t l s d)"
  "record_kept d (demo_pipeline_event E d l)"
  "record_kept d (d\<lparr>webhooks := webhooks d @ ws\<rparr>)"
  "record_kept d (d\<lparr>users := us\<rparr>)"
  by (simp_all add: record_kept_def history_kept_def releases_updated set_pipeline_status_def created_db_def changed_db_def approved_db_def record_policy_def
      granted_db_def executed_db_def evidence_db_def demo_pipeline_event_def record_event_def Let_def
      set_state_def)

lemma history_apply_pipeline [simp]: "record_kept d (apply_pipeline E p s h row d)"
  using history_trans [OF history_ops(9) history_record_event] by (simp add: apply_pipeline_def Let_def)

lemma history_apply_all: "record_kept d (apply_all E p s h rows d)"
  by (induction rows arbitrary: d) (auto intro: history_trans [OF history_apply_pipeline])

lemma history_pipeline_hook: "pipeline_hook E payload d = Inr d' \<Longrightarrow> record_kept d d'"
  by (auto simp: pipeline_hook_def res_bind_Inr_iff history_apply_all)

text \<open>The services, on any database after d0.\<close>

lemma history_services:
  assumes h: "record_kept d0 d"
  shows "record_kept d0 (snd (create_epoch E d p by st))"
    "record_kept d0 (snd (create_change_request t i d e x rs ty a by act))"
    "record_kept d0 (snd (approve_epoch E d e by))"
    "record_kept d0 (snd (issue_execution_capability E d e by ttl))"
    "record_kept d0 (snd (execute_epoch E d e k c))"
    "record_kept d0 (snd (execute_agent_epoch E d e k tok))"
    "record_kept d0 (snd (upsert_target E d j))"
    "record_kept d0 (snd (drift_target E d tg tg'))"
    "record_kept d0 (snd (demo_drift E d e f v))"
    "record_kept d0 (fst (snd (save_evidence E d fs e kd fl)))"
proof -
  note step = history_trans [OF h]
  have ex: "record_kept d0 (snd (execute_epoch E d e k c))" for c
    using execute_with_cases [of "client_execute (executor_client E)" E d e k c]
    by (cases "execute_epoch E d e k c") (auto simp: h execute_epoch_def intro!: step)
  show "record_kept d0 (snd (create_epoch E d p by st))"
    using create_epoch_cases [of E d p "by" st] by (cases "create_epoch E d p by st") (auto simp: h intro!: step)
  show "record_kept d0 (snd (create_change_request t i d e x rs ty a by act))"
    by (simp add: create_change_request_def Let_def commit_def h step)
  show "record_kept d0 (snd (approve_epoch E d e by))"
    using approve_epoch_cases [of E d e "by"] by (cases "approve_epoch E d e by") (auto simp: h intro!: step)
  show "record_kept d0 (snd (issue_execution_capability E d e by ttl))"
  proof (cases "issue_execution_capability E d e by ttl")
    case (Pair r d')
    from issue_cases [OF this] show ?thesis
      by (auto simp: Pair h grant_capability_simps Let_def commit_def split: if_splits
          intro!: step history_trans [OF history_ops(4) history_ops(5)])
  qed
  show "record_kept d0 (snd (execute_epoch E d e k c))" by (rule ex)
  show "record_kept d0 (snd (execute_agent_epoch E d e k tok))"
    using ex by (simp add: execute_agent_epoch_def h split: sum.split)
  show "record_kept d0 (snd (upsert_target E d j))"
  proof (cases "upsert_target E d j")
    case (Pair r d')
    from upsert_target_cases [OF this] store_target_cases [of E d j] show ?thesis
      by (cases "store_target E d j") (auto simp: Pair h intro!: step)
  qed
  have drift: "record_kept d0 (snd (drift_target E d tg tg'))" for tg tg'
    by (simp add: drift_target_def Let_def commit_def h step)
  show "record_kept d0 (snd (drift_target E d tg tg'))" by (rule drift)
  show "record_kept d0 (snd (demo_drift E d e f v))"
    by (auto simp: demo_drift_def drift h split: option.splits
        intro!: keep_intros [where P = "record_kept d0"])
  show "record_kept d0 (fst (snd (save_evidence E d fs e kd fl)))"
    using save_evidence_cases [of E d fs e kd fl]
    by (cases "save_evidence E d fs e kd fl") (auto simp: h intro!: step)
qed

section \<open>All routes\<close>

text \<open>Every request but the demonstration bootstrap only adds to the history.\<close>

lemma history_api:
  "record_kept d (snd (api_create_epoch E d creds body))"
  "record_kept d (snd (create_agent_change E d creds body))"
  "record_kept d (snd (approve E d creds i))"
  "record_kept d (snd (api_issue_capability E d creds i body))"
  "record_kept d (snd (execute_as_agent E d creds i body))"
  "record_kept d (snd (api_execute E d creds i body))"
  "record_kept d (snd (observe_target E d creds body))"
  "record_kept d (snd (api_drift E d creds i body))"
  unfolding api_create_epoch_def create_agent_change_def approve_def api_issue_capability_def
    execute_as_agent_def api_execute_def observe_target_def api_drift_def case_prod_unfold
  by (intro keep_intros [where P = "record_kept d"]; simp add: history_services)+

lemma history_webhook: "record_kept d (snd (gitlab_webhook E d tok ev chunks))"
  unfolding gitlab_webhook_def Let_def
  by (intro keep_intros [where P = "record_kept d"])
    (simp_all, rule history_trans [OF history_ops(11) history_pipeline_hook], assumption)

lemma history_upload: "record_kept d (fst (snd (upload_evidence E d fs creds i k f)))"
  by (rule upload_snd) (simp_all add: history_services)

lemma handle_history:
  "rt \<noteq> DemoBootstrap \<Longrightarrow> record_kept (w_db w) (w_db (snd (handle E creds rt w)))"
proof (cases rt)
  case (UploadEvidence i k f)
  then show ?thesis
    using history_upload [of "w_db w" E "w_files w" creds i k f]
    by (simp add: case_prod_unfold Let_def)
qed (simp_all add: history_api history_webhook)

section \<open>Who may do what\<close>

text \<open>The user a route asks for, None for the routes open to everybody.\<close>

fun gate :: "env \<Rightarrow> db \<Rightarrow> ustr option \<Rightarrow> route \<Rightarrow> user_row res option" where
  "gate E d creds Healthz = None"
| "gate E d creds (Login _) = None"
| "gate E d creds (GitlabWebhook _ _ _) = None"
| "gate E d creds (Approve _) = Some (require_role E d creds [''approver'', ''admin''])"
| "gate E d creds (IssueCapability _ _) =
     Some (require_role E d creds [''operator'', ''approver'', ''admin''])"
| "gate E d creds DemoBootstrap = Some (require_role E d creds [''admin''])"
| "gate E d creds (DemoDrift _ _) = Some (require_role E d creds [''admin''])"
| "gate E d creds (CreateEpoch _) = Some (require_role E d creds [''operator'', ''admin''])"
| "gate E d creds (CreateAgentChange _) = Some (require_role E d creds [''operator'', ''admin''])"
| "gate E d creds (ExecuteAsAgent _ _) = Some (require_role E d creds [''operator'', ''admin''])"
| "gate E d creds (Execute _ _) = Some (require_role E d creds [''operator'', ''admin''])"
| "gate E d creds (ObserveTarget _) = Some (require_role E d creds [''operator'', ''admin''])"
| "gate E d creds (UploadEvidence _ _ _) = Some (require_role E d creds [''operator'', ''admin''])"
| "gate E d creds _ = Some (current_user E d creds)"

lemmas route_defs = me_def policy_dry_run_def api_create_epoch_def create_agent_change_def
  list_epochs_def api_get_epoch_def change_passport_def approve_def api_issue_capability_def
  execute_as_agent_def api_execute_def api_receipts_def observe_target_def list_evidence_def
  integration_status_def upload_evidence_def api_bootstrap_def api_drift_def

lemma handle_gated: "gate E (w_db w) creds rt = Some (Inl e) \<Longrightarrow> handle E creds rt w = (Inl e, w)"
  by (cases rt) (simp_all add: route_defs on_db_def)

text \<open>The approvals an operation can leave behind.\<close>

definition approvals_within :: "approval_row set \<Rightarrow> db \<Rightarrow> bool" where
  "approvals_within S d \<longleftrightarrow> set (approvals d) \<subseteq> S"

lemma approvals_within_cong: "approvals d' = approvals d \<Longrightarrow> approvals_within S d' = approvals_within S d"
  by (simp add: approvals_within_def)

lemma approvals_apply_all: "approvals (apply_all E p s h rows d) = approvals d"
  by (induction rows arbitrary: d) (simp_all add: apply_pipeline_def Let_def)

lemma approvals_services:
  assumes S: "approvals_within S d"
  shows "approvals_within S (snd (create_epoch E d p by st))"
    "approvals_within S (snd (create_change_request t i d e x rs ty a by act))"
    "approvals_within S (snd (issue_execution_capability E d e by ttl))"
    "approvals_within S (snd (execute_epoch E d e k c))"
    "approvals_within S (snd (execute_agent_epoch E d e k tok))"
    "approvals_within S (snd (upsert_target E d j))"
    "approvals_within S (snd (demo_drift E d e f v))"
    "approvals_within S (snd (demo_bootstrap E d user))"
    "approvals_within S (fst (snd (save_evidence E d fs e kd fl)))"
proof -
  note eq = approvals_within_cong [THEN iffD2, OF _ S]
  have ex: "approvals_within S (snd (execute_epoch E d e k c))" for c
    using execute_with_cases [of "client_execute (executor_client E)" E d e k c]
    by (cases "execute_epoch E d e k c") (auto simp: execute_epoch_def intro!: eq)
  have create: "approvals_within S d \<Longrightarrow> approvals_within S (snd (create_epoch E d p by st))" for d p "by" st
    using create_epoch_cases [of E d p "by" st]
    by (cases "create_epoch E d p by st") (auto simp: approvals_within_def)
  have change: "approvals_within S d \<Longrightarrow>
      approvals_within S (snd (create_change_request t i d e x rs ty a by act))" for t i d e x rs ty a "by" act
    by (simp add: create_change_request_def Let_def commit_def approvals_within_def)
  have upsert: "approvals_within S d \<Longrightarrow> approvals_within S (snd (upsert_target E d j))" for d j
  proof -
    assume S': "approvals_within S d"
    show ?thesis
    proof (cases "upsert_target E d j")
      case (Pair r d')
      from upsert_target_cases [OF this] store_target_cases [of E d j] S' show ?thesis
        by (cases "store_target E d j") (auto simp: Pair approvals_within_def)
    qed
  qed
  show "approvals_within S (snd (create_epoch E d p by st))" by (rule create [OF S])
  show "approvals_within S (snd (create_change_request t i d e x rs ty a by act))" by (rule change [OF S])
  show "approvals_within S (snd (issue_execution_capability E d e by ttl))"
  proof (cases "issue_execution_capability E d e by ttl")
    case (Pair r d')
    from issue_cases [OF this] show ?thesis
      by (auto simp: Pair S grant_capability_simps Let_def commit_def split: if_splits intro!: eq)
  qed
  show "approvals_within S (snd (execute_epoch E d e k c))" by (rule ex)
  show "approvals_within S (snd (execute_agent_epoch E d e k tok))"
    using ex by (simp add: execute_agent_epoch_def S split: sum.split)
  show "approvals_within S (snd (upsert_target E d j))" by (rule upsert [OF S])
  have "approvals_within S (snd (drift_target E d tg tg'))" for tg tg'
    by (simp add: drift_target_def Let_def commit_def eq)
  then show "approvals_within S (snd (demo_drift E d e f v))"
    by (auto simp: demo_drift_def S split: option.splits intro!: keep_intros [where P = "approvals_within S"])
  have "approvals_within S (cleared_db d)"
    and "approvals_within S d \<Longrightarrow> approvals_within S (demo_pipeline_event E d e)" for d e
    by (simp_all add: approvals_within_def cleared_db_def demo_pipeline_event_def)
  then show "approvals_within S (snd (demo_bootstrap E d user))"
    unfolding demo_bootstrap_def
    by (intro keep_intros [where P = "approvals_within S"]) (simp_all add: S create change upsert)
  show "approvals_within S (fst (snd (save_evidence E d fs e kd fl)))"
    using save_evidence_cases [of E d fs e kd fl]
    by (cases "save_evidence E d fs e kd fl") (auto simp: S intro!: eq)
qed

lemma approvals_routes:
  assumes S: "approvals_within S d"
  shows "approvals_within S (snd (api_create_epoch E d creds body))"
    "approvals_within S (snd (create_agent_change E d creds body))"
    "approvals_within S (snd (api_issue_capability E d creds i body))"
    "approvals_within S (snd (execute_as_agent E d creds i body))"
    "approvals_within S (snd (api_execute E d creds i body))"
    "approvals_within S (snd (observe_target E d creds body))"
    "approvals_within S (snd (api_bootstrap E d creds))"
    "approvals_within S (snd (api_drift E d creds i body))"
  unfolding api_create_epoch_def create_agent_change_def api_issue_capability_def
    execute_as_agent_def api_execute_def observe_target_def api_bootstrap_def api_drift_def
    case_prod_unfold
  by (intro keep_intros [where P = "approvals_within S"]; simp add: S approvals_services)+

lemma approvals_webhook:
  assumes "approvals_within S d"
  shows "approvals_within S (snd (gitlab_webhook E d tok ev chunks))"
  unfolding gitlab_webhook_def Let_def
  by (intro keep_intros [where P = "approvals_within S"])
    (use assms in \<open>simp_all add: approvals_within_def\<close>,
      auto simp: pipeline_hook_def res_bind_Inr_iff approvals_apply_all)

lemma approvals_upload:
  "approvals_within S d \<Longrightarrow> approvals_within S (fst (snd (upload_evidence E d fs creds i k f)))"
  by (rule upload_snd) (simp_all add: approvals_services)

lemma approve_new_row:
  assumes "a \<in> set (approvals (snd (approve E d creds i)))" and "a \<notin> set (approvals d)"
  shows "\<exists>user e. require_role E d creds [''approver'', ''admin''] = Inr user \<and>
    e \<in> set (epochs d) \<and> ep_id e = i \<and> ep_pipeline_status e = u ''success'' \<and>
    a = new_approval E d e (us_username user)"
proof (cases "require_role E d creds [''approver'', ''admin'']")
  case (Inl x)
  with assms show ?thesis by (simp add: approve_def)
next
  case (Inr user)
  show ?thesis
  proof (cases "epoch_or_404 d i")
    case (Inl x)
    with Inr assms show ?thesis by (simp add: approve_def)
  next
    case (Inr e)
    obtain r d' where *: "approve_epoch E d e (us_username user) = (r, d')" by fastforce
    from * assms Inr \<open>require_role E d creds [''approver'', ''admin''] = Inr user\<close>
    have "a \<in> set (approvals d')"
      by (cases r) (auto simp: approve_def)
    with approve_epoch_cases [OF *] assms(2) epoch_or_404_Inr [OF Inr]
      \<open>require_role E d creds [''approver'', ''admin''] = Inr user\<close>
    show ?thesis by auto
  qed
qed

lemma handle_approvals:
  assumes "a \<in> set (approvals (w_db (snd (handle E creds rt w))))" and "a \<notin> set (approvals (w_db w))"
  shows "\<exists>i user e. rt = Approve i \<and> require_role E (w_db w) creds [''approver'', ''admin''] = Inr user \<and>
    e \<in> set (epochs (w_db w)) \<and> ep_id e = i \<and> ep_pipeline_status e = u ''success'' \<and>
    a = new_approval E (w_db w) e (us_username user)"
proof -
  let ?S = "set (approvals (w_db w))"
  have S: "approvals_within ?S (w_db w)" by (simp add: approvals_within_def)
  have "\<exists>i. rt = Approve i"
  proof (rule ccontr)
    assume no: "\<not> (\<exists>i. rt = Approve i)"
    have "approvals_within ?S (w_db (snd (handle E creds rt w)))"
    proof (cases rt)
      case (UploadEvidence i k f)
      then show ?thesis
        using approvals_upload [OF S, of E "w_files w" creds i k f] by (simp add: case_prod_unfold Let_def)
    qed (use no in \<open>simp_all add: S approvals_routes approvals_webhook\<close>)
    with assms show False by (auto simp: approvals_within_def)
  qed
  then obtain i where "rt = Approve i" ..
  with assms approve_new_row [of a E "w_db w" creds i] show ?thesis by simp
qed

section \<open>What an error leaves behind\<close>

lemma epoch_view_ok: "db_ok d \<Longrightarrow> \<exists>v. epoch_view d e = Inr v"
  by (simp add: epoch_view_def approvals_t.select_one)

text \<open>The routes that commit at most once, at their end.\<close>

fun single_commit :: "route \<Rightarrow> bool" where
  "single_commit (CreateAgentChange _) = False"
| "single_commit (IssueCapability _ _) = False"
| "single_commit (ObserveTarget _) = False"
| "single_commit DemoBootstrap = False"
| "single_commit (DemoDrift _ _) = False"
| "single_commit _ = True"

lemma error_create:
  assumes ok: "db_ok d" and r: "api_create_epoch E d creds body = (Inl e, d')"
  shows "d' = d"
  using r unfolding api_create_epoch_def
proof (elim on_ok_cases [elim_format] then_ok_cases [elim_format] disjE exE conjE)
  fix user p row d1
  assume "create_epoch E d p (us_username user) (u ''pending'') = (Inr row, d1)"
    and v: "(epoch_view d1 row, d1) = (Inl e, d')"
  then have "db_ok d1" using create_epoch_cases by fastforce
  with v epoch_view_ok [of d1 row] show ?thesis by auto
qed (auto dest: create_epoch_cases)

lemma error_approve: "approve E d creds i = (Inl e, d') \<Longrightarrow> d' = d"
  unfolding approve_def case_prod_unfold
  by (elim on_ok_cases [elim_format] then_ok_cases [elim_format] disjE exE conjE)
    (auto dest!: approve_epoch_cases)

lemma execute_epoch_Inl: "execute_epoch E d e k c = (Inl err, d') \<Longrightarrow> d' = d"
  unfolding execute_epoch_def by (drule execute_with_cases) auto

lemma execute_agent_Inl: "execute_agent_epoch E d e k tok = (Inl err, d') \<Longrightarrow> d' = d"
  using execute_agent_cases execute_epoch_Inl by blast

lemma receipt_out_Inl: "receipt_out i r ds = Inl e \<Longrightarrow> e = ResponseValidationError"
  by (auto simp: receipt_out_def split: if_splits)

text \<open>
  The answer of an execution is only checked after the commit: where a remote executor reports differences
  of another shape, the receipt and the new state stay, and the caller gets an internal error.
\<close>

definition stored_unanswered :: "env \<Rightarrow> db \<Rightarrow> db \<Rightarrow> bool" where
  "stored_unanswered E d d' \<longleftrightarrow> (\<exists>e \<in> set (epochs d). \<exists>key c receipt diffs.
     execute_epoch E d e key c = (Inr (receipt, diffs), d') \<and> \<not> is_difference_list diffs)"

lemma stored_unansweredI:
  "e \<in> set (epochs d) \<Longrightarrow> execute_epoch E d e key c = (Inr (receipt, diffs), d') \<Longrightarrow> \<not> is_difference_list diffs \<Longrightarrow>
    stored_unanswered E d d'"
  unfolding stored_unanswered_def by blast

lemma malformed_differences_kept:
  assumes "require_role E d creds [''operator'', ''admin''] = Inr user" and "execute_request body = Inr key"
    and "epoch_or_404 d i = Inr row" and "execute_epoch E d row key None = (Inr (receipt, diffs), d')"
    and "\<not> is_difference_list diffs"
  shows "api_execute E d creds i body = (Inl ResponseValidationError, d')"
  using assms by (simp add: api_execute_def receipt_out_def)

lemma receipt_out_refused: "receipt_out i r ds = Inl e \<Longrightarrow> e = ResponseValidationError \<and> \<not> is_difference_list ds"
  by (auto simp: receipt_out_def split: if_splits)

lemma error_execute:
  "api_execute E d creds i body = (Inl e, d') \<Longrightarrow> d' = d \<or> e = ResponseValidationError \<and> stored_unanswered E d d'"
  unfolding api_execute_def case_prod_unfold
  by (elim on_ok_cases [elim_format] then_ok_cases [elim_format] disjE exE conjE)
    (auto dest!: execute_epoch_Inl receipt_out_refused epoch_or_404_Inr intro: stored_unansweredI)

lemma error_execute_agent:
  "execute_as_agent E d creds i body = (Inl e, d') \<Longrightarrow> d' = d \<or> e = ResponseValidationError \<and> stored_unanswered E d d'"
  unfolding execute_as_agent_def case_prod_unfold
  by (elim on_ok_cases [elim_format] then_ok_cases [elim_format] disjE exE conjE)
    (auto dest!: execute_agent_cases receipt_out_refused epoch_or_404_Inr dest: execute_epoch_Inl intro: stored_unansweredI)

lemma error_webhook: "gitlab_webhook E d tok ev chunks = (Inl e, d') \<Longrightarrow> d' = d"
  unfolding gitlab_webhook_def Let_def
  by (elim on_ok_cases [elim_format] then_ok_cases [elim_format] disjE exE conjE)
    (auto simp: commit_def split: if_splits dest!: on_ok_cases)

text \<open>An upload whose write or whose commit fails may change one file: the one of this upload.\<close>

definition failed_upload :: "env \<Rightarrow> db \<Rightarrow> route \<Rightarrow> py_error \<Rightarrow> ustr \<Rightarrow> bool" where
  "failed_upload E d rt e path \<longleftrightarrow> e \<in> {OSError, OperationalError} \<and>
     (\<exists>row \<in> set (epochs d). \<exists>k f. rt = UploadEvidence (ep_id row) (Some k) (Some f) \<and>
        path = ev_storage_path (new_evidence E d row k f (up_content f)))"

lemma error_save:
  assumes "db_ok d" and "row \<in> set (epochs d)" and "save_evidence E d fs row k f = (Inl e, d1, fs1)"
  shows "d1 = d \<and> (\<forall>path. fs1 path = fs path \<or> e \<in> {OSError, OperationalError} \<and>
    path = ev_storage_path (new_evidence E d row k f (up_content f)))"
  using assms(3) evidence_stored [OF assms(1,2) refl, of E fs k f] by (auto split: if_splits file_write.splits)

lemma error_upload:
  assumes ok: "db_ok d" and r: "upload_evidence E d fs creds i k f = (Inl e, d', fs')"
  shows "d' = d \<and> (\<forall>path. fs' path = fs path \<or> failed_upload E d (UploadEvidence i k f) e path)"
proof -
  have "d1 = d \<and> (\<forall>path. fs1 path = fs path \<or> failed_upload E d (UploadEvidence i (Some kd) (Some fl)) err path)"
    if "epoch_or_404 d i = Inr row" "save_evidence E d fs row kd fl = (Inl err, d1, fs1)" for row kd fl err d1 fs1
    using error_save [OF ok _ that(2)] epoch_or_404_Inr [OF that(1)] by (auto simp: failed_upload_def)
  with r show ?thesis
    by (auto simp: upload_evidence_def Let_def split: sum.splits option.splits if_splits prod.splits)
qed

definition left_behind :: "env \<Rightarrow> route \<Rightarrow> py_error \<Rightarrow> world \<Rightarrow> world \<Rightarrow> bool" where
  "left_behind E rt e w w' \<longleftrightarrow>
     (w_db w' = w_db w \<or> e = ResponseValidationError \<and> stored_unanswered E (w_db w) (w_db w')) \<and>
     (\<forall>path. w_files w' path = w_files w path \<or> failed_upload E (w_db w) rt e path)"

lemma left_refl [simp]: "left_behind E rt e w w"
  by (simp add: left_behind_def)

lemma handle_error:
  assumes ok: "db_ok (w_db w)" and r: "handle E creds rt w = (Inl e, w')" and "single_commit rt"
  shows "left_behind E rt e w w'"
proof -
  have on: "left_behind E rt' e w w'" if "on_db w p = (Inl e, w')"
    "\<And>d'. p = (Inl e, d') \<Longrightarrow> d' = w_db w \<or> e = ResponseValidationError \<and> stored_unanswered E (w_db w) d'" for p rt'
    using that by (cases p) (auto simp: on_db_def left_behind_def)
  show ?thesis
    using assms
  proof (cases rt)
    case (UploadEvidence i k f)
    obtain r' d fs where *: "upload_evidence E (w_db w) (w_files w) creds i k f = (r', d, fs)"
      by (cases "upload_evidence E (w_db w) (w_files w) creds i k f")
    with UploadEvidence r have "r' = Inl e" "w' = w\<lparr>w_db := d, w_files := fs\<rparr>" by auto
    with UploadEvidence error_upload [OF ok, of E "w_files w" creds i k f] * show ?thesis by (simp add: left_behind_def)
  qed (auto, (erule on, erule error_create [OF ok, THEN disjI1] error_approve [THEN disjI1] error_execute
      error_execute_agent error_webhook [THEN disjI1])+)
qed

section \<open>The properties\<close>

text \<open>
  C29: A request whose user does not pass the gate of its route (no token, a bad or expired token, a
  user who is gone, or a role the route does not list) gets that refusal as its answer, and neither
  the database nor the evidence files are touched.
\<close>

theorem routes_gated:
  assumes "gate E (w_db w) creds rt = Some (Inl e)"
  shows "handle E creds rt w = (Inl e, w)"
  using assms by (rule handle_gated)

text \<open>
  C2: The only way an approval comes into being is the approval route, called by a user who holds
  the role approver or admin; it names this user as approver and a human as actor, is for the epoch
  of the request, whose pipeline succeeded, and carries the epoch's fingerprint. No other route, of an agent,
  the webhook or the demonstration, ever adds one.
\<close>

theorem approvals_need_approver:
  assumes "a \<in> set (approvals (w_db (snd (handle E creds rt w))))"
    and "a \<notin> set (approvals (w_db w))"
  shows "\<exists>user e. rt = Approve (ep_id e) \<and> current_user E (w_db w) creds = Inr user \<and>
    us_role user \<in> {u ''approver'', u ''admin''} \<and>
    e \<in> set (epochs (w_db w)) \<and> ep_pipeline_status e = u ''success'' \<and>
    ap_epoch_id a = ep_id e \<and> ap_approver a = us_username user \<and>
    ap_approved_fingerprint a = ep_fingerprint e"
proof -
  obtain user e where *: "rt = Approve (ep_id e)" "require_role E (w_db w) creds [''approver'', ''admin''] = Inr user"
    "e \<in> set (epochs (w_db w))" "ep_pipeline_status e = u ''success''"
    and a: "a = new_approval E (w_db w) e (us_username user)"
    using handle_approvals [OF assms] by blast
  then show ?thesis
    by (intro exI [of _ user] exI [of _ e]) (auto simp: require_role_Inr new_approval_def)
qed

text \<open>
  C31: The record of what has happened is append-only: whatever request is served, the demonstration
  reset apart, every event, receipt, approval, change request, capability grant, evidence row,
  webhook delivery and outbox row stays as it was written, in its place, and new rows come after it.
\<close>

theorem history_append_only:
  assumes "rt \<noteq> DemoBootstrap"
  shows "history_kept (w_db w) (w_db (snd (handle E creds rt w)))"
  using handle_history [OF assms] by (simp add: record_kept_def)

text \<open>
  C3: An epoch is immutable. Whatever request is served, in whatever order with others and with whatever bodies,
  tokens, clocks and third-party answers, the demonstration reset apart: every epoch is still there, in its
  place, with the identity, the fingerprint, the pipeline, the creator and the time it was created with, and new
  epochs come after the old ones. And in every reachable world (as far as the executor keeps its contract) the
  fingerprint of every epoch, after the reset too, is the hash of its own identity.
\<close>

theorem epochs_immutable:
  assumes "reachable trusted_client w" and "trusted_client (w_db w) E" and "w' = snd (handle E creds rt w)"
  shows "(rt \<noteq> DemoBootstrap \<longrightarrow>
      (\<exists>new. map release_of (epochs (w_db w')) = map release_of (epochs (w_db w)) @ new)) \<and>
    (\<forall>e \<in> set (epochs (w_db w')). ep_fingerprint e = fingerprint (epoch_identity e))"
proof -
  have "reachable trusted_client w'" unfolding assms(3) by (rule reachable.request [OF assms(1,2)])
  from reachable_consistent [OF this] have "\<forall>e \<in> set (epochs (w_db w')). ep_fingerprint e = fingerprint (epoch_identity e)"
    by (auto dest: consistentD(1) simp: fingerprint_ok_def)
  then show ?thesis using handle_history [of rt w E creds] by (simp add: record_kept_def appends_iff assms(3))
qed

text \<open>
  C30: What an error leaves behind, in a database that satisfies its constraints, on every route that commits
  once. (The others commit an observation, a change request or a policy decision before they can fail.) No row
  of the database changes, with one exception: an execution whose executor reports differences the response
  model refuses is stored and then answered with an internal error. No file changes either, but the one of an
  upload whose own write or commit fails.
\<close>

theorem errors_change_nothing:
  assumes "db_ok (w_db w)" and "handle E creds rt w = (Inl e, w')" and "single_commit rt"
  shows "(w_db w' = w_db w \<or> e = ResponseValidationError \<and> stored_unanswered E (w_db w) (w_db w')) \<and>
    (\<forall>path. w_files w' path = w_files w path \<or> failed_upload E (w_db w) rt e path)"
  using handle_error [OF assms] by (simp add: left_behind_def)

section \<open>Where a verified pipeline comes from\<close>

text \<open>The epochs whose pipeline is successful were so before.\<close>

definition verified_before :: "ustr set \<Rightarrow> db \<Rightarrow> bool" where
  "verified_before S d \<longleftrightarrow> (\<forall>e \<in> set (epochs d). ep_pipeline_status e = u ''success'' \<longrightarrow> ep_id e \<in> S)"

lemma verified_same: "verified_before S d \<Longrightarrow> epochs d' = epochs d \<Longrightarrow> verified_before S d'"
  by (simp add: verified_before_def)

lemma verified_states [simp]:
  "verified_before S d \<Longrightarrow> verified_before S (executed_db E d l k x)"
  "verified_before S d \<Longrightarrow> verified_before S (approved_db E d l by)"
  by (auto simp: verified_before_def set_state_def set_update_where)

lemma verified_services:
  assumes S: "verified_before S d"
  shows "verified_before S (snd (create_epoch E d p by (u ''pending'')))"
    "verified_before S (snd (create_change_request t i d e x rs ty a by act))"
    "verified_before S (snd (approve_epoch E d e by))"
    "verified_before S (snd (issue_execution_capability E d e by ttl))"
    "verified_before S (snd (execute_epoch E d e k c))"
    "verified_before S (snd (execute_agent_epoch E d e k tok))"
    "verified_before S (snd (upsert_target E d j))"
    "verified_before S (snd (demo_drift E d e f v))"
    "verified_before S (fst (snd (save_evidence E d fs e kd fl)))"
proof -
  note eq = verified_same [OF S]
  have ex: "verified_before S (snd (execute_epoch E d e k c))" for c
    using execute_with_cases [of "client_execute (executor_client E)" E d e k c]
    by (cases "execute_epoch E d e k c") (auto simp: S execute_epoch_def)
  show "verified_before S (snd (create_epoch E d p by (u ''pending'')))"
    using create_epoch_cases [of E d p "by" "u ''pending''"] S
    by (cases "create_epoch E d p by (u ''pending'')") (auto simp: verified_before_def new_epoch_def)
  show "verified_before S (snd (create_change_request t i d e x rs ty a by act))"
    by (simp add: create_change_request_def Let_def commit_def S eq)
  show "verified_before S (snd (approve_epoch E d e by))"
    using approve_epoch_cases [of E d e "by"]
    by (cases "approve_epoch E d e by") (auto simp: S)
  show "verified_before S (snd (issue_execution_capability E d e by ttl))"
  proof (cases "issue_execution_capability E d e by ttl")
    case (Pair r d')
    from issue_cases [OF this] show ?thesis
      by (auto simp: Pair S grant_capability_simps Let_def commit_def split: if_splits intro!: eq)
  qed
  show "verified_before S (snd (execute_epoch E d e k c))" by (rule ex)
  show "verified_before S (snd (execute_agent_epoch E d e k tok))"
    using ex by (simp add: execute_agent_epoch_def S split: sum.split)
  show "verified_before S (snd (upsert_target E d j))"
  proof (cases "upsert_target E d j")
    case (Pair r d')
    from upsert_target_cases [OF this] store_target_cases [of E d j] show ?thesis
      by (cases "store_target E d j") (auto simp: Pair S intro!: eq)
  qed
  show "verified_before S (snd (demo_drift E d e f v))"
    by (auto simp: demo_drift_def drift_target_def Let_def S eq split: option.splits
        intro!: keep_intros [where P = "verified_before S"])
  show "verified_before S (fst (snd (save_evidence E d fs e kd fl)))"
    using save_evidence_cases [of E d fs e kd fl]
    by (cases "save_evidence E d fs e kd fl") (auto simp: S intro!: eq)
qed

lemma verified_routes:
  assumes S: "verified_before S d"
  shows "verified_before S (snd (api_create_epoch E d creds body))"
    "verified_before S (snd (create_agent_change E d creds body))"
    "verified_before S (snd (approve E d creds i))"
    "verified_before S (snd (api_issue_capability E d creds i body))"
    "verified_before S (snd (execute_as_agent E d creds i body))"
    "verified_before S (snd (api_execute E d creds i body))"
    "verified_before S (snd (observe_target E d creds body))"
    "verified_before S (snd (api_drift E d creds i body))"
  unfolding api_create_epoch_def create_agent_change_def approve_def api_issue_capability_def
    execute_as_agent_def api_execute_def observe_target_def api_drift_def case_prod_unfold
  by (intro keep_intros [where P = "verified_before S"]; simp add: S verified_services)+

lemma verified_upload:
  "verified_before S d \<Longrightarrow> verified_before S (fst (snd (upload_evidence E d fs creds i k f)))"
  by (rule upload_snd) (simp_all add: verified_services)

lemma handle_verified:
  assumes "verified_before S (w_db w)" and "rt \<noteq> DemoBootstrap" and "\<And>t ev cs. rt \<noteq> GitlabWebhook t ev cs"
  shows "verified_before S (w_db (snd (handle E creds rt w)))"
proof (cases rt)
  case (UploadEvidence i k f)
  then show ?thesis
    using verified_upload [OF assms(1), of E "w_files w" creds i k f] by (simp add: case_prod_unfold Let_def)
qed (use assms in \<open>simp_all add: verified_routes\<close>)

text \<open>
  C6: The pipeline of an epoch can only be reported successful by the webhook (or the demonstration
  reset): with the configured token, in an event whose pipeline is the epoch's, whose status is success and
  whose commit is the epoch's commit. No other request, of whatever user or agent, verifies a pipeline.
\<close>

theorem pipeline_success_verified:
  assumes "db_ok (w_db w)" and "rt \<noteq> DemoBootstrap"
    and "e \<in> set (epochs (w_db (snd (handle E creds rt w))))" and "ep_pipeline_status e = u ''success''"
    and "ep_id e \<notin> ep_id ` {r \<in> set (epochs (w_db w)). ep_pipeline_status r = u ''success''}"
  shows "\<exists>event chunks payload attrs.
    rt = GitlabWebhook (Some (gitlab_webhook_token (cfg E))) event chunks \<and> is_pipeline_hook event \<and>
    parse_body E (concat chunks) = Inr payload \<and> object_attributes payload = Inr attrs \<and>
    attr_text E attrs ''id'' [] = Inr (ep_pipeline_id e) \<and>
    attr_text E attrs ''status'' ''unknown'' = Inr (u ''success'') \<and>
    attr_text E attrs ''sha'' [] = Inr (ep_commit_sha e)"
proof -
  let ?S = "ep_id ` {r \<in> set (epochs (w_db w)). ep_pipeline_status r = u ''success''}"
  have S: "verified_before ?S (w_db w)" by (simp add: verified_before_def)
  have "\<exists>t ev cs. rt = GitlabWebhook t ev cs"
  proof (rule ccontr)
    assume "\<not> (\<exists>t ev cs. rt = GitlabWebhook t ev cs)"
    with handle_verified [OF S assms(2)] have "verified_before ?S (w_db (snd (handle E creds rt w)))" by blast
    with assms(3-5) show False unfolding verified_before_def by blast
  qed
  then obtain tok ev cs where rt: "rt = GitlabWebhook tok ev cs" by blast
  obtain r d' where h: "gitlab_webhook E (w_db w) tok ev cs = (r, d')" by fastforce
  with assms(3) rt have e: "e \<in> set (epochs d')" by simp
  have no: "e \<notin> set (epochs (w_db w))" using assms(4,5) by blast
  show ?thesis
  proof (cases r)
    case (Inl x)
    with error_webhook h e no show ?thesis by blast
  next
    case (Inr v)
    note h = h [unfolded Inr]
    have ev: "is_pipeline_hook ev" "v = webhook_view False"
      using gitlab_webhook_other [OF assms(1) h] e no by metis+
    obtain payload attrs pid status sha where p: "parse_body E (concat cs) = Inr payload"
      "object_attributes payload = Inr attrs" "attr_text E attrs ''id'' [] = Inr pid"
      "attr_text E attrs ''status'' ''unknown'' = Inr status" "attr_text E attrs ''sha'' [] = Inr sha"
      and d': "epochs d' = map (\<lambda>r. if ep_pipeline_id r = pid then pipeline_row (stamp E) status sha r else r)
        (epochs (w_db w))"
      using gitlab_webhook_pipeline [OF assms(1) h [unfolded ev(2)] ev(1)] by blast
    from e d' obtain r where r: "r \<in> set (epochs (w_db w))"
      "e = (if ep_pipeline_id r = pid then pipeline_row (stamp E) status sha r else r)" by auto
    with no assms(4,5) have "pid = ep_pipeline_id e" "status = u ''success''" "sha = ep_commit_sha e"
      by (auto simp: pipeline_row_def verified_status_def split: if_splits)
    with p rt ev(1) gitlab_webhook_read(1) [OF h] show ?thesis
      by (simp add: webhook_authorized_Inr)
  qed
qed

section \<open>What a delivery brings about\<close>

lemma attr_text_dict: "attr_text E (JObj kvs) key dflt =
    Inr (py_str E (case map_of kvs (u key) of None \<Rightarrow> JStr (u dflt) | Some j \<Rightarrow> j))"
  by (simp add: attr_text_def json_get_def)

lemma object_attributes_dict:
  "map_of members (u ''object_attributes'') = Some a \<Longrightarrow> object_attributes (JObj members) = Inr a"
  by (simp add: object_attributes_def json_get_def)

lemma parse_body_dumps:
  "json_readable (PyJson (float_repr E)) (nesting E) j \<Longrightarrow> json_unicode j \<Longrightarrow> parse_body E (utf8 (json_dumps j)) = Inr j"
proof -
  assume j: "json_readable (PyJson (float_repr E)) (nesting E) j" "json_unicode j"
  then obtain c t where "json_dumps j = c # t" using json_dumps_start [OF json_readable_no_float] by blast
  then have "utf8 (json_dumps j) \<noteq> []" by (simp add: utf8_def)
  with json_loads_dumps [OF j] show ?thesis by (simp add: parse_body_def)
qed

text \<open>A new pipeline event whose body has a dictionary of attributes is always taken.\<close>

lemma webhook_completes:
  assumes c: "consistent d" and auth: "webhook_authorized E tok = Inr ()"
    and raw: "read_stream (max_webhook_bytes (cfg E)) [] chunks = Inr raw"
    and new: "sha256_hex raw \<notin> wh_payload_hash ` set (webhooks d)"
    and body: "parse_body E raw = Inr payload" "object_attributes payload = Inr (JObj kvs)"
    and hook: "is_pipeline_hook ev"
  shows "\<exists>d'. gitlab_webhook E d tok ev chunks = (Inr (webhook_view False), d')"
proof -
  have ok: "db_ok d" using c by simp
  obtain ext where ext: "attr_text E (JObj kvs) ''id'' [] = Inr ext" by (simp add: attr_text_dict)
  let ?d1 = "d\<lparr>webhooks := webhooks d @ [new_webhook E d ev ext (sha256_hex raw)]\<rparr>"
  have c1: "consistent ?d1" using consistent_webhooks [OF c] new_webhook_ok [OF ok new] by blast
  obtain d2 where d2: "pipeline_hook E payload ?d1 = Inr d2"
    by (simp add: pipeline_hook_def body attr_text_dict)
  have "db_ok d2" using pipeline_hook_consistent [OF c1 d2] by simp
  then have "gitlab_webhook E d tok ev chunks = (Inr (webhook_view False), d2)"
    by (simp add: gitlab_webhook_new [OF ok auth raw new] body ext hook d2 commit_def)
  then show ?thesis by blast
qed

text \<open>
  C23: A delivery takes effect. When the body, in whatever chunks, is the compact JSON text (in UTF-8) of a
  dictionary whose \<open>object_attributes\<close> give a pipeline, a status and a commit, within the size limit
  and not seen before, then the pipeline event with the configured token is accepted, and every epoch
  of that pipeline has the status (for its own commit) or \<open>sha_mismatch\<close>, every other its old one.
\<close>

theorem webhook_delivers:
  assumes "consistent d" and "is_ascii (gitlab_webhook_token (cfg E))" and "is_pipeline_hook ev"
    and "concat chunks = utf8 (json_dumps (JObj members))"
    and "json_readable (PyJson (float_repr E)) (nesting E) (JObj members)" and "json_unicode (JObj members)"
    and "int (length (concat chunks)) \<le> max_webhook_bytes (cfg E)"
    and "sha256_hex (concat chunks) \<notin> wh_payload_hash ` set (webhooks d)"
    and "map_of members (u ''object_attributes'') = Some (JObj kvs)"
    and "map_of kvs (u ''id'') = Some pid" and "map_of kvs (u ''status'') = Some (JStr status)"
    and "map_of kvs (u ''sha'') = Some (JStr sha)"
  shows "\<exists>d'. gitlab_webhook E d (Some (gitlab_webhook_token (cfg E))) ev chunks = (Inr (webhook_view False), d') \<and>
    map ep_pipeline_status (epochs d') =
      map (\<lambda>r. if ep_pipeline_id r \<noteq> py_str E pid then ep_pipeline_status r
        else if sha = ep_commit_sha r then status else u ''sha_mismatch'') (epochs d)"
proof -
  let ?tok = "Some (gitlab_webhook_token (cfg E))"
  have ok: "db_ok d" using assms(1) by simp
  have auth: "webhook_authorized E ?tok = Inr ()" using assms(2) by (simp add: webhook_authorized_Inr)
  have raw: "read_stream (max_webhook_bytes (cfg E)) [] chunks = Inr (concat chunks)"
    using assms(7) by (simp add: read_stream_within)
  have body: "parse_body E (concat chunks) = Inr (JObj members)"
    unfolding assms(4) using assms(5,6) by (rule parse_body_dumps)
  note attrs = object_attributes_dict [OF assms(9)]
  from webhook_completes [OF assms(1) auth raw assms(8) body attrs assms(3)]
  obtain d' where d': "gitlab_webhook E d ?tok ev chunks = (Inr (webhook_view False), d')" by blast
  from gitlab_webhook_pipeline [OF ok d' assms(3)]
  have "epochs d' = map (\<lambda>r. if ep_pipeline_id r = py_str E pid then pipeline_row (stamp E) status sha r else r) (epochs d)"
    by (simp add: body attrs attr_text_dict assms(10-12))
  with d' show ?thesis by (auto simp: pipeline_row_def verified_status_def)
qed

text \<open>
  An integer of more than 4300 digits, or nesting that is too deep, is not answered with the 400 of a
  malformed body: only \<open>JSONDecodeError\<close> is caught.
\<close>

lemma webhook_uncaught:
  assumes "webhook_authorized E tok = Inr ()" and "db_ok d"
    and "read_stream (max_webhook_bytes (cfg E)) [] chunks = Inr raw" and "raw \<noteq> []"
    and "sha256_hex raw \<notin> wh_payload_hash ` set (webhooks d)"
    and "json_loads (float_repr E) (nesting E) raw = Inl e" and "e \<noteq> JSONDecodeError"
  shows "\<exists>x. gitlab_webhook E d tok ev chunks = (Inl x, d) \<and> status_of x = 500"
  using assms
  by (cases e) (simp_all add: gitlab_webhook_new parse_body_def)

end
