(* ===== verification/Concurrency.thy ===== *)
theory Concurrency
  imports Execution
begin

text \<open>
  Runs of several requests on one epoch: two executions that loaded it before either of them ran, an
  approval after an execution, and the whole path of an agent from its capability to the receipt.

  A request loads its epoch when it starts (\<open>_epoch_or_404\<close>) and hands the loaded object to the
  service, which locks the row. Two requests therefore run as load, load, execute, execute; the
  second execution works on the database the first has left and on the object loaded before it.
\<close>

section \<open>Two executions\<close>

text \<open>Whether a request may execute depends on the loaded object and on the approvals.\<close>

lemma may_execute_later:
  "may_execute d e c \<Longrightarrow> set (approvals d) \<subseteq> set (approvals d') \<Longrightarrow> may_execute d' e c"
  by (auto simp: may_execute_def approval_bound_def)

lemma local_start:
  assumes "db_ok d" and "ep_id e \<in> ep_id ` set (epochs d)" and "executor_mode (cfg E) \<notin> {u ''grpc'', u ''http''}"
    and "may_execute d e c" and "(ep_id e, k) \<notin> receipt_key ` set (receipts d)"
    and "t \<in> set (targets d)" and "target_key t = (ep_project e, ep_environment e)"
    and "local_check E (epoch_identity e) c = Inr ()"
  obtains x where "local_execute E (epoch_identity e) (target_identity t) c = Inr x"
    and "execute_epoch E d e k c = (Inr (new_receipt E d e k x, er_differences x), executed_db E d e k x)"
    and "db_ok (executed_db E d e k x)"
    and "er_outcome x = (if fingerprint (epoch_identity e) = fingerprint (target_identity t)
      then u ''EXECUTED'' else u ''DENIED_STALE'')"
proof -
  obtain x where x: "local_execute E (epoch_identity e) (target_identity t) c = Inr x"
    and "er_outcome x = (if fingerprint (epoch_identity e) = fingerprint (target_identity t)
      then u ''EXECUTED'' else u ''DENIED_STALE'')"
    using assms(8) by (simp add: local_execute_Inr)
  moreover have "execute_epoch E d e k c = (Inr (new_receipt E d e k x, er_differences x), executed_db E d e k x)"
    unfolding execute_epoch_def local_client_execute [OF assms(3)]
    by (rule execute_with_start [where ex = local_execute, OF assms(1,2,6,7,5,4) x])
  ultimately show thesis
    using that executed_db_ok [OF assms(1,2,5)] by blast
qed

lemma epoch_ids_executed [simp]: "ep_id ` set (epochs (executed_db E d e k x)) = ep_id ` set (epochs d)"
  by simp

text \<open>
  C37: The row lock does not keep an epoch from being executed twice. When two requests with different
  keys have both loaded an approved epoch before either executes, both execute: the second
  receipt is written although the first execution has already taken the epoch out of its state. (The
  lock makes the second wait, but the locked row is read into the object loaded before.)
\<close>

theorem stale_execution_repeats:
  assumes "db_ok d" and "e \<in> set (epochs d)" and "may_execute d e None"
    and "executor_mode (cfg E1) \<notin> {u ''grpc'', u ''http''}"
    and "executor_mode (cfg E2) \<notin> {u ''grpc'', u ''http''}"
    and "t \<in> set (targets d)" and "target_key t = (ep_project e, ep_environment e)"
    and "(ep_id e, k1) \<notin> receipt_key ` set (receipts d)"
    and "(ep_id e, k2) \<notin> receipt_key ` set (receipts d)" and "k1 \<noteq> k2"
    and "fingerprint (epoch_identity e) = fingerprint (target_identity t)"
  shows "\<exists>r1 r2 ds1 ds2 d1 d2. execute_epoch E1 d e k1 None = (Inr (r1, ds1), d1) \<and>
    execute_epoch E2 d1 e k2 None = (Inr (r2, ds2), d2) \<and>
    receipts d2 = receipts d @ [r1, r2] \<and>
    rc_outcome r1 = u ''EXECUTED'' \<and> rc_outcome r2 = u ''EXECUTED'' \<and>
    (\<exists>e' \<in> set (epochs d1). ep_id e' = ep_id e \<and> ep_state e' = u ''EXECUTED'')"
proof -
  have id: "ep_id e \<in> ep_id ` set (epochs d)" using assms(2) by simp
  have check: "local_check E (epoch_identity e) None = Inr ()" for E by (simp add: local_check_def)
  obtain x where x: "execute_epoch E1 d e k1 None =
      (Inr (new_receipt E1 d e k1 x, er_differences x), executed_db E1 d e k1 x)"
    "db_ok (executed_db E1 d e k1 x)" "er_outcome x = u ''EXECUTED''"
    using local_start [OF assms(1) id assms(4,3,8,6,7) check] assms(11) by metis
  let ?d1 = "executed_db E1 d e k1 x"
  have may: "may_execute ?d1 e None" by (rule may_execute_later [OF assms(3)]) simp
  have new: "(ep_id e, k2) \<notin> receipt_key ` set (receipts ?d1)"
    using assms(9,10) by (simp add: new_receipt_def)
  obtain y where y: "execute_epoch E2 ?d1 e k2 None =
      (Inr (new_receipt E2 ?d1 e k2 y, er_differences y), executed_db E2 ?d1 e k2 y)"
    "er_outcome y = u ''EXECUTED''"
    using local_start [OF x(2) _ assms(5) may new _ assms(7) check] assms(6,11) id by auto
  have "\<exists>e' \<in> set (epochs ?d1). ep_id e' = ep_id e \<and> ep_state e' = u ''EXECUTED''"
    using set_state_reached [OF assms(2)] x(3) by simp
  with x y show ?thesis
    by (intro exI [of _ "new_receipt E1 d e k1 x"] exI [of _ "new_receipt E2 ?d1 e k2 y"]
        exI [of _ "er_differences x"] exI [of _ "er_differences y"] exI [of _ ?d1]
        exI [of _ "executed_db E2 ?d1 e k2 y"]) (simp add: new_receipt_def)
qed

section \<open>An approval after an execution\<close>

text \<open>
  C38: An approval does not look at the state of the epoch: an epoch without one that an agent has
  already executed (under an ALLOW decision), or whose execution was denied as stale, is APPROVED
  again by it, and may then be executed once more; its receipts stay.
\<close>

theorem approval_reopens:
  assumes "db_ok d" and "e \<in> set (epochs d)" and "ep_pipeline_status e = u ''success''"
    and "ep_id e \<notin> ap_epoch_id ` set (approvals d)"
    and "ep_state e \<in> {u ''EXECUTED'', u ''DENIED_STALE''}"
  shows "\<not> may_execute d e c \<and>
    (\<exists>a e1 d'. approve_epoch E d e by = (Inr (a, e1), d') \<and> receipts d' = receipts d \<and>
      (\<exists>e' \<in> set (epochs d'). ep_id e' = ep_id e \<and> may_execute d' e' None))"
proof -
  let ?d = "approved_db E d e by"
  let ?e = "e\<lparr>ep_state := u ''APPROVED'', ep_updated_at := stamp E\<rparr>"
  have "?e \<in> set (epochs ?d)"
    using assms(2,5) by (force simp: set_state_def set_update_where)
  then obtain e' where e': "e' \<in> set (epochs ?d)" "ep_id e' = ep_id e" "ep_state e' = u ''APPROVED''"
    "ep_fingerprint e' = ep_fingerprint e"
    by force
  then have "may_execute ?d e' None"
    by (simp add: may_execute_def approval_bound_def) (simp add: new_approval_def)
  with e' show ?thesis
    using assms(5) by (auto simp: approve_epoch_success [OF assms(1-4)] may_execute_def)
qed

section \<open>The path of an agent\<close>

text \<open>A token that verifies and names a live grant of the epoch authorises the agent of its change.\<close>

lemma authorize_agent_granted:
  assumes ok: "db_ok d" and c: "agent_change d e c" and allowed: "change_decision e c \<noteq> u ''DENY''"
    and v: "verify_capability E (clock E 1) token (agent_scope e c) = Inr claims"
    and jti: "map_of claims (u ''jti'') = Some (JStr (cg_id g))"
    and g: "g \<in> set (grants d)" "cg_epoch_id g = ep_id e" "cg_revoked_at g = None"
    and live: "clock E 2 < cg_expires_at g"
  shows "authorize_agent E d e token = Inr (agent_context e c
    (evaluate_policy (cr_actor_type c) (cr_action c) (ep_environment e)) token)"
proof -
  from c have mem: "c \<in> set (changes d)" and key: "cr_epoch_id c = ep_id e"
    and ai: "cr_actor_type c = u ''ai_agent''"
    by (simp_all add: agent_change_def)
  have ch: "one_or_none (filter (\<lambda>c. cr_epoch_id c = ep_id e) (changes d)) = Inr (Some c)"
    using changes_t.select_one [OF ok] changes_t.find_row [OF ok mem] key by simp
  have "get_grant d claims = Some g"
    using grants_t.find_row [OF ok g(1)] by (simp add: get_grant_def jti eq_commute)
  then show ?thesis
    unfolding authorize_agent_def ch sum.case option.case
    using ai v g live allowed by (simp add: change_decision_def Let_def)
qed

lemma agent_context_scope [simp]:
  "context_scope (agent_context e c p tok) (epoch_identity e) = agent_scope e c"
  by (simp add: context_scope_def agent_context_def agent_scope_def epoch_identity_def)

lemma agent_may_execute:
  assumes "may_grant d e c" and "ep_state e \<in> {u ''DRAFT'', u ''APPROVED''}"
  shows "may_execute d e (Some (agent_context e c
    (evaluate_policy (cr_actor_type c) (cr_action c) (ep_environment e)) tok))"
  using assms
  by (auto simp: may_grant_def may_execute_def policy_allows_without_approval_def agent_context_def
      approval_bound_def Let_def)

text \<open>
  A granted agent up to the call of the executor: the capability is issued, its token is authorised while
  it lives, and what the client answers to the request in this context becomes the receipt.
\<close>

lemma granted_agent_authorized:
  assumes "db_ok d" and "e \<in> set (epochs d)" and "may_grant d e c"
    and "uuid4 E 0 \<notin> set (map cg_id (grants d))" and "uuid4 E 0 \<noteq> []"
    and "cfg E' = cfg E" and "jwt E' = jwt E"
    and jwt: "\<And>n. jwt_returns_claims (jwt E) (capability_payload (agent_scope e c) (uuid4 E 0) (clock E 1)
      (clock E 1 + ttl * 1000000)) (capability_secret (cfg E)) (clock E' n)"
    and late: "\<And>n. clock E 1 \<le> clock E' n"
    and soon: "\<And>n. clock E' n < (clock E 1 + ttl * 1000000) div 1000000 * 1000000"
    and "tok = jwt_encode (jwt E) (capability_payload (agent_scope e c) (uuid4 E 0) (clock E 1)
      (clock E 1 + ttl * 1000000)) (capability_secret (cfg E))"
    and "cx = agent_context e c (evaluate_policy (cr_actor_type c) (cr_action c) (ep_environment e)) tok"
  shows "\<exists>g d1. issue_execution_capability E d e by ttl = (Inr (g, tok), d1) \<and> receipts d1 = receipts d \<and>
    approvals d1 = approvals d \<and> epochs d1 = epochs d \<and> targets d1 = targets d \<and> db_ok d1 \<and>
    local_check E' (epoch_identity e) (Some cx) = Inr () \<and> authorize_agent E' d1 e tok = Inr cx"
proof -
  let ?p = "evaluate_policy (cr_actor_type c) (cr_action c) (ep_environment e)"
  let ?x = "clock E 1 + ttl * 1000000"
  let ?g = "new_grant E e c by (uuid4 E 0) ?x"
  let ?d = "granted_db E (record_policy E d e c ?p) e c ?p by ?g"
  note issued = issue_granted [OF assms(1-4) refl refl, of "by" ttl]
  then have ok: "db_ok ?d" by simp
  from assms(3) have c: "agent_change d e c" "change_decision e c \<noteq> u ''DENY''"
    by (auto simp: may_grant_def Let_def agent_change_def change_decision_def)
  let ?claims = "jwt_claims (capability_payload (agent_scope e c) (uuid4 E 0) (clock E 1) ?x)"
  have verified: "verify_capability E' (clock E' n) tok (agent_scope e c) = Inr ?claims" for n
    using issued_verifies [OF assms(5) late soon, of E'] jwt by (simp add: assms(6,7,11))
  have auth: "authorize_agent E' ?d e tok = Inr cx"
    unfolding assms(12)
  proof (rule authorize_agent_granted [OF ok _ _ verified])
    show "agent_change ?d e c" using c(1) by (simp add: agent_change_def)
    show "change_decision e c \<noteq> u ''DENY''" by (rule c(2))
    show "map_of ?claims (u ''jti'') = Some (JStr (cg_id ?g))" by simp
    show "clock E' 2 < cg_expires_at ?g"
    proof -
      have "?x div 1000000 * 1000000 \<le> ?x" by simp
      with soon [of 2] show ?thesis by simp
    qed
  qed simp_all
  have check: "local_check E' (epoch_identity e) (Some cx) = Inr ()"
    using verified [of 3] by (simp add: local_check_def assms(12)) (simp add: agent_context_def)
  from issued ok auth check show ?thesis by (auto simp: assms(11))
qed

lemma granted_agent_runs:
  assumes "db_ok d" and "e \<in> set (epochs d)" and "may_grant d e c"
    and "ep_state e \<in> {u ''DRAFT'', u ''APPROVED''}"
    and "t \<in> set (targets d)" and "target_key t = (ep_project e, ep_environment e)"
    and "(ep_id e, k) \<notin> receipt_key ` set (receipts d)"
    and cx: "cx = agent_context e c (evaluate_policy (cr_actor_type c) (cr_action c) (ep_environment e)) tok"
    and d1: "receipts d1 = receipts d" "approvals d1 = approvals d" "epochs d1 = epochs d" "targets d1 = targets d" "db_ok d1"
    and auth: "authorize_agent E' d1 e tok = Inr cx"
  shows "client_execute (executor_client E') E' (epoch_identity e) (target_identity t) (Some cx) = Inr x \<Longrightarrow>
      execute_agent_epoch E' d1 e k tok = (Inr (new_receipt E' d1 e k x, er_differences x), executed_db E' d1 e k x)"
    and "client_execute (executor_client E') E' (epoch_identity e) (target_identity t) (Some cx) = Inl (ExecutorBoundaryError m) \<Longrightarrow>
      execute_agent_epoch E' d1 e k tok = (Inl (HTTPException 502 msg_executor_unavailable), d1)"
proof -
  have may: "may_execute d1 e (Some cx)"
    unfolding cx by (rule may_execute_later [OF agent_may_execute [OF assms(3,4)]]) (simp add: d1)
  have e: "ep_id e \<in> ep_id ` set (epochs d1)" and t: "t \<in> set (targets d1)"
    and k: "(ep_id e, k) \<notin> receipt_key ` set (receipts d1)"
    using assms(2,5,7) by (simp_all add: d1)
  show "execute_agent_epoch E' d1 e k tok = (Inr (new_receipt E' d1 e k x, er_differences x), executed_db E' d1 e k x)"
    if "client_execute (executor_client E') E' (epoch_identity e) (target_identity t) (Some cx) = Inr x"
    unfolding execute_agent_epoch_def auth sum.case execute_epoch_def
    by (rule execute_with_start [where ex = "client_execute (executor_client E')", OF d1(5) e t assms(6) k may that])
  show "execute_agent_epoch E' d1 e k tok = (Inl (HTTPException 502 msg_executor_unavailable), d1)"
    if "client_execute (executor_client E') E' (epoch_identity e) (target_identity t) (Some cx) = Inl (ExecutorBoundaryError m)"
    using admit_execution_start [OF d1(5) e t assms(6) k may] that
    by (simp add: execute_agent_epoch_def auth execute_epoch_def execute_with_def)
qed

text \<open>In any other state the execution is refused.\<close>

lemma finished_epoch_refuses:
  assumes "db_ok d" and "e \<in> set (epochs d)" and "ep_state e \<notin> {u ''DRAFT'', u ''APPROVED''}"
    and "(ep_id e, k) \<notin> receipt_key ` set (receipts d)" and "authorize_agent E d e tok = Inr cx"
  shows "execute_agent_epoch E d e k tok = (Inl (HTTPException 409 (msg_state_prefix @ ep_state e)), d)"
proof -
  have "filter (\<lambda>r. receipt_key r = (ep_id e, k)) (receipts d) = []"
    using assms(4) by (force simp: filter_empty_conv)
  then have "admit_execution d e k (Some cx) = Inl (HTTPException 409 (msg_state_prefix @ ep_state e))"
    using assms(2,3) for_update_loaded [OF assms(2)] by (simp add: admit_execution_def)
  then show ?thesis
    by (simp add: execute_agent_epoch_def assms(5) execute_epoch_def execute_with_def)
qed

text \<open>
  C20: The agent's path works from end to end with the local executor. For an epoch that has a live target
  and a change that satisfies the conditions of a grant, the capability is issued. While its token lives,
  what an execution request under a new key gets that presents it depends on the state of the epoch alone: in
  DRAFT or APPROVED it ends with a receipt, EXECUTED when the live target has the release's fingerprint and
  DENIED_STALE otherwise; an epoch that was executed or denied before (for which an action the policy allows
  is still granted) answers 409 with its state. Assumed of PyJWT: a live token decodes, with the key it was
  encoded with, to the claims that were encoded.
\<close>

theorem agent_path_completes:
  assumes "db_ok d" and "e \<in> set (epochs d)" and "may_grant d e c"
    and "uuid4 E 0 \<notin> set (map cg_id (grants d))" and "uuid4 E 0 \<noteq> []"
    and "t \<in> set (targets d)" and "target_key t = (ep_project e, ep_environment e)"
    and "(ep_id e, k) \<notin> receipt_key ` set (receipts d)"
    and "cfg E' = cfg E" and "jwt E' = jwt E"
    and "executor_mode (cfg E) \<notin> {u ''grpc'', u ''http''}"
    and jwt: "\<And>n. jwt_returns_claims (jwt E) (capability_payload (agent_scope e c) (uuid4 E 0) (clock E 1)
      (clock E 1 + ttl * 1000000)) (capability_secret (cfg E)) (clock E' n)"
    and late: "\<And>n. clock E 1 \<le> clock E' n"
    and soon: "\<And>n. clock E' n < (clock E 1 + ttl * 1000000) div 1000000 * 1000000"
  shows "\<exists>g token d1. issue_execution_capability E d e by ttl = (Inr (g, token), d1) \<and>
    (if ep_state e \<in> {u ''DRAFT'', u ''APPROVED''} then
       (\<exists>r ds d2. execute_agent_epoch E' d1 e k token = (Inr (r, ds), d2) \<and> receipts d2 = receipts d @ [r] \<and>
          rc_outcome r = (if fingerprint (epoch_identity e) = fingerprint (target_identity t)
            then u ''EXECUTED'' else u ''DENIED_STALE'') \<and> approvals d2 = approvals d)
     else execute_agent_epoch E' d1 e k token = (Inl (HTTPException 409 (msg_state_prefix @ ep_state e)), d1))"
proof -
  let ?tok = "jwt_encode (jwt E) (capability_payload (agent_scope e c) (uuid4 E 0) (clock E 1)
    (clock E 1 + ttl * 1000000)) (capability_secret (cfg E))"
  let ?cx = "agent_context e c (evaluate_policy (cr_actor_type c) (cr_action c) (ep_environment e)) ?tok"
  from granted_agent_authorized [OF assms(1-5,9,10) jwt late soon refl refl, of "by"]
  obtain g d1 where issued: "issue_execution_capability E d e by ttl = (Inr (g, ?tok), d1)"
    and d1: "receipts d1 = receipts d" "approvals d1 = approvals d" "epochs d1 = epochs d" "targets d1 = targets d" "db_ok d1"
    and check: "local_check E' (epoch_identity e) (Some ?cx) = Inr ()" and auth: "authorize_agent E' d1 e ?tok = Inr ?cx"
    by blast
  have mode: "executor_mode (cfg E') \<notin> {u ''grpc'', u ''http''}" using assms(9,11) by simp
  obtain x where x: "local_execute E' (epoch_identity e) (target_identity t) (Some ?cx) = Inr x"
    "er_outcome x = (if fingerprint (epoch_identity e) = fingerprint (target_identity t)
      then u ''EXECUTED'' else u ''DENIED_STALE'')"
    using check by (simp add: local_execute_Inr del: One_nat_def)
  have runs: "execute_agent_epoch E' d1 e k ?tok =
      (Inr (new_receipt E' d1 e k x, er_differences x), executed_db E' d1 e k x)"
    if "ep_state e \<in> {u ''DRAFT'', u ''APPROVED''}"
    by (rule granted_agent_runs(1) [OF assms(1-3) that assms(6-8) refl d1 auth])
      (use x(1) in \<open>simp add: local_client_execute [OF mode]\<close>)
  have refuses: "execute_agent_epoch E' d1 e k ?tok = (Inl (HTTPException 409 (msg_state_prefix @ ep_state e)), d1)"
    if "ep_state e \<notin> {u ''DRAFT'', u ''APPROVED''}"
    by (rule finished_epoch_refuses [OF d1(5) _ that _ auth]) (use assms(2,8) in \<open>simp_all add: d1\<close>)
  have "rc_outcome (new_receipt E' d1 e k x) = er_outcome x" by (simp add: new_receipt_def)
  with issued runs refuses x(2) d1 show ?thesis
    by (intro exI [of _ g] exI [of _ ?tok] exI [of _ d1]) (simp split: if_split_asm)
qed

text \<open>
  A change whose action is read-only (\<open>read\<close>, \<open>inspect\<close> or \<open>status\<close>) may be granted in every
  environment without any approval, so with it an agent executes a release in production that no
  human has approved: the policy allows the action as one that does not change the deployment, but the
  execution does not depend on the action.
\<close>

lemma readonly_needs_no_approval:
  assumes "agent_change d e c" and "ep_pipeline_status e = u ''success''"
    and "readonly_action (cr_action c)"
    and "ep_state e = u ''DRAFT''" and "approvals d = []"
  shows "may_grant d e c \<and> may_execute d e (Some (agent_context e c
    (evaluate_policy (cr_actor_type c) (cr_action c) (ep_environment e)) token))"
proof -
  have "change_decision e c = u ''ALLOW''"
    using assms(3) by (simp add: change_decision_def allow_iff)
  with assms have "may_grant d e c"
    by (simp add: may_grant_def agent_change_def change_decision_def Let_def)
  with agent_may_execute assms(4) show ?thesis by auto
qed

end
