(* ===== verification/Refinement.thy ===== *)
theory Refinement
  imports System
begin

text \<open>
  What the orchestrator promises, as an abstract machine: a board with one ticket per epoch. The
  database with its handlers is shown to refine it, and facts about the life of a ticket, which are
  one-line inductions on the machine, carry over to the program.
\<close>

section \<open>The machine\<close>

datatype phase = Draft | Approved | Executed | Denied

record ticket =
  tk_fingerprint :: ustr
  tk_phase :: phase
  tk_approved :: bool
  tk_runs :: nat

text \<open>
  A ticket is approved at most once, and runs as a draft (under a policy that allows it) or when it
  is approved.
\<close>

inductive ticket_step :: "ticket \<Rightarrow> ticket \<Rightarrow> bool" where
  approve: "\<not> tk_approved t \<Longrightarrow> ticket_step t (t\<lparr>tk_phase := Approved, tk_approved := True\<rparr>)"
| run: "tk_phase t = Draft \<or> tk_phase t = Approved \<and> tk_approved t \<Longrightarrow> p \<in> {Executed, Denied} \<Longrightarrow>
    ticket_step t (t\<lparr>tk_phase := p, tk_runs := Suc (tk_runs t)\<rparr>)"

inductive_cases ticket_stepE: "ticket_step t t'"

type_synonym board = "ustr \<Rightarrow> ticket option"

definition new_ticket :: "ustr \<Rightarrow> ticket" where
  "new_ticket fp = \<lparr>tk_fingerprint = fp, tk_phase = Draft, tk_approved = False, tk_runs = 0\<rparr>"

inductive board_step :: "board \<Rightarrow> board \<Rightarrow> bool" where
  opened: "b i = None \<Longrightarrow> board_step b (b(i \<mapsto> new_ticket fp))"
| moved: "b i = Some t \<Longrightarrow> ticket_step t t' \<Longrightarrow> board_step b (b(i \<mapsto> t'))"

inductive_cases board_stepE: "board_step b b'"

abbreviation board_steps :: "board \<Rightarrow> board \<Rightarrow> bool" where
  "board_steps \<equiv> board_step\<^sup>*\<^sup>*"

section \<open>Facts about the machine\<close>

text \<open>The fingerprint of a ticket never changes, and a ticket never goes away.\<close>

lemma ticket_step_fingerprint: "ticket_step t t' \<Longrightarrow> tk_fingerprint t' = tk_fingerprint t"
  by (auto elim: ticket_stepE)

lemma ticket_steps_fingerprint: "ticket_step\<^sup>*\<^sup>* t t' \<Longrightarrow> tk_fingerprint t' = tk_fingerprint t"
  by (induction rule: rtranclp_induct) (auto simp: ticket_step_fingerprint)

lemma board_steps_ticket:
  "board_steps b b' \<Longrightarrow> b i = Some t \<Longrightarrow> \<exists>t'. b' i = Some t' \<and> ticket_step\<^sup>*\<^sup>* t t'"
proof (induction rule: rtranclp_induct)
  case base
  then show ?case by auto
next
  case (step b1 b2)
  then obtain t1 where t1: "b1 i = Some t1" "ticket_step\<^sup>*\<^sup>* t t1" by blast
  with step.hyps(2) show ?case
    by (auto elim!: board_stepE intro: rtranclp.rtrancl_into_rtrancl)
qed

text \<open>A life has a bounded number of steps: each one makes the rest of it shorter.\<close>

definition remaining :: "ticket \<Rightarrow> nat" where
  "remaining t = (if tk_approved t then 0 else 2) +
     (if tk_phase t = Draft \<or> tk_phase t = Approved then 1 else 0)"

text \<open>What is true of every ticket that came into being on the board.\<close>

definition ticket_ok :: "ticket \<Rightarrow> bool" where
  "ticket_ok t \<longleftrightarrow>
     (case tk_phase t of
        Draft \<Rightarrow> \<not> tk_approved t \<and> tk_runs t = 0
      | Approved \<Rightarrow> tk_approved t \<and> tk_runs t \<le> 1
      | _ \<Rightarrow> 1 \<le> tk_runs t \<and> tk_runs t \<le> (if tk_approved t then 2 else 1))"

lemma ticket_ok_new [simp]: "ticket_ok (new_ticket fp)"
  by (simp add: ticket_ok_def new_ticket_def)

lemma ticket_ok_step: "ticket_step t t' \<Longrightarrow> ticket_ok t \<Longrightarrow> ticket_ok t'"
  by (erule ticket_stepE) (auto simp: ticket_ok_def split: phase.splits if_splits)

lemma remaining_step: "ticket_step t t' \<Longrightarrow> ticket_ok t \<Longrightarrow> remaining t' < remaining t"
  by (erule ticket_stepE) (auto simp: ticket_ok_def remaining_def split: phase.splits if_splits)

lemma remaining_steps: "ticket_step\<^sup>*\<^sup>* t t' \<Longrightarrow> ticket_ok t \<Longrightarrow> ticket_ok t' \<and> (t' = t \<or> remaining t' < remaining t)"
proof (induction rule: rtranclp_induct)
  case (step t1 t2)
  then show ?case using ticket_ok_step remaining_step by (metis order.strict_trans)
qed simp

lemma ticket_ok_runs: "ticket_ok t \<Longrightarrow> tk_runs t \<le> (if tk_approved t then 2 else 1)"
  by (auto simp: ticket_ok_def split: phase.splits if_splits)

definition board_ok :: "board \<Rightarrow> bool" where
  "board_ok b \<longleftrightarrow> (\<forall>t \<in> ran b. ticket_ok t)"

lemma board_ok_step: "board_step b b' \<Longrightarrow> board_ok b \<Longrightarrow> board_ok b'"
proof (erule board_stepE)
  fix i t t'
  assume "b i = Some t" "ticket_step t t'" "b' = b(i \<mapsto> t')" "board_ok b"
  moreover from this have "ticket_ok t'"
    using ticket_ok_step by (auto simp: board_ok_def ran_def)
  ultimately show "board_ok b'" by (auto simp: board_ok_def ran_def)
qed (auto simp: board_ok_def ran_def)

lemma board_ok_steps: "board_steps b b' \<Longrightarrow> board_ok b \<Longrightarrow> board_ok b'"
  by (induction rule: rtranclp_induct) (auto intro: board_ok_step)

lemma board_ok_empty [simp]: "board_ok Map.empty"
  by (simp add: board_ok_def)

section \<open>The board of a database\<close>

definition phase_of :: "ustr \<Rightarrow> phase" where
  "phase_of s = (if s = u ''DRAFT'' then Draft else if s = u ''APPROVED'' then Approved
     else if s = u ''EXECUTED'' then Executed else Denied)"

lemma phase_of_simps [simp]:
  "phase_of (u ''DRAFT'') = Draft" "phase_of (u ''APPROVED'') = Approved"
  "phase_of (u ''EXECUTED'') = Executed" "phase_of (u ''DENIED_STALE'') = Denied"
  by (simp_all add: phase_of_def)

definition epoch_receipts :: "db \<Rightarrow> ustr \<Rightarrow> receipt_row list" where
  "epoch_receipts d i = filter (\<lambda>r. rc_epoch_id r = i) (receipts d)"

definition ticket_of :: "db \<Rightarrow> epoch_row \<Rightarrow> ticket" where
  "ticket_of d e =
     \<lparr>tk_fingerprint = ep_fingerprint e, tk_phase = phase_of (ep_state e),
      tk_approved = (ep_id e \<in> ap_epoch_id ` set (approvals d)),
      tk_runs = length (epoch_receipts d (ep_id e))\<rparr>"

definition board_of :: "db \<Rightarrow> board" where
  "board_of d i = map_option (ticket_of d) (get_epoch d i)"

lemma find_update_where:
  "(\<And>r. key (f r) = key r) \<Longrightarrow> find (\<lambda>r. key r = k) (update_where P f rows) =
     map_option (\<lambda>r. if P r then f r else r) (find (\<lambda>r. key r = k) rows)"
  by (induction rows) (auto simp: update_where_def)

lemma get_epoch_set_state:
  "get_epoch (set_state t l s d) i =
    (if ep_state l = s then get_epoch d i
     else map_option (\<lambda>r. if ep_id r = ep_id l then r\<lparr>ep_state := s, ep_updated_at := t\<rparr> else r) (get_epoch d i))"
  by (simp add: get_epoch_def set_state_def find_update_where)

lemma get_epoch_set_state_other:
  "i \<noteq> ep_id l \<Longrightarrow> get_epoch (set_state t l s d) i = get_epoch d i"
  using get_epoch_Some [of d i] by (cases "get_epoch d i") (auto simp: get_epoch_set_state)

lemma get_epoch_pipeline:
  "get_epoch (set_pipeline_status t l s d) i =
    (if ep_pipeline_status l = s then get_epoch d i
     else map_option (\<lambda>r. if ep_id r = ep_id l then r\<lparr>ep_pipeline_status := s, ep_updated_at := t\<rparr> else r)
       (get_epoch d i))"
  by (simp add: get_epoch_def set_pipeline_status_def find_update_where)

text \<open>Only the epochs, approvals and receipts are on the board, and of the epochs no pipeline status.\<close>

lemma board_same_tables:
  "epochs d' = epochs d \<Longrightarrow> approvals d' = approvals d \<Longrightarrow> receipts d' = receipts d \<Longrightarrow> board_of d' = board_of d"
proof -
  assume "epochs d' = epochs d" "approvals d' = approvals d" "receipts d' = receipts d"
  moreover from this have "ticket_of d' = ticket_of d"
    by (intro ext) (simp add: ticket_of_def epoch_receipts_def)
  ultimately show ?thesis by (intro ext) (simp add: board_of_def get_epoch_def)
qed

lemma board_pipeline [simp]: "board_of (set_pipeline_status t l s d) = board_of d"
  by (rule ext) (auto simp: board_of_def get_epoch_pipeline ticket_of_def epoch_receipts_def option.map_comp
      intro!: option.map_cong)

lemma board_apply_all: "board_of (apply_all E p s h rows d) = board_of d"
proof (induction rows arbitrary: d)
  case (Cons row rows)
  have "board_of (apply_pipeline E p s h row d) = board_of (set_pipeline_status (stamp E) row (verified_status s h row) d)"
    by (rule board_same_tables) (simp_all add: apply_pipeline_def Let_def)
  with Cons show ?case by simp
qed simp

section \<open>The simulation\<close>

lemma board_created:
  assumes ok: "db_ok d" and new: "ep_id row \<notin> ep_id ` set (epochs d)" and draft: "ep_state row = u ''DRAFT''"
  shows "board_step (board_of d) (board_of (created_db E d row by))"
proof -
  have none: "board_of d (ep_id row) = None"
    using new by (simp add: board_of_def get_epoch_def find_None_iff) (metis imageI)
  have "ep_id row \<notin> ap_epoch_id ` set (approvals d)" "epoch_receipts d (ep_id row) = []"
  proof -
    have "ap_epoch_id ` set (approvals d) \<subseteq> ep_id ` set (epochs d)"
      "rc_epoch_id ` set (receipts d) \<subseteq> ep_id ` set (epochs d)"
      using ok by (simp_all add: db_ok_defs Let_def)
    with new show "ep_id row \<notin> ap_epoch_id ` set (approvals d)" "epoch_receipts d (ep_id row) = []"
      by (auto simp: epoch_receipts_def filter_empty_conv dest!: subsetD intro: rev_image_eqI)
  qed
  then have row: "ticket_of (created_db E d row by) row = new_ticket (ep_fingerprint row)"
    using draft by (simp add: ticket_of_def new_ticket_def epoch_receipts_def)
  have "board_of (created_db E d row by) = (board_of d)(ep_id row \<mapsto> new_ticket (ep_fingerprint row))"
  proof
    fix i
    have old: "ticket_of (created_db E d row by) = ticket_of d"
      by (rule ext) (simp add: ticket_of_def epoch_receipts_def)
    show "board_of (created_db E d row by) i = ((board_of d)(ep_id row \<mapsto> new_ticket (ep_fingerprint row))) i"
      using none row by (auto simp: board_of_def get_epoch_def find_append old split: option.split)
  qed
  with opened [of "board_of d", OF none] show ?thesis by simp
qed

text \<open>Both an approval and an execution change the ticket of one epoch.\<close>

lemma board_one_epoch:
  assumes "\<And>i. i \<noteq> ep_id e \<Longrightarrow> board_of d' i = board_of d i"
    and "board_of d (ep_id e) = Some t" and "board_of d' (ep_id e) = Some t'" and "ticket_step t t'"
  shows "board_step (board_of d) (board_of d')"
proof -
  have "board_of d' = (board_of d)(ep_id e \<mapsto> t')"
    using assms(1,3) by (auto simp: fun_eq_iff)
  with moved [of "board_of d", OF assms(2,4)] show ?thesis by simp
qed

lemma board_epoch: "db_ok d \<Longrightarrow> e \<in> set (epochs d) \<Longrightarrow> board_of d (ep_id e) = Some (ticket_of d e)"
  using get_epoch_iff [of d "ep_id e" e] by (simp add: board_of_def)

lemma board_approved:
  assumes ok: "db_ok d" and e: "e \<in> set (epochs d)" and new: "ep_id e \<notin> ap_epoch_id ` set (approvals d)"
  shows "board_step (board_of d) (board_of (approved_db E d e by))" (is "board_step _ (board_of ?d)")
proof (rule board_one_epoch [OF _ board_epoch [OF ok e]])
  have tables: "approvals ?d = approvals d @ [new_approval E d e by]" "receipts ?d = receipts d" by simp_all
  have get: "get_epoch ?d i = get_epoch (set_state (stamp E) e (u ''APPROVED'') d) i" for i
    by (simp add: get_epoch_def)
  show "board_of ?d i = board_of d i" if "i \<noteq> ep_id e" for i
    using that get_epoch_Some [of d i]
    by (auto simp: board_of_def get get_epoch_set_state_other ticket_of_def epoch_receipts_def new_approval_def
        split: option.split intro!: option.map_cong)
  have "get_epoch d (ep_id e) = Some e" using get_epoch_iff [OF ok] e by simp
  then show "board_of ?d (ep_id e) =
      Some ((ticket_of d e)\<lparr>tk_phase := Approved, tk_approved := True\<rparr>)"
    by (auto simp: board_of_def get get_epoch_set_state ticket_of_def epoch_receipts_def new_approval_def)
  show "ticket_step (ticket_of d e) ((ticket_of d e)\<lparr>tk_phase := Approved, tk_approved := True\<rparr>)"
    using new by (intro approve) (simp add: ticket_of_def)
qed

lemma board_executed:
  assumes ok: "db_ok d" and e: "e \<in> set (epochs d)"
    and out: "er_outcome x \<in> {u ''EXECUTED'', u ''DENIED_STALE''}"
    and may: "ep_state e = u ''DRAFT'' \<or> ep_state e = u ''APPROVED'' \<and> ep_id e \<in> ap_epoch_id ` set (approvals d)"
  shows "board_step (board_of d) (board_of (executed_db E d e k x))" (is "board_step _ (board_of ?d)")
proof (rule board_one_epoch [OF _ board_epoch [OF ok e]])
  let ?t = "ticket_of d e"
  have get: "get_epoch ?d i = get_epoch (set_state (stamp E) e (er_outcome x) d) i" for i
    by (simp add: get_epoch_def)
  show "board_of ?d i = board_of d i" if "i \<noteq> ep_id e" for i
    using that get_epoch_Some [of d i]
    by (auto simp: board_of_def get get_epoch_set_state_other ticket_of_def epoch_receipts_def new_receipt_def
        split: option.split intro!: option.map_cong)
  have "get_epoch d (ep_id e) = Some e" using get_epoch_iff [OF ok] e by simp
  then show "board_of ?d (ep_id e) =
      Some (?t\<lparr>tk_phase := phase_of (er_outcome x), tk_runs := Suc (tk_runs ?t)\<rparr>)"
    by (auto simp: board_of_def get get_epoch_set_state ticket_of_def epoch_receipts_def new_receipt_def)
  show "ticket_step ?t (?t\<lparr>tk_phase := phase_of (er_outcome x), tk_runs := Suc (tk_runs ?t)\<rparr>)"
    using may out by (intro run) (auto simp: ticket_of_def)
qed

text \<open>A database follows another when it is consistent and the machine can go from board to board.\<close>

definition follows :: "db \<Rightarrow> db \<Rightarrow> bool" where
  "follows d d' \<longleftrightarrow> consistent d' \<and> board_steps (board_of d) (board_of d')"

lemma follows_refl: "consistent d \<Longrightarrow> follows d d"
  by (simp add: follows_def)

lemma follows_consistent: "follows d d' \<Longrightarrow> consistent d'"
  by (simp add: follows_def)

lemma follows_ok: "follows d d' \<Longrightarrow> db_ok d'"
  by (simp add: follows_def)

lemma follows_same:
  "follows d0 d \<Longrightarrow> consistent d' \<Longrightarrow> epochs d' = epochs d \<Longrightarrow> approvals d' = approvals d \<Longrightarrow>
   receipts d' = receipts d \<Longrightarrow> follows d0 d'"
  using board_same_tables [of d' d] by (simp add: follows_def)

lemma follows_step:
  "follows d0 d \<Longrightarrow> consistent d' \<Longrightarrow> board_step (board_of d) (board_of d') \<Longrightarrow> follows d0 d'"
  by (auto simp: follows_def intro: rtranclp.rtrancl_into_rtrancl)

text \<open>In a consistent database an approved state has its approval.\<close>

lemma approved_state:
  assumes "consistent d" and "e \<in> set (epochs d)" and "ep_state e = u ''APPROVED''"
  shows "ep_id e \<in> ap_epoch_id ` set (approvals d)"
  using consistentD(2) [OF assms(1,2)] consistentD(4) [OF assms(1)] assms(3)
  by (fastforce simp: state_ok_def receipt_ok_def)

lemma follows_executed:
  assumes f: "follows d0 d" and e: "e \<in> set (epochs d)" and "trusted_client d E"
    and x: "execute_epoch E d e k c = (r, d')" and c: "consistent d'"
  shows "follows d0 d'"
  using execute_with_cases [OF x [unfolded execute_epoch_def]]
proof (elim disjE exE conjE)
  fix t y
  assume y: "client_execute (executor_client E) E (epoch_identity e) (target_identity t) c = Inr y"
    and may: "may_execute d e c" and d': "d' = executed_db E d e k y"
  from assms(3) e y have "result_ok (epoch_identity e) y"
    unfolding trusted_client_def by blast
  then have out: "er_outcome y \<in> {u ''EXECUTED'', u ''DENIED_STALE''}" unfolding result_ok_def by blast
  have "ep_state e = u ''DRAFT'' \<or> ep_state e = u ''APPROVED'' \<and> ep_id e \<in> ap_epoch_id ` set (approvals d)"
    using may approved_state [OF follows_consistent [OF f] e] by (auto simp: may_execute_def)
  from follows_step [OF f c] board_executed [OF follows_ok [OF f] e out this] show ?thesis
    by (simp add: d')
qed (use f in simp_all)

lemma follows_services:
  assumes f: "follows d0 d"
  shows "follows d0 (snd (create_epoch E d p by st))"
    "follows d0 (snd (create_change_request t i d e x rs ty a by act))"
    "e \<in> set (epochs d) \<Longrightarrow> follows d0 (snd (approve_epoch E d e by))"
    "e \<in> set (epochs d) \<Longrightarrow> follows d0 (snd (issue_execution_capability E d e by ttl))"
    "e \<in> set (epochs d) \<Longrightarrow> trusted_client d E \<Longrightarrow> follows d0 (snd (execute_epoch E d e k None))"
    "e \<in> set (epochs d) \<Longrightarrow> trusted_client d E \<Longrightarrow> follows d0 (snd (execute_agent_epoch E d e k tok))"
    "follows d0 (snd (upsert_target E d j))"
    "follows d0 (fst (snd (save_evidence E d fs e kd fl)))"
proof -
  note c = follows_consistent [OF f]
  note keep = services_keep [OF c]
  show "follows d0 (snd (create_epoch E d p by st))"
  proof (cases "create_epoch E d p by st")
    case (Pair r d')
    from create_epoch_cases [OF this] show ?thesis
    proof (elim disjE exE conjE)
      assume d': "d' = created_db E d (new_epoch E p by st) by" "db_ok d'"
      then have "ep_id (new_epoch E p by st) \<notin> ep_id ` set (epochs d)" by (auto simp: db_ok_defs)
      from board_created [OF follows_ok [OF f] this] follows_step [OF f] keep(1) [of E p "by" st] d'
      show ?thesis by (simp add: Pair new_epoch_def)
    qed (use f Pair in simp)
  qed
  show "follows d0 (snd (create_change_request t i d e x rs ty a by act))"
    using create_change_request_cases [of t i d e x rs ty a "by" act] keep(2) [of t i e x rs ty a "by" act]
    by (cases "create_change_request t i d e x rs ty a by act") (auto intro: follows_same [OF f] simp: f)
  show "follows d0 (snd (approve_epoch E d e by))" if e: "e \<in> set (epochs d)"
  proof (cases "approve_epoch E d e by")
    case (Pair r d')
    from approve_epoch_cases [OF this] show ?thesis
    proof (elim disjE exE conjE bexE)
      assume d': "d' = approved_db E d e by" and "ep_id e \<notin> ap_epoch_id ` set (approvals d)"
      from board_approved [OF follows_ok [OF f] e this(2)] follows_step [OF f] keep(3) [OF e, of E "by"]
      show ?thesis by (simp add: Pair d')
    qed (use f Pair in simp_all)
  qed
  show "follows d0 (snd (issue_execution_capability E d e by ttl))" if e: "e \<in> set (epochs d)"
  proof (cases "issue_execution_capability E d e by ttl")
    case (Pair r d')
    with keep(4) [OF e, of E "by" ttl] have "consistent d'" by simp
    with issue_cases [OF Pair] show ?thesis
      by (auto simp: Pair f grant_capability_simps Let_def commit_def split: if_splits
          intro: follows_same [OF f])
  qed
  show "follows d0 (snd (execute_epoch E d e k None))" if "e \<in> set (epochs d)" "trusted_client d E"
    using follows_executed [OF f that, of k None] keep(5) [OF that, of k] by (metis prod.collapse)
  show "follows d0 (snd (execute_agent_epoch E d e k tok))" if "e \<in> set (epochs d)" "trusted_client d E"
  proof (cases "authorize_agent E d e tok")
    case (Inr cx)
    with keep(6) [OF that, of k tok] follows_executed [OF f that, of k "Some cx"] show ?thesis
      by (simp add: execute_agent_epoch_def) (metis prod.collapse)
  qed (simp add: execute_agent_epoch_def f)
  show "follows d0 (snd (upsert_target E d j))"
  proof (cases "upsert_target E d j")
    case (Pair r d')
    with keep(7) [of E j] have "consistent d'" by simp
    with upsert_target_cases [OF Pair] store_target_cases [of E d j] show ?thesis
      by (cases "store_target E d j") (auto simp: Pair f intro: follows_same [OF f])
  qed
  show "follows d0 (fst (snd (save_evidence E d fs e kd fl)))"
  proof (cases "save_evidence E d fs e kd fl")
    case (fields r d' fs')
    with save_evidence_consistent [OF c this] save_evidence_cases [OF this] show ?thesis
      by (auto simp: f intro: follows_same [OF f])
  qed
qed

section \<open>Every request follows the machine\<close>

lemma follows_targets:
  "follows d0 d \<Longrightarrow> db_ok (d\<lparr>targets := ts\<rparr>) \<Longrightarrow> follows d0 (d\<lparr>targets := ts\<rparr>)"
  by (rule follows_same) (simp_all add: consistent_targets follows_consistent)

lemma follows_drift: "follows d0 d \<Longrightarrow> follows d0 (snd (demo_drift E d e f v))"
  by (auto simp: demo_drift_def drift_target_def Let_def follows_targets split: option.splits
      intro!: keep_intros [where P = "follows d0"])

lemma follows_event:
  "follows d0 d \<Longrightarrow> i \<in> ep_id ` set (epochs d) \<Longrightarrow> follows d0 (record_event t d i ty a b s j)"
  by (rule follows_same) (simp_all add: consistent_event follows_consistent)

lemma follows_bootstrap:
  assumes "consistent d"
  shows "follows d (snd (demo_bootstrap E d user)) \<or> follows (cleared_db d) (snd (demo_bootstrap E d user))"
proof (cases "demo_only E")
  case (Inl x)
  then show ?thesis using follows_refl [OF assms] by (simp add: demo_bootstrap_def)
next
  case (Inr x)
  have c: "follows (cleared_db d) (cleared_db d)"
    by (rule follows_refl [OF consistent_cleared [OF assms]])
  have "db_ok (cleared_db d)" using consistent_cleared [OF assms] by simp
  then have "follows (cleared_db d) (snd (demo_bootstrap E d user))"
    unfolding demo_bootstrap_def Inr on_ok_simps commit_def [of d "cleared_db d"]
  proof (simp only: if_True then_ok_simps, intro then_ok_snd [where P = "follows (cleared_db d)"]
      commit_snd [where P = "follows (cleared_db d)"])
    fix epoch d2 x d3
    assume "create_change_request (stamp E) (uuid4 E 1) d2 epoch (u ''ISSUE-184'') msg_demo_reason
        (u ''ai_agent'') (u ''release-agent-01'') (us_username user) (u ''deploy'') = (Inr x, d3)"
      and "follows (cleared_db d) d3"
    then show "follows (cleared_db d) (demo_pipeline_event E d3 epoch)"
      unfolding demo_pipeline_event_def
      by (intro follows_event)
        (auto dest!: create_change_request_cases simp: new_change_def db_ok_defs Let_def)
  qed (use c in \<open>simp_all add: follows_services\<close>)
  then show ?thesis ..
qed

lemma follows_webhooks:
  "follows d0 d \<Longrightarrow> db_ok (d\<lparr>webhooks := ws\<rparr>) \<Longrightarrow> follows d0 (d\<lparr>webhooks := ws\<rparr>)"
  by (rule follows_same) (simp_all add: consistent_webhooks follows_consistent)

lemma follows_hook: "follows d0 d \<Longrightarrow> pipeline_hook E payload d = Inr d' \<Longrightarrow> follows d0 d'"
  using pipeline_hook_consistent [of d E payload d']
  by (auto simp: follows_def pipeline_hook_def res_bind_Inr_iff board_apply_all)

lemma follows_webhook:
  assumes f: "follows d0 d"
  shows "follows d0 (snd (gitlab_webhook E d tok ev chunks))"
  unfolding gitlab_webhook_def Let_def
  by (intro keep_intros [where P = "follows d0"])
    (simp_all add: f, rule follows_hook [rotated], assumption, (rule follows_webhooks [OF f], assumption)+)

lemma follows_api:
  assumes f: "follows d0 d"
  shows "follows d0 (snd (api_create_epoch E d creds body))"
    "follows d0 (snd (create_agent_change E d creds body))"
    "follows d0 (snd (approve E d creds i))"
    "follows d0 (snd (api_issue_capability E d creds i body))"
    "trusted_client d E \<Longrightarrow> follows d0 (snd (execute_as_agent E d creds i body))"
    "trusted_client d E \<Longrightarrow> follows d0 (snd (api_execute E d creds i body))"
    "follows d0 (snd (observe_target E d creds body))"
    "follows d0 (snd (api_drift E d creds i body))"
  unfolding api_create_epoch_def create_agent_change_def approve_def api_issue_capability_def
    execute_as_agent_def api_execute_def observe_target_def api_drift_def case_prod_unfold
  by (intro keep_intros [where P = "follows d0"];
      simp add: f follows_services follows_drift epoch_or_404_Inr)+

lemma follows_upload: "follows d0 d \<Longrightarrow> follows d0 (fst (snd (upload_evidence E d fs creds i k f)))"
  by (rule upload_snd) (simp_all add: follows_services)

lemma handle_follows:
  assumes "consistent (w_db w)" and "trusted_client (w_db w) E" and "rt \<noteq> DemoBootstrap"
  shows "follows (w_db w) (w_db (snd (handle E creds rt w)))"
proof (cases rt)
  case (UploadEvidence i k f)
  with follows_upload [OF follows_refl [OF assms(1)], of E "w_files w" creds i k f] show ?thesis
    by (simp add: case_prod_unfold Let_def)
qed (use assms(3) in \<open>simp_all add: follows_refl [OF assms(1)] assms(2) follows_api follows_webhook\<close>)

lemma bootstrap_follows:
  assumes "consistent (w_db w)"
  shows "follows (w_db w) (w_db (snd (handle E creds DemoBootstrap w))) \<or>
    follows (cleared_db (w_db w)) (w_db (snd (handle E creds DemoBootstrap w)))"
proof (cases "require_role E (w_db w) creds [''admin'']")
  case (Inr user)
  have "snd (then_ok p (\<lambda>epoch d1. (epoch_view d1 epoch, d1))) = snd p" for p :: "epoch_row res \<times> db"
    by (cases p; cases "fst p") auto
  with Inr follows_bootstrap [OF assms, of E user] show ?thesis by (simp add: api_bootstrap_def)
qed (simp add: api_bootstrap_def follows_refl [OF assms])

section \<open>The properties\<close>

lemma board_no_epochs: "epochs d = [] \<Longrightarrow> board_of d = Map.empty"
  by (rule ext) (simp add: board_of_def get_epoch_def)

lemma board_cleared [simp]: "board_of (cleared_db d) = Map.empty"
  by (rule board_no_epochs) (simp add: cleared_db_def)

lemma board_lifespan [simp]: "board_of (snd (lifespan E d)) = board_of d"
  by (rule board_same_tables) (simp_all add: lifespan_def seed_demo_users_def commit_def)

lemma request_board:
  assumes "consistent (w_db w)" and "trusted_client (w_db w) E"
  shows "board_steps (board_of (w_db w)) (board_of (w_db (snd (handle E creds rt w)))) \<or>
    rt = DemoBootstrap \<and> board_steps Map.empty (board_of (w_db (snd (handle E creds rt w))))"
proof (cases "rt = DemoBootstrap")
  case True
  with bootstrap_follows [OF assms(1), of E creds] show ?thesis unfolding follows_def by auto
next
  case False
  with handle_follows [OF assms False, of creds] show ?thesis unfolding follows_def by blast
qed

lemma reachable_board_ok: "reachable trusted_client w \<Longrightarrow> board_ok (board_of (w_db w))"
proof (induction rule: reachable.induct)
  case (start E)
  then show ?case by (simp add: empty_world_def board_no_epochs empty_db_def)
next
  case (request w E creds rt)
  from request_board [OF reachable_consistent [OF request.hyps(1)] request.hyps(2), of creds rt]
  show ?case using board_ok_steps request.IH board_ok_empty by blast
qed simp

text \<open>
  C4: The orchestrator refines the board of tickets. Whatever request is served in a reachable world, what
  it does to the epochs, their fingerprints, states, approvals and receipts is a sequence of steps of the
  abstract machine: epochs are opened as drafts, approved at most once, and run only as a draft or under an
  approval. Only the demonstration reset begins again with an empty board.
\<close>

theorem requests_refine_board:
  assumes "reachable trusted_client w" and "trusted_client (w_db w) E"
  shows "board_steps (board_of (w_db w)) (board_of (w_db (snd (handle E creds rt w)))) \<or>
    rt = DemoBootstrap \<and> board_steps Map.empty (board_of (w_db (snd (handle E creds rt w))))"
  by (rule request_board [OF reachable_consistent [OF assms(1)] assms(2)])

text \<open>
  C5: When requests are served one after the other, an epoch is executed at most once without an approval
  and at most twice with one: no sequence of requests, keys or capabilities gets a third receipt.
\<close>

theorem executions_bounded:
  assumes "reachable trusted_client w" and "e \<in> set (epochs (w_db w))"
  shows "length (filter (\<lambda>r. rc_epoch_id r = ep_id e) (receipts (w_db w))) \<le>
    (if ep_id e \<in> ap_epoch_id ` set (approvals (w_db w)) then 2 else 1)"
proof -
  have "db_ok (w_db w)" using reachable_consistent [OF assms(1)] by simp
  from board_epoch [OF this assms(2)] have "ticket_of (w_db w) e \<in> ran (board_of (w_db w))"
    by (rule ranI)
  with reachable_board_ok [OF assms(1)] have "ticket_ok (ticket_of (w_db w) e)"
    by (simp add: board_ok_def)
  from ticket_ok_runs [OF this] show ?thesis
    by (simp add: ticket_of_def epoch_receipts_def split: if_splits)
qed

text \<open>
  C24: The life of an epoch ends. A request other than the reset keeps every epoch and its fingerprint, and
  when it changes its state, its approval or its receipts at all, fewer changes are left (\<open>remaining\<close>, at
  most three in a life). So from some request on nothing that is asked of an epoch changes it any more.
\<close>

theorem epoch_life_ends:
  assumes "reachable trusted_client w" and "trusted_client (w_db w) E" and "rt \<noteq> DemoBootstrap"
    and "e \<in> set (epochs (w_db w))"
  shows "\<exists>e' \<in> set (epochs (w_db (snd (handle E creds rt w)))).
    ep_id e' = ep_id e \<and> ep_fingerprint e' = ep_fingerprint e \<and>
    (ticket_of (w_db (snd (handle E creds rt w))) e' = ticket_of (w_db w) e \<or>
     remaining (ticket_of (w_db (snd (handle E creds rt w))) e') < remaining (ticket_of (w_db w) e)) \<and>
    remaining (ticket_of (w_db w) e) \<le> 3"
proof -
  let ?d' = "w_db (snd (handle E creds rt w))"
  note c = reachable_consistent [OF assms(1)]
  have b: "board_of (w_db w) (ep_id e) = Some (ticket_of (w_db w) e)"
    by (rule board_epoch [OF _ assms(4)]) (use c in simp)
  from handle_follows [OF c assms(2,3), of creds]
  have "board_steps (board_of (w_db w)) (board_of ?d')" unfolding follows_def by blast
  from board_steps_ticket [OF this b] obtain t' where t': "board_of ?d' (ep_id e) = Some t'"
    and steps: "ticket_step\<^sup>*\<^sup>* (ticket_of (w_db w) e) t'" by blast
  then obtain e' where e': "get_epoch ?d' (ep_id e) = Some e'" "t' = ticket_of ?d' e'"
    by (auto simp: board_of_def)
  have "ticket_ok (ticket_of (w_db w) e)"
    using reachable_board_ok [OF assms(1)] b by (auto simp: board_ok_def ran_def)
  with remaining_steps [OF steps] ticket_steps_fingerprint [OF steps] get_epoch_Some [OF e'(1)] e'(2)
  show ?thesis
    by (intro bexI [of _ e']) (auto simp: ticket_of_def remaining_def)
qed

end
