(* ===== verification/Scenario.thy ===== *)
theory Scenario
  imports Effects Concurrency Refinement
begin

text \<open>
  A concrete deployment: the default settings in demo mode, a table in place of PyJWT, an
  administrator, and the release of the demonstration as an epoch, its agent's change and its live target.
  The properties with hypotheses are applied to it here. Fingerprints are never evaluated: the epoch
  carries the fingerprint of its own identity by construction.
\<close>

section \<open>The literal release satisfies the schemas\<close>

definition demo_body :: "(ustr \<times> json) list" where
  "demo_body =
     [(u ''project'', JStr (u ''payments-api'')), (u ''environment'', JStr (u ''prod'')),
      (u ''commit_sha'', JStr (commit_sha demo_payload)),
      (u ''artifact_digest'', JStr (artifact_digest demo_payload)),
      (u ''config_hash'', JStr (config_hash demo_payload)),
      (u ''pipeline_id'', JStr (u ''7421''))]"

lemmas demo_values = demo_payload_def identity.simps EpochCreate.simps

lemma demo_lookup:
  "map_of demo_body (u ''project'') = Some (JStr (u ''payments-api''))"
  "map_of demo_body (u ''environment'') = Some (JStr (u ''prod''))"
  "map_of demo_body (u ''commit_sha'') = Some (JStr (commit_sha demo_payload))"
  "map_of demo_body (u ''artifact_digest'') = Some (JStr (artifact_digest demo_payload))"
  "map_of demo_body (u ''config_hash'') = Some (JStr (config_hash demo_payload))"
  "map_of demo_body (u ''pipeline_id'') = Some (JStr (u ''7421''))"
  by (simp_all add: demo_body_def)

lemma trim_eval: "s = [] \<or> \<not> is_rust_space (hd s) \<and> \<not> is_rust_space (last s) \<Longrightarrow> rust_trim s = s"
  unfolding rust_trim_def by (rule strip_by_id)

lemma demo_trim:
  "rust_trim (u ''payments-api'') = u ''payments-api''"
  "rust_trim (u ''prod'') = u ''prod''"
  "rust_trim (u ''7421'') = u ''7421''"
  "rust_trim (commit_sha demo_payload) = commit_sha demo_payload"
  "rust_trim (artifact_digest demo_payload) = artifact_digest demo_payload"
  "rust_trim (config_hash demo_payload) = config_hash demo_payload"
  by (rule trim_eval; simp add: u_def is_rust_space_def demo_payload_def)+

lemma demo_valid:
  "immutable_commit (commit_sha demo_payload) = Some (commit_sha demo_payload)"
  "immutable_artifact (artifact_digest demo_payload) = Some (artifact_digest demo_payload)"
  "immutable_config (config_hash demo_payload) = Some (config_hash demo_payload)"
  "environment_pattern (u ''prod'')"
  by (simp_all add: demo_payload_def immutable_commit_def hex_re_def immutable_artifact_def sha256_re_def
      immutable_config_def config_re_def prefixed_hex_def Let_def is_hex_def py_lower_def lower_char_def
      environment_pattern_def match_name_def is_name_char_def is_lower_def is_digit_def u_def)

lemma demo_lengths:
  "length (commit_sha demo_payload) = 40" "length (artifact_digest demo_payload) = 71"
  "length (config_hash demo_payload) = 36"
  by (simp_all add: demo_payload_def)

lemmas field_defs = epoch_create_fields_def identity_fields_def str_field_def pattern_field_def

lemma demo_fields:
  "f \<in> set epoch_create_fields \<Longrightarrow> validate_str f demo_body \<noteq> None"
  by (simp only: epoch_create_fields_def identity_fields_def append.simps list.set insert_iff empty_iff,
      elim disjE)
    (simp_all add: str_field_def pattern_field_def validate_str_def demo_lookup demo_trim demo_valid
      demo_lengths Let_def)

lemma demo_payload_valid: "epoch_create (JObj demo_body) = Inr demo_payload"
proof -
  have all: "filter (\<lambda>f. validate_str f demo_body = None) epoch_create_fields = []"
    using demo_fields by (auto simp: filter_empty_conv)
  have known: "filter (\<lambda>k. k \<notin> set (map sf_name epoch_create_fields) \<and> k \<notin> set []) (map fst demo_body) = []"
    by (simp add: demo_body_def field_defs)
  have "epoch_create (JObj demo_body) = Inr
    \<lparr>project = u ''payments-api'', environment = u ''prod'', commit_sha = commit_sha demo_payload,
     artifact_digest = artifact_digest demo_payload, config_hash = config_hash demo_payload,
     pipeline_id = u ''7421''\<rparr>"
    by (simp only: epoch_create_def validate_model_def json.case all known Let_def list.map append_Nil
        simp_thms if_False res_bind.simps)
      (simp add: field_defs validate_str_def demo_lookup demo_trim demo_valid demo_lengths Let_def)
  also have "\<dots> = Inr demo_payload" by (simp add: demo_payload_def)
  finally show ?thesis .
qed

section \<open>The environment\<close>

definition s_settings :: settings where
  "s_settings = load_settings (\<lambda>n. if n = u ''EPOCHDEPLOY_DEMO_MODE'' then Some (u ''true'') else None)"

lemma s_settings_simps [simp]:
  "executor_mode s_settings = u ''local''"
  "gitlab_webhook_token s_settings = u ''local-demo-token''"
  "upload_dir s_settings = u ''./var/evidence''"
  "max_upload_bytes s_settings = 5242880"
  "max_webhook_bytes s_settings = 1048576"
  "demo_mode s_settings"
  by (simp_all add: s_settings_def load_settings_def getenv_def config_int_unset config_bool_def
      py_strip_def strip_by_def py_lower_def lower_char_def is_py_space_def is_rust_space_def u_def)

text \<open>One time for all readings of the clock; a deadline five minutes later.\<close>

definition s_time :: int where
  "s_time = 1700000000 * 1000000"

definition s_deadline :: int where
  "s_deadline = s_time + 300 * 1000000"

text \<open>A pipeline event for the epoch's pipeline that reports a commit, and the bytes of its body.\<close>

definition s_attributes :: "ustr \<Rightarrow> (ustr \<times> json) list" where
  "s_attributes sha = [(u ''id'', JInt 7421), (u ''status'', JStr (u ''success'')), (u ''sha'', JStr sha)]"

abbreviation s_event :: "ustr \<Rightarrow> (ustr \<times> json) list" where
  "s_event sha \<equiv> [(u ''object_kind'', JStr (u ''pipeline'')), (u ''object_attributes'', JObj (s_attributes sha))]"

definition s_body :: "ustr \<Rightarrow> bytes" where
  "s_body sha = utf8 (json_dumps (JObj (s_event sha)))"

definition s_base :: env where
  "s_base =
     \<lparr>cfg = s_settings, clock = (\<lambda>_. s_time), stamp = s_time,
      uuid4 = (\<lambda>i. if i = 0 then u ''id-0'' else u ''id-1''), urandom = (\<lambda>_. [1, 2, 3]), latency = 4,
      jwt = \<lparr>jwt_encode = (\<lambda>_ _. []), jwt_decode = (\<lambda>_ _ _. Inl OtherPyJWTError)\<rparr>,
      http_post = (\<lambda>_ _ _. HttpFailure), http_get = (\<lambda>_. HttpFailure), pb_serialize = (\<lambda>_. []),
      grpc_observe = (\<lambda>_ _ _. RpcError [] []), grpc_execute = (\<lambda>_ _ _. RpcError [] []),
      grpc_health = (\<lambda>_. RpcError [] []), float_repr = (\<lambda>s. s), nesting = 1000,
      py_repr = (\<lambda>_. []), lax_int = (\<lambda>_. None), fs_write = (\<lambda>_. Written), commit_lost = False\<rparr>"

definition s_epoch :: epoch_row where
  "s_epoch = new_epoch s_base demo_payload (u ''admin'') (u ''success'')"

definition s_change :: change_row where
  "s_change = new_change s_time (u ''id-1'') s_epoch (u ''ISSUE-184'') msg_demo_reason (u ''ai_agent'')
     (u ''release-agent-01'') (u ''admin'') (u ''deploy'')"

definition s_target :: target_row where
  "s_target = \<lparr>lt_id = 1, lt_project = project demo_payload, lt_environment = environment demo_payload,
     lt_commit_sha = commit_sha demo_payload, lt_artifact_digest = artifact_digest demo_payload,
     lt_config_hash = config_hash demo_payload, lt_updated_at = s_time\<rparr>"

definition s_users :: "user_row list" where
  "s_users = [demo_user s_base 0 ''operator'' ''operator-demo'', demo_user s_base 1 ''approver'' ''approver-demo'',
     demo_user s_base 2 ''admin'' ''admin-demo'']"

definition s_admin :: user_row where
  "s_admin = demo_user s_base 2 ''admin'' ''admin-demo''"

text \<open>Two tokens: the administrator's bearer token and the agent's capability.\<close>

definition s_bearer :: ustr where
  "s_bearer = u ''bearer''"

definition s_token :: ustr where
  "s_token = u ''capability-token-of-release-agent-01''"

definition s_jwt :: jwt_lib where
  "s_jwt =
     \<lparr>jwt_encode = (\<lambda>cs _. if map_of cs (u ''role'') = None then s_token else s_bearer),
      jwt_decode = (\<lambda>_ token _.
        if token = s_bearer then Inr (jwt_claims (token_payload s_admin s_time))
        else if token = s_token then
          Inr (jwt_claims (capability_payload (agent_scope s_epoch s_change) (u ''id-0'') s_time s_deadline))
        else Inl OtherPyJWTError)\<rparr>"

definition s_env :: env where
  "s_env = s_base\<lparr>jwt := s_jwt\<rparr>"

abbreviation s_creds :: "ustr option" where
  "s_creds \<equiv> Some s_bearer"

lemma s_env_simps [simp]:
  "cfg s_env = s_settings" "clock s_env n = s_time" "stamp s_env = s_time"
  "uuid4 s_env 0 = u ''id-0''" "uuid4 s_env (Suc n) = u ''id-1''" "uuid4 s_env 1 = u ''id-1''" "jwt s_env = s_jwt"
  "nesting s_env = 1000" "fs_write s_env p = Written" "\<not> commit_lost s_env"
  by (simp_all add: s_env_def s_base_def)

lemma s_same: "demo_user s_env = demo_user s_base" "new_epoch s_env = new_epoch s_base"
  by (simp_all add: fun_eq_iff demo_user_def new_epoch_def s_env_def)

lemma s_epoch_simps [simp]:
  "ep_id s_epoch = u ''id-0''" "ep_state s_epoch = u ''DRAFT''" "ep_pipeline_status s_epoch = u ''success''"
  "ep_project s_epoch = project demo_payload" "ep_environment s_epoch = environment demo_payload"
  "ep_pipeline_id s_epoch = u ''7421''"
  "ep_fingerprint s_epoch = fingerprint (epoch_identity s_epoch)"
  by (simp_all add: s_epoch_def new_epoch_def s_base_def epoch_identity_def payload_identity_def demo_payload_def)

lemma s_target_simps [simp]:
  "lt_project s_target = project demo_payload" "lt_environment s_target = environment demo_payload"
  "target_identity s_target = epoch_identity s_epoch"
  by (simp_all add: s_target_def target_identity_def epoch_identity_def s_epoch_def new_epoch_def)

lemma s_change_simps [simp]:
  "cr_id s_change = u ''id-1''" "cr_epoch_id s_change = u ''id-0''" "cr_actor_type s_change = u ''ai_agent''"
  "cr_action s_change = u ''deploy''"
  by (simp_all add: s_change_def new_change_def)

lemma s_user_simps [simp]: "us_username s_admin = u ''admin''" "us_role s_admin = u ''admin''"
  by (simp_all add: s_admin_def demo_user_def)

lemma s_local: "local_mode s_env"
  by (simp add: local_mode_def)

lemma s_role:
  assumes "users d = s_users" and "''admin'' \<in> set roles"
  shows "require_role s_env d s_creds roles = Inr s_admin"
proof -
  have "map_of (jwt_claims (token_payload s_admin s_time)) (u ''sub'') = Some (JStr (u ''admin''))"
    by (simp add: map_of_jwt_claims token_payload_def)
  then have "current_user s_env d s_creds = Inr s_admin"
    by (simp add: current_user_def s_jwt_def assms(1) s_users_def demo_user_def s_admin_def)
  with assms(2) show ?thesis by (simp add: require_role_def)
qed

section \<open>A run of the application\<close>

text \<open>
  The application starts, the administrator resets the demonstration, approves its epoch, issues a
  capability for the agent's change, and executes the epoch.
\<close>

definition w_start :: world where
  "w_start = empty_world\<lparr>w_db := snd (lifespan s_env empty_db)\<rparr>"

definition w_demo :: world where
  "w_demo = snd (handle s_env s_creds DemoBootstrap w_start)"

definition w_approved :: world where
  "w_approved = snd (handle s_env s_creds (Approve (u ''id-0'')) w_demo)"

definition w_granted :: world where
  "w_granted = snd (handle s_env s_creds (IssueCapability (u ''id-0'') (JObj [])) w_approved)"

abbreviation s_execute :: route where
  "s_execute \<equiv> Execute (u ''id-0'') (JObj [(u ''idempotency_key'', JStr (u ''run-0001''))])"

definition w_executed :: world where
  "w_executed = snd (handle s_env s_creds s_execute w_granted)"

lemma s_trusted: "trusted_client d s_env"
  by (rule trusted_local [OF s_local])

lemma worlds_reachable:
  "reachable trusted_client w_start" "reachable trusted_client w_demo" "reachable trusted_client w_approved"
  "reachable trusted_client w_granted" "reachable trusted_client w_executed"
  unfolding w_start_def w_demo_def w_approved_def w_granted_def w_executed_def
  by (intro reachable.request reachable.start s_trusted)+

lemmas worlds_ok = worlds_reachable [THEN reachable_consistent, THEN consistent_db_ok]

lemma users_ok: "db_ok (empty_db\<lparr>users := s_users\<rparr>)"
  by (simp add: db_ok_defs empty_db_def s_users_def demo_user_def)

lemma w_start_db: "w_db w_start = empty_db\<lparr>users := s_users\<rparr>"
  using users_ok
  by (simp add: w_start_def lifespan_def seed_demo_users_def s_same commit_def empty_db_def s_users_def)

lemma s_identity [simp]:
  "project (epoch_identity s_epoch) = project demo_payload"
  "environment (epoch_identity s_epoch) = environment demo_payload"
  "commit_sha (epoch_identity s_epoch) = commit_sha demo_payload"
  "artifact_digest (epoch_identity s_epoch) = artifact_digest demo_payload"
  "config_hash (epoch_identity s_epoch) = config_hash demo_payload"
  by (simp_all add: epoch_identity_def s_epoch_def new_epoch_def)

lemma s_upsert:
  assumes "db_ok d" and "targets d = []"
  shows "upsert_target s_env d (epoch_identity s_epoch) = (Inr s_target, d\<lparr>targets := [s_target]\<rparr>)"
    and "db_ok (d\<lparr>targets := [s_target]\<rparr>)"
proof -
  show ok: "db_ok (d\<lparr>targets := [s_target]\<rparr>)"
    using targets_insert_ok [OF assms(1), of s_target] assms(2) by (simp add: s_target_def next_id_def)
  have "store_target s_env d (epoch_identity s_epoch) = (Inr s_target, d\<lparr>targets := [s_target]\<rparr>)"
    using ok assms(2) by (simp add: store_target_def live_target_def commit_def next_id_def s_target_def Let_def)
  moreover have "sync_executor_observation s_env i = Inr ()" for i
    using s_local by (simp add: sync_executor_observation_def local_mode_client local_observe_def)
  ultimately show "upsert_target s_env d (epoch_identity s_epoch) = (Inr s_target, d\<lparr>targets := [s_target]\<rparr>)"
    by (simp add: upsert_target_def)
qed

text \<open>Instead of the reset, the same release created by a request: its pipeline is pending.\<close>

definition w_created :: world where
  "w_created = snd (handle s_env s_creds (CreateEpoch (JObj demo_body)) w_start)"

definition s_pending :: epoch_row where
  "s_pending = new_epoch s_base demo_payload (u ''admin'') (u ''pending'')"

lemma s_pending_simps [simp]:
  "ep_id s_pending = u ''id-0''" "ep_pipeline_status s_pending = u ''pending''"
  "ep_pipeline_id s_pending = u ''7421''" "ep_commit_sha s_pending = commit_sha demo_payload"
  by (simp_all add: s_pending_def new_epoch_def s_base_def demo_payload_def)

lemma created_reachable: "reachable trusted_client w_created"
  unfolding w_created_def by (intro reachable.request worlds_reachable s_trusted)

lemma created_rows: "epochs (w_db w_created) = [s_pending] \<and> webhooks (w_db w_created) = []"
proof -
  let ?d = "empty_db\<lparr>users := s_users\<rparr>"
  let ?d2 = "created_db s_env ?d s_pending (u ''admin'')"
  have ok2: "db_ok ?d2" by (rule created_db_ok [OF users_ok]) (simp add: empty_db_def)
  then have "create_epoch s_env ?d demo_payload (u ''admin'') (u ''pending'') = (Inr s_pending, ?d2)"
    by (simp add: create_epoch_def s_same s_pending_def commit_def Let_def)
  moreover have "require_role s_env ?d s_creds [''operator'', ''admin''] = Inr s_admin" by (rule s_role) simp_all
  ultimately have "w_db w_created = ?d2"
    by (simp add: w_created_def w_start_db api_create_epoch_def demo_payload_valid)
  then show ?thesis by (simp add: empty_db_def)
qed

text \<open>The rows after the reset.\<close>

lemma demo_rows:
  "users (w_db w_demo) = s_users \<and> epochs (w_db w_demo) = [s_epoch] \<and> approvals (w_db w_demo) = [] \<and>
   targets (w_db w_demo) = [s_target] \<and> receipts (w_db w_demo) = [] \<and> changes (w_db w_demo) = [s_change] \<and>
   grants (w_db w_demo) = [] \<and> webhooks (w_db w_demo) = [] \<and> evidences (w_db w_demo) = []"
proof -
  let ?d = "empty_db\<lparr>users := s_users\<rparr>"
  let ?d1 = "cleared_db ?d"
  have d1: "?d1 = ?d" by (simp add: cleared_db_def empty_db_def)
  let ?d2 = "created_db s_env ?d s_epoch (u ''admin'')"
  have ok2: "db_ok ?d2" by (rule created_db_ok [OF users_ok]) (simp add: empty_db_def)
  have e: "create_epoch s_env ?d demo_payload (u ''admin'') (u ''success'') = (Inr s_epoch, ?d2)"
    using ok2 by (simp add: create_epoch_def s_same s_epoch_def commit_def Let_def)
  let ?d3 = "changed_db s_time ?d2 s_change"
  have ok3: "db_ok ?d3" by (rule changed_db_ok [OF ok2]) (simp_all add: empty_db_def)
  have c: "create_change_request s_time (u ''id-1'') ?d2 s_epoch (u ''ISSUE-184'') msg_demo_reason
      (u ''ai_agent'') (u ''release-agent-01'') (u ''admin'') (u ''deploy'') = (Inr s_change, ?d3)"
    using ok3 by (simp add: create_change_request_def s_change_def commit_def Let_def)
  let ?d4 = "demo_pipeline_event s_env ?d3 s_epoch"
  have ok4: "db_ok ?d4"
    unfolding demo_pipeline_event_def by (rule record_event_ok [OF ok3]) simp
  let ?d5 = "?d4\<lparr>targets := [s_target]\<rparr>"
  have t4: "targets ?d4 = []" by (simp add: demo_pipeline_event_def empty_db_def)
  note t = s_upsert [OF ok4 t4]
  have "demo_bootstrap s_env ?d s_admin = (Inr s_epoch, ?d5)"
    unfolding demo_bootstrap_def
    by (simp add: demo_only_def d1 commit_def users_ok e c ok4 t)
  moreover have "require_role s_env ?d s_creds [''admin''] = Inr s_admin" by (rule s_role) simp_all
  ultimately have "w_db w_demo = ?d5"
    by (simp add: w_demo_def w_start_db api_bootstrap_def)
  then show ?thesis by (simp add: demo_pipeline_event_def empty_db_def)
qed

text \<open>The rows after the approval.\<close>

definition s_approved :: epoch_row where
  "s_approved = s_epoch\<lparr>ep_state := u ''APPROVED'', ep_updated_at := s_time\<rparr>"

definition s_approval :: approval_row where
  "s_approval = new_approval s_env (w_db w_demo) s_epoch (u ''admin'')"

lemma s_approved_simps [simp]:
  "ep_id s_approved = u ''id-0''" "ep_state s_approved = u ''APPROVED''"
  "ep_pipeline_status s_approved = u ''success''"
  "ep_project s_approved = project demo_payload" "ep_environment s_approved = environment demo_payload"
  "ep_fingerprint s_approved = fingerprint (epoch_identity s_epoch)"
  "epoch_identity s_approved = epoch_identity s_epoch" "agent_scope s_approved = agent_scope s_epoch"
  by (simp_all add: s_approved_def epoch_identity_def fun_eq_iff agent_scope_def)

lemma s_approval_simps [simp]:
  "ap_epoch_id s_approval = u ''id-0''"
  "ap_approved_fingerprint s_approval = fingerprint (epoch_identity s_epoch)"
  by (simp_all add: s_approval_def new_approval_def)

lemma approved_rows:
  "users (w_db w_approved) = s_users \<and> epochs (w_db w_approved) = [s_approved] \<and>
   approvals (w_db w_approved) = [s_approval] \<and> targets (w_db w_approved) = [s_target] \<and>
   receipts (w_db w_approved) = [] \<and> changes (w_db w_approved) = [s_change] \<and>
   grants (w_db w_approved) = [] \<and> webhooks (w_db w_approved) = [] \<and> evidences (w_db w_approved) = []"
proof -
  have "approve_epoch s_env (w_db w_demo) s_epoch (u ''admin'') =
      (Inr (s_approval, s_epoch\<lparr>ep_state := u ''APPROVED''\<rparr>), approved_db s_env (w_db w_demo) s_epoch (u ''admin''))"
    using approve_epoch_success [OF worlds_ok(2), of s_epoch] demo_rows by (simp add: s_approval_def)
  moreover have "require_role s_env (w_db w_demo) s_creds [''approver'', ''admin''] = Inr s_admin"
    using demo_rows by (intro s_role) simp_all
  ultimately have "w_db w_approved = approved_db s_env (w_db w_demo) s_epoch (u ''admin'')"
    using demo_rows by (simp add: w_approved_def approve_def epoch_or_404_def get_epoch_def)
  then show ?thesis
    using demo_rows by (simp add: set_state_def update_where_def s_approved_def s_approval_def)
qed

text \<open>The rows after the capability has been issued, and the token.\<close>

definition s_grant :: grant_row where
  "s_grant = new_grant s_env s_approved s_change (u ''admin'') (u ''id-0'') s_deadline"

lemma s_grant_simps [simp]:
  "cg_id s_grant = u ''id-0''" "cg_epoch_id s_grant = u ''id-0''" "cg_revoked_at s_grant = None"
  "cg_expires_at s_grant = s_deadline"
  by (simp_all add: s_grant_def)

lemma s_policy:
  "pd_decision (evaluate_policy (u ''ai_agent'') (u ''deploy'') (environment demo_payload)) = u ''ASK''"
  by (simp add: evaluate_policy_def demo_payload_def py_lower_def py_strip_def strip_by_def lower_char_def
      is_py_space_def is_rust_space_def u_def Let_def)

lemma s_may_grant: "may_grant (w_db w_approved) s_approved s_change"
  using approved_rows by (simp add: may_grant_def s_policy Let_def)

lemma s_encode: "jwt_encode s_jwt (capability_payload s j n x) key = s_token"
  by (simp add: s_jwt_def capability_payload_def)

lemma s_issued: "issue_execution_capability s_env (w_db w_approved) s_approved (u ''admin'') 300 =
    (Inr (s_grant, s_token), w_db w_granted)"
  and granted_rows:
  "users (w_db w_granted) = s_users \<and> epochs (w_db w_granted) = [s_approved] \<and>
   approvals (w_db w_granted) = [s_approval] \<and> targets (w_db w_granted) = [s_target] \<and>
   receipts (w_db w_granted) = [] \<and> changes (w_db w_granted) = [s_change] \<and>
   grants (w_db w_granted) = [s_grant]"
proof -
  let ?p = "evaluate_policy (u ''ai_agent'') (u ''deploy'') (environment demo_payload)"
  let ?d = "granted_db s_env (record_policy s_env (w_db w_approved) s_approved s_change ?p) s_approved s_change
      ?p (u ''admin'') s_grant"
  have i: "issue_execution_capability s_env (w_db w_approved) s_approved (u ''admin'') 300 =
      (Inr (s_grant, s_token), ?d)"
    using issue_granted [OF worlds_ok(3) _ s_may_grant _ refl refl, of s_env "u ''admin''" 300] approved_rows
    by (simp add: s_grant_def s_deadline_def s_encode)
  have "require_role s_env (w_db w_approved) s_creds [''operator'', ''approver'', ''admin''] = Inr s_admin"
    using approved_rows by (intro s_role) simp_all
  moreover have "capability_issue_request s_env (JObj []) = Inr 300"
    by (simp add: capability_issue_request_def)
  ultimately have "w_db w_granted = ?d"
    using approved_rows i
    by (simp add: w_granted_def api_issue_capability_def epoch_or_404_def get_epoch_def)
  with i approved_rows show "issue_execution_capability s_env (w_db w_approved) s_approved (u ''admin'') 300 =
      (Inr (s_grant, s_token), w_db w_granted)"
    and "users (w_db w_granted) = s_users \<and> epochs (w_db w_granted) = [s_approved] \<and>
   approvals (w_db w_granted) = [s_approval] \<and> targets (w_db w_granted) = [s_target] \<and>
   receipts (w_db w_granted) = [] \<and> changes (w_db w_granted) = [s_change] \<and>
   grants (w_db w_granted) = [s_grant]"
    by simp_all
qed

text \<open>The receipt of the execution.\<close>

definition s_result :: executor_result where
  "s_result = \<lparr>er_outcome = u ''EXECUTED'', er_observed_fingerprint = fingerprint (epoch_identity s_epoch),
     er_reason = msg_identity_match, er_latency_ms = 4, er_differences = JArr []\<rparr>"

definition s_receipt :: receipt_row where
  "s_receipt = new_receipt s_env (w_db w_granted) s_approved (u ''run-0001'') s_result"

lemma s_receipt_simps [simp]:
  "rc_epoch_id s_receipt = u ''id-0''" "rc_idempotency_key s_receipt = u ''run-0001''"
  "rc_outcome s_receipt = u ''EXECUTED''" "rc_differences s_receipt = JArr []"
  by (simp_all add: s_receipt_def new_receipt_def s_result_def)

lemma diff_identity_refl [simp]: "diff_identity i i = []"
  by (simp add: diff_identity_def Let_def)

lemma s_checked: "local_execute s_env (epoch_identity s_epoch) (epoch_identity s_epoch) None = Inr s_result"
  by (simp add: local_execute_Inr local_check_def s_result_def) (simp add: s_env_def s_base_def)

lemma s_bound: "may_execute (w_db w_granted) s_approved c"
  using granted_rows by (simp add: may_execute_def approval_bound_def)

lemma s_executed: "execute_epoch s_env (w_db w_granted) s_approved (u ''run-0001'') None =
    (Inr (s_receipt, JArr []), w_db w_executed)"
  and executed_rows:
  "users (w_db w_executed) = s_users \<and> approvals (w_db w_executed) = [s_approval] \<and>
   targets (w_db w_executed) = [s_target] \<and> receipts (w_db w_executed) = [s_receipt] \<and>
   changes (w_db w_executed) = [s_change] \<and> grants (w_db w_executed) = [s_grant] \<and>
   epochs (w_db w_executed) = [s_approved\<lparr>ep_state := u ''EXECUTED''\<rparr>]"
proof -
  let ?d = "executed_db s_env (w_db w_granted) s_approved (u ''run-0001'') s_result"
  have mode: "executor_mode (cfg s_env) \<notin> {u ''grpc'', u ''http''}" by simp
  have x: "execute_epoch s_env (w_db w_granted) s_approved (u ''run-0001'') None = (Inr (s_receipt, JArr []), ?d)"
    unfolding execute_epoch_def local_client_execute [OF mode] s_receipt_def
    by (subst execute_with_start [OF worlds_ok(4), of s_approved s_target])
      (simp_all add: granted_rows s_bound s_checked, simp add: s_result_def)
  have "require_role s_env (w_db w_granted) s_creds [''operator'', ''admin''] = Inr s_admin"
    using granted_rows by (intro s_role) simp_all
  moreover have "execute_request (JObj [(u ''idempotency_key'', JStr (u ''run-0001''))]) = Inr (u ''run-0001'')"
    by (simp add: execute_request_def validate_model_def str_field_def validate_str_def rust_trim_def strip_by_def
        is_rust_space_def Let_def u_def)
  ultimately have "w_db w_executed = ?d"
    using granted_rows x by (simp add: w_executed_def api_execute_def epoch_or_404_def get_epoch_def)
  with x granted_rows show "execute_epoch s_env (w_db w_granted) s_approved (u ''run-0001'') None =
      (Inr (s_receipt, JArr []), w_db w_executed)"
    and "users (w_db w_executed) = s_users \<and> approvals (w_db w_executed) = [s_approval] \<and>
   targets (w_db w_executed) = [s_target] \<and> receipts (w_db w_executed) = [s_receipt] \<and>
   changes (w_db w_executed) = [s_change] \<and> grants (w_db w_executed) = [s_grant] \<and>
   epochs (w_db w_executed) = [s_approved\<lparr>ep_state := u ''EXECUTED''\<rparr>]"
    by (simp_all add: set_state_def update_where_def s_receipt_def s_result_def s_approved_def)
qed

end
