(* ===== verification/Drift_Witnesses.thy ===== *)
theory Drift_Witnesses
  imports Drift Fingerprint_Vector Scenario
begin

text \<open>
  The property of the drift, applied to the release of the repository's test vector, whose fingerprint and
  that of its drifted form the kernel has computed.
\<close>

definition v_epoch :: epoch_row where
  "v_epoch =
     \<lparr>ep_id = u ''id-0'', ep_project = project vector_identity, ep_environment = environment vector_identity,
      ep_commit_sha = commit_sha vector_identity, ep_artifact_digest = artifact_digest vector_identity,
      ep_config_hash = config_hash vector_identity, ep_pipeline_id = u ''1'', ep_pipeline_status = u ''success'',
      ep_fingerprint = fingerprint vector_identity, ep_state = u ''APPROVED'', ep_created_by = u ''admin'',
      ep_created_at = 0, ep_updated_at = 0\<rparr>"

definition v_target :: target_row where
  "v_target =
     \<lparr>lt_id = 1, lt_project = project vector_identity, lt_environment = environment vector_identity,
      lt_commit_sha = commit_sha vector_identity, lt_artifact_digest = artifact_digest vector_identity,
      lt_config_hash = config_hash vector_identity, lt_updated_at = 0\<rparr>"

definition v_approval :: approval_row where
  "v_approval = \<lparr>ap_id = 1, ap_epoch_id = u ''id-0'', ap_approver = u ''approver'',
     ap_approved_fingerprint = fingerprint vector_identity, ap_created_at = 0\<rparr>"

definition v_db :: db where
  "v_db = empty_db\<lparr>epochs := [v_epoch], approvals := [v_approval], targets := [v_target]\<rparr>"

lemma v_rows [simp]:
  "epochs v_db = [v_epoch]" "approvals v_db = [v_approval]" "targets v_db = [v_target]" "receipts v_db = []"
  by (simp_all add: v_db_def empty_db_def)

lemma v_ok: "db_ok v_db"
  by (simp add: db_ok_defs Let_def v_db_def empty_db_def v_epoch_def v_approval_def)

lemma v_identity: "epoch_identity v_epoch = vector_identity" "target_identity v_target = vector_identity"
  by (simp_all add: epoch_identity_def target_identity_def v_epoch_def v_target_def)

lemma drift_is_caught_witness:
  "\<exists>d1 r d2. demo_drift s_base v_db v_epoch (u ''config_hash'') (u ''cfg:33333333333333333333333333333333'') =
      (Inr (fingerprint drifted_identity), d1) \<and>
    execute_epoch s_base d1 v_epoch (u ''run-0001'') None =
      (Inr (r, JArr [JObj [(u ''field'', JStr (u ''config_hash'')),
        (u ''expected'', JStr (u ''cfg:22222222222222222222222222222222'')),
        (u ''observed'', JStr (u ''cfg:33333333333333333333333333333333''))]]), d2) \<and>
    rc_outcome r = u ''DENIED_STALE''"
proof -
  let ?v = "u ''cfg:33333333333333333333333333333333''"
  have drifted: "with_field ConfigHash ?v (epoch_identity v_epoch) = drifted_identity"
    by (simp add: v_identity drifted_identity_def)
  have strip: "py_strip ?v = ?v" "py_strip (ident_get (epoch_identity v_epoch) ConfigHash) =
      u ''cfg:22222222222222222222222222222222''"
    by (simp_all add: v_identity vector_identity_def py_strip_def strip_by_def u_def is_py_space_def is_rust_space_def)
  have neq: "py_strip ?v \<noteq> py_strip (ident_get (epoch_identity v_epoch) ConfigHash)"
    unfolding strip by (simp add: u_def)
  have nc: "no_collision (epoch_identity v_epoch) (with_field ConfigHash ?v (epoch_identity v_epoch))"
    unfolding drifted unfolding v_identity by (rule vector_no_collision)
  have key: "target_key v_target = (ep_project v_epoch, ep_environment v_epoch)"
    by (simp add: v_target_def v_epoch_def)
  have may: "may_execute v_db v_epoch None"
    by (simp add: may_execute_def approval_bound_def v_epoch_def v_approval_def)
  have mode: "executor_mode (cfg s_base) \<notin> {u ''grpc'', u ''http''}" by (simp add: s_base_def)
  have rows: "v_epoch \<in> set (epochs v_db)" "v_target \<in> set (targets v_db)" "ConfigHash \<in> drift_fields"
    "target_identity v_target = epoch_identity v_epoch"
    "(ep_id v_epoch, u ''run-0001'') \<notin> receipt_key ` set (receipts v_db)"
    "local_check s_base (epoch_identity v_epoch) None = Inr ()"
    by (simp_all add: drift_fields_def v_identity local_check_def)
  from drift_is_caught [OF v_ok rows(1,2) key rows(4,3) neq nc mode mode may rows(5,6)] show ?thesis
    unfolding drifted strip field_name.simps by blast
qed

end
