(* ===== verification/Witnesses.thy ===== *)
theory Witnesses
  imports Scenario
begin

text \<open>
  The properties of the components, applied to the run of the theory \<open>Scenario\<close>: their hypotheses hold
  together there.
\<close>

section \<open>Tokens\<close>

abbreviation s_scope :: capability_scope where
  "s_scope \<equiv> agent_scope s_epoch s_change"

abbreviation s_payload :: "(ustr \<times> view) list" where
  "s_payload \<equiv> capability_payload s_scope (u ''id-0'') s_time s_deadline"

lemma s_pyjwt: "jwt_returns_claims s_jwt s_payload key now"
  by (simp add: jwt_returns_claims_def s_encode) (simp add: s_jwt_def s_token_def s_bearer_def)

lemma s_times: "s_time < s_deadline div 1000000 * 1000000" "s_time + 300 * 1000000 = s_deadline"
  "s_time + 300000000 = s_deadline"
  unfolding s_deadline_def s_time_def by simp_all

lemma s_issue: "issue_capability s_env s_scope 300 = (s_token, u ''id-0'', s_deadline)"
  by (simp add: issue_capability_def Let_def s_encode s_times)

lemma capability_roundtrip_witness:
  "issue_capability s_env s_scope 300 = (s_token, u ''id-0'', s_deadline) \<and>
   (\<exists>claims. verify_capability s_env s_time s_token s_scope = Inr claims \<and>
      map_of claims (u ''jti'') = Some (JStr (u ''id-0'')) \<and> s_deadline = s_time + 300 * 1000000)"
  using capability_roundtrip [OF s_issue, of s_time] s_pyjwt s_times s_issue by simp

lemma s_verified: "verify_capability s_env s_time s_token s_scope = Inr (jwt_claims s_payload)"
proof -
  have "verify_capability s_env s_time (jwt_encode (jwt s_env) s_payload (capability_secret (cfg s_env))) s_scope =
      Inr (jwt_claims s_payload)"
    by (rule issued_verifies) (simp_all add: s_pyjwt s_times)
  then show ?thesis by (simp add: s_encode)
qed

lemma capability_single_scope_witness:
  "verify_capability s_env s_time s_token s_scope = Inr (jwt_claims s_payload) \<and>
   (\<exists>k v. (k, v) \<in> set (expected_claims (s_scope\<lparr>sc_action := u ''promote''\<rparr>)) \<and>
      (k, v) \<notin> set (expected_claims s_scope) \<and>
      verify_capability s_env s_time s_token (s_scope\<lparr>sc_action := u ''promote''\<rparr>) =
        Inl (CapabilityError (msg_cap_scope_prefix @ k)))"
proof -
  have "s_scope\<lparr>sc_action := u ''promote''\<rparr> \<noteq> s_scope" by (simp add: agent_scope_def)
  from capability_single_scope [OF s_verified this] s_verified show ?thesis by blast
qed

section \<open>Requests, epochs and approvals\<close>

lemma accepted_release_immutable_witness:
  "epoch_create (JObj demo_body) = Inr demo_payload \<and> immutable_identity demo_payload"
  using accepted_release_immutable demo_payload_valid by blast

lemma approval_outcomes_witness:
  "db_ok (w_db w_demo) \<and> s_epoch \<in> set (epochs (w_db w_demo)) \<and>
   (\<exists>a e' d'. approve_epoch s_env (w_db w_demo) s_epoch (u ''approver'') = (Inr (a, e'), d') \<and>
      approvals d' = approvals (w_db w_demo) @ [a] \<and> ep_state e' = u ''APPROVED'')"
proof -
  have e: "s_epoch \<in> set (epochs (w_db w_demo))" using demo_rows by simp
  from approval_outcomes [OF worlds_ok(2) e, of s_env "u ''approver''"] demo_rows e worlds_ok(2)
  show ?thesis by auto
qed

section \<open>Capabilities\<close>

lemma capability_issue_gate_witness:
  "issue_execution_capability s_env (w_db w_approved) s_approved (u ''admin'') 300 =
     (Inr (s_grant, s_token), w_db w_granted) \<and>
   (\<exists>c. may_grant (w_db w_approved) s_approved c \<and> grant_scope s_grant = agent_scope s_approved c)"
  using capability_issue_gate [OF s_issued] s_issued by blast

lemma capability_refusal_recorded_witness:
  "\<not> may_grant (w_db w_demo) s_epoch s_change \<and>
   (\<exists>code m ev. issue_execution_capability s_env (w_db w_demo) s_epoch (u ''admin'') 300 =
      (Inl (HTTPException code m), (w_db w_demo)\<lparr>events := events (w_db w_demo) @ [ev]\<rparr>) \<and>
      pe_event_type ev = u ''POLICY_EVALUATED'')"
proof -
  have "\<not> may_grant (w_db w_demo) s_epoch s_change"
    by (simp add: may_grant_def s_policy Let_def)
  with capability_refusal_recorded [OF worlds_ok(2), of s_epoch s_change s_env "u ''admin''" 300] demo_rows
  show ?thesis by auto
qed

section \<open>Executions\<close>

lemma s_key: "(ep_id s_approved, k) \<notin> receipt_key ` set (receipts (w_db w_granted))"
  using granted_rows by simp

lemma s_member: "s_approved \<in> set (epochs (w_db w_granted))" "s_target \<in> set (targets (w_db w_granted))"
  using granted_rows by simp_all

lemma s_mode: "executor_mode (cfg s_env) \<notin> {u ''grpc'', u ''http''}"
  by simp

lemma s_target_key: "target_key s_target = (ep_project s_approved, ep_environment s_approved)"
  by simp

lemma execution_gate_witness:
  "execute_epoch s_env (w_db w_granted) s_approved (u ''run-0001'') None =
     (Inr (s_receipt, JArr []), w_db w_executed) \<and>
   (ep_id s_approved, u ''run-0001'') \<notin> receipt_key ` set (receipts (w_db w_granted)) \<and>
   may_execute (w_db w_granted) s_approved None \<and>
   receipts (w_db w_executed) = receipts (w_db w_granted) @ [s_receipt]"
  using execution_gate [OF s_executed s_key] s_executed s_key by blast

lemma s_after: "s_approved\<lparr>ep_state := u ''EXECUTED''\<rparr> \<in> set (epochs (w_db w_executed))"
  using executed_rows by simp

lemma execution_idempotent_witness:
  "s_approved\<lparr>ep_state := u ''EXECUTED''\<rparr> \<in> set (epochs (w_db w_executed)) \<and>
   execute_epoch s_env (w_db w_executed) (s_approved\<lparr>ep_state := u ''EXECUTED''\<rparr>) (u ''run-0001'') None =
     (Inr (s_receipt, JArr []), w_db w_executed)"
  using execution_idempotent [OF s_executed worlds_ok(5) _ s_after, of s_env None] s_after by simp

lemma execution_once_witness:
  "s_approved\<lparr>ep_state := u ''EXECUTED''\<rparr> \<in> set (epochs (w_db w_executed)) \<and>
   execute_epoch s_env (w_db w_executed) (s_approved\<lparr>ep_state := u ''EXECUTED''\<rparr>) (u ''run-0002'') None =
     (Inl (HTTPException 409 (msg_state_prefix @ u ''EXECUTED'')), w_db w_executed)"
  using execution_once [OF s_executed s_key s_mode s_after _ worlds_ok(5), of "u ''run-0002''" s_env None]
    s_after executed_rows by simp

abbreviation s_context :: exec_context where
  "s_context \<equiv> agent_context s_approved s_change
     (evaluate_policy (u ''ai_agent'') (u ''deploy'') (environment demo_payload)) s_token"

lemma s_authorized: "authorize_agent s_env (w_db w_granted) s_approved s_token = Inr s_context"
proof -
  have "authorize_agent s_env (w_db w_granted) s_approved s_token = Inr (agent_context s_approved s_change
      (evaluate_policy (cr_actor_type s_change) (cr_action s_change) (ep_environment s_approved)) s_token)"
  proof (rule authorize_agent_granted [OF worlds_ok(4)])
    show "agent_change (w_db w_granted) s_approved s_change"
      using granted_rows by (simp add: agent_change_def)
    show "change_decision s_approved s_change \<noteq> u ''DENY''" by (simp add: change_decision_def s_policy)
    show "verify_capability s_env (clock s_env 1) s_token (agent_scope s_approved s_change) = Inr (jwt_claims s_payload)"
      using s_verified by simp
    show "map_of (jwt_claims s_payload) (u ''jti'') = Some (JStr (cg_id s_grant))" by simp
    show "s_grant \<in> set (grants (w_db w_granted))" using granted_rows by simp
    show "clock s_env 2 < cg_expires_at s_grant" by (simp add: s_deadline_def)
  qed simp_all
  then show ?thesis by simp
qed

lemma agent_execution_gate_witness:
  "\<exists>r ds d'. execute_agent_epoch s_env (w_db w_granted) s_approved (u ''run-0003'') s_token = (Inr (r, ds), d') \<and>
     (\<exists>c. agent_change (w_db w_granted) s_approved c \<and> \<not> destructive_action (cr_action c))"
proof -
  have "local_check s_env (epoch_identity s_approved) (Some s_context) = Inr ()"
    using s_verified unfolding local_check_def option.case agent_context_scope
    by (simp add: agent_context_def)
  from local_start [OF worlds_ok(4) _ s_mode s_bound s_key s_member(2) s_target_key this] s_member(1)
  obtain x where "execute_epoch s_env (w_db w_granted) s_approved (u ''run-0003'') (Some s_context) =
      (Inr (new_receipt s_env (w_db w_granted) s_approved (u ''run-0003'') x, er_differences x),
       executed_db s_env (w_db w_granted) s_approved (u ''run-0003'') x)"
    by blast
  then have x: "execute_agent_epoch s_env (w_db w_granted) s_approved (u ''run-0003'') s_token =
      (Inr (new_receipt s_env (w_db w_granted) s_approved (u ''run-0003'') x, er_differences x),
       executed_db s_env (w_db w_granted) s_approved (u ''run-0003'') x)"
    by (simp add: execute_agent_epoch_def s_authorized)
  from agent_execution_gate [OF x] x show ?thesis by blast
qed

section \<open>The webhook\<close>

abbreviation s_event_header :: "ustr option" where
  "s_event_header \<equiv> Some (u ''Pipeline Hook'')"

abbreviation s_deliver :: "db \<Rightarrow> bytes list \<Rightarrow> view res \<times> db" where
  "s_deliver d chunks \<equiv> gitlab_webhook s_env d (Some (gitlab_webhook_token (cfg s_env))) s_event_header chunks"

abbreviation s_chunks :: "ustr \<Rightarrow> bytes list" where
  "s_chunks sha \<equiv> [take 10 (s_body sha), drop 10 (s_body sha)]"

text \<open>The two commits that are reported: the epoch's and another.\<close>

definition s_shas :: "ustr set" where
  "s_shas = {commit_sha demo_payload, u ''0000000''}"


lemma s_hook: "is_pipeline_hook s_event_header"
  by (simp add: is_pipeline_hook_def py_lower_def lower_char_def u_def)

lemma dec_7421: "dec_digits 7421 = u ''7421''"
  by (simp add: dec_digits.simps [of 7421] dec_digits.simps [of 742] dec_digits.simps [of 74] dec_digits.simps [of 7] u_def)

lemma s_attributes_lookup:
  "map_of (s_attributes sha) (u ''id'') = Some (JInt 7421)"
  "map_of (s_attributes sha) (u ''status'') = Some (JStr (u ''success''))"
  "map_of (s_attributes sha) (u ''sha'') = Some (JStr sha)"
  "map_of (s_event sha) (u ''object_attributes'') = Some (JObj (s_attributes sha))"
  "int_str 7421 = u ''7421''"
  by (simp_all add: s_attributes_def int_str_def dec_7421)

lemma s_readable:
  assumes "sha \<in> s_shas"
  shows "json_readable (PyJson (float_repr s_env)) (nesting s_env) (JObj (s_event sha))" and "json_unicode (JObj (s_event sha))"
proof -
  show "json_readable (PyJson (float_repr s_env)) (nesting s_env) (JObj (s_event sha))"
    by (simp add: s_attributes_def dec_7421)
  have "list_all (\<lambda>c. c < 1114112) sha"
    using assms by (auto simp: s_shas_def demo_payload_def u_def)
  then show "json_unicode (JObj (s_event sha))"
    by (simp add: s_attributes_def) (simp add: u_def)
qed

lemma s_body_size: "sha \<in> s_shas \<Longrightarrow> int (length (concat (s_chunks sha))) \<le> max_webhook_bytes (cfg s_env)"
  by (auto simp: s_shas_def s_body_def s_attributes_def int_str_def dec_7421 json_string_def)
    (simp_all add: demo_payload_def u_def esc_char_def utf8_def utf8_char_def)

lemma s_parsed: "sha \<in> s_shas \<Longrightarrow> parse_body s_env (s_body sha) = Inr (JObj (s_event sha))"
  unfolding s_body_def using s_readable by (rule parse_body_dumps)

lemma s_ascii: "is_ascii (gitlab_webhook_token (cfg s_env))"
  by (simp add: is_ascii_def) (simp add: u_def)

lemma s_delivered:
  assumes "consistent d" and "webhooks d = []" and "sha \<in> s_shas"
  shows "\<exists>d'. s_deliver d (s_chunks sha) = (Inr (webhook_view False), d')"
proof (rule webhook_completes [OF assms(1) _ _ _ s_parsed [OF assms(3)] object_attributes_dict s_hook])
  show "webhook_authorized s_env (Some (gitlab_webhook_token (cfg s_env))) = Inr ()"
    using s_ascii by (simp add: webhook_authorized_Inr)
  show "read_stream (max_webhook_bytes (cfg s_env)) [] (s_chunks sha) = Inr (s_body sha)"
    using s_body_size [OF assms(3)] by (subst read_stream_within) simp_all
qed (simp_all add: assms(2) s_attributes_lookup)

lemmas demo_consistent = reachable_consistent [OF worlds_reachable(2)]

lemma s_demo_delivered: "\<exists>d'. s_deliver (w_db w_demo) (s_chunks (u ''0000000'')) = (Inr (webhook_view False), d')"
  using demo_rows by (intro s_delivered [OF demo_consistent]) (simp_all add: s_shas_def)

lemma webhook_accepts_witness:
  "db_ok (w_db w_demo) \<and>
   (\<exists>d'. s_deliver (w_db w_demo) (s_chunks (u ''0000000'')) = (Inr (webhook_view False), d') \<and> db_ok d' \<and>
     (\<exists>row. webhooks d' = webhooks (w_db w_demo) @ [row] \<and>
        wh_payload_hash row = sha256_hex (s_body (u ''0000000''))))"
proof -
  obtain d' where d': "s_deliver (w_db w_demo) (s_chunks (u ''0000000'')) = (Inr (webhook_view False), d')"
    using s_demo_delivered by blast
  from webhook_accepts [OF worlds_ok(2) d'] d' worlds_ok(2) show ?thesis by (simp add: demo_rows)
qed

lemma webhook_idempotent_witness:
  "\<exists>d'. s_deliver (w_db w_demo) (s_chunks (u ''0000000'')) = (Inr (webhook_view False), d') \<and>
     s_deliver d' [s_body (u ''0000000'')] = (Inr (webhook_view True), d')"
proof -
  obtain d' where d': "s_deliver (w_db w_demo) (s_chunks (u ''0000000'')) = (Inr (webhook_view False), d')"
    using s_demo_delivered by blast
  from webhook_idempotent [OF worlds_ok(2) d' refl, of "[s_body (u ''0000000'')]"] d' show ?thesis by auto
qed

lemma webhook_verifies_commit_witness:
  "\<exists>d'. s_deliver (w_db w_demo) (s_chunks (u ''0000000'')) = (Inr (webhook_view False), d') \<and>
     map ep_pipeline_status (epochs d') = [u ''sha_mismatch'']"
proof -
  obtain d' where d': "s_deliver (w_db w_demo) (s_chunks (u ''0000000'')) = (Inr (webhook_view False), d')"
    using s_demo_delivered by blast
  have "u ''0000000'' \<noteq> ep_commit_sha s_epoch"
    by (simp add: s_epoch_def new_epoch_def demo_payload_def)
  then show ?thesis
    using webhook_verifies_commit [OF worlds_ok(2) d' s_hook] d' s_parsed [of "u ''0000000''"]
    by (auto simp: s_shas_def demo_rows object_attributes_dict attr_text_dict s_attributes_lookup)
qed

lemma webhook_delivers_witness:
  "\<exists>d'. s_deliver (w_db w_created) (s_chunks (commit_sha demo_payload)) = (Inr (webhook_view False), d') \<and>
     map ep_pipeline_status (epochs d') = [u ''success'']"
proof -
  let ?sha = "commit_sha demo_payload"
  have sha: "?sha \<in> s_shas" by (simp add: s_shas_def)
  have body: "concat (s_chunks ?sha) = utf8 (json_dumps (JObj (s_event ?sha)))" by (simp add: s_body_def)
  show ?thesis
    using webhook_delivers [OF reachable_consistent [OF created_reachable] s_ascii s_hook body
        s_readable [OF sha] s_body_size [OF sha] _ s_attributes_lookup(4,1,2,3)]
    by (simp add: created_rows s_attributes_lookup(5) del: json_dumps.simps)
qed

lemma pipeline_success_verified_witness:
  "\<exists>w. w = snd (handle s_env None
        (GitlabWebhook (Some (u ''local-demo-token'')) s_event_header (s_chunks (commit_sha demo_payload))) w_created) \<and>
     (\<exists>e. e \<in> set (epochs (w_db w)) \<and> ep_pipeline_status e = u ''success'' \<and>
        parse_body s_env (s_body (commit_sha demo_payload)) = Inr (JObj (s_event (commit_sha demo_payload))) \<and>
        ep_commit_sha e = commit_sha demo_payload)"
proof -
  let ?sha = "commit_sha demo_payload"
  let ?rt = "GitlabWebhook (Some (u ''local-demo-token'')) s_event_header (s_chunks ?sha)"
  let ?w = "snd (handle s_env None ?rt w_created)"
  have sha: "?sha \<in> s_shas" by (simp add: s_shas_def)
  obtain d' where d': "s_deliver (w_db w_created) (s_chunks ?sha) = (Inr (webhook_view False), d')"
    using s_delivered [OF reachable_consistent [OF created_reachable] _ sha] created_rows by blast
  have ok: "db_ok (w_db w_created)" using reachable_consistent [OF created_reachable] by simp
  have "epochs d' = [pipeline_row s_time (u ''success'') ?sha s_pending]"
    using gitlab_webhook_pipeline [OF ok d' s_hook] s_parsed [OF sha] created_rows
    by (auto simp: object_attributes_dict attr_text_dict s_attributes_lookup)
  then obtain e where e: "e \<in> set (epochs (w_db ?w))" "ep_pipeline_status e = u ''success''"
    using d' by (simp add: on_db_def pipeline_row_def verified_status_def)
  have "ep_id e \<notin> ep_id ` {r \<in> set (epochs (w_db w_created)). ep_pipeline_status r = u ''success''}"
    using created_rows by auto
  from pipeline_success_verified [OF ok _ e this] s_parsed [OF sha]
  have "ep_commit_sha e = ?sha"
    by (auto simp: object_attributes_dict attr_text_dict s_attributes_lookup)
  with e s_parsed [OF sha] show ?thesis by blast
qed

section \<open>Evidence\<close>

definition s_file :: upload_file where
  "s_file = \<lparr>up_filename = Some (u ''../../etc/passwd''), up_content_type = None, up_content = [1, 2, 3]\<rparr>"

lemma evidence_confined_witness:
  "path_word (ep_id s_epoch) \<and>
   (\<exists>last. ev_storage_path (new_evidence s_env (w_db w_demo) s_epoch (u ''sbom'') s_file [1, 2, 3]) =
      path_str (path_root (upload_dir (cfg s_env))) (path_parts (upload_dir (cfg s_env)) @ [ep_id s_epoch, last]) \<and>
      path_word last)"
proof -
  have "path_word (ep_id s_epoch)" by (simp add: path_word_def) (simp add: u_def)
  with evidence_confined [OF this, of s_env "w_db w_demo" "u ''sbom''" s_file "[1, 2, 3]"] show ?thesis by blast
qed

section \<open>Reachable worlds\<close>

lemma epochs_immutable_witness:
  "reachable trusted_client w_granted \<and> trusted_client (w_db w_granted) s_env \<and>
   release_of s_approved \<in> set (map release_of (epochs (w_db w_executed))) \<and>
   ep_fingerprint (s_approved\<lparr>ep_state := u ''EXECUTED''\<rparr>) =
     fingerprint (epoch_identity (s_approved\<lparr>ep_state := u ''EXECUTED''\<rparr>))"
proof -
  have "s_approved \<in> set (epochs (w_db w_granted))" using granted_rows by simp
  then have "release_of s_approved \<in> set (map release_of (epochs (w_db w_granted)) @ new)" for new by simp
  moreover have "s_execute \<noteq> DemoBootstrap" by simp
  ultimately have "release_of s_approved \<in> set (map release_of (epochs (w_db w_executed)))"
    using epochs_immutable [OF worlds_reachable(4) s_trusted w_executed_def] by (metis (no_types))
  then show ?thesis
    using epochs_immutable [OF worlds_reachable(4) s_trusted w_executed_def] worlds_reachable(4) s_trusted s_after by blast
qed

lemma only_approved_releases_run_witness:
  "reachable trusted_client w_executed \<and> s_receipt \<in> set (receipts (w_db w_executed)) \<and>
   (\<exists>e \<in> set (epochs (w_db w_executed)). ep_id e = rc_epoch_id s_receipt \<and>
      rc_observed_fingerprint s_receipt = fingerprint (epoch_identity e))"
proof -
  have r: "s_receipt \<in> set (receipts (w_db w_executed))" using executed_rows by simp
  from only_approved_releases_run [OF worlds_reachable(5) r] r worlds_reachable(5) show ?thesis by auto
qed

lemma grants_follow_policy_witness:
  "reachable trusted_client w_executed \<and> s_grant \<in> set (grants (w_db w_executed)) \<and>
   (\<exists>e \<in> set (epochs (w_db w_executed)). cg_fingerprint s_grant = fingerprint (epoch_identity e))"
proof -
  have g: "s_grant \<in> set (grants (w_db w_executed))" using executed_rows by simp
  from grants_follow_policy [OF worlds_reachable(5) g] g worlds_reachable(5) show ?thesis by blast
qed

lemma states_have_reasons_witness:
  "reachable trusted_client w_executed \<and> s_approved\<lparr>ep_state := u ''EXECUTED''\<rparr> \<in> set (epochs (w_db w_executed)) \<and>
   (\<exists>r \<in> set (receipts (w_db w_executed)). rc_epoch_id r = u ''id-0'' \<and> rc_outcome r = u ''EXECUTED'')"
  using states_have_reasons [OF worlds_reachable(5) s_after] worlds_reachable(5) s_after by simp

section \<open>Requests\<close>

lemma routes_gated_witness:
  "gate s_env (w_db w_start) None DemoBootstrap = Some (Inl (HTTPException 401 msg_no_bearer)) \<and>
   handle s_env None DemoBootstrap w_start = (Inl (HTTPException 401 msg_no_bearer), w_start)"
proof -
  have "gate s_env (w_db w_start) None DemoBootstrap = Some (Inl (HTTPException 401 msg_no_bearer))"
    by (simp add: require_role_def current_user_def)
  with routes_gated [OF this] show ?thesis by blast
qed

lemma approvals_need_approver_witness:
  "s_approval \<in> set (approvals (w_db (snd (handle s_env s_creds (Approve (u ''id-0'')) w_demo)))) \<and>
   s_approval \<notin> set (approvals (w_db w_demo)) \<and>
   (\<exists>user. current_user s_env (w_db w_demo) s_creds = Inr user \<and>
      us_role user \<in> {u ''approver'', u ''admin''} \<and> ap_approver s_approval = us_username user)"
proof -
  have new: "s_approval \<in> set (approvals (w_db (snd (handle s_env s_creds (Approve (u ''id-0'')) w_demo))))"
    "s_approval \<notin> set (approvals (w_db w_demo))"
    using approved_rows demo_rows unfolding w_approved_def by simp_all
  from approvals_need_approver [OF new] new show ?thesis by blast
qed

lemma history_append_only_witness:
  "s_execute \<noteq> DemoBootstrap \<and> history_kept (w_db w_granted) (w_db w_executed)"
  using history_append_only [of s_execute w_granted s_env s_creds] unfolding w_executed_def by simp

text \<open>An upload to a disk that is full after one byte.\<close>

definition s_full_disk :: env where
  "s_full_disk = s_env\<lparr>fs_write := (\<lambda>_. CutOff 1)\<rparr>"

abbreviation s_upload :: route where
  "s_upload \<equiv> UploadEvidence (u ''id-0'') (Some (u ''sbom'')) (Some s_file)"

lemma errors_change_nothing_witness:
  "db_ok (w_db w_demo) \<and> fst (handle s_full_disk s_creds s_upload w_demo) = Inl OSError \<and>
   w_db (snd (handle s_full_disk s_creds s_upload w_demo)) = w_db w_demo"
proof -
  have role: "require_role s_full_disk (w_db w_demo) s_creds [''operator'', ''admin''] = Inr s_admin"
    using s_role [of "w_db w_demo" "[''operator'', ''admin'']"] demo_rows
    by (simp add: s_full_disk_def require_role_def current_user_def)
  have "s_epoch \<in> set (epochs (w_db w_demo))" using demo_rows by simp
  from evidence_stored [OF worlds_ok(2) this refl, where E = s_full_disk and fs = "w_files w_demo" and k = "u ''sbom''" and f = s_file]
  obtain d' fs' where saved: "save_evidence s_full_disk (w_db w_demo) (w_files w_demo) s_epoch (u ''sbom'') s_file = (Inl OSError, d', fs')"
    by (simp add: s_full_disk_def s_file_def)
  have h: "fst (handle s_full_disk s_creds s_upload w_demo) = Inl OSError"
    using role demo_rows by (simp add: upload_evidence_def epoch_or_404_def get_epoch_def Let_def saved)
  then have "handle s_full_disk s_creds s_upload w_demo = (Inl OSError, snd (handle s_full_disk s_creds s_upload w_demo))"
    by (metis prod.collapse)
  from errors_change_nothing [OF worlds_ok(2) this] h worlds_ok(2) show ?thesis by simp
qed

section \<open>Several requests on one epoch\<close>

lemma stale_execution_repeats_witness:
  "may_execute (w_db w_granted) s_approved None \<and>
   (\<exists>r1 r2 ds1 ds2 d1 d2.
      execute_epoch s_env (w_db w_granted) s_approved (u ''run-0001'') None = (Inr (r1, ds1), d1) \<and>
      execute_epoch s_env d1 s_approved (u ''run-0002'') None = (Inr (r2, ds2), d2) \<and>
      rc_outcome r1 = u ''EXECUTED'' \<and> rc_outcome r2 = u ''EXECUTED'')"
  using stale_execution_repeats [OF worlds_ok(4) s_member(1) s_bound s_mode s_mode s_member(2) s_target_key
      s_key s_key, of "u ''run-0001''" "u ''run-0002''"] s_bound [of None] by simp blast

lemma approval_reopens_witness:
  "\<exists>d e. e \<in> set (epochs d) \<and> ep_state e = u ''EXECUTED'' \<and> \<not> may_execute d e None \<and>
     (\<exists>a e1 d'. approve_epoch s_env d e (u ''approver'') = (Inr (a, e1), d') \<and>
        (\<exists>e' \<in> set (epochs d'). ep_id e' = ep_id e \<and> may_execute d' e' None))"
proof -
  let ?e = "s_epoch\<lparr>ep_state := u ''EXECUTED''\<rparr>"
  let ?d = "(w_db w_demo)\<lparr>epochs := [?e]\<rparr>"
  have "db_ok ?d" using worlds_ok(2) demo_rows by (simp add: db_ok_defs)
  from approval_reopens [OF this, of ?e None s_env "u ''approver''"] demo_rows
  show ?thesis by (intro exI [of _ ?d] exI [of _ ?e]) auto
qed

lemma agent_path_completes_witness:
  "may_grant (w_db w_approved) s_approved s_change \<and>
   (\<exists>g token d1 r ds d2.
      issue_execution_capability s_env (w_db w_approved) s_approved (u ''admin'') 300 = (Inr (g, token), d1) \<and>
      execute_agent_epoch s_env d1 s_approved (u ''run-0004'') token = (Inr (r, ds), d2) \<and>
      rc_outcome r = u ''EXECUTED'')"
proof -
  have "s_approved \<in> set (epochs (w_db w_approved))" "s_target \<in> set (targets (w_db w_approved))"
    "uuid4 s_env 0 \<notin> set (map cg_id (grants (w_db w_approved)))" "uuid4 s_env 0 \<noteq> []"
    "(ep_id s_approved, u ''run-0004'') \<notin> receipt_key ` set (receipts (w_db w_approved))"
    using approved_rows by simp_all
  note * = this
  have "jwt_returns_claims (jwt s_env) (capability_payload (agent_scope s_approved s_change) (uuid4 s_env 0)
      (clock s_env 1) (clock s_env 1 + 300 * 1000000)) (capability_secret (cfg s_env)) (clock s_env n)" for n
    using s_pyjwt by (simp add: s_times)
  note ** = agent_path_completes [OF worlds_ok(3) *(1) s_may_grant *(3,4,2) s_target_key *(5) refl refl s_mode this]
  have "clock s_env n < (clock s_env 1 + 300 * 1000000) div 1000000 * 1000000" for n
    using s_times by simp
  from ** [OF _ this, of "u ''admin''"] s_may_grant show ?thesis by simp blast
qed

section \<open>The board of tickets\<close>

lemma s_ticket: "ticket_of (w_db w_granted) s_approved =
    \<lparr>tk_fingerprint = fingerprint (epoch_identity s_epoch), tk_phase = Approved, tk_approved = True, tk_runs = 0\<rparr>"
  using granted_rows by (simp add: ticket_of_def epoch_receipts_def)

lemma requests_refine_board_witness:
  "board_steps (board_of (w_db w_granted)) (board_of (w_db w_executed)) \<and>
   board_of (w_db w_granted) \<noteq> board_of (w_db w_executed)"
proof -
  have "s_execute \<noteq> DemoBootstrap" by simp
  with requests_refine_board [OF worlds_reachable(4) s_trusted, of s_creds s_execute]
  have "board_steps (board_of (w_db w_granted)) (board_of (w_db w_executed))"
    unfolding w_executed_def by blast
  moreover have "board_of (w_db w_granted) (u ''id-0'') \<noteq> board_of (w_db w_executed) (u ''id-0'')"
    using granted_rows executed_rows by (simp add: board_of_def get_epoch_def ticket_of_def)
  ultimately show ?thesis by metis
qed

lemma executions_bounded_witness:
  "reachable trusted_client w_executed \<and> s_approved\<lparr>ep_state := u ''EXECUTED''\<rparr> \<in> set (epochs (w_db w_executed)) \<and>
   length (filter (\<lambda>r. rc_epoch_id r = u ''id-0'') (receipts (w_db w_executed))) = 1"
  using executions_bounded [OF worlds_reachable(5) s_after] worlds_reachable(5) s_after executed_rows by simp

lemma epoch_life_ends_witness:
  "remaining (ticket_of (w_db w_granted) s_approved) = 1 \<and>
   (\<exists>e \<in> set (epochs (w_db w_executed)). ep_id e = u ''id-0'' \<and>
      (ticket_of (w_db w_executed) e = ticket_of (w_db w_granted) s_approved \<or>
       remaining (ticket_of (w_db w_executed) e) < 1))"
proof -
  have r: "remaining (ticket_of (w_db w_granted) s_approved) = 1" by (simp add: s_ticket remaining_def)
  from epoch_life_ends [OF worlds_reachable(4) s_trusted _ s_member(1), of s_execute s_creds] r
  show ?thesis unfolding w_executed_def [symmetric] by simp blast
qed

end
