(* ===== verification/Grpc_Stub.thy ===== *)
theory Grpc_Stub
  imports Environment
begin

text \<open>
  \<open>orchestrator/app/gen/executor_pb2_grpc.py\<close>, the code that the protocol compiler generates for the
  service of \<open>proto/executor.proto\<close> and that \<open>executor_client.py\<close> calls: the stub, the base class of a
  servicer, its registration with a server, and the class of single calls.

  Below it lie grpc and the message classes of \<open>executor_pb2\<close>. A message class is a serializer and a
  parser; a channel sends bytes to a method, given by its path, and gives the bytes of the answer or
  an error.
\<close>

section \<open>Messages and channels\<close>

record 'm message_class =
  SerializeToString :: "'m \<Rightarrow> bytes"
  FromString :: "bytes \<Rightarrow> 'm option"

type_synonym pb_execute_request = "pb_identity option \<times> pb_context option"

record executor_pb2 =
  HealthRequest_pb :: "unit message_class"
  HealthResponse_pb :: "pb_health_response message_class"
  ObserveRequest_pb :: "pb_identity option message_class"
  ObserveResponse_pb :: "ustr message_class"
  ExecuteRequest_pb :: "pb_execute_request message_class"
  ExecuteResponse_pb :: "pb_execute_response message_class"

type_synonym metadata = "(ustr \<times> ustr) list"

text \<open>The details of the error when an answer cannot be parsed are grpc's own.\<close>

record grpc_channel =
  ch_send :: "ustr \<Rightarrow> bytes \<Rightarrow> metadata \<Rightarrow> bytes rpc_result"
  ch_parse_details :: ustr

section \<open>The version check at the import\<close>

definition grpc_generated_version :: ustr where
  "grpc_generated_version = u ''1.84.0''"

text \<open>
  \<open>first_version_is_lower\<close> is None when grpc has no such function. The result is the message of the
  RuntimeError, or a successful import.
\<close>

definition import_executor_pb2_grpc :: "ustr \<Rightarrow> (ustr \<Rightarrow> ustr \<Rightarrow> bool) option \<Rightarrow> ustr + unit" where
  "import_executor_pb2_grpc grpc_version first_version_is_lower =
    (let version_not_supported =
       (case first_version_is_lower of
          Some lower \<Rightarrow> lower grpc_version grpc_generated_version
        | None \<Rightarrow> True)
     in if version_not_supported then
          Inl (u ''The grpc package installed is at version '' @ grpc_version @ u '','' @
               u '' but the generated code in executor_pb2_grpc.py depends on'' @
               u '' grpcio>='' @ grpc_generated_version @ u ''.'' @
               u '' Please upgrade your grpc module to grpcio>='' @ grpc_generated_version @
               u '' or downgrade your generated code using grpcio-tools<='' @ grpc_version @ u ''.'')
        else Inr ())"

section \<open>The stub\<close>

record ('q, 'r) multi_callable =
  mc_channel :: grpc_channel
  mc_method :: ustr
  mc_request_serializer :: "'q \<Rightarrow> bytes"
  mc_response_deserializer :: "bytes \<Rightarrow> 'r option"
  mc_registered_method :: bool

text \<open>\<open>channel.unary_unary\<close>, and the call of what it returns: an answer that cannot be parsed is INTERNAL.\<close>

definition unary_unary ::
  "grpc_channel \<Rightarrow> ustr \<Rightarrow> ('q \<Rightarrow> bytes) \<Rightarrow> (bytes \<Rightarrow> 'r option) \<Rightarrow> bool \<Rightarrow> ('q, 'r) multi_callable" where
  "unary_unary channel path serializer deserializer registered =
     \<lparr>mc_channel = channel, mc_method = path, mc_request_serializer = serializer,
      mc_response_deserializer = deserializer, mc_registered_method = registered\<rparr>"

definition stub_call :: "('q, 'r) multi_callable \<Rightarrow> 'q \<Rightarrow> metadata \<Rightarrow> 'r rpc_result" where
  "stub_call c request md =
    (case ch_send (mc_channel c) (mc_method c) (mc_request_serializer c request) md of
       RpcError code details \<Rightarrow> RpcError code details
     | RpcOk answer \<Rightarrow>
         (case mc_response_deserializer c answer of
            None \<Rightarrow> RpcError (u ''INTERNAL'') (ch_parse_details (mc_channel c))
          | Some response \<Rightarrow> RpcOk response))"

record executor_stub =
  stub_Health :: "(unit, pb_health_response) multi_callable"
  stub_Observe :: "(pb_identity option, ustr) multi_callable"
  stub_Execute :: "(pb_execute_request, pb_execute_response) multi_callable"

definition ExecutorStub :: "executor_pb2 \<Rightarrow> grpc_channel \<Rightarrow> executor_stub" where
  "ExecutorStub pb2 channel =
     \<lparr>stub_Health = unary_unary channel
        (u ''/epochdeploy.executor.v1.Executor/Health'')
        (SerializeToString (HealthRequest_pb pb2))
        (FromString (HealthResponse_pb pb2))
        True,
      stub_Observe = unary_unary channel
        (u ''/epochdeploy.executor.v1.Executor/Observe'')
        (SerializeToString (ObserveRequest_pb pb2))
        (FromString (ObserveResponse_pb pb2))
        True,
      stub_Execute = unary_unary channel
        (u ''/epochdeploy.executor.v1.Executor/Execute'')
        (SerializeToString (ExecuteRequest_pb pb2))
        (FromString (ExecuteResponse_pb pb2))
        True\<rparr>"

section \<open>The servicer\<close>

text \<open>A method of a servicer sets the status on the context of its call, and returns or raises.\<close>

datatype 'r handled = Returned 'r | Raised ustr

record servicer_context =
  sc_code :: "ustr option"
  sc_details :: "ustr option"

type_synonym ('q, 'r) behavior = "'q \<Rightarrow> servicer_context \<Rightarrow> 'r handled \<times> servicer_context"

record executor_servicer =
  sv_Health :: "(unit, pb_health_response) behavior"
  sv_Observe :: "(pb_identity option, ustr) behavior"
  sv_Execute :: "(pb_execute_request, pb_execute_response) behavior"

definition not_implemented :: "('q, 'r) behavior" where
  "not_implemented request context =
     (Raised (u ''Method not implemented!''),
      context\<lparr>sc_code := Some (u ''UNIMPLEMENTED''), sc_details := Some (u ''Method not implemented!'')\<rparr>)"

definition ExecutorServicer :: executor_servicer where
  "ExecutorServicer =
     \<lparr>sv_Health = not_implemented, sv_Observe = not_implemented, sv_Execute = not_implemented\<rparr>"

section \<open>Registration\<close>

text \<open>
  \<open>grpc.unary_unary_rpc_method_handler\<close>: the behaviour between its parser and its serializer. The
  result is None for a request that cannot be parsed.
\<close>

type_synonym rpc_method_handler = "bytes \<Rightarrow> servicer_context \<Rightarrow> (bytes handled \<times> servicer_context) option"

definition unary_unary_rpc_method_handler ::
  "('q, 'r) behavior \<Rightarrow> (bytes \<Rightarrow> 'q option) \<Rightarrow> ('r \<Rightarrow> bytes) \<Rightarrow> rpc_method_handler" where
  "unary_unary_rpc_method_handler behavior deserializer serializer body context =
     map_option (\<lambda>request. apfst (map_handled serializer) (behavior request context)) (deserializer body)"

type_synonym method_handlers = "(ustr \<times> rpc_method_handler) list"

record grpc_server =
  gs_generic :: "(ustr \<times> method_handlers) list"
  gs_registered :: "(ustr \<times> method_handlers) list"

definition add_ExecutorServicer_to_server ::
  "executor_pb2 \<Rightarrow> executor_servicer \<Rightarrow> grpc_server \<Rightarrow> grpc_server" where
  "add_ExecutorServicer_to_server pb2 servicer server =
    (let rpc_method_handlers =
       [(u ''Health'', unary_unary_rpc_method_handler
           (sv_Health servicer)
           (FromString (HealthRequest_pb pb2))
           (SerializeToString (HealthResponse_pb pb2))),
        (u ''Observe'', unary_unary_rpc_method_handler
           (sv_Observe servicer)
           (FromString (ObserveRequest_pb pb2))
           (SerializeToString (ObserveResponse_pb pb2))),
        (u ''Execute'', unary_unary_rpc_method_handler
           (sv_Execute servicer)
           (FromString (ExecuteRequest_pb pb2))
           (SerializeToString (ExecuteResponse_pb pb2)))];
       generic_handler = (u ''epochdeploy.executor.v1.Executor'', rpc_method_handlers)
     in server\<lparr>gs_generic := gs_generic server @ [generic_handler],
               gs_registered := gs_registered server @
                 [(u ''epochdeploy.executor.v1.Executor'', rpc_method_handlers)]\<rparr>)"

section \<open>Single calls\<close>

text \<open>
  The keyword arguments of the static methods with their defaults; the credentials and the compression
  are opaque. \<open>grpc.experimental.unary_unary\<close>, with its positional arguments, is a parameter.
\<close>

record ('c, 'a, 'z) call_args =
  ca_options :: "(ustr \<times> ustr) list"
  ca_channel_credentials :: "'c option"
  ca_call_credentials :: "'a option"
  ca_insecure :: bool
  ca_compression :: "'z option"
  ca_wait_for_ready :: "bool option"
  ca_timeout :: "int option"
  ca_metadata :: "metadata option"

definition default_args :: "('c, 'a, 'z) call_args" where
  "default_args = \<lparr>ca_options = [], ca_channel_credentials = None, ca_call_credentials = None,
     ca_insecure = False, ca_compression = None, ca_wait_for_ready = None, ca_timeout = None,
     ca_metadata = None\<rparr>"

type_synonym ('q, 'r, 'c, 'a, 'z) single_call =
  "'q \<Rightarrow> ustr \<Rightarrow> ustr \<Rightarrow> ('q \<Rightarrow> bytes) \<Rightarrow> (bytes \<Rightarrow> 'r option) \<Rightarrow> (ustr \<times> ustr) list \<Rightarrow> 'c option \<Rightarrow>
   bool \<Rightarrow> 'a option \<Rightarrow> 'z option \<Rightarrow> bool option \<Rightarrow> int option \<Rightarrow> metadata option \<Rightarrow> bool \<Rightarrow> 'r rpc_result"

definition Executor_Health ::
  "(unit, pb_health_response, 'c, 'a, 'z) single_call \<Rightarrow> executor_pb2 \<Rightarrow> unit \<Rightarrow> ustr \<Rightarrow>
   ('c, 'a, 'z) call_args \<Rightarrow> pb_health_response rpc_result" where
  "Executor_Health experimental_unary_unary pb2 request target a =
     experimental_unary_unary
       request
       target
       (u ''/epochdeploy.executor.v1.Executor/Health'')
       (SerializeToString (HealthRequest_pb pb2))
       (FromString (HealthResponse_pb pb2))
       (ca_options a)
       (ca_channel_credentials a)
       (ca_insecure a)
       (ca_call_credentials a)
       (ca_compression a)
       (ca_wait_for_ready a)
       (ca_timeout a)
       (ca_metadata a)
       True"

definition Executor_Observe ::
  "(pb_identity option, ustr, 'c, 'a, 'z) single_call \<Rightarrow> executor_pb2 \<Rightarrow> pb_identity option \<Rightarrow> ustr \<Rightarrow>
   ('c, 'a, 'z) call_args \<Rightarrow> ustr rpc_result" where
  "Executor_Observe experimental_unary_unary pb2 request target a =
     experimental_unary_unary
       request
       target
       (u ''/epochdeploy.executor.v1.Executor/Observe'')
       (SerializeToString (ObserveRequest_pb pb2))
       (FromString (ObserveResponse_pb pb2))
       (ca_options a)
       (ca_channel_credentials a)
       (ca_insecure a)
       (ca_call_credentials a)
       (ca_compression a)
       (ca_wait_for_ready a)
       (ca_timeout a)
       (ca_metadata a)
       True"

definition Executor_Execute ::
  "(pb_execute_request, pb_execute_response, 'c, 'a, 'z) single_call \<Rightarrow> executor_pb2 \<Rightarrow>
   pb_execute_request \<Rightarrow> ustr \<Rightarrow> ('c, 'a, 'z) call_args \<Rightarrow> pb_execute_response rpc_result" where
  "Executor_Execute experimental_unary_unary pb2 request target a =
     experimental_unary_unary
       request
       target
       (u ''/epochdeploy.executor.v1.Executor/Execute'')
       (SerializeToString (ExecuteRequest_pb pb2))
       (FromString (ExecuteResponse_pb pb2))
       (ca_options a)
       (ca_channel_credentials a)
       (ca_insecure a)
       (ca_call_credentials a)
       (ca_compression a)
       (ca_wait_for_ready a)
       (ca_timeout a)
       (ca_metadata a)
       True"

section \<open>Names and paths\<close>

text \<open>
  A method is called by its path: a slash, the service, a slash, the method. A server looks a path up
  in the handlers that were added to it.
\<close>

definition rpc_path :: "ustr \<Rightarrow> ustr \<Rightarrow> ustr" where
  "rpc_path service name = [47] @ service @ [47] @ name"

lemma rpc_path_eq [simp]: "rpc_path service a = rpc_path service b \<longleftrightarrow> a = b"
  by (simp add: rpc_path_def)

definition handler_for :: "(ustr \<times> method_handlers) list \<Rightarrow> ustr \<Rightarrow> rpc_method_handler option" where
  "handler_for table path =
     map_of (concat (map (\<lambda>(service, hs). map (\<lambda>(name, h). (rpc_path service name, h)) hs) table)) path"

lemma stub_method_paths:
  "mc_method (stub_Health (ExecutorStub P ch)) = rpc_path (u ''epochdeploy.executor.v1.Executor'') (u ''Health'')"
  "mc_method (stub_Observe (ExecutorStub P ch)) = rpc_path (u ''epochdeploy.executor.v1.Executor'') (u ''Observe'')"
  "mc_method (stub_Execute (ExecutorStub P ch)) = rpc_path (u ''epochdeploy.executor.v1.Executor'') (u ''Execute'')"
  by (simp_all add: ExecutorStub_def unary_unary_def rpc_path_def u_def)

lemma stub_serializers:
  "mc_request_serializer (stub_Health (ExecutorStub P ch)) = SerializeToString (HealthRequest_pb P)"
  "mc_response_deserializer (stub_Health (ExecutorStub P ch)) = FromString (HealthResponse_pb P)"
  "mc_request_serializer (stub_Observe (ExecutorStub P ch)) = SerializeToString (ObserveRequest_pb P)"
  "mc_response_deserializer (stub_Observe (ExecutorStub P ch)) = FromString (ObserveResponse_pb P)"
  "mc_request_serializer (stub_Execute (ExecutorStub P ch)) = SerializeToString (ExecuteRequest_pb P)"
  "mc_response_deserializer (stub_Execute (ExecutorStub P ch)) = FromString (ExecuteResponse_pb P)"
  by (simp_all add: ExecutorStub_def unary_unary_def)

text \<open>What one side serializes, the other side parses.\<close>

definition read_as :: "'m message_class \<Rightarrow> 'm message_class \<Rightarrow> bool" where
  "read_as a b \<longleftrightarrow> (\<forall>m. FromString b (SerializeToString a m) = Some m)"

lemma handler_reads:
  "read_as a a \<Longrightarrow> unary_unary_rpc_method_handler f (FromString a) g (SerializeToString a m) context =
    Some (apfst (map_handled g) (f m context))"
  by (simp add: unary_unary_rpc_method_handler_def read_as_def)

text \<open>
  A servicer that is added to a fresh server gets the calls of the stub, each method those of its own
  name, with the message that was sent. The base class refuses all three.
\<close>

lemma servicer_called:
  fixes server P servicer channel
  defines "table \<equiv> gs_registered (add_ExecutorServicer_to_server P servicer server)"
    and "stub \<equiv> ExecutorStub P channel"
  assumes "gs_registered server = []" and "read_as (HealthRequest_pb P) (HealthRequest_pb P)"
    and "read_as (ObserveRequest_pb P) (ObserveRequest_pb P)" and "read_as (ExecuteRequest_pb P) (ExecuteRequest_pb P)"
  shows "\<exists>h. handler_for table (mc_method (stub_Health stub)) = Some h \<and>
      (\<forall>m c. h (mc_request_serializer (stub_Health stub) m) c =
        Some (apfst (map_handled (SerializeToString (HealthResponse_pb P))) (sv_Health servicer m c)))"
    and "\<exists>h. handler_for table (mc_method (stub_Observe stub)) = Some h \<and>
      (\<forall>m c. h (mc_request_serializer (stub_Observe stub) m) c =
        Some (apfst (map_handled (SerializeToString (ObserveResponse_pb P))) (sv_Observe servicer m c)))"
    and "\<exists>h. handler_for table (mc_method (stub_Execute stub)) = Some h \<and>
      (\<forall>m c. h (mc_request_serializer (stub_Execute stub) m) c =
        Some (apfst (map_handled (SerializeToString (ExecuteResponse_pb P))) (sv_Execute servicer m c)))"
  using assms(4-6)
  by (simp_all add: table_def stub_def handler_for_def stub_method_paths add_ExecutorServicer_to_server_def
      Let_def assms(3) stub_serializers handler_reads)

lemma base_servicer_refuses:
  "sv_Health ExecutorServicer = not_implemented \<and> sv_Observe ExecutorServicer = not_implemented \<and>
   sv_Execute ExecutorServicer = not_implemented"
  by (simp add: ExecutorServicer_def)

text \<open>
  A single call is the call of the stub on a channel of its own, when the experimental function of grpc
  is what its documentation says: it opens a channel to the target, calls, and closes it.
\<close>

definition opens_channel :: "('q, 'r, 'c, 'a, 'z) single_call \<Rightarrow> (ustr \<Rightarrow> grpc_channel) \<Rightarrow> bool" where
  "opens_channel call_once connect \<longleftrightarrow>
     (\<forall>request target path ser deser options cred insecure call_cred compression wait timeout md reg.
        call_once request target path ser deser options cred insecure call_cred compression wait timeout md reg =
        stub_call (unary_unary (connect target) path ser deser reg) request (case md of None \<Rightarrow> [] | Some m \<Rightarrow> m))"

lemma opens_channelD:
  "opens_channel call_once connect \<Longrightarrow>
    call_once request target path ser deser options cred insecure call_cred compression wait timeout md reg =
      stub_call (unary_unary (connect target) path ser deser reg) request (case md of None \<Rightarrow> [] | Some m \<Rightarrow> m)"
  unfolding opens_channel_def by blast

lemma single_calls:
  "opens_channel once_h connect \<Longrightarrow> Executor_Health once_h P q target a =
    stub_call (stub_Health (ExecutorStub P (connect target))) q (case ca_metadata a of None \<Rightarrow> [] | Some m \<Rightarrow> m)"
  "opens_channel once_o connect \<Longrightarrow> Executor_Observe once_o P i target a =
    stub_call (stub_Observe (ExecutorStub P (connect target))) i (case ca_metadata a of None \<Rightarrow> [] | Some m \<Rightarrow> m)"
  "opens_channel once_x connect \<Longrightarrow> Executor_Execute once_x P m target a =
    stub_call (stub_Execute (ExecutorStub P (connect target))) m (case ca_metadata a of None \<Rightarrow> [] | Some m \<Rightarrow> m)"
  by (simp_all only: opens_channelD Executor_Health_def Executor_Observe_def Executor_Execute_def
      ExecutorStub_def executor_stub.simps)

end
