(* ===== verification/Go_Lib.thy ===== *)
theory Go_Lib
  imports Json_Read Sha256
begin

text \<open>
  The functions of Go's standard library (Go 1.23) that the executors use. A Go \<open>string\<close> that holds
  valid UTF-8 is the list of its code points, like a Python \<open>str\<close>; everything that reads bytes from the
  outside (\<open>encoding/json\<close>, \<open>encoding/base64\<close>) is written on bytes.
\<close>

section \<open>strings and strconv\<close>

text \<open>\<open>strings.TrimSpace\<close>: the white space of Unicode, which is what Rust's \<open>trim\<close> removes.\<close>

definition trim_space :: "ustr \<Rightarrow> ustr" where
  "trim_space s = strip_by is_rust_space s"

text \<open>\<open>strings.Split\<close> at a character.\<close>

definition go_split :: "nat \<Rightarrow> ustr \<Rightarrow> ustr list" where
  "go_split c s = split_char c (length s) s"

text \<open>\<open>strconv.ParseInt(s, 10, 64)\<close>: a sign, decimal digits, and the range of an int64.\<close>

definition parse_int64 :: "ustr \<Rightarrow> int option" where
  "parse_int64 s =
    (let neg = next_is 45 s; t = (if neg \<or> next_is 43 s then tl s else s)
     in if t = [] \<or> digits_of t \<noteq> t then None
        else let n = (if neg then - int (digits_value t) else int (digits_value t))
             in if - (2 ^ 63) \<le> n \<and> n < 2 ^ 63 then Some n else None)"

text \<open>\<open>hex.DecodeString\<close>: pairs of hexadecimal digits and nothing else.\<close>

fun hex_decode :: "ustr \<Rightarrow> bytes option" where
  "hex_decode [] = Some []"
| "hex_decode [_] = None"
| "hex_decode (c # d # s) =
     (case (hex_value c, hex_value d, hex_decode s) of
        (Some a, Some b, Some bs) \<Rightarrow> Some ((16 * a + b) # bs)
      | _ \<Rightarrow> None)"

lemma hex_decode_hex: "\<forall>b \<in> set bs. b < 256 \<Longrightarrow> hex_decode (bytes_hex bs) = Some bs"
  by (induction bs) (auto simp: bytes_hex_def)

section \<open>encoding/base64\<close>

text \<open>
  \<open>RawURLEncoding.DecodeString\<close>: the URL alphabet without padding. Line ends are skipped, and the bits
  that are left over in the last character are not looked at.
\<close>

definition base64_value :: "nat \<Rightarrow> nat option" where
  "base64_value c =
     (if 65 \<le> c \<and> c \<le> 90 then Some (c - 65)
      else if 97 \<le> c \<and> c \<le> 122 then Some (c - 71)
      else if 48 \<le> c \<and> c \<le> 57 then Some (c + 4)
      else if c = 45 then Some 62
      else if c = 95 then Some 63
      else None)"

fun base64_quads :: "nat list \<Rightarrow> bytes option" where
  "base64_quads [] = Some []"
| "base64_quads [a] = None"
| "base64_quads [a, b] = Some [4 * a + b div 16]"
| "base64_quads [a, b, c] = Some [4 * a + b div 16, 16 * (b mod 16) + c div 4]"
| "base64_quads (a # b # c # d # s) =
     map_option (\<lambda>bs. (4 * a + b div 16) # (16 * (b mod 16) + c div 4) # (64 * (c mod 4) + d) # bs)
       (base64_quads s)"

fun all_some :: "'a option list \<Rightarrow> 'a list option" where
  "all_some [] = Some []"
| "all_some (None # xs) = None"
| "all_some (Some x # xs) = map_option (Cons x) (all_some xs)"

definition base64_decode :: "ustr \<Rightarrow> bytes option" where
  "base64_decode s =
    (case all_some (map base64_value (filter (\<lambda>c. c \<noteq> 10 \<and> c \<noteq> 13) s)) of
       None \<Rightarrow> None
     | Some vs \<Rightarrow> base64_quads vs)"

section \<open>encoding/json: printing\<close>

text \<open>
  \<open>json.Marshal\<close> escapes, other than Python, the characters that are special in HTML, and the two line
  separators of Unicode.
\<close>

definition html_special :: "nat \<Rightarrow> bool" where
  "html_special c \<longleftrightarrow> c = 60 \<or> c = 62 \<or> c = 38 \<or> c = 8232 \<or> c = 8233"

definition go_esc_char :: "nat \<Rightarrow> ustr" where
  "go_esc_char c =
     (if c = 60 \<or> c = 62 \<or> c = 38 then [92, 117, 48, 48, hex_digit (c div 16), hex_digit (c mod 16)]
      else if c = 8232 \<or> c = 8233 then [92, 117, 50, 48, 50, hex_digit (c mod 16)]
      else esc_char c)"

definition go_json_string :: "ustr \<Rightarrow> ustr" where
  "go_json_string s = 34 # concat (map go_esc_char s) @ [34]"

text \<open>\<open>json.Marshal\<close> of a map from strings to strings: the keys are sorted.\<close>

definition go_marshal_map :: "(ustr \<times> ustr) list \<Rightarrow> ustr" where
  "go_marshal_map kvs =
     u ''{'' @ join_with (u '','')
       (map (\<lambda>(k, v). go_json_string k @ u '':'' @ go_json_string v) (sort_keys kvs)) @ u ''}''"

lemma go_esc_char_plain: "\<not> html_special c \<Longrightarrow> go_esc_char c = esc_char c"
  by (simp add: go_esc_char_def html_special_def)

lemma go_json_string_plain: "list_all (\<lambda>c. \<not> html_special c) s \<Longrightarrow> go_json_string s = json_string s"
  by (simp add: go_json_string_def json_string_def go_esc_char_plain list_all_iff cong: map_cong)

text \<open>A scanner reads back both escapes, so the two texts of a string differ when they are not the same by characters.\<close>

lemma scan_go_esc_char: "scan_string (go_esc_char c @ s) = add_char c (scan_string s)"
proof (cases "html_special c")
  case True
  then consider "c = 60" | "c = 62" | "c = 38" | "c = 8232" | "c = 8233" by (auto simp: html_special_def)
  then show ?thesis
    by cases (simp_all add: go_esc_char_def scan_string.simps(2) hex_value_def hex_digit_def is_high_def)
qed (simp add: go_esc_char_plain scan_esc_char)

lemma scan_go_json_string: "scan_string (concat (map go_esc_char s) @ 34 # r) = Inr (s, r)"
  by (induction s) (simp_all add: scan_go_esc_char scan_string.simps(2))

text \<open>An escape of Go is never shorter, and longer for the characters that are special in HTML.\<close>

lemma go_esc_char_length:
  "length (esc_char c) \<le> length (go_esc_char c)"
  "html_special c \<Longrightarrow> length (esc_char c) < length (go_esc_char c)"
  by (auto simp: go_esc_char_def esc_char_def html_special_def)

lemma go_esc_length_le: "length (concat (map esc_char s)) \<le> length (concat (map go_esc_char s))"
  by (induction s) (auto intro: add_mono go_esc_char_length(1))

lemma go_esc_length:
  "length (concat (map go_esc_char s)) = length (concat (map esc_char s)) \<Longrightarrow> list_all (\<lambda>c. \<not> html_special c) s"
proof (induction s)
  case (Cons c s)
  then show ?case
    using go_esc_char_length [of c] go_esc_length_le [of s] by fastforce
qed simp

section \<open>encoding/json: reading\<close>

text \<open>The bytes of a body as characters: what is not valid UTF-8 (a surrogate is not) is read as U+FFFD, byte by byte.\<close>

function utf8_replace :: "bytes \<Rightarrow> ustr" where
  "utf8_replace [] = []"
| "utf8_replace (b # bs) =
     (case utf8_next (b # bs) of
        None \<Rightarrow> 65533 # utf8_replace bs
      | Some (c, r) \<Rightarrow> if is_high c \<or> is_low c then 65533 # utf8_replace bs else c # utf8_replace r)"
  by pat_completeness auto
termination
  by (relation "measure length") (auto dest: utf8_next_shorter simp del: utf8_next.simps)

definition go_unmarshal :: "bytes \<Rightarrow> json option" where
  "go_unmarshal raw =
    (case json_decode GoJson 10000 (utf8_replace raw) of Inl _ \<Rightarrow> None | Inr j \<Rightarrow> Some j)"

lemma utf8_replace_utf8:
  "\<forall>c \<in> set s. c < 1114112 \<and> \<not> is_high c \<and> \<not> is_low c \<Longrightarrow> utf8_replace (utf8 s) = s"
proof (induction s)
  case (Cons c s)
  have "utf8 (c # s) = utf8_char c @ utf8 s" by (simp add: utf8_def)
  moreover obtain b bs where "utf8_char c @ utf8 s = b # bs" by (cases "utf8_char c") auto
  ultimately have "utf8_replace (utf8 (c # s)) =
      (case utf8_next (utf8_char c @ utf8 s) of None \<Rightarrow> 65533 # utf8_replace bs
       | Some (c, r) \<Rightarrow> if is_high c \<or> is_low c then 65533 # utf8_replace bs else c # utf8_replace r)"
    by simp
  with Cons utf8_next_char [of c "utf8 s"] show ?case by simp
qed (simp add: utf8_def)

text \<open>
  Decoding into a struct: the members are taken in their order, each is looked up among the fields
  by its name, or else without regard to case (among others than ASCII letters only U+017F and
  U+212A fold to ASCII), and \<open>null\<close> leaves the struct as it is. A decoder gives None when a value does
  not fit its field.
\<close>

definition fold_char :: "nat \<Rightarrow> nat" where
  "fold_char c = (if 97 \<le> c \<and> c \<le> 122 then c - 32 else if c = 383 then 83 else if c = 8490 then 75 else c)"

type_synonym 'r decoder = "json \<Rightarrow> 'r \<Rightarrow> 'r option"

definition field_decoder :: "(ustr \<times> 'r decoder) list \<Rightarrow> ustr \<Rightarrow> 'r decoder option" where
  "field_decoder fs k =
    (case map_of fs k of
       Some d \<Rightarrow> Some d
     | None \<Rightarrow> map_option snd (find (\<lambda>(n, d). map fold_char n = map fold_char k) fs))"

fun decode_members ::
  "(ustr \<times> 'r decoder) list \<Rightarrow> bool \<Rightarrow> (ustr \<times> json) list \<Rightarrow> 'r \<Rightarrow> 'r option" where
  "decode_members fs strict [] r = Some r"
| "decode_members fs strict ((k, v) # kvs) r =
     (case field_decoder fs k of
        None \<Rightarrow> if strict then None else decode_members fs strict kvs r
      | Some d \<Rightarrow> (case d v r of None \<Rightarrow> None | Some r' \<Rightarrow> decode_members fs strict kvs r'))"

fun decode_struct :: "(ustr \<times> 'r decoder) list \<Rightarrow> bool \<Rightarrow> 'r decoder" where
  "decode_struct fs strict (JObj kvs) r = decode_members fs strict kvs r"
| "decode_struct fs strict JNull r = Some r"
| "decode_struct fs strict _ r = None"

text \<open>A field of type string, and one of an integer type of 64 bits.\<close>

fun decode_string :: "(ustr \<Rightarrow> 'r \<Rightarrow> 'r) \<Rightarrow> 'r decoder" where
  "decode_string upd (JStr s) r = Some (upd s r)"
| "decode_string upd JNull r = Some r"
| "decode_string upd _ r = None"

fun decode_int64 :: "(int \<Rightarrow> 'r \<Rightarrow> 'r) \<Rightarrow> 'r decoder" where
  "decode_int64 upd (JInt n) r = (if - (2 ^ 63) \<le> n \<and> n < 2 ^ 63 then Some (upd n r) else None)"
| "decode_int64 upd JNull r = Some r"
| "decode_int64 upd _ r = None"

text \<open>Reading an integer that was printed by \<open>str()\<close>.\<close>

lemma parse_int64_int_str:
  assumes "0 \<le> n" and "n < 2 ^ 63"
  shows "parse_int64 (int_str n) = Some n"
proof -
  let ?d = "dec_digits (nat n)"
  have d: "?d \<noteq> []" "digits_of ?d = ?d" "digits_value ?d = nat n"
    using dec_digits_props [of "nat n"]
    by (simp_all add: digits_value_def digits_of_def takeWhile_eq_all_conv)
  have "\<not> next_is 45 ?d" "\<not> next_is 43 ?d"
    using dec_digits_props [of "nat n"] by (cases ?d; auto)+
  with d assms show ?thesis by (simp add: parse_int64_def int_str_def)
qed

text \<open>Splitting at a character gives parts without it, which joined again are the text.\<close>

lemma join_split: "join_with [c] (split_char c n s) = s"
proof (induction c n s rule: split_char.induct)
  case (2 c n x xs)
  have ne: "split_char c m xs \<noteq> []" for m
    by (induction c m xs rule: split_char.induct) (auto split: list.splits)
  show ?case
  proof (cases "x = c \<and> 0 < n")
    case True
    with "2.IH"(1) ne [of "n - 1"] show ?thesis by (cases "split_char c (n - 1) xs") auto
  next
    case False
    obtain p ps where "split_char c n xs = p # ps" using ne [of n] by (cases "split_char c n xs") auto
    with False "2.IH"(2) show ?thesis by (cases ps) auto
  qed
qed simp

section \<open>Reading what json.dumps prints\<close>

text \<open>A text without surrogates is a text in Go as well.\<close>

definition go_text :: "ustr \<Rightarrow> bool" where
  "go_text s \<longleftrightarrow> list_all (\<lambda>c. c < 1114112 \<and> \<not> is_high c \<and> \<not> is_low c) s"

abbreviation surrogate_free :: "ustr \<Rightarrow> bool" where
  "surrogate_free s \<equiv> list_all (\<lambda>c. \<not> is_high c \<and> \<not> is_low c) s"

lemma scanned_go_id: "scanned_text GoJson s = s \<longleftrightarrow> surrogate_free s"
  by (induction s) (auto simp: is_high_def is_low_def)

lemma go_text_scanned: "go_text s \<Longrightarrow> map (\<lambda>c. if is_high c \<or> is_low c then 65533 else c) s = s"
  using scanned_go_id [of s] by (simp add: go_text_def list_all_iff)

lemma go_text_unicode: "go_text s \<Longrightarrow> list_all (\<lambda>c. c < 1114112) s"
  by (simp add: go_text_def list_all_iff)

lemma go_text_u [simp]: "go_text (u s)"
proof -
  have b: "of_char c < (256 :: nat)" for c by (simp add: of_char_def)
  have "c < 1114112 \<and> \<not> is_high c \<and> \<not> is_low c" if "c < 256" for c
    using that by (simp add: is_high_def is_low_def)
  from this [OF b] show ?thesis unfolding go_text_def u_def list_all_iff by auto
qed

lemma go_text_append [simp]: "go_text (s @ t) \<longleftrightarrow> go_text s \<and> go_text t"
  by (simp add: go_text_def)

lemma surrogate_free_esc: "surrogate_free s \<Longrightarrow> surrogate_free (json_string s)"
  by (induction s) (auto simp: json_string_def esc_char_def is_high_def is_low_def hex_digit_def)

lemma surrogate_free_join:
  "surrogate_free sep \<Longrightarrow> list_all surrogate_free xs \<Longrightarrow> surrogate_free (join_with sep xs)"
  by (induction sep xs rule: join_with.induct) auto

lemma surrogate_free_int: "surrogate_free (int_str n)"
  using dec_digits_props [of "nat n"] dec_digits_props [of "nat (- n)"]
  by (fastforce simp: int_str_def list_all_iff is_high_def is_low_def)

lemma surrogate_free_u: "surrogate_free (u s)"
  using go_text_u [of s] by (simp add: go_text_def list_all_iff)

lemma surrogate_free_dumps: "json_readable D d j \<Longrightarrow> D = GoJson \<Longrightarrow> surrogate_free (json_dumps j)"
proof (induction D d j rule: json_readable.induct)
  case (3 D d xs)
  then have "surrogate_free (join_with (u '','') (map json_dumps xs))"
    by (intro surrogate_free_join surrogate_free_u) (auto simp: list_all_iff)
  then show ?case by (simp add: surrogate_free_u)
next
  case (4 D d kvs)
  have "surrogate_free (json_string k @ u '':'' @ json_dumps v)" if kv: "(k, v) \<in> set kvs" for k v
  proof -
    from 4(2) kv have "scanned_text D k = k" "json_readable D d v" by (auto simp: list_all_iff)
    with 4(1) [OF kv refl] 4(3) show ?thesis
      using scanned_go_id [of k] surrogate_free_esc [of k] by (simp add: surrogate_free_u del: scanned_text.simps)
  qed
  then have "surrogate_free (join_with (u '','') (map (\<lambda>(k, v). json_string k @ u '':'' @ json_dumps v) kvs))"
    by (intro surrogate_free_join surrogate_free_u) (auto simp: list_all_iff)
  then show ?case by (simp add: surrogate_free_u)
next
  case (7 D d s)
  then show ?case using scanned_go_id [of s] surrogate_free_esc [of s] by (simp del: scanned_text.simps)
qed (simp_all add: surrogate_free_int surrogate_free_u)

lemma go_unmarshal_dumps:
  assumes "json_readable GoJson 10000 j" and "json_unicode j"
  shows "go_unmarshal (utf8 (json_dumps j)) = Some j"
proof -
  have "\<forall>c \<in> set (json_dumps j). c < 1114112 \<and> \<not> is_high c \<and> \<not> is_low c"
    using surrogate_free_dumps [OF assms(1) refl] text_dumps [OF assms(2)]
    by (simp add: list_all_iff text_char_def)
  then show ?thesis
    by (simp add: go_unmarshal_def utf8_replace_utf8 json_decode_dumps [OF assms(1)])
qed

section \<open>Hexadecimal text in either case\<close>

lemma hex_value_iff: "hex_value c = Some v \<longleftrightarrow> v < 16 \<and> lower_char c = hex_digit v"
  by (auto simp: hex_value_def hex_digit_def lower_char_def)

lemma hex_value_less: "hex_value c = Some v \<Longrightarrow> v < 16"
  by (simp add: hex_value_iff)

lemma hex_decode_iff:
  "\<forall>b \<in> set bs. b < 256 \<Longrightarrow> hex_decode h = Some bs \<longleftrightarrow> py_lower h = bytes_hex bs"
proof (induction h arbitrary: bs rule: hex_decode.induct)
  case 1
  show ?case by (cases bs) (auto simp: py_lower_def bytes_hex_def)
next
  case (2 c)
  show ?case by (cases bs) (auto simp: py_lower_def bytes_hex_def)
next
  case (3 c d s)
  show ?case
  proof (cases bs)
    case Nil
    then show ?thesis by (auto simp: py_lower_def bytes_hex_def split: option.splits)
  next
    case (Cons b bs')
    with "3.prems" have b: "b < 256" "b div 16 < 16" "b mod 16 < 16" and IH: "\<forall>b \<in> set bs'. b < 256" by auto
    have "hex_decode (c # d # s) = Some bs \<longleftrightarrow>
        hex_value c = Some (b div 16) \<and> hex_value d = Some (b mod 16) \<and> hex_decode s = Some bs'"
      using Cons by (auto dest: hex_value_less split: option.splits)
    also have "\<dots> \<longleftrightarrow> py_lower (c # d # s) = bytes_hex bs"
      using b(2,3) IH Cons "3.IH" by (auto simp: hex_value_iff py_lower_def bytes_hex_def split: option.splits)
    finally show ?thesis .
  qed
qed

end
