(* ===== verification/Go_Core.thy ===== *)
theory Go_Core
  imports Go_Lib Fingerprint
begin

text \<open>
  \<open>executor/internal/core/core.go\<close>: the deterministic core both Go executors share, which is a second
  implementation of \<open>fingerprint.py\<close> and of the decision of the local client. The struct \<open>Identity\<close> has
  the fields of the record \<open>identity\<close>, and a \<open>Difference\<close> those of the record \<open>difference\<close>.
\<close>

section \<open>Definitions\<close>

record go_result =
  gr_outcome :: ustr
  gr_observed_fingerprint :: ustr
  gr_reason :: ustr
  gr_differences :: "difference list"

definition canonical :: "ustr \<Rightarrow> ustr" where
  "canonical v = trim_space v"

definition go_payload :: "identity \<Rightarrow> ustr" where
  "go_payload v = go_marshal_map
     [(u ''artifact_digest'', canonical (artifact_digest v)),
      (u ''commit_sha'', canonical (commit_sha v)),
      (u ''config_hash'', canonical (config_hash v)),
      (u ''environment'', canonical (environment v)),
      (u ''project'', canonical (project v))]"

definition go_fingerprint :: "identity \<Rightarrow> ustr" where
  "go_fingerprint v = sha256_hex (utf8 (go_payload v))"

definition add_difference :: "ustr \<Rightarrow> ustr \<Rightarrow> ustr \<Rightarrow> difference list \<Rightarrow> difference list" where
  "add_difference field e o' diffs =
     (if e \<noteq> o' then diffs @ [\<lparr>df_field = field, df_expected = e, df_observed = o'\<rparr>] else diffs)"

definition go_differences :: "identity \<Rightarrow> identity \<Rightarrow> difference list" where
  "go_differences expected observed =
    (let d1 = add_difference (u ''project'') (canonical (project expected)) (canonical (project observed)) [];
         d2 = add_difference (u ''environment'') (canonical (environment expected)) (canonical (environment observed)) d1;
         d3 = add_difference (u ''commit_sha'') (canonical (commit_sha expected)) (canonical (commit_sha observed)) d2;
         d4 = add_difference (u ''artifact_digest'') (canonical (artifact_digest expected))
                (canonical (artifact_digest observed)) d3
     in add_difference (u ''config_hash'') (canonical (config_hash expected)) (canonical (config_hash observed)) d4)"

text \<open>The loop that joins the names of the fields with commas.\<close>

fun join_fields :: "nat \<Rightarrow> difference list \<Rightarrow> ustr \<Rightarrow> ustr" where
  "join_fields i [] names = names"
| "join_fields i (d # ds) names =
     join_fields (Suc i) ds ((if 0 < i then names @ u '', '' else names) @ df_field d)"

definition go_compare :: "identity \<Rightarrow> identity \<Rightarrow> go_result" where
  "go_compare expected observed =
    (let diffs = go_differences expected observed; observed_fp = go_fingerprint observed
     in if 0 < length diffs then
          \<lparr>gr_outcome = u ''DENIED_STALE'', gr_observed_fingerprint = observed_fp,
           gr_reason = msg_stale_prefix @ join_fields 0 diffs [], gr_differences = diffs\<rparr>
        else
          \<lparr>gr_outcome = u ''EXECUTED'', gr_observed_fingerprint = observed_fp,
           gr_reason = msg_identity_match, gr_differences = diffs\<rparr>)"

section \<open>Agreement with the Python core\<close>

text \<open>
  A value both runtimes treat alike: they strip the same blanks from it (Python also strips the
  separators 28 to 31), and the rest has no character that only Go escapes.
\<close>

definition same_canonical :: "identity \<Rightarrow> bool" where
  "same_canonical i \<longleftrightarrow> (\<forall>k. canonical (ident_get i k) = py_strip (ident_get i k))"

definition no_html :: "identity \<Rightarrow> bool" where
  "no_html i \<longleftrightarrow> (\<forall>k. list_all (\<lambda>c. \<not> html_special c) (canonical (ident_get i k)))"

lemma same_canonical_get: "same_canonical i \<Longrightarrow> canonical (ident_get i k) = py_strip (ident_get i k)"
  by (simp add: same_canonical_def)

lemmas same_canonical_fields = same_canonical_get [of _ Project, simplified]
  same_canonical_get [of _ Environment, simplified] same_canonical_get [of _ CommitSha, simplified]
  same_canonical_get [of _ ArtifactDigest, simplified] same_canonical_get [of _ ConfigHash, simplified]

lemma go_payload_eq:
  "go_payload i =
    u ''{'' @ go_json_string (u ''artifact_digest'') @ u '':'' @ go_json_string (canonical (artifact_digest i))
    @ u '','' @ go_json_string (u ''commit_sha'') @ u '':'' @ go_json_string (canonical (commit_sha i))
    @ u '','' @ go_json_string (u ''config_hash'') @ u '':'' @ go_json_string (canonical (config_hash i))
    @ u '','' @ go_json_string (u ''environment'') @ u '':'' @ go_json_string (canonical (environment i))
    @ u '','' @ go_json_string (u ''project'') @ u '':'' @ go_json_string (canonical (project i)) @ u ''}''"
  by (simp add: go_payload_def go_marshal_map_def sort_keys_def u_def)

lemma go_keys:
  "go_json_string (u ''artifact_digest'') = json_string (u ''artifact_digest'')"
  "go_json_string (u ''commit_sha'') = json_string (u ''commit_sha'')"
  "go_json_string (u ''config_hash'') = json_string (u ''config_hash'')"
  "go_json_string (u ''environment'') = json_string (u ''environment'')"
  "go_json_string (u ''project'') = json_string (u ''project'')"
  by (rule go_json_string_plain; simp add: u_def html_special_def)+

lemma go_payload_plain:
  assumes "same_canonical i" and "no_html i"
  shows "go_payload i = fingerprint_payload i"
proof -
  have "go_json_string (canonical (ident_get i k)) = json_string (py_strip (ident_get i k))" for k
    using assms by (simp add: go_json_string_plain no_html_def same_canonical_get)
  from this [of Project] this [of Environment] this [of CommitSha] this [of ArtifactDigest] this [of ConfigHash]
  show ?thesis unfolding go_payload_eq fingerprint_payload_eq go_keys by (simp only: ident_get.simps)
qed

text \<open>These are exactly the identities whose texts are the same.\<close>

lemma go_json_string_eq:
  "go_json_string s @ xs = json_string t @ ys \<longleftrightarrow> s = t \<and> xs = ys \<and> list_all (\<lambda>c. \<not> html_special c) s"
proof
  assume eq: "go_json_string s @ xs = json_string t @ ys"
  then have "concat (map go_esc_char s) @ 34 # xs = concat (map esc_char t) @ 34 # ys"
    by (simp add: go_json_string_def json_string_def)
  from arg_cong [OF this, of scan_string] have st: "s = t" "xs = ys"
    by (simp_all add: scan_go_json_string scan_json_string)
  with eq have "length (concat (map go_esc_char s)) = length (concat (map esc_char s))"
    by (simp add: go_json_string_def json_string_def)
  then have "list_all (\<lambda>c. \<not> html_special c) s" by (rule go_esc_length)
  with st show "s = t \<and> xs = ys \<and> list_all (\<lambda>c. \<not> html_special c) s" by blast
qed (auto simp: go_json_string_plain)

lemma go_payload_iff: "go_payload i = fingerprint_payload i \<longleftrightarrow> same_canonical i \<and> no_html i"
proof
  assume "go_payload i = fingerprint_payload i"
  then show "same_canonical i \<and> no_html i"
    unfolding go_payload_eq fingerprint_payload_eq go_keys same_canonical_def no_html_def all_fields ident_get.simps
    by (simp only: same_append_eq json_string_append_eq go_json_string_eq) metis
qed (simp add: go_payload_plain)

lemma go_differences_python:
  "same_canonical e \<Longrightarrow> same_canonical ob \<Longrightarrow> go_differences e ob = diff_identity e ob"
  by (simp add: go_differences_def add_difference_def diff_identity_def FIELDS_def Let_def same_canonical_fields)

lemma join_fields_with:
  "join_fields i ds s = s @ (if 0 < i \<and> ds \<noteq> [] then u '', '' else []) @ join_with (u '', '') (map df_field ds)"
proof (induction i ds s rule: join_fields.induct)
  case (2 i d ds names)
  then show ?case by (cases ds) auto
qed simp

lemma go_compare_python:
  assumes "same_canonical e" and "same_canonical ob"
  shows "go_compare e ob =
    (let diffs = diff_identity e ob
     in \<lparr>gr_outcome = (if canonical_identity e = canonical_identity ob then u ''EXECUTED'' else u ''DENIED_STALE''),
         gr_observed_fingerprint = go_fingerprint ob,
         gr_reason = (if canonical_identity e = canonical_identity ob then msg_identity_match
           else msg_stale_prefix @ join_with (u '', '') (map df_field diffs)),
         gr_differences = diffs\<rparr>)"
  by (simp add: go_compare_def go_differences_python [OF assms] join_fields_with Let_def diff_identity_Nil_iff)

end
