(* ===== verification/Go_Boundary.thy ===== *)
theory Go_Boundary
  imports Go_Core Capability
begin

text \<open>
  \<open>executor/internal/boundary/boundary.go\<close>: what both Go executors need at their boundary. The store of
  observed targets, the strict reading of a request body, the check of a capability token, and the
  check of a request's signature. The texts that \<open>capability.py\<close> has as well are the constants of the
  theory \<open>Messages\<close>. Times of \<open>time.Now()\<close> are nanoseconds since the epoch.
\<close>

section \<open>Texts\<close>

definition go_bad_token :: ustr where \<comment> \<open>not a capability token\<close>
  "go_bad_token =
   [50976, 54952, 54616, 51648, 32, 50506, 51008, 32, 99, 97, 112, 97, 98, 105, 108, 105,
    116, 121, 32, 116, 111, 107, 101, 110, 51077, 45768, 45796, 46]"

definition go_bad_header :: ustr where \<comment> \<open>the header of the capability is not valid\<close>
  "go_bad_header =
   [99, 97, 112, 97, 98, 105, 108, 105, 116, 121, 32, 104, 101, 97, 100, 101, 114, 44032,
    32, 50976, 54952, 54616, 51648, 32, 50506, 49845, 45768, 45796, 46]"

definition go_bad_algorithm :: ustr where \<comment> \<open>unsupported algorithm of the capability\<close>
  "go_bad_algorithm =
   [51648, 50896, 54616, 51648, 32, 50506, 45716, 32, 99, 97, 112, 97, 98, 105, 108, 105,
    116, 121, 32, 50508, 44256, 47532, 51608, 51077, 45768, 45796, 46]"

definition go_bad_payload :: ustr where \<comment> \<open>the payload of the capability is not valid\<close>
  "go_bad_payload =
   [99, 97, 112, 97, 98, 105, 108, 105, 116, 121, 32, 112, 97, 121, 108, 111, 97, 100,
    44032, 32, 50976, 54952, 54616, 51648, 32, 50506, 49845, 45768, 45796, 46]"

definition go_needs_capability :: ustr where \<comment> \<open>an agent needs a scoped deploy capability\<close>
  "go_needs_capability =
   [65, 73, 32, 65, 103, 101, 110, 116, 32, 49892, 54665, 50640, 45716, 32, 115, 99, 111,
    112, 101, 100, 32, 100, 101, 112, 108, 111, 121, 32, 99, 97, 112, 97, 98, 105, 108, 105,
    116, 121, 44032, 32, 54596, 50836, 54633, 45768, 45796, 46]"

definition go_fingerprint_mismatch :: ustr where \<comment> \<open>the approved fingerprint is not the one of the expected release\<close>
  "go_fingerprint_mismatch =
   [99, 97, 112, 97, 98, 105, 108, 105, 116, 121, 51032, 32, 97, 112, 112, 114, 111, 118,
    101, 100, 32, 102, 105, 110, 103, 101, 114, 112, 114, 105, 110, 116, 44032, 32, 101,
    120, 112, 101, 99, 116, 101, 100, 32, 114, 101, 108, 101, 97, 115, 101, 50752, 32,
    51068, 52824, 54616, 51648, 32, 50506, 49845, 45768, 45796, 46]"

section \<open>Observed targets\<close>

type_synonym target_store = "ustr \<Rightarrow> identity option"

definition go_target_key :: "identity \<Rightarrow> ustr" where
  "go_target_key identity = trim_space (project identity) @ [0] @ trim_space (environment identity)"

definition store_put :: "identity \<Rightarrow> target_store \<Rightarrow> target_store" where
  "store_put identity s = s(go_target_key identity \<mapsto> identity)"

definition store_get :: "target_store \<Rightarrow> identity \<Rightarrow> identity option" where
  "store_get s expected = s (go_target_key expected)"

section \<open>Reading a body\<close>

definition no_identity :: identity where
  "no_identity = \<lparr>project = [], environment = [], commit_sha = [], artifact_digest = [], config_hash = []\<rparr>"

definition go_identity_fields :: "(ustr \<times> identity decoder) list" where
  "go_identity_fields =
     [(u ''project'', decode_string (\<lambda>s i. i\<lparr>project := s\<rparr>)),
      (u ''environment'', decode_string (\<lambda>s i. i\<lparr>environment := s\<rparr>)),
      (u ''commit_sha'', decode_string (\<lambda>s i. i\<lparr>commit_sha := s\<rparr>)),
      (u ''artifact_digest'', decode_string (\<lambda>s i. i\<lparr>artifact_digest := s\<rparr>)),
      (u ''config_hash'', decode_string (\<lambda>s i. i\<lparr>config_hash := s\<rparr>))]"

text \<open>One JSON value without unknown members, and nothing after it.\<close>

definition decode_one :: "(ustr \<times> 'r decoder) list \<Rightarrow> bytes \<Rightarrow> 'r \<Rightarrow> 'r option" where
  "decode_one fs body dst =
    (case go_unmarshal body of None \<Rightarrow> None | Some j \<Rightarrow> decode_struct fs True j dst)"

section \<open>Capabilities\<close>

record capability_claims =
  cc_ver :: int
  cc_jti :: ustr
  cc_typ :: ustr
  cc_epoch_id :: ustr
  cc_actor_type :: ustr
  cc_actor_id :: ustr
  cc_project :: ustr
  cc_environment :: ustr
  cc_action :: ustr
  cc_fingerprint :: ustr
  cc_exp :: int

definition no_claims :: capability_claims where
  "no_claims = \<lparr>cc_ver = 0, cc_jti = [], cc_typ = [], cc_epoch_id = [], cc_actor_type = [], cc_actor_id = [],
     cc_project = [], cc_environment = [], cc_action = [], cc_fingerprint = [], cc_exp = 0\<rparr>"

definition claims_fields :: "(ustr \<times> capability_claims decoder) list" where
  "claims_fields =
     [(u ''ver'', decode_int64 (\<lambda>n c. c\<lparr>cc_ver := n\<rparr>)),
      (u ''jti'', decode_string (\<lambda>s c. c\<lparr>cc_jti := s\<rparr>)),
      (u ''typ'', decode_string (\<lambda>s c. c\<lparr>cc_typ := s\<rparr>)),
      (u ''epoch_id'', decode_string (\<lambda>s c. c\<lparr>cc_epoch_id := s\<rparr>)),
      (u ''actor_type'', decode_string (\<lambda>s c. c\<lparr>cc_actor_type := s\<rparr>)),
      (u ''actor_id'', decode_string (\<lambda>s c. c\<lparr>cc_actor_id := s\<rparr>)),
      (u ''project'', decode_string (\<lambda>s c. c\<lparr>cc_project := s\<rparr>)),
      (u ''environment'', decode_string (\<lambda>s c. c\<lparr>cc_environment := s\<rparr>)),
      (u ''action'', decode_string (\<lambda>s c. c\<lparr>cc_action := s\<rparr>)),
      (u ''fingerprint'', decode_string (\<lambda>s c. c\<lparr>cc_fingerprint := s\<rparr>)),
      (u ''exp'', decode_int64 (\<lambda>n c. c\<lparr>cc_exp := n\<rparr>))]"

text \<open>
  The header goes into a \<open>map[string]any\<close>: \<open>null\<close> is an empty map, the last of repeated members counts,
  and a number anywhere in it must fit a float64, which it does below the point where rounding gives
  infinity.
\<close>

definition float_bound :: nat where
  "float_bound = (2 ^ 54 - 1) * 2 ^ 970"

definition exponent_value :: "ustr \<Rightarrow> int" where
  "exponent_value s =
    (if s = [] then 0
     else let t = tl s; d = (if next_is 45 t \<or> next_is 43 t then tl t else t)
          in if next_is 45 t then - int (digits_value d) else int (digits_value d))"

definition float_fits :: "ustr \<Rightarrow> bool" where
  "float_fits s =
    (let t = (if next_is 45 s then tl s else s);
         ip = digits_of t;
         r = drop (length ip) t;
         frac = (if next_is 46 r then digits_of (tl r) else []);
         q = (if next_is 46 r then drop (length frac) (tl r) else r);
         m = digits_value (ip @ frac);
         e = exponent_value q - int (length frac)
     in if 0 \<le> e then m * 10 ^ nat e < float_bound else m < float_bound * 10 ^ nat (- e))"

fun numbers_fit :: "json \<Rightarrow> bool" where
  "numbers_fit (JInt n) = (nat \<bar>n\<bar> < float_bound)"
| "numbers_fit (JFloat s) = float_fits s"
| "numbers_fit (JArr xs) = list_all numbers_fit xs"
| "numbers_fit (JObj kvs) = list_all (\<lambda>(k, v). numbers_fit v) kvs"
| "numbers_fit _ = True"

fun unmarshal_map :: "json option \<Rightarrow> (ustr \<times> json) list option" where
  "unmarshal_map (Some (JObj kvs)) = (if numbers_fit (JObj kvs) then Some (rev kvs) else None)"
| "unmarshal_map (Some JNull) = Some []"
| "unmarshal_map _ = None"

definition header_ok :: "bytes \<Rightarrow> bool" where
  "header_ok header_bytes \<longleftrightarrow>
    (case unmarshal_map (go_unmarshal header_bytes) of
       None \<Rightarrow> False
     | Some header \<Rightarrow> map_of header (u ''alg'') = Some (JStr (u ''HS256'')))"

definition decode_claims :: "bytes \<Rightarrow> capability_claims option" where
  "decode_claims payload =
    (case go_unmarshal payload of None \<Rightarrow> None | Some j \<Rightarrow> decode_struct claims_fields False j no_claims)"

definition scope_checks :: "capability_claims \<Rightarrow> capability_scope \<Rightarrow> (ustr \<times> ustr \<times> ustr) list" where
  "scope_checks claims expected =
     [(u ''epoch_id'', cc_epoch_id claims, sc_epoch_id expected),
      (u ''actor_type'', cc_actor_type claims, sc_actor_type expected),
      (u ''actor_id'', cc_actor_id claims, sc_actor_id expected),
      (u ''project'', cc_project claims, sc_project expected),
      (u ''environment'', cc_environment claims, sc_environment expected),
      (u ''action'', cc_action claims, sc_action expected),
      (u ''fingerprint'', cc_fingerprint claims, sc_fingerprint expected)]"

text \<open>What follows the signature: the claims themselves.\<close>

definition go_check_claims ::
  "capability_claims \<Rightarrow> capability_scope \<Rightarrow> int \<Rightarrow> ustr + capability_claims" where
  "go_check_claims claims expected now =
    (if cc_ver claims \<noteq> 1 \<or> cc_typ claims \<noteq> u ''epochdeploy-capability'' \<or> cc_jti claims = []
     then Inl msg_cap_unsupported
     else if cc_exp claims \<le> now div 1000000000 then Inl msg_cap_expired
     else case find (\<lambda>(name, got, want). got \<noteq> want) (scope_checks claims expected) of
            Some (name, _) \<Rightarrow> Inl (msg_cap_scope_prefix @ name)
          | None \<Rightarrow> Inr claims)"

definition go_verify_capability ::
  "ustr \<Rightarrow> ustr \<Rightarrow> capability_scope \<Rightarrow> int \<Rightarrow> ustr + capability_claims" where
  "go_verify_capability secret token expected now =
    (case go_split 46 token of
       [p0, p1, p2] \<Rightarrow>
         (case base64_decode p0 of
            None \<Rightarrow> Inl go_bad_header
          | Some header_bytes \<Rightarrow>
              if \<not> header_ok header_bytes then Inl go_bad_algorithm
              else case base64_decode p2 of
                None \<Rightarrow> Inl msg_cap_signature
              | Some signature \<Rightarrow>
                  if signature \<noteq> hmac_sha256 (utf8 secret) (utf8 (p0 @ [46] @ p1)) then Inl msg_cap_signature
                  else case base64_decode p1 of
                    None \<Rightarrow> Inl go_bad_payload
                  | Some payload \<Rightarrow>
                      (case decode_claims payload of
                         None \<Rightarrow> Inl go_bad_payload
                       | Some claims \<Rightarrow> go_check_claims claims expected now))
     | _ \<Rightarrow> Inl go_bad_token)"

record agent_execution =
  ax_epoch_id :: ustr
  ax_actor_type :: ustr
  ax_actor_id :: ustr
  ax_action :: ustr
  ax_approved_fingerprint :: ustr
  ax_capability_token :: ustr

definition agent_expectation :: "identity \<Rightarrow> agent_execution \<Rightarrow> capability_scope" where
  "agent_expectation expected ex =
     \<lparr>sc_epoch_id = ax_epoch_id ex, sc_actor_type = u ''ai_agent'', sc_actor_id = ax_actor_id ex,
      sc_project = project expected, sc_environment = environment expected,
      sc_action = u ''deploy'', sc_fingerprint = go_fingerprint expected\<rparr>"

text \<open>The error, if any.\<close>

definition validate_agent :: "ustr \<Rightarrow> identity \<Rightarrow> agent_execution \<Rightarrow> int \<Rightarrow> ustr option" where
  "validate_agent secret expected ex now =
    (if ax_actor_type ex \<noteq> u ''ai_agent'' then None
     else if ax_action ex \<noteq> u ''deploy'' \<or> ax_capability_token ex = [] then Some go_needs_capability
     else if ax_approved_fingerprint ex \<noteq> go_fingerprint expected then Some go_fingerprint_mismatch
     else case go_verify_capability secret (ax_capability_token ex) (agent_expectation expected ex) now of
            Inl e \<Rightarrow> Some e
          | Inr _ \<Rightarrow> None)"

section \<open>Signatures\<close>

text \<open>
  \<open>MaxClockSkew\<close>. A time stamp so large that \<open>time.Unix\<close> or the difference of two times would leave its
  range is refused in Go (such differences saturate) as it is here.
\<close>

definition max_clock_skew :: int where
  "max_clock_skew = 30 * 1000000000"

definition valid_signature :: "ustr \<Rightarrow> ustr \<Rightarrow> bytes \<Rightarrow> ustr \<Rightarrow> int \<Rightarrow> bool" where
  "valid_signature secret timestamp body signature now =
    (case parse_int64 timestamp of
       None \<Rightarrow> False
     | Some unix_seconds \<Rightarrow>
         (let request_time = unix_seconds * 1000000000
          in if now - request_time > max_clock_skew \<or> request_time - now > max_clock_skew then False
             else if take 7 signature \<noteq> u ''sha256='' then False
             else case hex_decode (drop 7 signature) of
                    None \<Rightarrow> False
                  | Some provided \<Rightarrow>
                      provided = hmac_sha256 (utf8 secret) (utf8 timestamp @ [46] @ body)))"

definition valid_rpc_signature :: "ustr \<Rightarrow> ustr \<Rightarrow> ustr \<Rightarrow> bytes \<Rightarrow> ustr \<Rightarrow> int \<Rightarrow> bool" where
  "valid_rpc_signature secret timestamp rpc_method payload signature now =
    (case parse_int64 timestamp of
       None \<Rightarrow> False
     | Some unix_seconds \<Rightarrow>
         (let request_time = unix_seconds * 1000000000
          in if now - request_time > max_clock_skew \<or> request_time - now > max_clock_skew then False
             else if take 7 signature \<noteq> u ''sha256='' then False
             else case hex_decode (drop 7 signature) of
                    None \<Rightarrow> False
                  | Some provided \<Rightarrow>
                      provided = hmac_sha256 (utf8 secret)
                        (utf8 timestamp @ [46] @ utf8 rpc_method @ [46] @ payload)))"

section \<open>The store\<close>

text \<open>
  What a client of the store relies on: an observed target is found under every identity with its
  key, until another identity of the key is observed.
\<close>

locale target_memory =
  fixes put :: "'i \<Rightarrow> 's \<Rightarrow> 's"
    and get :: "'s \<Rightarrow> 'i \<Rightarrow> 'i option"
    and key :: "'i \<Rightarrow> 'k"
  assumes get_put: "get (put i s) j = (if key i = key j then Some i else get s j)"
begin

lemma get_same: "key i = key j \<Longrightarrow> get (put i s) j = Some i"
  by (simp add: get_put)

text \<open>After any number of observations the last one of the key counts.\<close>

lemma get_last:
  "get (foldl (\<lambda>s i. put i s) s is) j =
     (case find (\<lambda>i. key i = key j) (rev is) of Some i \<Rightarrow> Some i | None \<Rightarrow> get s j)"
  by (induction "is" rule: rev_induct) (simp_all add: get_put)

end

interpretation store: target_memory store_put store_get go_target_key
  by unfold_locales (simp add: store_put_def store_get_def)

section \<open>Signatures\<close>

lemma valid_signature_iff:
  "valid_signature secret ts body sig now \<longleftrightarrow>
    (\<exists>n h. parse_int64 ts = Some n \<and> \<bar>now - n * 1000000000\<bar> \<le> max_clock_skew \<and> sig = u ''sha256='' @ h \<and>
      hex_decode h = Some (hmac_sha256 (utf8 secret) (utf8 ts @ [46] @ body)))"
proof -
  have "take 7 sig = u ''sha256='' \<longleftrightarrow> (\<exists>h. sig = u ''sha256='' @ h)"
  proof
    assume "take 7 sig = u ''sha256=''"
    then have "sig = u ''sha256='' @ drop 7 sig" using append_take_drop_id [of 7 sig] by simp
    then show "\<exists>h. sig = u ''sha256='' @ h" ..
  qed auto
  moreover have "length (u ''sha256='') = 7" by simp
  ultimately show ?thesis
    by (auto simp: valid_signature_def Let_def split: option.splits)
qed

text \<open>A signature of a call is one of a request whose body starts with the method.\<close>

lemma valid_rpc_signature_http:
  "valid_rpc_signature secret ts m payload sig now = valid_signature secret ts (utf8 m @ [46] @ payload) sig now"
  by (simp only: valid_rpc_signature_def valid_signature_def append_assoc)

lemma hmac_bytes: "\<forall>b \<in> set (hmac_sha256 k m). b < 256"
  unfolding hmac_sha256_def by (rule sha256_digest_bytes)

lemma signature_accepted:
  assumes "0 \<le> n" and "n < 2 ^ 63"
  shows "valid_signature secret (int_str n) body
      (u ''sha256='' @ hmac_sha256_hex (utf8 secret) (utf8 (int_str n) @ [46] @ body)) now \<longleftrightarrow>
    \<bar>now - n * 1000000000\<bar> \<le> max_clock_skew"
  by (auto simp: valid_signature_iff parse_int64_int_str [OF assms] hmac_sha256_hex_def hex_decode_hex hmac_bytes)

section \<open>Capabilities\<close>

definition claims_scope :: "capability_claims \<Rightarrow> capability_scope" where
  "claims_scope c =
     \<lparr>sc_epoch_id = cc_epoch_id c, sc_actor_type = cc_actor_type c, sc_actor_id = cc_actor_id c,
      sc_project = cc_project c, sc_environment = cc_environment c, sc_action = cc_action c,
      sc_fingerprint = cc_fingerprint c\<rparr>"

definition claims_valid :: "capability_claims \<Rightarrow> int \<Rightarrow> bool" where
  "claims_valid c now \<longleftrightarrow> cc_ver c = 1 \<and> cc_typ c = u ''epochdeploy-capability'' \<and> cc_jti c \<noteq> [] \<and>
     now div 1000000000 < cc_exp c"

lemma scope_checks_None:
  "find (\<lambda>(name, got, want). got \<noteq> want) (scope_checks c s) = None \<longleftrightarrow> claims_scope c = s"
  by (cases s) (auto simp: scope_checks_def claims_scope_def)

lemma go_check_claims_Inr:
  "go_check_claims c s now = Inr c' \<longleftrightarrow> c' = c \<and> claims_valid c now \<and> claims_scope c = s"
  using scope_checks_None [of c s]
  by (auto simp: go_check_claims_def claims_valid_def split: option.splits)

text \<open>Everything before the claims does not depend on what the caller expects.\<close>

definition token_claims :: "ustr \<Rightarrow> ustr \<Rightarrow> ustr + capability_claims" where
  "token_claims secret token =
    (case go_split 46 token of
       [p0, p1, p2] \<Rightarrow>
         (case base64_decode p0 of
            None \<Rightarrow> Inl go_bad_header
          | Some header_bytes \<Rightarrow>
              if \<not> header_ok header_bytes then Inl go_bad_algorithm
              else case base64_decode p2 of
                None \<Rightarrow> Inl msg_cap_signature
              | Some signature \<Rightarrow>
                  if signature \<noteq> hmac_sha256 (utf8 secret) (utf8 (p0 @ [46] @ p1)) then Inl msg_cap_signature
                  else case base64_decode p1 of
                    None \<Rightarrow> Inl go_bad_payload
                  | Some payload \<Rightarrow>
                      (case decode_claims payload of None \<Rightarrow> Inl go_bad_payload | Some c \<Rightarrow> Inr c))
     | _ \<Rightarrow> Inl go_bad_token)"

lemma go_verify_split:
  "go_verify_capability secret token s now =
    (case token_claims secret token of Inl e \<Rightarrow> Inl e | Inr c \<Rightarrow> go_check_claims c s now)"
  by (auto simp: go_verify_capability_def token_claims_def split: list.splits option.splits)

lemma token_claims_Inr:
  assumes "token_claims secret token = Inr c"
  shows "\<exists>p0 p1 p2 payload. token = p0 @ [46] @ p1 @ [46] @ p2 \<and>
    base64_decode p2 = Some (hmac_sha256 (utf8 secret) (utf8 (p0 @ [46] @ p1))) \<and>
    base64_decode p1 = Some payload \<and> decode_claims payload = Some c"
proof -
  from assms obtain p0 p1 p2 payload where sp: "go_split 46 token = [p0, p1, p2]"
    and rest: "base64_decode p2 = Some (hmac_sha256 (utf8 secret) (utf8 (p0 @ [46] @ p1)))"
      "base64_decode p1 = Some payload" "decode_claims payload = Some c"
    by (auto simp: token_claims_def split: list.splits option.splits if_splits)
  have "token = p0 @ [46] @ p1 @ [46] @ p2"
    using join_split [of 46 "length token" token] sp by (simp add: go_split_def)
  with rest show ?thesis by blast
qed

lemma go_verify_Inr:
  "go_verify_capability secret token s now = Inr c \<longleftrightarrow>
    token_claims secret token = Inr c \<and> claims_valid c now \<and> claims_scope c = s"
  by (auto simp: go_verify_split go_check_claims_Inr split: sum.splits)

lemma validate_agent_None:
  "validate_agent secret e ex now = None \<longleftrightarrow> ax_actor_type ex \<noteq> u ''ai_agent'' \<or>
    ax_action ex = u ''deploy'' \<and> ax_capability_token ex \<noteq> [] \<and> ax_approved_fingerprint ex = go_fingerprint e \<and>
    (\<exists>c. go_verify_capability secret (ax_capability_token ex) (agent_expectation e ex) now = Inr c)"
  by (auto simp: validate_agent_def split: sum.splits)

section \<open>What the orchestrator sends is read\<close>

definition go_identity :: "identity \<Rightarrow> bool" where
  "go_identity i \<longleftrightarrow> (\<forall>k. go_text (ident_get i k))"

lemma go_identity_get: "go_identity i \<Longrightarrow> go_text (ident_get i k)"
  by (simp add: go_identity_def)

lemmas go_identity_texts = go_identity_get [of _ Project, simplified]
  go_identity_get [of _ Environment, simplified] go_identity_get [of _ CommitSha, simplified]
  go_identity_get [of _ ArtifactDigest, simplified] go_identity_get [of _ ConfigHash, simplified]

lemma field_decoder_known: "map_of fs k = Some d \<Longrightarrow> field_decoder fs k = Some d"
  by (simp add: field_decoder_def)

end
