(* ===== verification/Go_Server.thy ===== *)
theory Go_Server
  imports Go_Boundary Executor_Client
begin

text \<open>
  The two executors in Go. \<open>executor/cmd/server/main.go\<close> serves HTTP with the standard library,
  \<open>executor-gin/cmd/server/main.go\<close> with gin, and \<open>grpc_server.go\<close> beside it gRPC over the same store. A
  request is served with the store of observed targets and gives the store after it.

  The body of an HTTP answer is given as the JSON value it is the text of (None: no JSON). The
  dispatch knows the registered routes; redirects of unclean paths are left out. Start and shutdown
  of the servers, and the time limits of the connections, are not modelled.
\<close>

section \<open>Texts\<close>

definition go_bad_request :: ustr where \<comment> \<open>malformed request\<close>
  "go_bad_request =
   [50836, 52397, 32, 54805, 49885, 51060, 32, 50732, 48148, 47476, 51648, 32, 50506, 49845,
    45768, 45796, 46]"

definition go_bad_signature :: ustr where \<comment> \<open>the signature of the request is not valid\<close>
  "go_bad_signature =
   [101, 120, 101, 99, 117, 116, 111, 114, 32, 49436, 47749, 51060, 32, 50976, 54952, 54616,
    51648, 32, 50506, 49845, 45768, 45796, 46]"

definition go_no_target :: ustr where \<comment> \<open>the executor has not observed the live target\<close>
  "go_no_target =
   [101, 120, 101, 99, 117, 116, 111, 114, 44032, 32, 108, 105, 118, 101, 32, 116, 97, 114,
    103, 101, 116, 51012, 32, 50500, 51649, 32, 44288, 52272, 54616, 51648, 32, 50506,
    50520, 49845, 45768, 45796, 46]"

definition go_no_metadata :: ustr where \<comment> \<open>the call has no metadata\<close>
  "go_no_metadata =
   [101, 120, 101, 99, 117, 116, 111, 114, 32, 109, 101, 116, 97, 100, 97, 116, 97, 44032,
    32, 50630, 49845, 45768, 45796, 46]"

definition go_no_signature :: ustr where \<comment> \<open>the call is not signed\<close>
  "go_no_signature =
   [101, 120, 101, 99, 117, 116, 111, 114, 32, 49436, 47749, 51060, 32, 50630, 49845, 45768,
    45796, 46]"

definition go_no_bytes :: ustr where \<comment> \<open>the request cannot be serialised\<close>
  "go_no_bytes =
   [50836, 52397, 32, 51649, 47148, 54868, 50640, 32, 49892, 54056, 54664, 49845, 45768,
    45796, 46]"

definition go_no_identity :: ustr where \<comment> \<open>an identity is needed\<close>
  "go_no_identity =
   [105, 100, 101, 110, 116, 105, 116, 121, 44032, 32, 54596, 50836, 54633, 45768, 45796, 46]"

definition go_no_expected :: ustr where \<comment> \<open>an expected identity is needed\<close>
  "go_no_expected =
   [101, 120, 112, 101, 99, 116, 101, 100, 32, 105, 100, 101, 110, 116, 105, 116, 121,
    44032, 32, 54596, 50836, 54633, 45768, 45796, 46]"

section \<open>The HTTP servers\<close>

text \<open>
  The secrets and readings of the clock (1 at the check of the signature, 2 at the check of the
  capability, in nanoseconds), and \<open>proto.Marshal\<close> with \<open>Deterministic\<close>, which is third-party code.
\<close>

datatype go_rpc =
    GoHealth
  | GoObserve "pb_identity option"
  | GoExecute "pb_identity option" "pb_context option"

record executor_env =
  xe_secret :: ustr
  xe_capability_secret :: ustr
  xe_clock :: "nat \<Rightarrow> int"
  xe_marshal :: "go_rpc \<Rightarrow> bytes option"

type_synonym go_answer = "int \<times> json option"
type_synonym go_handler = "bytes \<Rightarrow> target_store \<Rightarrow> go_answer \<times> target_store"

definition write_error :: "int \<Rightarrow> ustr \<Rightarrow> go_answer" where
  "write_error status m = (status, Some (JObj [(u ''error'', JStr m)]))"

definition write_fingerprint :: "ustr \<Rightarrow> go_answer" where
  "write_fingerprint fp = (200, Some (JObj [(u ''observed_fingerprint'', JStr fp)]))"

definition write_result :: "go_result \<Rightarrow> go_answer" where
  "write_result r = (200, Some (JObj
     [(u ''outcome'', JStr (gr_outcome r)),
      (u ''observed_fingerprint'', JStr (gr_observed_fingerprint r)),
      (u ''reason'', JStr (gr_reason r)),
      (u ''differences'', JArr (map difference_json (gr_differences r)))]))"

definition health_answer :: "ustr \<Rightarrow> go_answer" where
  "health_answer implementation = (200, Some (JObj
     [(u ''status'', JStr (u ''ok'')), (u ''service'', JStr (u ''epochdeploy-executor'')),
      (u ''implementation'', JStr implementation)]))"

text \<open>\<open>r.Header.Get\<close>: the first value of a header, whatever the case of its name.\<close>

definition header_get :: "(ustr \<times> ustr) list \<Rightarrow> ustr \<Rightarrow> ustr" where
  "header_get headers name =
    (case find (\<lambda>(k, v). py_lower k = py_lower name) headers of Some (_, v) \<Rightarrow> v | None \<Rightarrow> [])"

definition signed_handler :: "executor_env \<Rightarrow> (ustr \<times> ustr) list \<Rightarrow> go_handler \<Rightarrow> go_handler" where
  "signed_handler X headers next_handler body s =
    (if 64 * 1024 < length body then (write_error 400 go_bad_request, s)
     else if \<not> valid_signature (xe_secret X) (header_get headers (u ''X-EpochDeploy-Timestamp'')) body
               (header_get headers (u ''X-EpochDeploy-Signature'')) (xe_clock X 1)
       then (write_error 401 go_bad_signature, s)
     else next_handler body s)"

subsection \<open>The request of an observation\<close>

record observe_request =
  rq_identity :: identity

definition observe_fields :: "(ustr \<times> observe_request decoder) list" where
  "observe_fields =
     [(u ''identity'', \<lambda>v r. map_option (\<lambda>i. r\<lparr>rq_identity := i\<rparr>)
         (decode_struct go_identity_fields True v (rq_identity r)))]"

definition observe_handler :: go_handler where
  "observe_handler body s =
    (case decode_one observe_fields body \<lparr>rq_identity = no_identity\<rparr> of
       None \<Rightarrow> (write_error 400 go_bad_request, s)
     | Some req \<Rightarrow>
         (write_fingerprint (go_fingerprint (rq_identity req)), store_put (rq_identity req) s))"

subsection \<open>The standard library's server\<close>

record stdlib_execute_request =
  rq_expected :: identity

definition execute_fields :: "(ustr \<times> stdlib_execute_request decoder) list" where
  "execute_fields =
     [(u ''expected'', \<lambda>v r. map_option (\<lambda>i. r\<lparr>rq_expected := i\<rparr>)
         (decode_struct go_identity_fields True v (rq_expected r)))]"

definition compare_observed :: "identity \<Rightarrow> target_store \<Rightarrow> go_answer" where
  "compare_observed expected s =
    (case store_get s expected of
       None \<Rightarrow> write_error 409 go_no_target
     | Some observed \<Rightarrow> write_result (go_compare expected observed))"

definition stdlib_execute :: go_handler where
  "stdlib_execute body s =
    (case decode_one execute_fields body \<lparr>rq_expected = no_identity\<rparr> of
       None \<Rightarrow> (write_error 400 go_bad_request, s)
     | Some req \<Rightarrow> (compare_observed (rq_expected req) s, s))"

definition stdlib_serve ::
  "executor_env \<Rightarrow> ustr \<Rightarrow> ustr \<Rightarrow> (ustr \<times> ustr) list \<Rightarrow> go_handler" where
  "stdlib_serve X verb path headers body s =
    (if path = u ''/healthz'' then
       (if verb = u ''GET'' \<or> verb = u ''HEAD'' then (health_answer (u ''stdlib''), s) else ((405, None), s))
     else if path = u ''/v1/targets/observe'' then
       (if verb = u ''POST'' then signed_handler X headers observe_handler body s else ((405, None), s))
     else if path = u ''/v1/execute'' then
       (if verb = u ''POST'' then signed_handler X headers stdlib_execute body s else ((405, None), s))
     else ((404, None), s))"

subsection \<open>The gin server\<close>

text \<open>\<open>executionContext\<close> has the fields of the context the orchestrator sends.\<close>

definition no_context :: exec_context where
  "no_context = \<lparr>cx_epoch_id = [], cx_actor_type = [], cx_actor_id = [], cx_action = [],
     cx_approved_fingerprint = [], cx_capability_token = [], cx_policy_decision = [], cx_policy_rule = []\<rparr>"

definition context_fields :: "(ustr \<times> exec_context decoder) list" where
  "context_fields =
     [(u ''epoch_id'', decode_string (\<lambda>s c. c\<lparr>cx_epoch_id := s\<rparr>)),
      (u ''actor_type'', decode_string (\<lambda>s c. c\<lparr>cx_actor_type := s\<rparr>)),
      (u ''actor_id'', decode_string (\<lambda>s c. c\<lparr>cx_actor_id := s\<rparr>)),
      (u ''action'', decode_string (\<lambda>s c. c\<lparr>cx_action := s\<rparr>)),
      (u ''approved_fingerprint'', decode_string (\<lambda>s c. c\<lparr>cx_approved_fingerprint := s\<rparr>)),
      (u ''capability_token'', decode_string (\<lambda>s c. c\<lparr>cx_capability_token := s\<rparr>)),
      (u ''policy_decision'', decode_string (\<lambda>s c. c\<lparr>cx_policy_decision := s\<rparr>)),
      (u ''policy_rule'', decode_string (\<lambda>s c. c\<lparr>cx_policy_rule := s\<rparr>))]"

record gin_execute_request =
  gq_expected :: identity
  gq_context :: "exec_context option"

text \<open>A pointer: \<open>null\<close> clears it, an object goes into what it points to, or into a new struct.\<close>

fun decode_context :: "gin_execute_request decoder" where
  "decode_context JNull r = Some (r\<lparr>gq_context := None\<rparr>)"
| "decode_context v r = map_option (\<lambda>c. r\<lparr>gq_context := Some c\<rparr>)
     (decode_struct context_fields True v (case gq_context r of None \<Rightarrow> no_context | Some c \<Rightarrow> c))"

definition gin_execute_fields :: "(ustr \<times> gin_execute_request decoder) list" where
  "gin_execute_fields =
     [(u ''expected'', \<lambda>v r. map_option (\<lambda>i. r\<lparr>gq_expected := i\<rparr>)
         (decode_struct go_identity_fields True v (gq_expected r))),
      (u ''context'', decode_context)]"

definition agent_execution_of :: "exec_context \<Rightarrow> agent_execution" where
  "agent_execution_of c =
     \<lparr>ax_epoch_id = cx_epoch_id c, ax_actor_type = cx_actor_type c, ax_actor_id = cx_actor_id c,
      ax_action = cx_action c, ax_approved_fingerprint = cx_approved_fingerprint c,
      ax_capability_token = cx_capability_token c\<rparr>"

definition check_context :: "executor_env \<Rightarrow> identity \<Rightarrow> exec_context option \<Rightarrow> ustr option" where
  "check_context X expected context =
    (case context of
       None \<Rightarrow> None
     | Some c \<Rightarrow> validate_agent (xe_capability_secret X) expected (agent_execution_of c) (xe_clock X 2))"

definition gin_execute :: "executor_env \<Rightarrow> go_handler" where
  "gin_execute X body s =
    (case decode_one gin_execute_fields body \<lparr>gq_expected = no_identity, gq_context = None\<rparr> of
       None \<Rightarrow> (write_error 400 go_bad_request, s)
     | Some req \<Rightarrow>
         (case check_context X (gq_expected req) (gq_context req) of
            Some e \<Rightarrow> (write_error 403 e, s)
          | None \<Rightarrow> (compare_observed (gq_expected req) s, s)))"

definition gin_serve :: "executor_env \<Rightarrow> ustr \<Rightarrow> ustr \<Rightarrow> (ustr \<times> ustr) list \<Rightarrow> go_handler" where
  "gin_serve X verb path headers body s =
    (if path = u ''/healthz'' \<and> verb = u ''GET'' then (health_answer (u ''gin''), s)
     else if path = u ''/v1/targets/observe'' \<and> verb = u ''POST'' then
       signed_handler X headers observe_handler body s
     else if path = u ''/v1/execute'' \<and> verb = u ''POST'' then
       signed_handler X headers (gin_execute X) body s
     else ((404, None), s))"

section \<open>The gRPC server\<close>

text \<open>
  An answer is an error with its code, named as the client shows it, or the response. A message that
  is not set is None. The third error of the interceptor, for a request that is no message, cannot
  occur here.
\<close>

definition full_method :: "go_rpc \<Rightarrow> ustr" where
  "full_method req =
    (case req of
       GoHealth \<Rightarrow> u ''/epochdeploy.executor.v1.Executor/Health''
     | GoObserve _ \<Rightarrow> u ''/epochdeploy.executor.v1.Executor/Observe''
     | GoExecute _ _ \<Rightarrow> u ''/epochdeploy.executor.v1.Executor/Execute'')"

definition md_get :: "(ustr \<times> ustr) list \<Rightarrow> ustr \<Rightarrow> ustr list" where
  "md_get md key = map snd (filter (\<lambda>(k, v). k = key) md)"

definition grpc_intercept ::
  "executor_env \<Rightarrow> (ustr \<times> ustr) list option \<Rightarrow> go_rpc \<Rightarrow> (target_store \<Rightarrow> 'a rpc_result \<times> target_store) \<Rightarrow>
   target_store \<Rightarrow> 'a rpc_result \<times> target_store" where
  "grpc_intercept X metadata req handler s =
    (if full_method req = full_method GoHealth then handler s
     else case metadata of
       None \<Rightarrow> (RpcError (u ''UNAUTHENTICATED'') go_no_metadata, s)
     | Some md \<Rightarrow>
         (let timestamps = md_get md (u ''x-epochdeploy-timestamp'');
              signatures = md_get md (u ''x-epochdeploy-signature'')
          in if length timestamps \<noteq> 1 \<or> length signatures \<noteq> 1
             then (RpcError (u ''UNAUTHENTICATED'') go_no_signature, s)
             else case xe_marshal X req of
               None \<Rightarrow> (RpcError (u ''INTERNAL'') go_no_bytes, s)
             | Some payload \<Rightarrow>
                 if \<not> valid_rpc_signature (xe_secret X) (hd timestamps) (full_method req) payload
                       (hd signatures) (xe_clock X 1)
                 then (RpcError (u ''UNAUTHENTICATED'') go_bad_signature, s)
                 else handler s))"

definition grpc_health_service :: pb_health_response where
  "grpc_health_service = \<lparr>pb_status = u ''ok'', pb_service = u ''epochdeploy-executor'',
     pb_implementation = u ''gin'', pb_transport = u ''grpc''\<rparr>"

definition identity_from_proto :: "pb_identity \<Rightarrow> identity" where
  "identity_from_proto m = \<lparr>project = pb_project m, environment = pb_environment m,
     commit_sha = pb_commit_sha m, artifact_digest = pb_artifact_digest m, config_hash = pb_config_hash m\<rparr>"

definition grpc_observe_service ::
  "pb_identity option \<Rightarrow> target_store \<Rightarrow> ustr rpc_result \<times> target_store" where
  "grpc_observe_service req s =
    (case req of
       None \<Rightarrow> (RpcError (u ''INVALID_ARGUMENT'') go_no_identity, s)
     | Some m \<Rightarrow>
         (let i = identity_from_proto m in (RpcOk (go_fingerprint i), store_put i s)))"

definition agent_execution_proto :: "pb_context \<Rightarrow> agent_execution" where
  "agent_execution_proto c =
     \<lparr>ax_epoch_id = pb_epoch_id c, ax_actor_type = pb_actor_type c, ax_actor_id = pb_actor_id c,
      ax_action = pb_action c, ax_approved_fingerprint = pb_approved_fingerprint c,
      ax_capability_token = pb_capability_token c\<rparr>"

definition proto_result :: "go_result \<Rightarrow> pb_execute_response" where
  "proto_result r =
     \<lparr>pb_outcome = gr_outcome r, pb_observed_fingerprint = gr_observed_fingerprint r, pb_reason = gr_reason r,
      pb_differences = map (\<lambda>d. \<lparr>pb_field = df_field d, pb_expected = df_expected d,
        pb_observed = df_observed d\<rparr>) (gr_differences r)\<rparr>"

definition grpc_execute_service ::
  "executor_env \<Rightarrow> pb_identity option \<Rightarrow> pb_context option \<Rightarrow> target_store \<Rightarrow>
   pb_execute_response rpc_result \<times> target_store" where
  "grpc_execute_service X req context s =
    (case req of
       None \<Rightarrow> (RpcError (u ''INVALID_ARGUMENT'') go_no_expected, s)
     | Some m \<Rightarrow>
         (let expected = identity_from_proto m
          in case (case context of
                     None \<Rightarrow> None
                   | Some c \<Rightarrow> validate_agent (xe_capability_secret X) expected (agent_execution_proto c)
                                 (xe_clock X 2)) of
               Some e \<Rightarrow> (RpcError (u ''PERMISSION_DENIED'') e, s)
             | None \<Rightarrow>
                 (case store_get s expected of
                    None \<Rightarrow> (RpcError (u ''FAILED_PRECONDITION'') go_no_target, s)
                  | Some observed \<Rightarrow> (RpcOk (proto_result (go_compare expected observed)), s))))"

text \<open>The three calls with the interceptor before them.\<close>

definition serve_health :: "executor_env \<Rightarrow> (ustr \<times> ustr) list option \<Rightarrow> target_store \<Rightarrow>
    pb_health_response rpc_result \<times> target_store" where
  "serve_health X md s = grpc_intercept X md GoHealth (\<lambda>s. (RpcOk grpc_health_service, s)) s"

definition serve_observe :: "executor_env \<Rightarrow> (ustr \<times> ustr) list option \<Rightarrow> pb_identity option \<Rightarrow> target_store \<Rightarrow>
    ustr rpc_result \<times> target_store" where
  "serve_observe X md m s = grpc_intercept X md (GoObserve m) (grpc_observe_service m) s"

definition serve_execute :: "executor_env \<Rightarrow> (ustr \<times> ustr) list option \<Rightarrow> pb_identity option \<Rightarrow> pb_context option \<Rightarrow>
    target_store \<Rightarrow> pb_execute_response rpc_result \<times> target_store" where
  "serve_execute X md m c s = grpc_intercept X md (GoExecute m c) (grpc_execute_service X m c) s"

end
