(* ===== verification/Go_Remote.thy ===== *)
theory Go_Remote
  imports Go_Server Schemas
begin

text \<open>
  The orchestrator's clients and the Go executors together: what the clients send is read and its
  signature accepted, the executors agree with the local client on the identities both runtimes treat
  alike, an agent needs a capability there as well, and the executor without gin refuses every agent.
\<close>

section \<open>What is sent is read\<close>

definition sent_body :: "json \<Rightarrow> bytes" where
  "sent_body payload = utf8 (json_dumps payload)"

definition sent_headers :: "env \<Rightarrow> json \<Rightarrow> (ustr \<times> ustr) list" where
  "sent_headers E payload =
    (let timestamp = int_str (clock E 4 div 1000000)
     in [(u ''Content-Type'', u ''application/json''), (u ''X-EpochDeploy-Timestamp'', timestamp),
         (u ''X-EpochDeploy-Signature'',
           http_signature (executor_hmac_secret (cfg E)) timestamp (sent_body payload))])"

definition observe_payload :: "identity \<Rightarrow> json" where
  "observe_payload i = JObj [(u ''identity'', identity_json i)]"

definition execute_payload :: "identity \<Rightarrow> exec_context option \<Rightarrow> json" where
  "execute_payload e context = JObj ((u ''expected'', identity_json e) #
     (case context of None \<Rightarrow> [] | Some c \<Rightarrow> [(u ''context'', context_json c)]))"

lemma identity_json_eq:
  "identity_json i = JObj [(u ''project'', JStr (project i)), (u ''environment'', JStr (environment i)),
     (u ''commit_sha'', JStr (commit_sha i)), (u ''artifact_digest'', JStr (artifact_digest i)),
     (u ''config_hash'', JStr (config_hash i))]"
  by (simp add: identity_json_def FIELDS_def)

lemma go_text_json:
  "json_readable GoJson d (JStr s) \<longleftrightarrow> surrogate_free s"
  "go_text s \<Longrightarrow> surrogate_free s"
  using scanned_go_id [of s] by (cases d; simp add: go_text_def list_all_iff)+

lemma identity_json_read:
  assumes "go_identity i"
  shows "0 < d \<Longrightarrow> json_readable GoJson d (identity_json i)" and "json_unicode (identity_json i)"
  using go_identity_texts [OF assms] go_text_u
  by (cases d; auto simp: identity_json_eq go_text_json go_text_unicode scanned_go_id simp del: scanned_text.simps)+

lemma decode_identity: "decode_struct go_identity_fields True (identity_json i) no_identity = Some i"
  by (simp add: identity_json_eq go_identity_fields_def field_decoder_known no_identity_def)

definition go_context :: "exec_context \<Rightarrow> bool" where
  "go_context c \<longleftrightarrow> list_all go_text
     [cx_epoch_id c, cx_actor_type c, cx_actor_id c, cx_action c, cx_approved_fingerprint c,
      cx_capability_token c, cx_policy_decision c, cx_policy_rule c]"

lemma context_json_read:
  assumes "go_context c"
  shows "0 < d \<Longrightarrow> json_readable GoJson d (context_json c)" and "json_unicode (context_json c)"
  using assms go_text_u
  by (cases d; auto simp: context_json_def go_context_def go_text_json go_text_unicode scanned_go_id simp del: scanned_text.simps)+

lemma decode_context_json: "decode_struct context_fields True (context_json c) no_context = Some c"
  by (simp add: context_json_def context_fields_def field_decoder_known no_context_def)

lemma observe_payload_read:
  assumes "go_identity i"
  shows "decode_one observe_fields (sent_body (observe_payload i)) \<lparr>rq_identity = no_identity\<rparr> =
    Some \<lparr>rq_identity = i\<rparr>"
proof -
  have "go_unmarshal (sent_body (observe_payload i)) = Some (observe_payload i)"
    unfolding sent_body_def
    by (rule go_unmarshal_dumps)
      (use identity_json_read [OF assms] go_text_u [of "''identity''"] in
        \<open>simp_all add: observe_payload_def go_text_json go_text_unicode scanned_go_id
          del: scanned_text.simps\<close>)
  then show ?thesis
    by (simp add: decode_one_def observe_payload_def observe_fields_def field_decoder_known decode_identity)
qed

lemma execute_payload_unmarshal:
  assumes "go_identity e" and "\<forall>c. context = Some c \<longrightarrow> go_context c"
  shows "go_unmarshal (sent_body (execute_payload e context)) = Some (execute_payload e context)"
  unfolding sent_body_def
  by (rule go_unmarshal_dumps)
    (use identity_json_read [OF assms(1)] context_json_read assms(2) go_text_u in
      \<open>simp_all add: execute_payload_def go_text_json go_text_unicode scanned_go_id
        del: scanned_text.simps split: option.split\<close>)

lemma gin_payload_read:
  assumes "go_identity e" and "\<forall>c. context = Some c \<longrightarrow> go_context c"
  shows "decode_one gin_execute_fields (sent_body (execute_payload e context))
      \<lparr>gq_expected = no_identity, gq_context = None\<rparr> = Some \<lparr>gq_expected = e, gq_context = context\<rparr>"
proof -
  have "decode_context (context_json c) r = map_option (\<lambda>x. r\<lparr>gq_context := Some x\<rparr>)
      (decode_struct context_fields True (context_json c)
        (case gq_context r of None \<Rightarrow> no_context | Some c \<Rightarrow> c))" for c r
    by (simp add: context_json_def)
  then show ?thesis
    by (simp add: decode_one_def execute_payload_unmarshal [OF assms])
      (auto simp: execute_payload_def gin_execute_fields_def field_decoder_known decode_identity decode_context_json
        split: option.split)
qed

text \<open>The server of the standard library does not know the member for the context.\<close>

lemma stdlib_payload_read:
  assumes "go_identity e" and "\<forall>c. context = Some c \<longrightarrow> go_context c"
  shows "decode_one execute_fields (sent_body (execute_payload e context)) \<lparr>rq_expected = no_identity\<rparr> =
    (case context of None \<Rightarrow> Some \<lparr>rq_expected = e\<rparr> | Some c \<Rightarrow> None)"
proof -
  have "field_decoder execute_fields (u ''context'') = None"
    by (simp add: field_decoder_def execute_fields_def u_def fold_char_def)
  then show ?thesis
    by (simp add: decode_one_def execute_payload_unmarshal [OF assms])
      (auto simp: execute_payload_def execute_fields_def field_decoder_known decode_identity split: option.split)
qed

section \<open>The signature is accepted\<close>

text \<open>The executor has the secret of the orchestrator, and its clock is close to the time stamp.\<close>

definition in_step :: "env \<Rightarrow> executor_env \<Rightarrow> bool" where
  "in_step E X \<longleftrightarrow> xe_secret X = executor_hmac_secret (cfg E) \<and> 0 \<le> clock E 4 \<and>
     clock E 4 div 1000000 < 2 ^ 63 \<and>
     \<bar>xe_clock X 1 - (clock E 4 div 1000000) * 1000000000\<bar> \<le> max_clock_skew"

lemma in_step_clock: "in_step E X \<Longrightarrow> 0 \<le> clock E 4 div 1000000 \<and> clock E 4 div 1000000 < 2 ^ 63"
  by (simp add: in_step_def pos_imp_zdiv_nonneg_iff)

lemma header_get_sent:
  "header_get (sent_headers E p) (u ''X-EpochDeploy-Timestamp'') = int_str (clock E 4 div 1000000)"
  "header_get (sent_headers E p) (u ''X-EpochDeploy-Signature'') =
     http_signature (executor_hmac_secret (cfg E)) (int_str (clock E 4 div 1000000)) (sent_body p)"
  by (simp_all add: header_get_def sent_headers_def Let_def u_def py_lower_def lower_char_def)

lemma signed_handler_sent:
  assumes "in_step E X" and "length (sent_body p) \<le> 65536"
  shows "signed_handler X (sent_headers E p) h (sent_body p) s = h (sent_body p) s"
proof -
  have n: "0 \<le> clock E 4 div 1000000" "clock E 4 div 1000000 < 2 ^ 63"
    using in_step_clock [OF assms(1)] by simp_all
  have "valid_signature (xe_secret X) (int_str (clock E 4 div 1000000)) (sent_body p)
      (http_signature (executor_hmac_secret (cfg E)) (int_str (clock E 4 div 1000000)) (sent_body p)) (xe_clock X 1)"
    using assms(1) unfolding in_step_def http_signature_def by (simp only: signature_accepted [OF n])
  with assms(2) show ?thesis by (simp add: signed_handler_def header_get_sent)
qed

lemma signed_post_eq:
  "signed_post E path p =
    (case http_post E (rstrip_slash (executor_url (cfg E)) @ path) (sent_body p) (sent_headers E p) of
       HttpFailure \<Rightarrow> Inl (ExecutorBoundaryError msg_boundary_failed)
     | HttpResponse status content \<Rightarrow>
         if status < 200 \<or> 300 \<le> status then Inl (ExecutorBoundaryError msg_boundary_failed)
         else (case content of
                 None \<Rightarrow> Inl (ExecutorBoundaryError msg_boundary_failed)
               | Some data \<Rightarrow> Inr data))"
  by (simp add: signed_post_def sent_body_def sent_headers_def Let_def)

section \<open>The executors as the other end of the clients\<close>

text \<open>
  The channels of an environment lead to a gin executor that serves from the store s. The gRPC client signs the
  bytes its protobuf runtime gives for a message, and the executor checks the signature on the bytes its own
  runtime gives for the message it has received. Protobuf does not promise that two runtimes give the same
  bytes, so nothing is assumed here: a request is \<open>signed_alike\<close> when the two signatures agree, as they do
  for equal bytes, and the theorems say what happens in both cases.
\<close>

fun received :: "pb_request \<Rightarrow> go_rpc" where
  "received (ObserveRequest i) = GoObserve (Some i)"
| "received (ExecuteRequest i c) = GoExecute (Some i) c"

definition signed_alike :: "env \<Rightarrow> executor_env \<Rightarrow> pb_request \<Rightarrow> bool" where
  "signed_alike E X r \<longleftrightarrow>
     (let key = utf8 (executor_hmac_secret (cfg E));
          signed = (\<lambda>body. utf8 (int_str (clock E 4 div 1000000)) @ [46] @ utf8 (full_method (received r)) @ [46] @ body)
      in case xe_marshal X (received r) of
           None \<Rightarrow> False
         | Some body \<Rightarrow> hmac_sha256 key (signed body) = hmac_sha256 key (signed (pb_serialize E r)))"

lemma same_bytes_signed_alike: "xe_marshal X (received r) = Some (pb_serialize E r) \<Longrightarrow> signed_alike E X r"
  by (simp add: signed_alike_def Let_def)

definition http_answers ::
  "env \<Rightarrow> (ustr \<Rightarrow> (ustr \<times> ustr) list \<Rightarrow> go_handler) \<Rightarrow> target_store \<Rightarrow> bool" where
  "http_answers E serve s \<longleftrightarrow>
     (\<forall>path body headers. http_post E (rstrip_slash (executor_url (cfg E)) @ path) body headers =
        (case fst (serve path headers body s) of (st, j) \<Rightarrow> HttpResponse st j))"

definition grpc_answers :: "env \<Rightarrow> executor_env \<Rightarrow> target_store \<Rightarrow> bool" where
  "grpc_answers E X s \<longleftrightarrow>
     (\<forall>i md. grpc_observe E (executor_grpc_target (cfg E)) (ObserveRequest i) md =
        fst (serve_observe X (Some md) (Some i) s)) \<and>
     (\<forall>i c md. grpc_execute E (executor_grpc_target (cfg E)) (ExecuteRequest i c) md =
        fst (serve_execute X (Some md) (Some i) c s))"

definition executor_at :: "env \<Rightarrow> executor_env \<Rightarrow> target_store \<Rightarrow> bool" where
  "executor_at E X s \<longleftrightarrow> http_answers E (gin_serve X (u ''POST'')) s \<and> grpc_answers E X s"

text \<open>The store after the client has sent an observation.\<close>

fun store_after :: "executor_kind \<Rightarrow> env \<Rightarrow> executor_env \<Rightarrow> identity \<Rightarrow> target_store \<Rightarrow> target_store" where
  "store_after HTTPExecutorClient E X i s =
     snd (gin_serve X (u ''POST'') (u ''/v1/targets/observe'') (sent_headers E (observe_payload i))
       (sent_body (observe_payload i)) s)"
| "store_after GRPCExecutorClient E X i s =
     snd (serve_observe X (Some (grpc_metadata E grpc_observe_method (ObserveRequest (pb_identity_of i))))
       (Some (pb_identity_of i)) s)"
| "store_after LocalExecutorClient E X i s = s"

lemma from_proto [simp]: "identity_from_proto (pb_identity_of i) = i"
  by (simp add: identity_from_proto_def pb_identity_of_def)

text \<open>The bodies that fit a request of 64 KiB.\<close>

definition fits_request :: "json \<Rightarrow> bool" where
  "fits_request payload \<longleftrightarrow> length (sent_body payload) \<le> 65536"

lemma gin_observes:
  assumes "in_step E X" and "go_identity i" and "fits_request (observe_payload i)"
  shows "gin_serve X (u ''POST'') (u ''/v1/targets/observe'') (sent_headers E (observe_payload i))
      (sent_body (observe_payload i)) s = (write_fingerprint (go_fingerprint i), store_put i s)"
  using assms(3)
  by (simp add: gin_serve_def signed_handler_sent [OF assms(1)] fits_request_def observe_handler_def
      observe_payload_read [OF assms(2)])

lemma gin_executes:
  assumes "in_step E X" and "go_identity e" and "\<forall>c. context = Some c \<longrightarrow> go_context c"
    and "fits_request (execute_payload e context)" and "check_context X e context = None"
  shows "gin_serve X (u ''POST'') (u ''/v1/execute'') (sent_headers E (execute_payload e context))
      (sent_body (execute_payload e context)) s = (compare_observed e s, s)"
  by (simp add: gin_serve_def signed_handler_sent [OF assms(1) assms(4) [unfolded fits_request_def]] gin_execute_def
      gin_payload_read [OF assms(2,3)] assms(5))

text \<open>The interceptor lets a call of the orchestrator's client through when its signature is the expected one.\<close>

lemma signature_of_other:
  assumes "0 \<le> n" and "n < 2 ^ 63"
  shows "valid_signature secret (int_str n) body
      (u ''sha256='' @ hmac_sha256_hex (utf8 secret) (utf8 (int_str n) @ [46] @ body')) now \<longleftrightarrow>
    \<bar>now - n * 1000000000\<bar> \<le> max_clock_skew \<and>
    hmac_sha256 (utf8 secret) (utf8 (int_str n) @ [46] @ body) = hmac_sha256 (utf8 secret) (utf8 (int_str n) @ [46] @ body')"
  by (auto simp: valid_signature_iff parse_int64_int_str [OF assms] hmac_sha256_hex_def hex_decode_hex hmac_bytes)

lemma intercept_sent:
  assumes "in_step E X" and "m = full_method (received r)"
  shows "signed_alike E X r \<Longrightarrow> grpc_intercept X (Some (grpc_metadata E m r)) (received r) h s = h s"
    and "\<not> signed_alike E X r \<Longrightarrow> \<exists>code details.
      grpc_intercept X (Some (grpc_metadata E m r)) (received r) h s = (RpcError code details, s)"
proof -
  let ?n = "clock E 4 div 1000000"
  have n: "0 \<le> ?n" "?n < 2 ^ 63" using in_step_clock [OF assms(1)] by simp_all
  have X: "xe_secret X = executor_hmac_secret (cfg E)" "\<bar>xe_clock X 1 - ?n * 1000000000\<bar> \<le> max_clock_skew"
    using assms(1) by (simp_all add: in_step_def)
  have valid: "valid_rpc_signature (xe_secret X) (int_str ?n) m body
      (u ''sha256='' @ hmac_sha256_hex (utf8 (executor_hmac_secret (cfg E)))
        (utf8 (int_str ?n) @ [46] @ utf8 m @ [46] @ pb_serialize E r)) (xe_clock X 1) \<longleftrightarrow>
    hmac_sha256 (utf8 (executor_hmac_secret (cfg E))) (utf8 (int_str ?n) @ [46] @ utf8 m @ [46] @ body) =
    hmac_sha256 (utf8 (executor_hmac_secret (cfg E))) (utf8 (int_str ?n) @ [46] @ utf8 m @ [46] @ pb_serialize E r)" for body
    using X signature_of_other [OF n, of "executor_hmac_secret (cfg E)" "utf8 m @ [46] @ body" "utf8 m @ [46] @ pb_serialize E r"]
    unfolding valid_rpc_signature_http by simp
  have "full_method (received r) \<noteq> full_method GoHealth"
    by (cases r) (simp_all add: full_method_def)
  then have run: "grpc_intercept X (Some (grpc_metadata E m r)) (received r) h s =
    (if signed_alike E X r then h s
     else (case xe_marshal X (received r) of
        None \<Rightarrow> (RpcError (u ''INTERNAL'') go_no_bytes, s)
      | Some _ \<Rightarrow> (RpcError (u ''UNAUTHENTICATED'') go_bad_signature, s)))"
    using assms(2) valid
    by (simp add: grpc_intercept_def md_get_def grpc_metadata_def Let_def signed_alike_def split: option.split)
  show "signed_alike E X r \<Longrightarrow> grpc_intercept X (Some (grpc_metadata E m r)) (received r) h s = h s"
    by (simp add: run)
  show "\<exists>code details. grpc_intercept X (Some (grpc_metadata E m r)) (received r) h s = (RpcError code details, s)"
    if "\<not> signed_alike E X r"
    using that by (simp add: run split: option.split)
qed

abbreviation observe_call :: "identity \<Rightarrow> pb_request" where
  "observe_call i \<equiv> ObserveRequest (pb_identity_of i)"

abbreviation execute_call :: "identity \<Rightarrow> exec_context option \<Rightarrow> pb_request" where
  "execute_call e context \<equiv> ExecuteRequest (pb_identity_of e) (pb_context_of context)"

lemma sent_methods:
  "grpc_observe_method = full_method (received (observe_call i))"
  "grpc_execute_method = full_method (received (execute_call e context))"
  by (simp_all add: grpc_observe_method_def grpc_execute_method_def full_method_def)

lemma grpc_observes:
  assumes "in_step E X"
  shows "signed_alike E X (observe_call i) \<Longrightarrow>
      serve_observe X (Some (grpc_metadata E grpc_observe_method (observe_call i))) (Some (pb_identity_of i)) s =
        (RpcOk (go_fingerprint i), store_put i s)"
    and "\<not> signed_alike E X (observe_call i) \<Longrightarrow> \<exists>code details.
      serve_observe X (Some (grpc_metadata E grpc_observe_method (observe_call i))) (Some (pb_identity_of i)) s =
        (RpcError code details, s)"
  using intercept_sent [OF assms sent_methods(1) [of i], of "grpc_observe_service (Some (pb_identity_of i))" s]
  by (simp_all add: serve_observe_def grpc_observe_service_def)

lemma agent_execution_sent:
  "pb_context_of context = Some m \<Longrightarrow> \<exists>c. context = Some c \<and> agent_execution_proto m = agent_execution_of c"
  by (auto simp: pb_context_of_def agent_execution_proto_def agent_execution_of_def split: option.splits)

lemma grpc_executes:
  assumes "in_step E X"
  shows "signed_alike E X (execute_call e context) \<Longrightarrow> check_context X e context = None \<Longrightarrow>
      serve_execute X (Some (grpc_metadata E grpc_execute_method (execute_call e context)))
        (Some (pb_identity_of e)) (pb_context_of context) s =
      (case store_get s e of None \<Rightarrow> (RpcError (u ''FAILED_PRECONDITION'') go_no_target, s)
       | Some ob \<Rightarrow> (RpcOk (proto_result (go_compare e ob)), s))"
    and "\<not> signed_alike E X (execute_call e context) \<Longrightarrow> \<exists>code details.
      serve_execute X (Some (grpc_metadata E grpc_execute_method (execute_call e context)))
        (Some (pb_identity_of e)) (pb_context_of context) s = (RpcError code details, s)"
proof -
  note sent = intercept_sent [OF assms sent_methods(2) [of e "context"],
      of "grpc_execute_service X (Some (pb_identity_of e)) (pb_context_of context)" s]
  show "serve_execute X (Some (grpc_metadata E grpc_execute_method (execute_call e context)))
        (Some (pb_identity_of e)) (pb_context_of context) s =
      (case store_get s e of None \<Rightarrow> (RpcError (u ''FAILED_PRECONDITION'') go_no_target, s)
       | Some ob \<Rightarrow> (RpcOk (proto_result (go_compare e ob)), s))"
    if "signed_alike E X (execute_call e context)" and "check_context X e context = None"
  proof -
    have "(case pb_context_of context of None \<Rightarrow> None
        | Some c \<Rightarrow> validate_agent (xe_capability_secret X) e (agent_execution_proto c) (xe_clock X 2)) = None"
      using that(2) by (auto simp: check_context_def split: option.splits dest!: agent_execution_sent)
    with sent(1) [OF that(1)] show ?thesis by (simp add: serve_execute_def grpc_execute_service_def)
  qed
  show "\<exists>code details. serve_execute X (Some (grpc_metadata E grpc_execute_method (execute_call e context)))
        (Some (pb_identity_of e)) (pb_context_of context) s = (RpcError code details, s)"
    if "\<not> signed_alike E X (execute_call e context)"
    using sent(2) [OF that] by (simp add: serve_execute_def)
qed

text \<open>A request of a client arrives: over gRPC when it is signed alike.\<close>

definition arrives :: "executor_kind \<Rightarrow> env \<Rightarrow> executor_env \<Rightarrow> pb_request \<Rightarrow> bool" where
  "arrives k E X r \<longleftrightarrow> (k = GRPCExecutorClient \<longrightarrow> signed_alike E X r)"

lemma store_after_put:
  assumes "in_step E X" and "arrives k E X (observe_call i)" and "go_identity i" and "fits_request (observe_payload i)"
    and "k \<noteq> LocalExecutorClient"
  shows "store_after k E X i s = store_put i s"
  using assms by (cases k) (simp_all add: gin_observes grpc_observes arrives_def)

section \<open>Agreement with the local client\<close>

text \<open>The result of the comparison, read by the HTTP client and by the gRPC client.\<close>

definition compared :: "env \<Rightarrow> go_result \<Rightarrow> executor_result" where
  "compared E r = \<lparr>er_outcome = gr_outcome r, er_observed_fingerprint = gr_observed_fingerprint r,
     er_reason = gr_reason r, er_latency_ms = latency E,
     er_differences = JArr (map difference_json (gr_differences r))\<rparr>"

lemma compared_local:
  assumes "same_canonical e" and "same_canonical ob" and "no_html ob" and "no_collision e ob"
    and "local_check E e context = Inr ()"
  shows "local_execute E e ob context = Inr (compared E (go_compare e ob))"
proof -
  have "go_fingerprint ob = fingerprint ob"
    by (simp add: go_fingerprint_def fingerprint_def go_payload_plain assms(2,3))
  then show ?thesis
    by (auto simp: local_execute_Inr assms(5) compared_def go_compare_python [OF assms(1,2)] Let_def
        fingerprint_eq_iff [OF assms(4)])
qed

lemma http_execute_gin:
  assumes "executor_at E X s" and "in_step E X" and "go_identity e"
    and "\<forall>c. context = Some c \<longrightarrow> go_context c" and "fits_request (execute_payload e context)"
    and "check_context X e context = None" and "store_get s e = Some ob"
  shows "http_execute E e ob' context = Inr (compared E (go_compare e ob))"
proof -
  have "http_execute E e ob' context = res_bind (signed_post E (u ''/v1/execute'') (execute_payload e context)) (\<lambda>data.
      res_bind (subscript_str data (u ''outcome'')) (\<lambda>outcome.
      res_bind (subscript_str data (u ''observed_fingerprint'')) (\<lambda>observed_fp.
      res_bind (subscript_str data (u ''reason'')) (\<lambda>reason.
      Inr \<lparr>er_outcome = outcome, er_observed_fingerprint = observed_fp, er_reason = reason,
           er_latency_ms = latency E, er_differences = get_differences data\<rparr>))))"
    by (simp add: http_execute_def execute_payload_def Let_def)
  moreover have "signed_post E (u ''/v1/execute'') (execute_payload e context) =
      Inr (the (snd (write_result (go_compare e ob))))"
    using assms(1,7) gin_executes [OF assms(2-6), of s]
    by (simp add: signed_post_eq executor_at_def http_answers_def compare_observed_def write_result_def)
  ultimately show ?thesis
    by (simp add: write_result_def subscript_str_def get_differences_def compared_def)
qed

lemma http_observe_gin:
  assumes "executor_at E X s" and "in_step E X" and "go_identity i" and "fits_request (observe_payload i)"
  shows "http_observe E i = Inr ()"
  using assms(1) gin_observes [OF assms(2-4), of s]
  by (simp add: http_observe_def observe_payload_def [symmetric] signed_post_eq executor_at_def http_answers_def
      write_fingerprint_def)

lemma grpc_execute_gin:
  assumes "grpc_answers E X s" and "in_step E X"
  shows "signed_alike E X (execute_call e context) \<Longrightarrow> check_context X e context = None \<Longrightarrow>
      store_get s e = Some ob \<Longrightarrow> grpc_client_execute E e ob' context = Inr (compared E (go_compare e ob))"
    and "\<not> signed_alike E X (execute_call e context) \<Longrightarrow>
      \<exists>m. grpc_client_execute E e ob' context = Inl (ExecutorBoundaryError m)"
  using assms(1) grpc_executes [OF assms(2), of e "context" s]
  by (auto simp: grpc_client_execute_def Let_def grpc_answers_def compared_def proto_result_def
      pb_difference_json_def difference_json_def comp_def)

lemma grpc_observe_gin:
  assumes "grpc_answers E X s" and "in_step E X"
  shows "signed_alike E X (observe_call i) \<Longrightarrow> grpc_client_observe E i = Inr ()"
    and "\<not> signed_alike E X (observe_call i) \<Longrightarrow> \<exists>m. grpc_client_observe E i = Inl (ExecutorBoundaryError m)"
  using assms(1) grpc_observes [OF assms(2), of i s]
  by (auto simp: grpc_client_observe_def Let_def grpc_answers_def)

section \<open>Accepted releases\<close>

text \<open>What the request models guarantee of an identity, beyond \<open>immutable_identity\<close>.\<close>

definition accepted_identity :: "'a identity_scheme \<Rightarrow> bool" where
  "accepted_identity i \<longleftrightarrow> immutable_identity i \<and> environment_pattern (environment i) \<and>
     rust_trim (project i) = project i \<and> length (project i) \<le> 120 \<and> length (commit_sha i) \<le> 64"

lemma accepted_values:
  assumes v: "validate_model fs others body = Inr v" and d: "distinct (map sf_name fs)"
    and sub: "set identity_fields \<subseteq> set fs"
  shows "environment_pattern (v (u ''environment'')) \<and> rust_trim (v (u ''project'')) = v (u ''project'') \<and>
    length (v (u ''project'')) \<le> 120 \<and> length (v (u ''commit_sha'')) \<le> 64"
proof -
  have fld: "\<exists>kvs. validate_str f kvs = Some (v (sf_name f))" if f: "f \<in> set identity_fields" for f
  proof -
    from f sub have "f \<in> set fs" by (rule rev_subsetD)
    from validate_model_Inr [OF v d this] show ?thesis by (elim exE conjE) (rule exI)
  qed
  have "str_field ''project'' 2 120 \<in> set identity_fields"
    "pattern_field ''environment'' environment_pattern \<in> set identity_fields"
    "(str_field ''commit_sha'' 7 64)\<lparr>sf_validator := immutable_commit\<rparr> \<in> set identity_fields"
    by (simp_all add: identity_fields_def)
  from fld [OF this(1)] fld [OF this(2)] fld [OF this(3)] show ?thesis
    by (auto simp: validate_str_def str_field_def pattern_field_def Let_def immutable_commit_def
        split: option.splits json.splits if_splits) (metis rust_trim_idem, metis length_py_lower)
qed

lemma target_observation_accepted: "target_observation body = Inr i \<Longrightarrow> accepted_identity i"
  using accepted_values [OF _ distinct_field_names(1)]
  by (auto simp: accepted_identity_def target_observation_immutable)
    (fastforce simp: target_observation_def res_bind_Inr_iff)+

lemma epoch_create_accepted: "epoch_create body = Inr p \<Longrightarrow> accepted_identity p"
  using accepted_values [OF _ distinct_field_names(2)]
  by (auto simp: accepted_identity_def epoch_create_immutable)
    (fastforce simp: epoch_create_def res_bind_Inr_iff epoch_create_fields_def)+

text \<open>A text without blanks and special characters is the same in both runtimes.\<close>

definition plain_char :: "nat \<Rightarrow> bool" where
  "plain_char c \<longleftrightarrow> 33 \<le> c \<and> c < 127 \<and> \<not> html_special c"

lemma plain_canonical:
  assumes "list_all plain_char s"
  shows "canonical s = s" and "py_strip s = s" and "list_all (\<lambda>c. \<not> html_special c) s"
proof -
  have "\<not> is_rust_space c \<and> \<not> is_py_space c" if "c \<in> set s" for c
    using assms that by (auto simp: list_all_iff plain_char_def is_rust_space_def is_py_space_def)
  then have "s = [] \<or> \<not> is_rust_space (hd s) \<and> \<not> is_rust_space (last s)"
    "s = [] \<or> \<not> is_py_space (hd s) \<and> \<not> is_py_space (last s)" by auto
  then show "canonical s = s" "py_strip s = s"
    by (simp_all add: canonical_def trim_space_def py_strip_def strip_by_id)
  show "list_all (\<lambda>c. \<not> html_special c) s" using assms by (auto simp: list_all_iff plain_char_def)
qed

lemma plain_hex: "lower_hex h \<Longrightarrow> list_all plain_char h"
  by (auto simp: lower_hex_def list_all_iff plain_char_def html_special_def)

lemma plain_prefixes: "list_all plain_char (u ''sha256:'')" "list_all plain_char (u ''cfg:'')"
  by (simp_all add: u_def plain_char_def html_special_def)

lemma accepted_plain:
  assumes "accepted_identity i"
  shows "list_all plain_char (environment i)" and "list_all plain_char (commit_sha i)"
    and "list_all plain_char (artifact_digest i)" and "list_all plain_char (config_hash i)"
proof -
  from assms have im: "immutable_identity i" and env: "environment_pattern (environment i)"
    by (simp_all add: accepted_identity_def)
  from env show "list_all plain_char (environment i)"
    by (auto simp: environment_pattern_def match_name_def is_name_char_def is_lower_def is_digit_def
        list_all_iff plain_char_def html_special_def split: list.splits)
  from im show "list_all plain_char (commit_sha i)" "list_all plain_char (artifact_digest i)"
    "list_all plain_char (config_hash i)"
    by (auto simp: immutable_identity_def plain_hex plain_prefixes)
qed

lemma accepted_agrees:
  assumes "accepted_identity i"
  shows "same_canonical i \<and> no_html i \<longleftrightarrow>
    py_strip (project i) = project i \<and> list_all (\<lambda>c. \<not> html_special c) (project i)"
proof -
  have "canonical (project i) = project i"
    using assms by (simp add: accepted_identity_def canonical_def trim_space_def rust_trim_def)
  then show ?thesis
    unfolding same_canonical_def no_html_def all_fields
    using plain_canonical [OF accepted_plain(1) [OF assms]] plain_canonical [OF accepted_plain(2) [OF assms]]
      plain_canonical [OF accepted_plain(3) [OF assms]] plain_canonical [OF accepted_plain(4) [OF assms]]
    by auto
qed

text \<open>An accepted identity fits a request.\<close>

lemma length_utf8: "length (utf8 s) \<le> 4 * length s"
  by (induction s) (auto simp: utf8_def utf8_char_def)

lemma length_json_string: "length (json_string s) \<le> 6 * length s + 2"
  by (induction s) (auto simp: json_string_def esc_char_def)

lemma length_identity_dumps:
  "length (json_dumps (identity_json i)) \<le> 160 +
     6 * (length (project i) + length (environment i) + length (commit_sha i) + length (artifact_digest i) +
       length (config_hash i))"
proof -
  have keys: "length (json_string (u ''project'')) = 9" "length (json_string (u ''environment'')) = 13"
    "length (json_string (u ''commit_sha'')) = 12" "length (json_string (u ''artifact_digest'')) = 17"
    "length (json_string (u ''config_hash'')) = 13"
    by (simp_all add: json_string_def u_def esc_char_def)
  show ?thesis
    using length_json_string [of "project i"] length_json_string [of "environment i"]
      length_json_string [of "commit_sha i"] length_json_string [of "artifact_digest i"]
      length_json_string [of "config_hash i"]
    by (simp add: identity_json_eq keys)
qed

lemma accepted_size:
  assumes "accepted_identity i"
  shows "length (json_dumps (identity_json i)) \<le> 3000"
proof -
  from assms have "length (project i) \<le> 120" "length (commit_sha i) \<le> 64"
    "length (environment i) \<le> 32" "length (artifact_digest i) \<le> 71" "length (config_hash i) \<le> 71"
    by (auto simp: accepted_identity_def immutable_identity_def environment_pattern_def match_name_def split: list.splits)
  then show ?thesis using length_identity_dumps [of i] by simp
qed

lemma accepted_fits:
  assumes "accepted_identity i"
  shows "fits_request (observe_payload i)" and "fits_request (execute_payload i None)"
proof -
  note accepted_size [OF assms]
  moreover have "length (json_dumps (observe_payload i)) = 13 + length (json_dumps (identity_json i))"
    "length (json_dumps (execute_payload i None)) = 13 + length (json_dumps (identity_json i))"
    by (simp_all add: observe_payload_def execute_payload_def json_string_def u_def esc_char_def)
  ultimately show "fits_request (observe_payload i)" "fits_request (execute_payload i None)"
    using length_utf8 [of "json_dumps (observe_payload i)"] length_utf8 [of "json_dumps (execute_payload i None)"]
    by (simp_all add: fits_request_def sent_body_def)
qed

section \<open>Agents\<close>

text \<open>What a gin executor has seen when it lets an agent's execution through.\<close>

definition agent_cleared :: "executor_env \<Rightarrow> identity \<Rightarrow> agent_execution \<Rightarrow> bool" where
  "agent_cleared X e ex \<longleftrightarrow>
     ax_action ex = u ''deploy'' \<and> ax_approved_fingerprint ex = go_fingerprint e \<and>
     (\<exists>p0 p1 p2 payload claims. ax_capability_token ex = p0 @ [46] @ p1 @ [46] @ p2 \<and>
        base64_decode p2 = Some (hmac_sha256 (utf8 (xe_capability_secret X)) (utf8 (p0 @ [46] @ p1))) \<and>
        base64_decode p1 = Some payload \<and> decode_claims payload = Some claims \<and>
        claims_valid claims (xe_clock X 2) \<and> claims_scope claims = agent_expectation e ex)"

lemma validate_agent_cleared:
  assumes "validate_agent (xe_capability_secret X) e ex (xe_clock X 2) = None" and "ax_actor_type ex = u ''ai_agent''"
  shows "agent_cleared X e ex"
proof -
  from assms obtain c where c: "go_verify_capability (xe_capability_secret X) (ax_capability_token ex)
      (agent_expectation e ex) (xe_clock X 2) = Inr c"
    and "ax_action ex = u ''deploy''" "ax_approved_fingerprint ex = go_fingerprint e"
    by (auto simp: validate_agent_None)
  moreover from c have "token_claims (xe_capability_secret X) (ax_capability_token ex) = Inr c"
    "claims_valid c (xe_clock X 2)" "claims_scope c = agent_expectation e ex"
    by (simp_all add: go_verify_Inr)
  ultimately show ?thesis
    using token_claims_Inr [of "xe_capability_secret X" "ax_capability_token ex" c]
    unfolding agent_cleared_def by blast
qed

lemma grpc_agent_gate:
  assumes "serve_execute X md (Some m) (Some c) s = (RpcOk r, s')" and "pb_actor_type c = u ''ai_agent''"
  shows "agent_cleared X (identity_from_proto m) (agent_execution_proto c)"
proof (rule validate_agent_cleared)
  have "full_method (GoExecute (Some m) (Some c)) \<noteq> full_method GoHealth" by (simp add: full_method_def)
  with assms(1) have "grpc_execute_service X (Some m) (Some c) s = (RpcOk r, s')"
    by (auto simp: serve_execute_def grpc_intercept_def Let_def split: option.splits if_splits)
  then show "validate_agent (xe_capability_secret X) (identity_from_proto m) (agent_execution_proto c) (xe_clock X 2) = None"
    by (auto simp: grpc_execute_service_def Let_def split: option.splits)
  show "ax_actor_type (agent_execution_proto c) = u ''ai_agent''"
    using assms(2) by (simp add: agent_execution_proto_def)
qed

text \<open>The answer of the standard library's server to a request with a context is never a success.\<close>

lemma stdlib_refuses:
  assumes "go_identity e" and "go_context c"
  shows "fst (fst (stdlib_serve X (u ''POST'') (u ''/v1/execute'') headers
      (sent_body (execute_payload e (Some c))) s)) \<in> {400, 401}"
  using stdlib_payload_read [OF assms(1), of "Some c"] assms(2)
  by (simp add: stdlib_serve_def signed_handler_def stdlib_execute_def write_error_def)

section \<open>Properties\<close>

text \<open>
  The executor accepts a signature exactly when its clock is at most 30 seconds from the time stamp
  and the signature is the one the orchestrator computes for this time stamp and body, up to the case
  of its hexadecimal digits.
\<close>

lemma executor_accepts_signature:
  assumes "0 \<le> n" and "n < 2 ^ 63"
  shows "valid_signature secret (int_str n) body sig now \<longleftrightarrow>
    \<bar>now - n * 1000000000\<bar> \<le> 30 * 1000000000 \<and>
    (\<exists>h. sig = u ''sha256='' @ h \<and> u ''sha256='' @ py_lower h = http_signature secret (int_str n) body)"
  by (simp add: valid_signature_iff parse_int64_int_str [OF assms] hex_decode_iff hmac_bytes http_signature_def
      hmac_sha256_hex_def max_clock_skew_def)

text \<open>
  C11: The fingerprint of the Go executors is the one of the orchestrator, for a release the API has
  accepted, exactly when the name of its project has none of the characters that Go's JSON escapes for
  HTML and no separator character at its ends. Assumed: the two texts that are hashed do not collide.
\<close>

theorem runtimes_agree_on_fingerprint:
  assumes "epoch_create body = Inr p" and "i = identity.truncate p"
    and "go_fingerprint i = fingerprint i \<Longrightarrow> utf8 (go_payload i) = utf8 (fingerprint_payload i)"
  shows "go_fingerprint i = fingerprint i \<longleftrightarrow>
    py_strip (project p) = project p \<and> list_all (\<lambda>c. \<not> html_special c) (project p)"
proof -
  have acc: "accepted_identity i"
    using epoch_create_accepted [OF assms(1)] assms(2)
    by (simp add: accepted_identity_def immutable_identity_def identity.defs)
  have "go_fingerprint i = fingerprint i \<longleftrightarrow> go_payload i = fingerprint_payload i"
    using assms(3) by (auto simp: go_fingerprint_def fingerprint_def utf8_inj)
  also have "\<dots> \<longleftrightarrow> same_canonical i \<and> no_html i" by (rule go_payload_iff)
  finally show ?thesis
    using accepted_agrees [OF acc] assms(2) by (simp add: identity.defs)
qed

text \<open>
  C8: Where the identities are the same in both runtimes, a remote executor in Go decides as the local
  client does, or not at all. After the client has reported the live identity ob, the execution of the
  expected identity e of the same project and environment gives the same result as the local client:
  outcome, fingerprint, reason and differences. This holds over HTTP and over gRPC, with synchronised clocks
  and a shared secret, and for an agent where both sides let the capability pass. Over gRPC it is so exactly
  for the requests that both runtimes sign alike; any other is refused, as an observation without a change of
  the executor's store, and the client reports a failure of the boundary. Assumed of third-party code: the
  channels deliver the request.
\<close>

theorem remote_agrees_with_local:
  assumes "executor_at E0 X0 s" and "in_step E0 X0"
    and "executor_at E1 X1 (store_after k E0 X0 ob s)" and "in_step E1 X1"
    and "go_identity ob" and "fits_request (observe_payload ob)"
    and "go_identity e" and "\<forall>c. context = Some c \<longrightarrow> go_context c" and "fits_request (execute_payload e context)"
    and "check_context X1 e context = None" and "local_check E1 e context = Inr ()"
    and "same_canonical e" and "same_canonical ob" and "no_html ob" and "no_collision e ob"
    and "project e = project ob" and "environment e = environment ob"
  shows "if arrives k E0 X0 (observe_call ob) then
      client_observe k E0 ob = Inr () \<and>
      (if arrives k E1 X1 (execute_call e context) then
         client_execute k E1 e ob context = local_execute E1 e ob context
       else (\<exists>m. client_execute k E1 e ob context = Inl (ExecutorBoundaryError m)))
    else (\<exists>m. client_observe k E0 ob = Inl (ExecutorBoundaryError m)) \<and> store_after k E0 X0 ob s = s"
proof -
  have key: "go_target_key ob = go_target_key e" using assms(16,17) by (simp add: go_target_key_def)
  have get: "store_get (store_after k E0 X0 ob s) e = Some ob"
    if "arrives k E0 X0 (observe_call ob)" "k \<noteq> LocalExecutorClient"
    unfolding store_after_put [OF assms(2) that(1) assms(5,6) that(2)] by (rule store.get_same [OF key])
  note local = compared_local [OF assms(12-15,11)]
  show ?thesis
  proof (cases k)
    case LocalExecutorClient
    then show ?thesis by (simp add: local_observe_def arrives_def)
  next
    case HTTPExecutorClient
    then have "store_get (store_after k E0 X0 ob s) e = Some ob" by (intro get) (simp_all add: arrives_def)
    with HTTPExecutorClient http_observe_gin [OF assms(1,2,5,6)] http_execute_gin [OF assms(3,4,7-10)] local
    show ?thesis by (simp add: arrives_def)
  next
    case GRPCExecutorClient
    from assms(1,3) have at: "grpc_answers E0 X0 s" "grpc_answers E1 X1 (store_after k E0 X0 ob s)"
      by (simp_all add: executor_at_def)
    show ?thesis
    proof (cases "signed_alike E0 X0 (observe_call ob)")
      case True
      with get GRPCExecutorClient have "store_get (store_after k E0 X0 ob s) e = Some ob" by (simp add: arrives_def)
      with True GRPCExecutorClient grpc_observe_gin(1) [OF at(1) assms(2)] grpc_execute_gin [OF at(2) assms(4)] assms(10) local
      show ?thesis by (simp add: arrives_def)
    next
      case False
      with GRPCExecutorClient grpc_observe_gin(2) [OF at(1) assms(2)] grpc_observes(2) [OF assms(2), of ob s]
      show ?thesis by (auto simp: arrives_def)
    qed
  qed
qed

text \<open>
  C19: A gin executor compares nothing for an agent without a capability for exactly this execution: the
  request is signed, the action is \<open>deploy\<close>, the approved fingerprint is the one of the expected release,
  and the token is signed with the capability secret, in time, and has the epoch, the agent, the
  target and the fingerprint of the request as its scope.
\<close>

theorem gin_agent_gate:
  assumes "gin_serve X (u ''POST'') (u ''/v1/execute'') headers body s = ((200, answer), s')"
    and "decode_one gin_execute_fields body \<lparr>gq_expected = no_identity, gq_context = None\<rparr> = Some req"
    and "gq_context req = Some c" and "cx_actor_type c = u ''ai_agent''"
  shows "agent_cleared X (gq_expected req) (agent_execution_of c) \<and> s' = s \<and>
    valid_signature (xe_secret X) (header_get headers (u ''X-EpochDeploy-Timestamp'')) body
      (header_get headers (u ''X-EpochDeploy-Signature'')) (xe_clock X 1)"
proof -
  from assms(1) have sig: "valid_signature (xe_secret X) (header_get headers (u ''X-EpochDeploy-Timestamp'')) body
      (header_get headers (u ''X-EpochDeploy-Signature'')) (xe_clock X 1)"
    and ex: "gin_execute X body s = ((200, answer), s')"
    by (auto simp: gin_serve_def signed_handler_def write_error_def split: if_splits)
  from ex assms(2,3) have "validate_agent (xe_capability_secret X) (gq_expected req) (agent_execution_of c) (xe_clock X 2) = None"
    and "s' = s"
    by (auto simp: gin_execute_def check_context_def write_error_def split: option.splits)
  with sig assms(4) show ?thesis
    using validate_agent_cleared [of X "gq_expected req" "agent_execution_of c"] by (simp add: agent_execution_of_def)
qed

text \<open>
  Over HTTP to the executor without gin no agent can execute: its server does not know the member
  with the context, so every such request is answered 400 or 401, and the client reports a failure of
  the boundary.
\<close>

lemma stdlib_refuses_agents:
  assumes "http_answers E (stdlib_serve X (u ''POST'')) s"
    and "go_identity e" and "go_context c"
  shows "http_execute E e ob (Some c) = Inl (ExecutorBoundaryError msg_boundary_failed)"
proof -
  let ?st = "fst (fst (stdlib_serve X (u ''POST'') (u ''/v1/execute'')
    (sent_headers E (execute_payload e (Some c))) (sent_body (execute_payload e (Some c))) s))"
  have "?st < 200 \<or> 300 \<le> ?st" using stdlib_refuses [OF assms(2,3), of X _ s, of "sent_headers E (execute_payload e (Some c))"]
    by fastforce
  then have "signed_post E (u ''/v1/execute'') (execute_payload e (Some c)) =
      Inl (ExecutorBoundaryError msg_boundary_failed)"
    using assms(1) by (auto simp: signed_post_eq http_answers_def split: prod.split)
  then show ?thesis by (simp add: http_execute_def execute_payload_def Let_def)
qed

end
