(* ===== verification/Go_Trust.thy ===== *)
theory Go_Trust
  imports Go_Remote Consistency
begin

text \<open>
  The condition under which the orchestrator may rely on a Go executor: what the theorems about the
  reachable worlds assume of a request's environment (\<open>trusted_client\<close>) holds of the gRPC client.
\<close>

text \<open>The only successful answer of the gRPC server is the comparison with the observed target.\<close>

lemma serve_execute_RpcOk:
  assumes "fst (serve_execute X md (Some m) context s) = RpcOk r"
  shows "\<exists>ob. store_get s (identity_from_proto m) = Some ob \<and> r = proto_result (go_compare (identity_from_proto m) ob)"
proof -
  have "full_method (GoExecute (Some m) context) \<noteq> full_method GoHealth" by (simp add: full_method_def)
  with assms have "fst (grpc_execute_service X (Some m) context s) = RpcOk r"
    by (auto simp: serve_execute_def grpc_intercept_def Let_def split: option.splits if_splits)
  then show ?thesis
    by (auto simp: grpc_execute_service_def Let_def split: option.splits)
qed

lemma grpc_client_compared:
  assumes "grpc_answers E X s" and "grpc_client_execute E e observed context = Inr x"
  shows "\<exists>ob. store_get s e = Some ob \<and> x = compared E (go_compare e ob)"
proof -
  from assms obtain md r where r: "fst (serve_execute X (Some md) (Some (pb_identity_of e)) (pb_context_of context) s) = RpcOk r"
    and x: "x = \<lparr>er_outcome = pb_outcome r, er_observed_fingerprint = pb_observed_fingerprint r, er_reason = pb_reason r,
      er_latency_ms = latency E, er_differences = JArr (map pb_difference_json (pb_differences r))\<rparr>"
    by (auto simp: grpc_client_execute_def grpc_answers_def Let_def split: rpc_result.splits)
  from serve_execute_RpcOk [OF r] obtain ob where "store_get s e = Some ob" "r = proto_result (go_compare e ob)"
    by auto
  with x show ?thesis
    by (auto simp: compared_def proto_result_def pb_difference_json_def difference_json_def comp_def)
qed

text \<open>The comparison keeps the contract of the boundary where both runtimes read the identities alike.\<close>

lemma compared_result_ok:
  assumes "same_canonical e" and "same_canonical ob" and "no_html ob" and "no_collision e ob"
  shows "result_ok e (compared E (go_compare e ob))"
proof -
  have "local_execute E e ob None = Inr (compared E (go_compare e ob))"
    by (rule compared_local [OF assms]) (simp add: local_check_def)
  from local_client.outcome_cases [OF this] local_client.executed_iff [OF this]
  show ?thesis by (simp add: result_ok_def)
qed

section \<open>Properties\<close>

text \<open>
  C9: A gin executor over gRPC keeps the contract that the properties of the reachable worlds assume of
  the client, for a database and a store of observed targets whose identities both runtimes read
  alike: whatever context a request has, EXECUTED is reported exactly with the fingerprint of the epoch's
  release.
\<close>

theorem grpc_executor_trusted:
  assumes "executor_mode (cfg E) = u ''grpc''" and "grpc_answers E X s"
    and "\<And>e ob. e \<in> set (epochs d) \<Longrightarrow> store_get s (epoch_identity e) = Some ob \<Longrightarrow>
      same_canonical (epoch_identity e) \<and> same_canonical ob \<and> no_html ob \<and> no_collision (epoch_identity e) ob"
  shows "trusted_client d E"
  unfolding trusted_client_def
proof (intro ballI allI impI)
  fix e observed cx x
  assume e: "e \<in> set (epochs d)"
    and "client_execute (executor_client E) E (epoch_identity e) observed cx = Inr x"
  then have "grpc_client_execute E (epoch_identity e) observed cx = Inr x"
    by (simp add: executor_client_def assms(1))
  from grpc_client_compared [OF assms(2) this] obtain ob where ob: "store_get s (epoch_identity e) = Some ob"
    and x: "x = compared E (go_compare (epoch_identity e) ob)" by blast
  from assms(3) [OF e ob] show "result_ok (epoch_identity e) x"
    unfolding x using compared_result_ok by blast
qed

end
