(* ===== verification/Grpc_Wire.thy ===== *)
theory Grpc_Wire
  imports Grpc_Stub Go_Trust
begin

text \<open>
  A gRPC call on its whole way: the generated stub of the orchestrator, the bytes on the channel, the
  generated registration of the Go server (\<open>executor-gin/gen/executorv1/executor_grpc.pb.go\<close>) and the services
  behind it.
\<close>

section \<open>The generated server of the executor\<close>

definition go_service_name :: ustr where
  "go_service_name = u ''epochdeploy.executor.v1.Executor''"

text \<open>
  \<open>_Executor_Observe_Handler\<close> and the other two: the request is decoded, then the interceptor is called
  with the full name of the method. What the server answers to a request that cannot be decoded is
  grpc-go's own: a code and its details.
\<close>

record go_grpc =
  gg_messages :: executor_pb2
  gg_bad_request :: "ustr \<times> ustr"
  gg_unknown_method :: "ustr \<Rightarrow> ustr \<times> ustr"

fun rpc_error :: "ustr \<times> ustr \<Rightarrow> 'a rpc_result" where
  "rpc_error (code, details) = RpcError code details"

type_synonym go_method = "metadata option \<Rightarrow> bytes \<Rightarrow> target_store \<Rightarrow> bytes rpc_result \<times> target_store"

definition executor_health_handler :: "go_grpc \<Rightarrow> executor_env \<Rightarrow> go_method" where
  "executor_health_handler G X md body s =
    (case FromString (HealthRequest_pb (gg_messages G)) body of
       None \<Rightarrow> (rpc_error (gg_bad_request G), s)
     | Some _ \<Rightarrow> apfst (map_rpc_result (SerializeToString (HealthResponse_pb (gg_messages G)))) (serve_health X md s))"

definition executor_observe_handler :: "go_grpc \<Rightarrow> executor_env \<Rightarrow> go_method" where
  "executor_observe_handler G X md body s =
    (case FromString (ObserveRequest_pb (gg_messages G)) body of
       None \<Rightarrow> (rpc_error (gg_bad_request G), s)
     | Some m \<Rightarrow> apfst (map_rpc_result (SerializeToString (ObserveResponse_pb (gg_messages G)))) (serve_observe X md m s))"

definition executor_execute_handler :: "go_grpc \<Rightarrow> executor_env \<Rightarrow> go_method" where
  "executor_execute_handler G X md body s =
    (case FromString (ExecuteRequest_pb (gg_messages G)) body of
       None \<Rightarrow> (rpc_error (gg_bad_request G), s)
     | Some (m, c) \<Rightarrow>
         apfst (map_rpc_result (SerializeToString (ExecuteResponse_pb (gg_messages G)))) (serve_execute X md m c s))"

definition executor_service_desc :: "go_grpc \<Rightarrow> executor_env \<Rightarrow> (ustr \<times> go_method) list" where
  "executor_service_desc G X =
     [(u ''Health'', executor_health_handler G X),
      (u ''Observe'', executor_observe_handler G X),
      (u ''Execute'', executor_execute_handler G X)]"

definition go_grpc_serve :: "go_grpc \<Rightarrow> executor_env \<Rightarrow> ustr \<Rightarrow> go_method" where
  "go_grpc_serve G X path md body s =
    (case find (\<lambda>(name, h). rpc_path go_service_name name = path) (executor_service_desc G X) of
       None \<Rightarrow> (rpc_error (gg_unknown_method G path), s)
     | Some (_, h) \<Rightarrow> h md body s)"

section \<open>The way of a call\<close>

text \<open>The environment's calls are calls of the stub, over the channel that \<open>insecure_channel\<close> opens.\<close>

definition stub_calls :: "env \<Rightarrow> executor_pb2 \<Rightarrow> grpc_channel \<Rightarrow> bool" where
  "stub_calls E pb2 ch \<longleftrightarrow>
     (let target = executor_grpc_target (cfg E); stub = ExecutorStub pb2 ch in
       grpc_health E target = stub_call (stub_Health stub) () [] \<and>
       (\<forall>i md. grpc_observe E target (ObserveRequest i) md = stub_call (stub_Observe stub) (Some i) md) \<and>
       (\<forall>i c md. grpc_execute E target (ExecuteRequest i c) md = stub_call (stub_Execute stub) (Some i, c) md))"

text \<open>The channel delivers path, metadata and bytes to the executor, and its answer back.\<close>

definition channel_to :: "grpc_channel \<Rightarrow> go_grpc \<Rightarrow> executor_env \<Rightarrow> target_store \<Rightarrow> bool" where
  "channel_to ch G X s \<longleftrightarrow>
     (\<forall>path body md. ch_send ch path body md = fst (go_grpc_serve G X path (Some md) body s))"

text \<open>The messages of the orchestrator are read by the executor, and its answers by the orchestrator.\<close>

definition same_messages :: "executor_pb2 \<Rightarrow> executor_pb2 \<Rightarrow> bool" where
  "same_messages a b \<longleftrightarrow>
     read_as (HealthRequest_pb a) (HealthRequest_pb b) \<and> read_as (HealthResponse_pb b) (HealthResponse_pb a) \<and>
     read_as (ObserveRequest_pb a) (ObserveRequest_pb b) \<and> read_as (ObserveResponse_pb b) (ObserveResponse_pb a) \<and>
     read_as (ExecuteRequest_pb a) (ExecuteRequest_pb b) \<and> read_as (ExecuteResponse_pb b) (ExecuteResponse_pb a)"

lemmas wire_defs = ExecutorStub_def unary_unary_def stub_call_def

lemma stub_paths:
  "mc_method (stub_Health (ExecutorStub P ch)) = rpc_path go_service_name (u ''Health'')"
  "mc_method (stub_Observe (ExecutorStub P ch)) = rpc_path go_service_name (u ''Observe'')"
  "mc_method (stub_Execute (ExecutorStub P ch)) = rpc_path go_service_name (u ''Execute'')"
  by (simp_all add: go_service_name_def stub_method_paths)

text \<open>The paths of the stub are the ones the client signs.\<close>

lemma signed_paths:
  "grpc_health_method = mc_method (stub_Health (ExecutorStub P ch))"
  "grpc_observe_method = mc_method (stub_Observe (ExecutorStub P ch))"
  "grpc_execute_method = mc_method (stub_Execute (ExecutorStub P ch))"
  by (simp_all add: wire_defs grpc_health_method_def grpc_observe_method_def grpc_execute_method_def)

lemma served:
  "go_grpc_serve G X (rpc_path go_service_name (u ''Health'')) = executor_health_handler G X"
  "go_grpc_serve G X (rpc_path go_service_name (u ''Observe'')) = executor_observe_handler G X"
  "go_grpc_serve G X (rpc_path go_service_name (u ''Execute'')) = executor_execute_handler G X"
  by (simp_all add: fun_eq_iff go_grpc_serve_def executor_service_desc_def)

text \<open>An answer that was serialized by the server is read by the stub.\<close>

lemma answer_read:
  assumes "read_as b a"
  shows "(case map_rpc_result (SerializeToString b) r of
     RpcError code details \<Rightarrow> RpcError code details
   | RpcOk answer \<Rightarrow> (case FromString a answer of None \<Rightarrow> bad | Some x \<Rightarrow> RpcOk x)) = r"
  using assms by (cases r) (simp_all add: read_as_def)

text \<open>
  A call arrives when the channel leads to the server, the server has a handler of this shape at the
  path of the call, and both sides read the messages of each other.
\<close>

lemma call_arrives:
  assumes "channel_to (mc_channel c) G X s" and "read_as a b" and "read_as b' a'"
    and "mc_request_serializer c = SerializeToString a" and "mc_response_deserializer c = FromString a'"
    and "\<And>body. go_grpc_serve G X (mc_method c) (Some md) body s =
      (case FromString b body of None \<Rightarrow> bad | Some m \<Rightarrow> apfst (map_rpc_result (SerializeToString b')) (h m))"
  shows "stub_call c m md = fst (h m)"
proof -
  have "ch_send (mc_channel c) (mc_method c) (mc_request_serializer c m) md =
      map_rpc_result (SerializeToString b') (fst (h m))"
    using assms(1,2) by (simp add: channel_to_def assms(4,6) read_as_def)
  with answer_read [OF assms(3)] show ?thesis by (simp only: stub_call_def assms(5))
qed

lemma stub_call_served:
  assumes "channel_to ch G X s" and "same_messages P (gg_messages G)"
  shows "stub_call (stub_Health (ExecutorStub P ch)) () md = fst (serve_health X (Some md) s)"
    and "stub_call (stub_Observe (ExecutorStub P ch)) m md = fst (serve_observe X (Some md) m s)"
    and "stub_call (stub_Execute (ExecutorStub P ch)) (m, c) md = fst (serve_execute X (Some md) m c s)"
proof -
  let ?G = "gg_messages G" and ?stub = "ExecutorStub P ch"
  have ch: "channel_to (mc_channel (stub_Health ?stub)) G X s" "channel_to (mc_channel (stub_Observe ?stub)) G X s"
    "channel_to (mc_channel (stub_Execute ?stub)) G X s"
    using assms(1) by (simp_all add: wire_defs)
  note msgs = assms(2) [unfolded same_messages_def]
  show "stub_call (stub_Health ?stub) () md = fst (serve_health X (Some md) s)"
    by (rule call_arrives [OF ch(1), of "HealthRequest_pb P" "HealthRequest_pb ?G" "HealthResponse_pb ?G"
          "HealthResponse_pb P" _ _ "\<lambda>_. serve_health X (Some md) s"])
      (use msgs in \<open>simp_all add: stub_paths served executor_health_handler_def stub_serializers\<close>)
  show "stub_call (stub_Observe ?stub) m md = fst (serve_observe X (Some md) m s)"
    by (rule call_arrives [OF ch(2), of "ObserveRequest_pb P" "ObserveRequest_pb ?G" "ObserveResponse_pb ?G"
          "ObserveResponse_pb P" _ _ "\<lambda>m. serve_observe X (Some md) m s"])
      (use msgs in \<open>simp_all add: stub_paths served executor_observe_handler_def stub_serializers\<close>)
  show "stub_call (stub_Execute ?stub) (m, c) md = fst (serve_execute X (Some md) m c s)"
    using call_arrives [OF ch(3), of "ExecuteRequest_pb P" "ExecuteRequest_pb ?G" "ExecuteResponse_pb ?G"
          "ExecuteResponse_pb P" md "(rpc_error (gg_bad_request G), s)" "\<lambda>(m, c). serve_execute X (Some md) m c s" "(m, c)"]
      msgs
    by (simp add: stub_paths served executor_execute_handler_def stub_serializers split: option.split) 
qed

lemma stub_answers:
  assumes "stub_calls E P ch" and "channel_to ch G X s" and "same_messages P (gg_messages G)"
  shows "grpc_answers E X s"
  using assms(1) by (simp add: stub_calls_def grpc_answers_def Let_def stub_call_served [OF assms(2,3)])

lemma stub_health:
  assumes "stub_calls E P ch" and "channel_to ch G X s" and "same_messages P (gg_messages G)"
    and "executor_mode (cfg E) = u ''grpc''"
  shows "executor_runtime_info E = Inr (u ''gin'', u ''grpc'')"
proof -
  have "serve_health X md s = (RpcOk grpc_health_service, s)" for md
    by (simp add: serve_health_def grpc_intercept_def)
  then have "grpc_health E (executor_grpc_target (cfg E)) = RpcOk grpc_health_service"
    using assms(1) by (simp add: stub_calls_def Let_def stub_call_served [OF assms(2,3)])
  with assms(4) show ?thesis by (simp add: executor_runtime_info_def grpc_health_service_def)
qed

section \<open>Properties\<close>

text \<open>
  C10: What the model takes for a remote call of the gRPC client is what the generated code does. A call
  through the stub, over a channel that leads to a gin executor, is answered as the service of the same
  name answers the message that was sent, and the health query finds this executor. Assumed of
  third-party code: the channel delivers path, metadata and bytes, and each protobuf runtime reads what
  the other one writes.
\<close>

theorem stub_reaches_executor:
  assumes "stub_calls E P ch" and "channel_to ch G X s" and "same_messages P (gg_messages G)"
  shows "grpc_answers E X s \<and>
    (executor_mode (cfg E) = u ''grpc'' \<longrightarrow> executor_runtime_info E = Inr (u ''gin'', u ''grpc''))"
  using stub_answers [OF assms] stub_health [OF assms] by blast

end
