(* ===== verification/Go_Token.thy ===== *)
theory Go_Token
  imports Go_Boundary
begin

text \<open>
  The capability the orchestrator issues is accepted by the Go executors: the token of PyJWT is the
  compact serialisation of RFC 7515, which \<open>VerifyCapability\<close> takes apart again.
\<close>

section \<open>Capabilities that were issued\<close>

text \<open>\<open>base64\<close> without padding, in the URL alphabet, as RFC 7515 writes the three parts of a token.\<close>

definition base64_char :: "nat \<Rightarrow> nat" where
  "base64_char v =
     (if v < 26 then v + 65 else if v < 52 then v + 71 else if v < 62 then v - 4 else if v = 62 then 45 else 95)"

fun base64_encode :: "bytes \<Rightarrow> ustr" where
  "base64_encode [] = []"
| "base64_encode [x] = [base64_char (x div 4), base64_char (16 * (x mod 4))]"
| "base64_encode [x, y] =
     [base64_char (x div 4), base64_char (16 * (x mod 4) + y div 16), base64_char (4 * (y mod 16))]"
| "base64_encode (x # y # z # s) =
     [base64_char (x div 4), base64_char (16 * (x mod 4) + y div 16), base64_char (4 * (y mod 16) + z div 64),
      base64_char (z mod 64)] @ base64_encode s"

lemma base64_value_char: "v < 64 \<Longrightarrow> base64_value (base64_char v) = Some v"
  by (auto simp: base64_value_def base64_char_def)

lemma base64_char_range: "v < 64 \<Longrightarrow> base64_char v \<noteq> 46 \<and> base64_char v \<noteq> 10 \<and> base64_char v \<noteq> 13"
  by (auto simp: base64_char_def)

lemma base64_encode_chars:
  "\<forall>b \<in> set bs. b < 256 \<Longrightarrow> list_all (\<lambda>c. c \<noteq> 46 \<and> c \<noteq> 10 \<and> c \<noteq> 13) (base64_encode bs)"
  by (induction bs rule: base64_encode.induct) (auto intro!: base64_char_range [THEN conjunct1]
      base64_char_range [THEN conjunct2, THEN conjunct1] base64_char_range [THEN conjunct2, THEN conjunct2])

lemma base64_values:
  "\<forall>b \<in> set bs. b < 256 \<Longrightarrow>
    \<exists>vs. all_some (map base64_value (base64_encode bs)) = Some vs \<and> base64_quads vs = Some bs"
proof (induction bs rule: base64_encode.induct)
  case (4 x y z s)
  then obtain vs where vs: "all_some (map base64_value (base64_encode s)) = Some vs" "base64_quads vs = Some s"
    by auto
  from 4(2) have "x < 256" "y < 256" "z < 256" by simp_all
  then have "all_some (map base64_value (base64_encode (x # y # z # s))) =
      Some ((x div 4) # (16 * (x mod 4) + y div 16) # (4 * (y mod 16) + z div 64) # (z mod 64) # vs)"
    by (simp add: base64_value_char vs(1))
  moreover have "base64_quads ((x div 4) # (16 * (x mod 4) + y div 16) # (4 * (y mod 16) + z div 64) # (z mod 64) # vs) =
      Some (x # y # z # s)"
    using vs(2) \<open>x < 256\<close> \<open>y < 256\<close> \<open>z < 256\<close> by simp
  ultimately show ?case by blast
qed (auto simp: base64_value_char)

lemma base64_decode_encode:
  assumes "\<forall>b \<in> set bs. b < 256"
  shows "base64_decode (base64_encode bs) = Some bs"
proof -
  have "filter (\<lambda>c. c \<noteq> 10 \<and> c \<noteq> 13) (base64_encode bs) = base64_encode bs"
    using base64_encode_chars [OF assms] by (auto simp: filter_id_conv list_all_iff)
  with base64_values [OF assms] show ?thesis by (auto simp: base64_decode_def)
qed

text \<open>
  The compact serialisation with HMAC-SHA256: a header that names the algorithm, the claims as JSON
  text, and the MAC of the two.
\<close>

definition is_jws :: "ustr \<Rightarrow> ustr \<Rightarrow> (ustr \<times> json) list \<Rightarrow> bool" where
  "is_jws token key claims \<longleftrightarrow>
    (\<exists>header payload. (\<forall>b \<in> set (header @ payload). b < 256) \<and>
       header_ok header \<and> go_unmarshal payload = Some (JObj claims) \<and>
       (let signed = base64_encode header @ [46] @ base64_encode payload
        in token = signed @ [46] @ base64_encode (hmac_sha256 (utf8 key) (utf8 signed))))"

lemma split_three:
  assumes "c \<notin> set a" and "c \<notin> set b" and "c \<notin> set d"
  shows "go_split c (a @ [c] @ b @ [c] @ d) = [a, b, d]"
proof -
  have "split_char c n d = [d]" for n
    using assms(3) by (induction d arbitrary: n) auto
  then show ?thesis
    using split_char_app [OF assms(1), of "length (a @ [c] @ b @ [c] @ d)" "b @ [c] @ d"]
      split_char_app [OF assms(2), of "length (a @ [c] @ b @ [c] @ d) - 1" d]
    by (simp add: go_split_def)
qed

lemma base64_no_dot: "\<forall>b \<in> set bs. b < 256 \<Longrightarrow> 46 \<notin> set (base64_encode bs)"
  using base64_encode_chars [of bs] by (auto simp: list_all_iff)

lemma jws_claims:
  assumes "is_jws token key claims" and "decode_struct claims_fields False (JObj claims) no_claims = Some c"
  shows "token_claims key token = Inr c"
proof -
  from assms(1) obtain header payload where b: "\<forall>b \<in> set header. b < 256" "\<forall>b \<in> set payload. b < 256"
    and h: "header_ok header" and p: "go_unmarshal payload = Some (JObj claims)"
    and t: "token = base64_encode header @ [46] @ base64_encode payload @ [46] @
      base64_encode (hmac_sha256 (utf8 key) (utf8 (base64_encode header @ [46] @ base64_encode payload)))"
    by (auto simp: is_jws_def Let_def)
  have "go_split 46 token = [base64_encode header, base64_encode payload,
      base64_encode (hmac_sha256 (utf8 key) (utf8 (base64_encode header @ [46] @ base64_encode payload)))]"
    unfolding t by (intro split_three base64_no_dot b hmac_bytes)
  then show ?thesis
    using h p assms(2)
    by (simp add: token_claims_def base64_decode_encode b hmac_bytes decode_claims_def)
qed

text \<open>The claims of an issued capability, as the executor reads them.\<close>

definition issued_claims :: "capability_scope \<Rightarrow> ustr \<Rightarrow> int \<Rightarrow> capability_claims" where
  "issued_claims s jti expires =
     \<lparr>cc_ver = 1, cc_jti = jti, cc_typ = u ''epochdeploy-capability'', cc_epoch_id = sc_epoch_id s,
      cc_actor_type = sc_actor_type s, cc_actor_id = sc_actor_id s, cc_project = sc_project s,
      cc_environment = sc_environment s, cc_action = sc_action s, cc_fingerprint = sc_fingerprint s,
      cc_exp = expires div 1000000\<rparr>"

lemma issued_claims_decoded:
  assumes "0 \<le> expires" and "expires < 2 ^ 63"
  shows "decode_struct claims_fields False (JObj (jwt_claims (capability_payload s jti now expires))) no_claims =
    Some (issued_claims s jti expires)"
proof -
  have "field_decoder claims_fields (u ''iat'') = None"
    by (simp add: field_decoder_def claims_fields_def u_def fold_char_def)
  moreover have "expires div 1000000 < 2 ^ 63" "- (2 ^ 63) \<le> expires div 1000000"
    using assms by simp_all
  ultimately show ?thesis
    by (simp add: jwt_claims_def capability_payload_def no_claims_def issued_claims_def)
      (simp add: claims_fields_def field_decoder_known)
qed

lemma issued_claims_valid:
  "jti \<noteq> [] \<Longrightarrow> claims_valid (issued_claims s jti expires) now \<longleftrightarrow> now div 1000000000 < expires div 1000000"
  "claims_scope (issued_claims s jti expires) = s"
  by (simp_all add: claims_valid_def issued_claims_def claims_scope_def)

section \<open>Properties\<close>

text \<open>
  C18: A Go executor with the capability secret accepts a capability of the orchestrator for its own
  scope, as long as the clock is before the second of its expiry, and for no other scope. Assumed of
  PyJWT: it writes the compact serialisation of the claims.
\<close>

theorem go_accepts_issued_capability:
  assumes "issue_capability E scope ttl = (token, jti, expires)" and "jti \<noteq> []"
    and "is_jws token (capability_secret (cfg E)) (jwt_claims (capability_payload scope jti (clock E 1) expires))"
    and "0 \<le> expires" and "expires < 2 ^ 63"
  shows "(\<exists>claims. go_verify_capability (capability_secret (cfg E)) token t now = Inr claims) \<longleftrightarrow>
    t = scope \<and> now div 1000000000 < expires div 1000000"
proof -
  have "token_claims (capability_secret (cfg E)) token = Inr (issued_claims scope jti expires)"
    using assms(3) issued_claims_decoded [OF assms(4,5)] by (rule jws_claims)
  then show ?thesis
    using issued_claims_valid(1) [OF assms(2), of scope expires now] issued_claims_valid(2) by (auto simp: go_verify_Inr)
qed

end
