(* ===== verification/Go_Agent.thy ===== *)
theory Go_Agent
  imports Grpc_Wire Go_Token Concurrency
begin

text \<open>
  The agent's path with the executor in Go: the capability the orchestrator issues passes its own check
  and the executor's, the call goes through the generated stub, and the receipt records what the
  executor has compared.
\<close>

section \<open>A gRPC executor in reach\<close>

text \<open>
  The call of a request's environment goes over a channel to an executor that serves from the store s,
  whose clock and secrets are those of the orchestrator.
\<close>

definition executor_in_reach ::
  "env \<Rightarrow> executor_pb2 \<Rightarrow> grpc_channel \<Rightarrow> go_grpc \<Rightarrow> executor_env \<Rightarrow> target_store \<Rightarrow> bool" where
  "executor_in_reach E pb2 ch G X s \<longleftrightarrow>
     executor_mode (cfg E) = u ''grpc'' \<and> stub_calls E pb2 ch \<and> channel_to ch G X s \<and>
     same_messages pb2 (gg_messages G) \<and> in_step E X \<and>
     xe_capability_secret X = capability_secret (cfg E)"

lemma in_reach_client: "executor_in_reach E P ch G X s \<Longrightarrow> client_execute (executor_client E) = grpc_client_execute"
  by (simp add: fun_eq_iff executor_in_reach_def executor_client_def)

text \<open>The executor lets the context of a granted agent through.\<close>

lemma agent_passes_executor:
  assumes "is_jws tok (xe_capability_secret X) (jwt_claims (capability_payload (agent_scope e c) jti now expires))"
    and "jti \<noteq> []" and "0 \<le> expires" and "expires < 2 ^ 63" and "xe_clock X 2 div 1000000000 < expires div 1000000"
    and "cr_action c = u ''deploy''" and "cr_actor_type c = u ''ai_agent''"
    and "ep_fingerprint e = go_fingerprint (epoch_identity e)"
  shows "check_context X (epoch_identity e) (Some (agent_context e c p tok)) = None"
proof -
  have "token_claims (xe_capability_secret X) tok = Inr (issued_claims (agent_scope e c) jti expires)"
    by (rule jws_claims [OF assms(1) issued_claims_decoded [OF assms(3,4)]])
  moreover have "agent_expectation (epoch_identity e) (agent_execution_of (agent_context e c p tok)) = agent_scope e c"
    by (simp add: agent_expectation_def agent_execution_of_def agent_context_def agent_scope_def epoch_identity_def
        assms(6-8))
  ultimately have "go_verify_capability (xe_capability_secret X) tok
      (agent_expectation (epoch_identity e) (agent_execution_of (agent_context e c p tok))) (xe_clock X 2) =
      Inr (issued_claims (agent_scope e c) jti expires)"
    using assms(5) by (simp add: go_verify_Inr issued_claims_valid(1) [OF assms(2)] issued_claims_valid(2))
  moreover from assms(1) have "tok \<noteq> []" by (auto simp: is_jws_def Let_def)
  ultimately show ?thesis
    using assms(6-8)
    by (auto simp: check_context_def validate_agent_None) (auto simp: agent_execution_of_def agent_context_def)
qed

section \<open>Properties\<close>


text \<open>
  C21: The agent's path works from end to end with the executor in Go over gRPC. For an epoch in the state
  DRAFT or APPROVED and a change to deploy it that satisfy the conditions of a grant, the capability is
  issued, and while its token lives an execution request that presents it passes both checks of the
  capability and ends with a receipt of what the executor compared: EXECUTED when the target the executor has
  observed has the release's fingerprint, DENIED_STALE otherwise, whatever the orchestrator's own table says
  of the target. Protobuf does not promise that the two runtimes write the same bytes of a message, so this
  is the case where they sign the call alike; where they do not, the executor refuses the call, the request is
  answered 502 and nothing changes. Assumed: the orchestrator's table has a target with the release's project
  and environment, the idempotency key is new, the grant's id is a fresh UUID, both runtimes read the two
  identities alike and their texts do not collide, PyJWT writes the compact serialisation of its claims and
  decodes it while it lives, and the channel leads to an executor with the orchestrator's secrets and a clock
  in step.
\<close>

theorem agent_path_over_grpc:
  assumes "db_ok d" and "e \<in> set (epochs d)" and "may_grant d e c" and "cr_action c = u ''deploy''"
    and "ep_state e \<in> {u ''DRAFT'', u ''APPROVED''}" and "ep_fingerprint e = fingerprint (epoch_identity e)"
    and "uuid4 E 0 \<notin> set (map cg_id (grants d))" and "uuid4 E 0 \<noteq> []"
    and "t \<in> set (targets d)" and "target_key t = (ep_project e, ep_environment e)"
    and "(ep_id e, k) \<notin> receipt_key ` set (receipts d)"
    and "cfg E' = cfg E" and "jwt E' = jwt E"
    and "\<And>n. jwt_returns_claims (jwt E) (capability_payload (agent_scope e c) (uuid4 E 0) (clock E 1)
      (clock E 1 + ttl * 1000000)) (capability_secret (cfg E)) (clock E' n)"
    and "\<And>n. clock E 1 \<le> clock E' n"
    and "\<And>n. clock E' n < (clock E 1 + ttl * 1000000) div 1000000 * 1000000"
    and tok: "tok = jwt_encode (jwt E) (capability_payload (agent_scope e c) (uuid4 E 0) (clock E 1)
      (clock E 1 + ttl * 1000000)) (capability_secret (cfg E))"
    and jws: "is_jws tok (capability_secret (cfg E)) (jwt_claims (capability_payload (agent_scope e c) (uuid4 E 0)
      (clock E 1) (clock E 1 + ttl * 1000000)))"
    and exp: "0 \<le> clock E 1 + ttl * 1000000" "clock E 1 + ttl * 1000000 < 2 ^ 63"
      "xe_clock X 2 div 1000000000 < (clock E 1 + ttl * 1000000) div 1000000"
    and reach: "executor_in_reach E' P ch G X s" and ob: "store_get s (epoch_identity e) = Some ob"
    and same: "same_canonical (epoch_identity e)" "no_html (epoch_identity e)" "same_canonical ob" "no_html ob"
      "no_collision (epoch_identity e) ob"
    and cx: "cx = agent_context e c (evaluate_policy (cr_actor_type c) (cr_action c) (ep_environment e)) tok"
  shows "\<exists>g d1. issue_execution_capability E d e by ttl = (Inr (g, tok), d1) \<and>
    (if signed_alike E' X (execute_call (epoch_identity e) (Some cx)) then
       (\<exists>r ds d2. execute_agent_epoch E' d1 e k tok = (Inr (r, ds), d2) \<and>
          receipts d2 = receipts d @ [r] \<and> approvals d2 = approvals d \<and>
          rc_observed_fingerprint r = fingerprint ob \<and>
          rc_outcome r = (if fingerprint (epoch_identity e) = fingerprint ob
            then u ''EXECUTED'' else u ''DENIED_STALE''))
     else execute_agent_epoch E' d1 e k tok = (Inl (HTTPException 502 msg_executor_unavailable), d1))"
proof -
  let ?i = "epoch_identity e"
  from granted_agent_authorized [OF assms(1-3,7,8,12,13) assms(14-16) tok cx, of "by"]
  obtain g d1 where issued: "issue_execution_capability E d e by ttl = (Inr (g, tok), d1)"
    and d1: "receipts d1 = receipts d" "approvals d1 = approvals d" "epochs d1 = epochs d" "targets d1 = targets d" "db_ok d1"
    and check: "local_check E' ?i (Some cx) = Inr ()" and auth: "authorize_agent E' d1 e tok = Inr cx"
    by blast
  note runs = granted_agent_runs [OF assms(1-3,5,9-11) cx d1 auth, unfolded in_reach_client [OF reach]]
  have fp: "ep_fingerprint e = go_fingerprint ?i"
    by (simp add: assms(6) go_fingerprint_def fingerprint_def go_payload_plain same(1,2))
  from reach have X: "xe_capability_secret X = capability_secret (cfg E)" "grpc_answers E' X s" "in_step E' X"
    using stub_answers assms(12) by (auto simp: executor_in_reach_def)
  have passes: "check_context X ?i (Some cx) = None" unfolding cx
    by (rule agent_passes_executor [OF jws [folded X(1)] assms(8) exp assms(4) _ fp])
      (use assms(3) in \<open>simp add: may_grant_def\<close>)
  have "local_execute E' ?i ob (Some cx) = Inr (compared E' (go_compare ?i ob))"
    by (rule compared_local [OF same(1,3,4,5) check])
  then have x: "er_outcome (compared E' (go_compare ?i ob)) =
      (if fingerprint ?i = fingerprint ob then u ''EXECUTED'' else u ''DENIED_STALE'') \<and>
    er_observed_fingerprint (compared E' (go_compare ?i ob)) = fingerprint ob"
    by (auto simp: local_execute_Inr)
  show ?thesis
  proof (cases "signed_alike E' X (execute_call ?i (Some cx))")
    case True
    with x issued runs(1) [OF grpc_execute_gin(1) [OF X(2,3) True passes ob]] d1 show ?thesis
      by (simp add: new_receipt_def)
  next
    case False
    with issued runs(2) grpc_execute_gin(2) [OF X(2,3) False] show ?thesis by (metis (no_types, lifting))
  qed
qed

end
