(* ===== verification/Wire_Codec.thy ===== *)
theory Wire_Codec
  imports Grpc_Stub Go_Remote
begin

text \<open>
  A codec in the place of protobuf, for the witnesses of the properties that speak of messages on the wire
  and of their signatures.
\<close>

section \<open>A codec\<close>

text \<open>A message as a list of texts, each with its length before it.\<close>

definition put_texts :: "ustr list \<Rightarrow> bytes" where
  "put_texts ss = concat (map (\<lambda>s. length s # s) ss)"

fun get_texts :: "nat \<Rightarrow> bytes \<Rightarrow> ustr list option" where
  "get_texts 0 bs = Some []"
| "get_texts (Suc n) [] = None"
| "get_texts (Suc n) (k # bs) = map_option ((#) (take k bs)) (get_texts n (drop k bs))"

lemma get_put_texts: "get_texts (length ss) (put_texts ss @ rest) = Some ss"
  by (induction ss) (simp_all add: put_texts_def)

definition text_class :: "('m \<Rightarrow> ustr list) \<Rightarrow> (ustr list \<Rightarrow> 'm) \<Rightarrow> 'm message_class" where
  "text_class texts mk =
     \<lparr>SerializeToString = (\<lambda>m. length (texts m) # put_texts (texts m)),
      FromString = (\<lambda>bs. case bs of [] \<Rightarrow> None | n # r \<Rightarrow> map_option mk (get_texts n r))\<rparr>"

lemma text_class_reads: "(\<And>m. mk (texts m) = m) \<Longrightarrow> read_as (text_class texts mk) (text_class texts mk)"
  using get_put_texts [where rest = "[]"] by (simp add: read_as_def text_class_def)

fun identity_texts :: "pb_identity option \<Rightarrow> ustr list" where
  "identity_texts None = []"
| "identity_texts (Some i) =
     [pb_project i, pb_environment i, pb_commit_sha i, pb_artifact_digest i, pb_config_hash i]"

definition identity_made :: "ustr list \<Rightarrow> pb_identity option" where
  "identity_made ss = (case ss of [a, b, c, d, e] \<Rightarrow> Some \<lparr>pb_project = a, pb_environment = b,
     pb_commit_sha = c, pb_artifact_digest = d, pb_config_hash = e\<rparr> | _ \<Rightarrow> None)"

fun context_texts :: "pb_context option \<Rightarrow> ustr list" where
  "context_texts None = []"
| "context_texts (Some c) =
     [pb_epoch_id c, pb_actor_type c, pb_actor_id c, pb_action c, pb_approved_fingerprint c,
      pb_capability_token c, pb_policy_decision c, pb_policy_rule c]"

definition context_made :: "ustr list \<Rightarrow> pb_context option" where
  "context_made ss = (case ss of [a, b, c, d, e, f, g, h] \<Rightarrow> Some \<lparr>pb_epoch_id = a, pb_actor_type = b,
     pb_actor_id = c, pb_action = d, pb_approved_fingerprint = e, pb_capability_token = f,
     pb_policy_decision = g, pb_policy_rule = h\<rparr> | _ \<Rightarrow> None)"

lemma made_texts [simp]: "identity_made (identity_texts m) = m" "context_made (context_texts c) = c"
  by (cases m; simp add: identity_made_def) (cases c; simp add: context_made_def)

definition request_texts :: "pb_execute_request \<Rightarrow> ustr list" where
  "request_texts q = [length (identity_texts (fst q))] # identity_texts (fst q) @ context_texts (snd q)"

definition request_made :: "ustr list \<Rightarrow> pb_execute_request" where
  "request_made ss = (identity_made (take (hd (hd ss)) (tl ss)), context_made (drop (hd (hd ss)) (tl ss)))"

fun differences_made :: "ustr list \<Rightarrow> pb_difference list" where
  "differences_made (a # b # c # ss) =
     \<lparr>pb_field = a, pb_expected = b, pb_observed = c\<rparr> # differences_made ss"
| "differences_made _ = []"

definition response_texts :: "pb_execute_response \<Rightarrow> ustr list" where
  "response_texts r = [pb_outcome r, pb_observed_fingerprint r, pb_reason r] @
     concat (map (\<lambda>d. [pb_field d, pb_expected d, pb_observed d]) (pb_differences r))"

definition response_made :: "ustr list \<Rightarrow> pb_execute_response" where
  "response_made ss = \<lparr>pb_outcome = hd ss, pb_observed_fingerprint = hd (tl ss), pb_reason = hd (tl (tl ss)),
     pb_differences = differences_made (drop 3 ss)\<rparr>"

lemma differences_texts:
  "differences_made (concat (map (\<lambda>d. [pb_field d, pb_expected d, pb_observed d]) ds)) = ds"
  by (induction ds) simp_all

definition w_pb2 :: executor_pb2 where
  "w_pb2 =
     \<lparr>HealthRequest_pb = text_class (\<lambda>_. []) (\<lambda>_. ()),
      HealthResponse_pb = text_class (\<lambda>h. [pb_status h, pb_service h, pb_implementation h, pb_transport h])
        (\<lambda>ss. \<lparr>pb_status = ss ! 0, pb_service = ss ! 1, pb_implementation = ss ! 2, pb_transport = ss ! 3\<rparr>),
      ObserveRequest_pb = text_class identity_texts identity_made,
      ObserveResponse_pb = text_class (\<lambda>s. [s]) hd,
      ExecuteRequest_pb = text_class request_texts request_made,
      ExecuteResponse_pb = text_class response_texts response_made\<rparr>"

section \<open>The bytes that are signed\<close>

text \<open>Both ends write a request as the codec does.\<close>

fun w_bytes :: "pb_request \<Rightarrow> bytes" where
  "w_bytes (ObserveRequest i) = SerializeToString (ObserveRequest_pb w_pb2) (Some i)"
| "w_bytes (ExecuteRequest i c) = SerializeToString (ExecuteRequest_pb w_pb2) (Some i, c)"

fun w_marshal :: "go_rpc \<Rightarrow> bytes option" where
  "w_marshal GoHealth = Some (SerializeToString (HealthRequest_pb w_pb2) ())"
| "w_marshal (GoObserve i) = Some (SerializeToString (ObserveRequest_pb w_pb2) i)"
| "w_marshal (GoExecute i c) = Some (SerializeToString (ExecuteRequest_pb w_pb2) (i, c))"

lemma w_marshal_received: "w_marshal (received r) = Some (w_bytes r)"
  by (cases r) simp_all

lemma w_signed_alike: "xe_marshal X = w_marshal \<Longrightarrow> pb_serialize E = w_bytes \<Longrightarrow> signed_alike E X r"
  by (rule same_bytes_signed_alike) (simp add: w_marshal_received)

end
