(* ===== verification/Go_Witnesses.thy ===== *)
theory Go_Witnesses
  imports Go_Trust Go_Token Wire_Codec Scenario
begin

text \<open>
  The properties of the Go executors, applied to the release of the theory \<open>Scenario\<close>: an executor with
  the secrets of the orchestrator's default settings, the same clock and the same codec of messages, over
  HTTP and gRPC, and a token in compact serialisation. No hash is evaluated.
\<close>

section \<open>An executor beside the orchestrator\<close>

definition g_executor :: executor_env where
  "g_executor = \<lparr>xe_secret = executor_hmac_secret s_settings, xe_capability_secret = capability_secret s_settings,
     xe_clock = (\<lambda>_. 1700000000 * 1000000000), xe_marshal = w_marshal\<rparr>"

definition g_post :: "(ustr \<Rightarrow> (ustr \<times> ustr) list \<Rightarrow> go_handler) \<Rightarrow> target_store \<Rightarrow>
    ustr \<Rightarrow> bytes \<Rightarrow> (ustr \<times> ustr) list \<Rightarrow> http_result" where
  "g_post endpoint s url body headers =
    (case fst (endpoint (drop (length (rstrip_slash (executor_url s_settings))) url) headers body s) of
       (st, j) \<Rightarrow> HttpResponse st j)"

definition g_gin :: "target_store \<Rightarrow> env" where
  "g_gin s = s_base
     \<lparr>http_post := g_post (gin_serve g_executor (u ''POST'')) s, pb_serialize := w_bytes,
      grpc_observe := (\<lambda>_ r md. case r of
          ObserveRequest i \<Rightarrow> fst (serve_observe g_executor (Some md) (Some i) s)
        | ExecuteRequest _ _ \<Rightarrow> RpcError [] []),
      grpc_execute := (\<lambda>_ r md. case r of
          ObserveRequest _ \<Rightarrow> RpcError [] []
        | ExecuteRequest i c \<Rightarrow> fst (serve_execute g_executor (Some md) (Some i) c s))\<rparr>"

lemma g_cfg [simp]: "cfg (g_gin s) = s_settings" "cfg s_base = s_settings"
  by (simp_all add: g_gin_def s_base_def)

lemma g_answers: "http_answers (g_gin s) (gin_serve g_executor (u ''POST'')) s"
  by (simp add: http_answers_def) (simp add: g_gin_def g_post_def)

lemma g_at: "executor_at (g_gin s) g_executor s"
  by (simp add: executor_at_def g_answers) (simp add: grpc_answers_def g_gin_def)

lemma g_in_step: "in_step (g_gin s) g_executor" "in_step s_base g_executor"
  by (simp_all add: in_step_def max_clock_skew_def g_executor_def, simp_all add: g_gin_def s_base_def s_time_def)

lemma g_arrives: "arrives k (g_gin s) g_executor r"
  by (simp add: arrives_def w_signed_alike g_executor_def g_gin_def)

abbreviation g_release :: identity where
  "g_release \<equiv> identity.truncate demo_payload"

lemma g_accepted: "accepted_identity g_release"
  using epoch_create_accepted [OF demo_payload_valid]
  by (simp add: accepted_identity_def immutable_identity_def identity.defs)

lemma g_project: "project demo_payload = u ''payments-api''"
  by (simp add: demo_payload_def)

lemma g_plain_project:
  "py_strip (u ''payments-api'') = u ''payments-api''" "list_all (\<lambda>c. \<not> html_special c) (u ''payments-api'')"
  by (simp_all add: py_strip_def strip_by_def u_def is_py_space_def is_rust_space_def html_special_def)

lemma g_same: "same_canonical g_release \<and> no_html g_release"
  using accepted_agrees [OF g_accepted] g_plain_project by (simp add: identity.defs g_project)

lemma g_plain_text: "list_all plain_char s \<Longrightarrow> go_text s"
  by (auto simp: list_all_iff plain_char_def go_text_def is_high_def is_low_def)

lemma g_identity: "go_identity g_release"
  unfolding go_identity_def all_fields ident_get.simps
  using accepted_plain [OF g_accepted, THEN g_plain_text] by (simp add: identity.defs g_project)

section \<open>Agreement\<close>

lemma remote_agrees_with_local_witness:
  "\<exists>s1 s2. client_observe HTTPExecutorClient (g_gin Map.empty) g_release = Inr () \<and>
    client_execute HTTPExecutorClient (g_gin s1) g_release g_release None = local_execute (g_gin s1) g_release g_release None \<and>
    client_observe GRPCExecutorClient (g_gin Map.empty) g_release = Inr () \<and>
    client_execute GRPCExecutorClient (g_gin s2) g_release g_release None = local_execute (g_gin s2) g_release g_release None"
proof -
  note remote = remote_agrees_with_local [OF g_at g_in_step(1) g_at g_in_step(1) g_identity
      accepted_fits(1) [OF g_accepted] g_identity _ accepted_fits(2) [OF g_accepted] _ _
      g_same [THEN conjunct1] g_same [THEN conjunct1] g_same [THEN conjunct2] no_collision_refl refl refl]
  show ?thesis
    using remote [where k = HTTPExecutorClient] remote [where k = GRPCExecutorClient]
    by (auto simp: check_context_def local_check_def g_arrives)
qed

lemma runtimes_agree_on_fingerprint_witness:
  "epoch_create (JObj demo_body) = Inr demo_payload \<and> go_fingerprint g_release = fingerprint g_release"
proof -
  have "utf8 (go_payload g_release) = utf8 (fingerprint_payload g_release)"
    using g_same go_payload_plain by metis
  then show ?thesis
    using runtimes_agree_on_fingerprint [OF demo_payload_valid refl] demo_payload_valid g_plain_project
    by (simp add: g_project)
qed

definition g_grpc :: env where
  "g_grpc = (g_gin (store_put g_release Map.empty))\<lparr>cfg := s_settings\<lparr>executor_mode := u ''grpc''\<rparr>\<rparr>"

lemma grpc_executor_trusted_witness:
  "grpc_answers g_grpc g_executor (store_put g_release Map.empty) \<and>
   trusted_client (empty_db\<lparr>epochs := [s_epoch]\<rparr>) g_grpc"
proof -
  have at: "grpc_answers g_grpc g_executor (store_put g_release Map.empty)"
    using g_at [of "store_put g_release Map.empty"] by (simp add: executor_at_def grpc_answers_def g_grpc_def)
  have id: "epoch_identity s_epoch = g_release"
    by (simp add: s_epoch_def new_epoch_def epoch_identity_def identity.defs payload_identity_def)
  have mode: "executor_mode (cfg g_grpc) = u ''grpc''" by (simp add: g_grpc_def)
  have "store_get (store_put g_release Map.empty) g_release = Some g_release" by (simp add: store.get_same)
  then have "trusted_client (empty_db\<lparr>epochs := [s_epoch]\<rparr>) g_grpc"
    by (intro grpc_executor_trusted [OF mode at]) (use g_same in \<open>auto simp: id\<close>)
  with at show ?thesis by blast
qed

section \<open>A token\<close>

text \<open>PyJWT's compact serialisation, and an environment that issues it.\<close>

definition g_header :: json where
  "g_header = JObj [(u ''alg'', JStr (u ''HS256'')), (u ''typ'', JStr (u ''JWT''))]"

definition g_signed :: "(ustr \<times> json) list \<Rightarrow> ustr" where
  "g_signed claims = base64_encode (utf8 (json_dumps g_header)) @ [46] @ base64_encode (utf8 (json_dumps (JObj claims)))"

definition g_jws :: "(ustr \<times> json) list \<Rightarrow> ustr \<Rightarrow> ustr" where
  "g_jws claims key = g_signed claims @ [46] @ base64_encode (hmac_sha256 (utf8 key) (utf8 (g_signed claims)))"

definition g_env :: env where
  "g_env = s_base\<lparr>jwt := \<lparr>jwt_encode = (\<lambda>cs key. g_jws (jwt_claims cs) key), jwt_decode = (\<lambda>_ _ _. Inl OtherPyJWTError)\<rparr>\<rparr>"

definition g_scope :: capability_scope where
  "g_scope = \<lparr>sc_epoch_id = u ''id-1'', sc_actor_type = u ''ai_agent'', sc_actor_id = u ''release-agent-01'',
     sc_project = u ''payments-api'', sc_environment = u ''prod'', sc_action = u ''deploy'',
     sc_fingerprint = go_fingerprint g_release\<rparr>"

definition g_claims :: "(ustr \<times> json) list" where
  "g_claims = jwt_claims (capability_payload g_scope (u ''id-0'') s_time s_deadline)"

definition g_token :: ustr where
  "g_token = g_jws g_claims (capability_secret s_settings)"

lemma utf8_bytes: "\<forall>c \<in> set s. c < 1114112 \<Longrightarrow> \<forall>b \<in> set (utf8 s). b < 256"
  by (auto simp: utf8_def utf8_char_def split: if_splits)

lemma dumps_bytes: "json_unicode j \<Longrightarrow> \<forall>b \<in> set (utf8 (json_dumps j)). b < 256"
  using text_dumps [of j] by (intro utf8_bytes) (auto simp: list_all_iff text_char_def)

lemma g_fingerprint_text: "go_text (go_fingerprint i)"
  using sha256_hex_chars by (fastforce simp: go_fingerprint_def go_text_def list_all_iff is_high_def is_low_def)

lemma g_times: "s_time div 1000000 = 1700000000" "s_deadline div 1000000 = 1700000300"
  by (simp_all add: s_time_def s_deadline_def)

lemma g_claims_read: "json_readable GoJson 10000 (JObj g_claims)" "json_unicode (JObj g_claims)"
  using go_text_u g_fingerprint_text [of g_release]
  by (simp_all add: g_claims_def jwt_claims_def capability_payload_def g_scope_def go_text_json go_text_unicode
      scanned_go_id del: scanned_text.simps)

lemma g_header_read: "json_readable GoJson 10000 g_header" "json_unicode g_header"
  using go_text_u
  by (simp_all add: g_header_def go_text_json go_text_unicode scanned_go_id del: scanned_text.simps)

lemma g_jws_is_jws:
  assumes "json_readable GoJson 10000 (JObj claims)" and "json_unicode (JObj claims)"
  shows "is_jws (g_jws claims key) key claims"
proof -
  have "header_ok (utf8 (json_dumps g_header))"
    unfolding header_ok_def go_unmarshal_dumps [OF g_header_read]
    by (simp add: g_header_def)
  then show ?thesis
    unfolding is_jws_def g_jws_def g_signed_def Let_def
    using go_unmarshal_dumps [OF assms] dumps_bytes [OF assms(2)] dumps_bytes [OF g_header_read(2)]
    by (intro exI [of _ "utf8 (json_dumps g_header)"] exI [of _ "utf8 (json_dumps (JObj claims))"]) auto
qed

lemmas g_is_jws = g_jws_is_jws [OF g_claims_read]

lemma go_accepts_issued_capability_witness:
  "issue_capability g_env g_scope 300 = (g_token, u ''id-0'', s_deadline) \<and>
   (\<exists>claims. go_verify_capability (capability_secret s_settings) g_token g_scope (1700000299 * 1000000000) = Inr claims) \<and>
   (\<nexists>claims. go_verify_capability (capability_secret s_settings) g_token g_scope (1700000300 * 1000000000) = Inr claims)"
proof -
  have issue: "issue_capability g_env g_scope 300 = (g_token, u ''id-0'', s_deadline)"
    by (simp add: issue_capability_def Let_def g_env_def s_base_def g_token_def g_claims_def s_deadline_def s_time_def)
  have env: "capability_secret (cfg g_env) = capability_secret s_settings" "clock g_env 1 = s_time"
    by (simp_all add: g_env_def s_base_def)
  have jws: "is_jws g_token (capability_secret (cfg g_env)) (jwt_claims (capability_payload g_scope (u ''id-0'') (clock g_env 1) s_deadline))"
    unfolding env g_token_def using g_is_jws by (simp add: g_claims_def)
  have "0 \<le> s_deadline" "s_deadline < 2 ^ 63" by (simp_all add: s_deadline_def s_time_def)
  from go_accepts_issued_capability [OF issue _ jws this] issue show ?thesis
    by (simp add: env g_times)
qed

section \<open>An agent's execution\<close>

definition g_agent :: exec_context where
  "g_agent = \<lparr>cx_epoch_id = u ''id-1'', cx_actor_type = u ''ai_agent'', cx_actor_id = u ''release-agent-01'',
     cx_action = u ''deploy'', cx_approved_fingerprint = go_fingerprint g_release, cx_capability_token = g_token,
     cx_policy_decision = u ''REQUIRE_APPROVAL'', cx_policy_rule = u ''agent-prod-write''\<rparr>"

text \<open>Printable ASCII text, of which every character is one byte of a JSON string.\<close>

definition simple_text :: "ustr \<Rightarrow> bool" where
  "simple_text s \<longleftrightarrow> list_all (\<lambda>c. 32 \<le> c \<and> c < 127 \<and> c \<noteq> 34 \<and> c \<noteq> 92) s"

lemma simple_json: "simple_text s \<Longrightarrow> length (utf8 (json_string s)) = length s + 2"
proof -
  assume "simple_text s"
  then have "concat (map esc_char s) = s \<and> utf8 (s @ [34]) = s @ [34]"
    by (induction s) (auto simp: simple_text_def esc_char_def utf8_def utf8_char_def)
  then show ?thesis by (simp add: json_string_def utf8_def utf8_char_def)
qed

lemma utf8_append: "utf8 (s @ t) = utf8 s @ utf8 t"
  by (simp add: utf8_def)

lemma utf8_ascii [simp]: "utf8 [] = []" "c < 128 \<Longrightarrow> utf8 (c # s) = c # utf8 s"
  by (simp_all add: utf8_def utf8_char_def)

lemma base64_length: "length (base64_encode bs) \<le> 2 * length bs"
  by (induction bs rule: base64_encode.induct) simp_all

lemma base64_simple: "\<forall>b \<in> set bs. b < 256 \<Longrightarrow> simple_text (base64_encode bs)"
proof -
  have "32 \<le> base64_char v \<and> base64_char v < 127 \<and> base64_char v \<noteq> 34 \<and> base64_char v \<noteq> 92" if "v < 64" for v
    using that by (auto simp: base64_char_def)
  then show "\<forall>b \<in> set bs. b < 256 \<Longrightarrow> simple_text (base64_encode bs)"
    by (induction bs rule: base64_encode.induct) (auto simp: simple_text_def)
qed

lemma g_token_simple: "simple_text g_token"
  using base64_simple [OF dumps_bytes [OF g_header_read(2)]] base64_simple [OF dumps_bytes [OF g_claims_read(2)]]
    base64_simple [OF hmac_bytes]
  by (auto simp: g_token_def g_jws_def g_signed_def simple_text_def)

lemma g_fingerprint_simple: "simple_text (go_fingerprint i)" "length (go_fingerprint i) = 64"
  using sha256_hex_chars by (fastforce simp: go_fingerprint_def simple_text_def list_all_iff)+

lemma length_dec_digits: "n < 10 ^ Suc k \<Longrightarrow> length (dec_digits n) \<le> Suc k"
proof (induction k arbitrary: n)
  case (Suc k)
  then have "n div 10 < 10 ^ Suc k" by simp
  with Suc.IH [OF this] show ?case by (simp add: dec_digits.simps [of n])
qed (simp add: dec_digits.simps)

lemma utf8_seconds: "0 \<le> n \<Longrightarrow> n < 10000000000 \<Longrightarrow> length (utf8 (int_str n)) \<le> 10"
proof -
  assume n: "0 \<le> n" "n < 10000000000"
  have "utf8 s = s" if "\<forall>c \<in> set s. 48 \<le> c \<and> c \<le> 57" for s
    using that by (induction s) auto
  then have "utf8 (int_str n) = dec_digits (nat n)"
    using n dec_digits_props [of "nat n"] by (simp add: int_str_def)
  with n show ?thesis using length_dec_digits [of "nat n" 9] by simp
qed

lemma g_claims_size: "length (utf8 (json_dumps (JObj g_claims))) \<le> 1000"
  using utf8_seconds [of 1700000000] utf8_seconds [of 1700000300] utf8_seconds [of 1] g_fingerprint_simple [of g_release]
  by (simp add: g_claims_def jwt_claims_def capability_payload_def g_scope_def utf8_append simple_json g_times)
    (simp add: simple_json simple_text_def u_def)

lemma g_header_size: "length (utf8 (json_dumps g_header)) \<le> 100"
  by (simp add: g_header_def utf8_append simple_json simple_text_def u_def)

lemma g_token_size: "length g_token \<le> 2300"
proof -
  have "length (g_signed g_claims) \<le> 2201"
    using g_header_size g_claims_size base64_length [of "utf8 (json_dumps g_header)"]
      base64_length [of "utf8 (json_dumps (JObj g_claims))"]
    by (simp add: g_signed_def)
  moreover have "length (base64_encode (hmac_sha256 k m)) \<le> 64" for k m
    using base64_length [of "hmac_sha256 k m"] by (simp add: hmac_sha256_def)
  from this [of "utf8 (capability_secret s_settings)" "utf8 (g_signed g_claims)"] calculation
  show ?thesis by (simp add: g_token_def g_jws_def)
qed

lemma g_agent_size: "fits_request (execute_payload g_release (Some g_agent))"
proof -
  have "length (utf8 (json_dumps (context_json g_agent))) \<le> 4000"
    using g_token_size g_fingerprint_simple [of g_release]
    by (simp add: context_json_def g_agent_def utf8_append simple_json g_token_simple)
      (simp add: simple_json simple_text_def u_def)
  moreover have "length (utf8 (json_dumps (identity_json g_release))) \<le> 12000"
    using length_utf8 [of "json_dumps (identity_json g_release)"] accepted_size [OF g_accepted] by simp
  ultimately show ?thesis
    by (simp add: fits_request_def sent_body_def execute_payload_def utf8_append)
      (simp add: simple_json simple_text_def u_def)
qed

lemma g_agent_text: "go_context g_agent"
proof -
  have "go_text g_token"
    using g_token_simple by (auto simp: go_text_def simple_text_def list_all_iff is_high_def is_low_def)
  then show ?thesis by (simp add: go_context_def g_agent_def g_fingerprint_text)
qed

lemma g_agent_checked: "check_context g_executor g_release (Some g_agent) = None"
proof -
  have "agent_expectation g_release (agent_execution_of g_agent) = g_scope"
    by (simp add: agent_expectation_def agent_execution_of_def g_agent_def g_scope_def identity.defs demo_payload_def)
  moreover have "token_claims (capability_secret s_settings) g_token = Inr (issued_claims g_scope (u ''id-0'') s_deadline)"
    unfolding g_token_def
    by (rule jws_claims [OF g_is_jws]) (unfold g_claims_def, rule issued_claims_decoded, simp_all add: s_deadline_def s_time_def)
  moreover have "g_token \<noteq> []" by (simp add: g_token_def g_jws_def)
  ultimately show ?thesis
    by (simp add: check_context_def validate_agent_None go_verify_Inr)
      (simp add: agent_execution_of_def g_agent_def g_executor_def issued_claims_valid g_times)
qed

lemma gin_agent_gate_witness:
  "\<exists>answer. gin_serve g_executor (u ''POST'') (u ''/v1/execute'')
      (sent_headers s_base (execute_payload g_release (Some g_agent)))
      (sent_body (execute_payload g_release (Some g_agent))) (store_put g_release Map.empty) =
      ((200, answer), store_put g_release Map.empty) \<and>
    agent_cleared g_executor g_release (agent_execution_of g_agent)"
proof -
  have ctx: "\<forall>c. Some g_agent = Some c \<longrightarrow> go_context c" using g_agent_text by simp
  have "compare_observed g_release (store_put g_release Map.empty) = write_result (go_compare g_release g_release)"
    by (simp add: compare_observed_def store.get_same)
  then obtain answer where answer: "gin_serve g_executor (u ''POST'') (u ''/v1/execute'')
      (sent_headers s_base (execute_payload g_release (Some g_agent)))
      (sent_body (execute_payload g_release (Some g_agent))) (store_put g_release Map.empty) =
      ((200, answer), store_put g_release Map.empty)"
    using gin_executes [OF g_in_step(2) g_identity ctx g_agent_size g_agent_checked] by (simp add: write_result_def)
  moreover have "agent_cleared g_executor g_release (agent_execution_of g_agent)"
    using gin_agent_gate [OF answer gin_payload_read [OF g_identity ctx]] by (simp add: g_agent_def)
  ultimately show ?thesis by blast
qed

end
