(* ===== verification/Wire_Witnesses.thy ===== *)
theory Wire_Witnesses
  imports Go_Agent Go_Witnesses Witnesses
begin

text \<open>
  The properties of the gRPC calls, applied to the release of the theory \<open>Scenario\<close>: the codec of the theory
  \<open>Wire_Codec\<close>, a channel to the executor of the theory \<open>Go_Witnesses\<close>, and PyJWT's compact
  serialisation of the agent's capability.
\<close>

lemma w_messages: "same_messages w_pb2 w_pb2"
  unfolding same_messages_def w_pb2_def executor_pb2.simps
  by (intro conjI text_class_reads)
    (simp_all add: request_made_def request_texts_def response_made_def response_texts_def differences_texts)

section \<open>A channel\<close>

definition w_go :: go_grpc where
  "w_go = \<lparr>gg_messages = w_pb2, gg_bad_request = (u ''INTERNAL'', []),
     gg_unknown_method = (\<lambda>_. (u ''UNIMPLEMENTED'', []))\<rparr>"

definition w_channel :: "target_store \<Rightarrow> grpc_channel" where
  "w_channel s = \<lparr>ch_send = (\<lambda>path body md. fst (go_grpc_serve w_go g_executor path (Some md) body s)),
     ch_parse_details = []\<rparr>"

lemma w_channel_to: "channel_to (w_channel s) w_go g_executor s"
  by (simp add: channel_to_def w_channel_def)

text \<open>An environment in gRPC mode whose calls are those of the stub.\<close>

definition w_connected :: "env \<Rightarrow> target_store \<Rightarrow> env" where
  "w_connected E s = E
     \<lparr>cfg := (cfg E)\<lparr>executor_mode := u ''grpc''\<rparr>, pb_serialize := w_bytes,
      grpc_health := (\<lambda>_. stub_call (stub_Health (ExecutorStub w_pb2 (w_channel s))) () []),
      grpc_observe := (\<lambda>_ r md. case r of
          ObserveRequest i \<Rightarrow> stub_call (stub_Observe (ExecutorStub w_pb2 (w_channel s))) (Some i) md
        | ExecuteRequest _ _ \<Rightarrow> RpcError [] []),
      grpc_execute := (\<lambda>_ r md. case r of
          ObserveRequest _ \<Rightarrow> RpcError [] []
        | ExecuteRequest i c \<Rightarrow> stub_call (stub_Execute (ExecutorStub w_pb2 (w_channel s))) (Some i, c) md)\<rparr>"

lemma w_stub_calls: "stub_calls (w_connected E s) w_pb2 (w_channel s)"
  by (simp add: stub_calls_def w_connected_def Let_def)

lemma stub_reaches_executor_witness:
  "stub_calls (w_connected s_base Map.empty) w_pb2 (w_channel Map.empty) \<and>
   same_messages w_pb2 (gg_messages w_go) \<and>
   executor_runtime_info (w_connected s_base Map.empty) = Inr (u ''gin'', u ''grpc'')"
proof -
  have m: "same_messages w_pb2 (gg_messages w_go)" by (simp add: w_go_def w_messages)
  have "executor_mode (cfg (w_connected s_base Map.empty)) = u ''grpc''" by (simp add: w_connected_def)
  with stub_reaches_executor [OF w_stub_calls w_channel_to m, of s_base] w_stub_calls m show ?thesis by blast
qed

section \<open>The agent of the demonstration\<close>

text \<open>The capability of the agent's change, as PyJWT writes it.\<close>

definition w_tok :: ustr where
  "w_tok = g_jws (jwt_claims s_payload) (capability_secret s_settings)"

definition w_jwt :: jwt_lib where
  "w_jwt = \<lparr>jwt_encode = (\<lambda>cs key. g_jws (jwt_claims cs) key),
     jwt_decode = (\<lambda>_ token _. if token = w_tok then Inr (jwt_claims s_payload) else Inl OtherPyJWTError)\<rparr>"

definition w_store :: target_store where
  "w_store = store_put g_release Map.empty"

definition w_env :: env where
  "w_env = w_connected (s_base\<lparr>jwt := w_jwt\<rparr>) w_store"

lemma w_env_simps [simp]:
  "cfg w_env = s_settings\<lparr>executor_mode := u ''grpc''\<rparr>" "clock w_env n = s_time" "jwt w_env = w_jwt"
  "uuid4 w_env 0 = u ''id-0''" "pb_serialize w_env = w_bytes"
  by (simp_all add: w_env_def w_connected_def) (simp_all add: s_base_def)

lemma w_scope_read:
  "json_readable GoJson 10000 (JObj (jwt_claims s_payload))" "json_unicode (JObj (jwt_claims s_payload))"
proof -
  have "go_text (fingerprint i)" for i
    using sha256_hex_chars by (fastforce simp: fingerprint_def go_text_def list_all_iff is_high_def is_low_def)
  note t = this [of "epoch_identity s_epoch"] go_text_u
  have id: "cr_actor_id s_change = u ''release-agent-01''" "project demo_payload = u ''payments-api''"
    "environment demo_payload = u ''prod''"
    by (simp_all add: s_change_def new_change_def demo_payload_def)
  show "json_readable GoJson 10000 (JObj (jwt_claims s_payload))" "json_unicode (JObj (jwt_claims s_payload))"
    using t by (simp_all add: jwt_claims_def capability_payload_def agent_scope_def id s_time_def s_deadline_def
        go_text_json go_text_unicode scanned_go_id del: scanned_text.simps)
qed

lemma w_tok_jws: "is_jws w_tok (capability_secret s_settings) (jwt_claims s_payload)"
  unfolding w_tok_def by (rule g_jws_is_jws [OF w_scope_read])

lemma w_reach: "executor_in_reach w_env w_pb2 (w_channel w_store) w_go g_executor w_store"
proof -
  have "in_step w_env g_executor"
    by (simp add: in_step_def max_clock_skew_def g_executor_def s_time_def)
  moreover have "stub_calls w_env w_pb2 (w_channel w_store)" unfolding w_env_def by (rule w_stub_calls)
  ultimately show ?thesis
    using w_channel_to w_messages by (simp add: executor_in_reach_def) (simp add: w_go_def g_executor_def)
qed

lemma agent_path_over_grpc_witness:
  "executor_in_reach w_env w_pb2 (w_channel w_store) w_go g_executor w_store \<and>
   (\<exists>g d1 r ds d2. issue_execution_capability w_env (w_db w_approved) s_approved (u ''admin'') 300 = (Inr (g, w_tok), d1) \<and>
     execute_agent_epoch w_env d1 s_approved (u ''run-0001'') w_tok = (Inr (r, ds), d2) \<and>
     rc_outcome r = u ''EXECUTED'')"
proof -
  have id: "epoch_identity s_approved = g_release"
    by (simp only: s_approved_simps) (simp add: s_epoch_def new_epoch_def epoch_identity_def identity.defs payload_identity_def)
  have rows: "s_approved \<in> set (epochs (w_db w_approved))" "s_target \<in> set (targets (w_db w_approved))"
    "uuid4 w_env 0 \<notin> set (map cg_id (grants (w_db w_approved)))" "uuid4 w_env 0 \<noteq> []"
    "(ep_id s_approved, u ''run-0001'') \<notin> receipt_key ` set (receipts (w_db w_approved))"
    "ep_state s_approved \<in> {u ''DRAFT'', u ''APPROVED''}" "cr_action s_change = u ''deploy''"
    "ep_fingerprint s_approved = fingerprint (epoch_identity s_approved)"
    using approved_rows by simp_all
  have key: "target_key s_target = (ep_project s_approved, ep_environment s_approved)" by simp
  have jwt: "jwt_returns_claims (jwt w_env) (capability_payload (agent_scope s_approved s_change) (uuid4 w_env 0)
      (clock w_env 1) (clock w_env 1 + 300 * 1000000)) (capability_secret (cfg w_env)) (clock w_env n)" for n
    by (simp add: jwt_returns_claims_def s_times) (simp add: w_jwt_def w_tok_def)
  have tok: "w_tok = jwt_encode (jwt w_env) (capability_payload (agent_scope s_approved s_change) (uuid4 w_env 0)
      (clock w_env 1) (clock w_env 1 + 300 * 1000000)) (capability_secret (cfg w_env))"
    by (simp add: s_times) (simp add: w_jwt_def w_tok_def)
  have jws: "is_jws w_tok (capability_secret (cfg w_env)) (jwt_claims (capability_payload (agent_scope s_approved s_change)
      (uuid4 w_env 0) (clock w_env 1) (clock w_env 1 + 300 * 1000000)))"
    using w_tok_jws by (simp add: s_times)
  have exp: "0 \<le> clock w_env 1 + 300 * 1000000" "clock w_env 1 + 300 * 1000000 < 2 ^ 63"
    "xe_clock g_executor 2 div 1000000000 < (clock w_env 1 + 300 * 1000000) div 1000000"
    by (simp_all add: s_time_def g_executor_def)
  have ob: "store_get w_store (epoch_identity s_approved) = Some g_release"
    unfolding w_store_def id by (rule store.get_same) simp
  have "clock w_env n < (clock w_env 1 + 300 * 1000000) div 1000000 * 1000000" for n
    by (simp add: s_time_def)
  note path = agent_path_over_grpc [OF worlds_ok(3) rows(1) s_may_grant rows(7,6,8,3,4,2) key rows(5) refl refl jwt _ this
      tok jws exp w_reach ob, unfolded id]
  have alike: "signed_alike w_env g_executor r" for r
    by (simp add: w_signed_alike g_executor_def)
  from path [OF _ g_same [THEN conjunct1] g_same [THEN conjunct2] g_same [THEN conjunct1] g_same [THEN conjunct2]
      no_collision_refl refl, of "u ''admin''"] w_reach
  show ?thesis by (simp add: alike) blast
qed


end
