(* ===== verification/Benchmark.thy ===== *)
theory Benchmark
  imports Go_Remote
begin

text \<open>
  \<open>scripts/benchmark_executor.py\<close>: the load test of the executors, a third client beside the two of
  the orchestrator. What it sends, and when it counts a failure; the latencies (floating point) and the
  printed summary are not modelled. The requests are served one at a time, in the order of their
  numbers; \<open>seconds i\<close> is \<open>int(time.time())\<close> for the i-th. None is an exception, which ends the script.
\<close>

section \<open>Definitions\<close>

definition benchmark_identity :: identity where
  "benchmark_identity =
     \<lparr>project = u ''payments-api'', environment = u ''prod'',
      commit_sha = u ''8f375e7b64f6d20a3c1a1b2a6f9a1d9e2f7c1234'',
      artifact_digest = u ''sha256:3a7d5d6259081b92f69359685c9b0f3f3f2ad7b3ce84b3ae6a711a3fa2d0ef77'',
      config_hash = u ''cfg:2e9d35a12347bd18bb3c9dcb7a4c8701''\<rparr>"

text \<open>The payloads are ASCII, for which \<open>ensure_ascii\<close> makes no difference.\<close>

definition signed_payload :: "ustr \<Rightarrow> int \<Rightarrow> json \<Rightarrow> bytes \<times> (ustr \<times> ustr) list" where
  "signed_payload secret now payload =
    (let body = utf8 (json_dumps payload);
         timestamp = int_str now;
         signature = hmac_sha256_hex (utf8 secret) (utf8 timestamp @ [46] @ body)
     in (body, [(u ''content-type'', u ''application/json''),
                (u ''x-epochdeploy-timestamp'', timestamp),
                (u ''x-epochdeploy-signature'', u ''sha256='' @ signature)]))"

text \<open>The i-th request on its way to a server with a state.\<close>

type_synonym 's channel = "nat \<Rightarrow> ustr \<Rightarrow> bytes \<Rightarrow> (ustr \<times> ustr) list \<Rightarrow> 's \<Rightarrow> http_result \<times> 's"

text \<open>\<open>one()\<close>: the failures after a request, of which there are \<open>failures\<close> before it.\<close>

definition count_failure :: "http_result \<Rightarrow> nat \<Rightarrow> nat option" where
  "count_failure response failures =
    (case response of
       HttpFailure \<Rightarrow> None
     | HttpResponse status content \<Rightarrow>
         if status \<noteq> 200 then Some (failures + 1)
         else (case content of
                 Some (JObj kvs) \<Rightarrow>
                   if map_of kvs (u ''outcome'') \<noteq> Some (JStr (u ''EXECUTED'')) then Some (failures + 1)
                   else Some failures
               | _ \<Rightarrow> None))"

fun benchmark_requests ::
  "ustr \<Rightarrow> (nat \<Rightarrow> int) \<Rightarrow> 's channel \<Rightarrow> nat list \<Rightarrow> nat \<Rightarrow> 's \<Rightarrow> nat option \<times> 's" where
  "benchmark_requests secret seconds post [] failures s = (Some failures, s)"
| "benchmark_requests secret seconds post (i # is) failures s =
    (let (body, headers) = signed_payload secret (seconds i)
           (JObj [(u ''expected'', identity_json benchmark_identity)]);
         (response, s') = post i (u ''/v1/execute'') body headers s
     in case count_failure response failures of
          None \<Rightarrow> (None, s')
        | Some n \<Rightarrow> benchmark_requests secret seconds post is n s')"

definition benchmark_main ::
  "ustr \<Rightarrow> (nat \<Rightarrow> int) \<Rightarrow> 's channel \<Rightarrow> nat \<Rightarrow> 's \<Rightarrow> nat option \<times> 's" where
  "benchmark_main secret seconds post requests s =
    (let (body, headers) = signed_payload secret (seconds 0)
           (JObj [(u ''identity'', identity_json benchmark_identity)])
     in case post 0 (u ''/v1/targets/observe'') body headers s of
          (HttpFailure, s') \<Rightarrow> (None, s')
        | (HttpResponse status _, s') \<Rightarrow>
            if status < 200 \<or> 300 \<le> status then (None, s')
            else benchmark_requests secret seconds post [1..<Suc requests] 0 s')"

section \<open>Against the executors\<close>

text \<open>Two servers, each with its own readings of the clock for every request.\<close>

definition serve_channel ::
  "(executor_env \<Rightarrow> ustr \<Rightarrow> ustr \<Rightarrow> (ustr \<times> ustr) list \<Rightarrow> go_handler) \<Rightarrow> (nat \<Rightarrow> executor_env) \<Rightarrow> target_store channel" where
  "serve_channel endpoint X i path body headers s =
    (case endpoint (X i) (u ''POST'') path headers body s of ((status, content), s') \<Rightarrow> (HttpResponse status content, s'))"

definition server_in_step :: "ustr \<Rightarrow> int \<Rightarrow> executor_env \<Rightarrow> bool" where
  "server_in_step secret now X \<longleftrightarrow> xe_secret X = secret \<and> 0 \<le> now \<and> now < 2 ^ 63 \<and>
     \<bar>xe_clock X 1 - now * 1000000000\<bar> \<le> max_clock_skew"

lemma benchmark_signed:
  assumes "server_in_step secret now X" and "length (utf8 (json_dumps p)) \<le> 65536"
    and "signed_payload secret now p = (body, headers)"
  shows "signed_handler X headers h body s = h (sent_body p) s"
proof -
  from assms(3) have b: "body = utf8 (json_dumps p)"
    and h: "header_get headers (u ''X-EpochDeploy-Timestamp'') = int_str now"
      "header_get headers (u ''X-EpochDeploy-Signature'') =
        u ''sha256='' @ hmac_sha256_hex (utf8 secret) (utf8 (int_str now) @ [46] @ body)"
    by (auto simp: signed_payload_def Let_def header_get_def py_lower_def lower_char_def u_def)
  from assms(1) have "valid_signature (xe_secret X) (int_str now) body
      (u ''sha256='' @ hmac_sha256_hex (utf8 secret) (utf8 (int_str now) @ [46] @ body)) (xe_clock X 1)"
    unfolding server_in_step_def using signature_accepted by (elim conjE) (simp only:)
  with assms(2) h b show ?thesis by (simp add: signed_handler_def sent_body_def)
qed

lemma benchmark_text: "go_identity benchmark_identity"
  unfolding go_identity_def all_fields by (simp add: benchmark_identity_def)

lemma benchmark_fits:
  "length (utf8 (json_dumps (observe_payload benchmark_identity))) \<le> 65536"
  "length (utf8 (json_dumps (execute_payload benchmark_identity None))) \<le> 65536"
proof -
  have "length (json_dumps (identity_json benchmark_identity)) \<le> 2000"
    using length_identity_dumps [of benchmark_identity] by (simp add: benchmark_identity_def)
  moreover have "length (json_dumps (observe_payload i)) = 13 + length (json_dumps (identity_json i))"
    "length (json_dumps (execute_payload i None)) = 13 + length (json_dumps (identity_json i))" for i
    by (simp_all add: observe_payload_def execute_payload_def json_string_def u_def esc_char_def)
  ultimately show "length (utf8 (json_dumps (observe_payload benchmark_identity))) \<le> 65536"
    "length (utf8 (json_dumps (execute_payload benchmark_identity None))) \<le> 65536"
    using length_utf8 [of "json_dumps (observe_payload benchmark_identity)"]
      length_utf8 [of "json_dumps (execute_payload benchmark_identity None)"] by simp_all
qed

lemma go_compare_same: "go_compare i i = \<lparr>gr_outcome = u ''EXECUTED'', gr_observed_fingerprint = go_fingerprint i,
    gr_reason = msg_identity_match, gr_differences = []\<rparr>"
  by (simp add: go_compare_def go_differences_def add_difference_def Let_def)

text \<open>What the script relies on, whichever server it is pointed at.\<close>

locale benchmark_server =
  fixes endpoint :: "executor_env \<Rightarrow> ustr \<Rightarrow> ustr \<Rightarrow> (ustr \<times> ustr) list \<Rightarrow> go_handler"
  assumes observes: "server_in_step secret now X \<Longrightarrow>
      signed_payload secret now (observe_payload benchmark_identity) = (body, headers) \<Longrightarrow>
      endpoint X (u ''POST'') (u ''/v1/targets/observe'') headers body s =
        (write_fingerprint (go_fingerprint benchmark_identity), store_put benchmark_identity s)"
    and executes: "server_in_step secret now X \<Longrightarrow>
      signed_payload secret now (execute_payload benchmark_identity None) = (body, headers) \<Longrightarrow>
      endpoint X (u ''POST'') (u ''/v1/execute'') headers body s = (compare_observed benchmark_identity s, s)"
begin

lemma requests_served:
  assumes "\<forall>i \<in> set is. server_in_step secret (seconds i) (X i)"
    and "store_get s benchmark_identity = Some benchmark_identity"
  shows "benchmark_requests secret seconds (serve_channel endpoint X) is n s = (Some n, s)"
  using assms(1)
proof (induction "is" arbitrary: n)
  case (Cons i "is")
  obtain body headers where sp: "signed_payload secret (seconds i) (execute_payload benchmark_identity None) = (body, headers)"
    by fastforce
  from executes [OF _ sp] Cons.prems have "serve_channel endpoint X i (u ''/v1/execute'') body headers s =
      (HttpResponse 200 (snd (write_result (go_compare benchmark_identity benchmark_identity))), s)"
    by (simp add: serve_channel_def write_result_def compare_observed_def assms(2))
  with Cons sp show ?case
    by (simp add: execute_payload_def count_failure_def write_result_def go_compare_same)
qed simp

lemma no_failures:
  assumes "\<forall>i \<le> requests. server_in_step secret (seconds i) (X i)"
  shows "fst (benchmark_main secret seconds (serve_channel endpoint X) requests s) = Some 0"
proof -
  obtain body headers where sp: "signed_payload secret (seconds 0) (observe_payload benchmark_identity) = (body, headers)"
    by fastforce
  from observes [OF _ sp] assms have "serve_channel endpoint X 0 (u ''/v1/targets/observe'') body headers s =
      (HttpResponse 200 (snd (write_fingerprint (go_fingerprint benchmark_identity))), store_put benchmark_identity s)"
    by (simp add: serve_channel_def write_fingerprint_def)
  moreover have "benchmark_requests secret seconds (serve_channel endpoint X) [1..<Suc requests] 0
      (store_put benchmark_identity s) = (Some 0, store_put benchmark_identity s)"
    by (rule requests_served) (use assms in \<open>auto simp: store.get_same\<close>)
  ultimately show ?thesis
    using sp by (simp add: benchmark_main_def observe_payload_def del: upt_Suc)
qed

end

lemmas benchmark_handled = benchmark_signed [OF _ benchmark_fits(1)] benchmark_signed [OF _ benchmark_fits(2)]
  observe_payload_read [OF benchmark_text] gin_payload_read [OF benchmark_text, of None]
  stdlib_payload_read [OF benchmark_text, of None]

interpretation gin_server: benchmark_server gin_serve
  by unfold_locales
    (simp_all add: gin_serve_def benchmark_handled observe_handler_def gin_execute_def check_context_def)

interpretation stdlib_server: benchmark_server stdlib_serve
  by unfold_locales (simp_all add: stdlib_serve_def benchmark_handled observe_handler_def stdlib_execute_def)

text \<open>
  The script counts no failure against an executor that shares its secret and has a synchronised clock:
  with or without gin, whatever the number of requests, and whatever was observed before.
\<close>

lemma benchmark_without_failures:
  assumes "\<forall>i \<le> requests. server_in_step secret (seconds i) (X i)"
  shows "fst (benchmark_main secret seconds (serve_channel gin_serve X) requests s) = Some 0 \<and>
    fst (benchmark_main secret seconds (serve_channel stdlib_serve X) requests s) = Some 0"
  using gin_server.no_failures [OF assms] stdlib_server.no_failures [OF assms] by blast

end
