(* ===== verification/Story.thy ===== *)
theory Story
  imports Drift Concurrency System
begin

text \<open>
  The demonstration as the start page drives it, request by request, over any client that decides its
  execution as the local one does: login, reset, approval, capability, drift, execution, and the views. One lemma per request says
  what is answered and what the database holds afterwards; the browser test is built from them.
\<close>

section \<open>The stage\<close>

text \<open>The rows of the demonstration's one epoch. Of its events only the recorded types matter.\<close>

definition demo_stage ::
  "db \<Rightarrow> user_row list \<Rightarrow> epoch_row \<Rightarrow> change_row \<Rightarrow> target_row \<Rightarrow> approval_row list \<Rightarrow> grant_row list \<Rightarrow>
    receipt_row list \<Rightarrow> bool" where
  "demo_stage d us e c t as gs rs \<longleftrightarrow> db_ok d \<and> users d = us \<and> epochs d = [e] \<and> changes d = [c] \<and>
     targets d = [t] \<and> approvals d = as \<and> grants d = gs \<and> receipts d = rs"

definition has_event :: "db \<Rightarrow> ustr \<Rightarrow> ustr \<Rightarrow> bool" where
  "has_event d i ty \<longleftrightarrow> (\<exists>ev \<in> set (events d). pe_epoch_id ev = i \<and> pe_event_type ev = ty)"

lemma stage_ok: "demo_stage d us e c t as gs rs \<Longrightarrow> db_ok d"
  by (simp add: demo_stage_def)

lemma has_event_record [simp]:
  "has_event (record_event t d j ty' a b s k) i ty \<longleftrightarrow> has_event d i ty \<or> j = i \<and> ty' = ty"
  by (auto simp: has_event_def record_event_def)

lemma has_event_update [simp]:
  "has_event (d\<lparr>epochs := es\<rparr>) i ty = has_event d i ty"
  "has_event (d\<lparr>approvals := as\<rparr>) i ty = has_event d i ty"
  "has_event (d\<lparr>evidences := ev\<rparr>) i ty = has_event d i ty"
  "has_event (d\<lparr>targets := ts\<rparr>) i ty = has_event d i ty"
  "has_event (d\<lparr>receipts := rs\<rparr>) i ty = has_event d i ty"
  "has_event (d\<lparr>changes := cs\<rparr>) i ty = has_event d i ty"
  "has_event (d\<lparr>grants := gs\<rparr>) i ty = has_event d i ty"
  "has_event (d\<lparr>outbox := ob\<rparr>) i ty = has_event d i ty"
  by (simp_all add: has_event_def)

lemma has_event_state [simp]: "has_event (set_state n l s d) i ty = has_event d i ty"
  by (simp add: set_state_def)

section \<open>The rows of the demonstration\<close>

definition demo_epoch :: "env \<Rightarrow> ustr \<Rightarrow> epoch_row" where
  "demo_epoch E by = new_epoch E demo_payload by (u ''success'')"

definition demo_change :: "env \<Rightarrow> ustr \<Rightarrow> change_row" where
  "demo_change E by = new_change (stamp E) (uuid4 E 1) (demo_epoch E by) (u ''ISSUE-184'') msg_demo_reason
     (u ''ai_agent'') (u ''release-agent-01'') by (u ''deploy'')"

definition demo_identity :: identity where
  "demo_identity = payload_identity demo_payload"

definition demo_scope :: "ustr \<Rightarrow> capability_scope" where
  "demo_scope epoch_id =
     \<lparr>sc_epoch_id = epoch_id, sc_actor_type = u ''ai_agent'', sc_actor_id = u ''release-agent-01'',
      sc_project = project demo_payload, sc_environment = environment demo_payload,
      sc_action = u ''deploy'', sc_fingerprint = fingerprint demo_identity\<rparr>"

text \<open>An epoch row of the demonstration, in a state, and a change of it.\<close>

definition demo_rows_of :: "ustr \<Rightarrow> epoch_row \<Rightarrow> change_row \<Rightarrow> bool" where
  "demo_rows_of state e c \<longleftrightarrow> epoch_identity e = demo_identity \<and> ep_fingerprint e = fingerprint demo_identity \<and>
     ep_pipeline_status e = u ''success'' \<and> ep_state e = state \<and>
     cr_epoch_id c = ep_id e \<and> cr_external_ref c = u ''ISSUE-184'' \<and> cr_reason c = msg_demo_reason \<and>
     cr_actor_type c = u ''ai_agent'' \<and> cr_actor_id c = u ''release-agent-01'' \<and> cr_action c = u ''deploy''"

lemma demo_rows_ident:
  "demo_rows_of s e c \<Longrightarrow> ep_project e = project demo_payload \<and> ep_environment e = environment demo_payload"
  by (auto simp: demo_rows_of_def epoch_identity_def demo_identity_def payload_identity_def)

lemma demo_rows_created: "demo_rows_of (u ''DRAFT'') (demo_epoch E by) (demo_change E by)"
  by (simp add: demo_rows_of_def demo_epoch_def demo_change_def new_epoch_def new_change_def epoch_identity_def
      demo_identity_def payload_identity_def)

lemma demo_rows_scope: "demo_rows_of s e c \<Longrightarrow> agent_scope e c = demo_scope (ep_id e)"
  using demo_rows_ident [of s e c] by (simp add: demo_rows_of_def agent_scope_def demo_scope_def)

lemma demo_policy: "evaluate_policy (u ''ai_agent'') (u ''deploy'') (environment demo_payload) =
   \<lparr>pd_decision = u ''ASK'', pd_rule_id = u ''ask-agent-production-write'', pd_reason = msg_policy_agent_prod,
    pd_required_controls = [u ''verified-pipeline'', u ''human-approval'', u ''scoped-capability'']\<rparr>"
  by (simp add: evaluate_policy_def demo_payload_def py_lower_def py_strip_def strip_by_def lower_char_def
      is_py_space_def is_rust_space_def u_def Let_def)

section \<open>Users\<close>

lemma gate_passes:
  "current_user E d creds = Inr user \<Longrightarrow> us_role user = u r \<Longrightarrow> r \<in> set roles \<Longrightarrow> require_role E d creds roles = Inr user"
  by (auto simp: require_role_def)

lemma story_login:
  assumes ok: "db_ok d" and user: "user \<in> set (users d)" and name: "us_username user = u n"
    and pw: "verify_password (u p) (us_password_hash user)"
    and body: "login_request body = Inr (u n, u p)"
  shows "login E d body = Inr (VDict [(u ''access_token'', VStr (issue_token E user)),
    (u ''token_type'', VStr (u ''bearer'')), (u ''role'', VStr (us_role user))])"
proof -
  have "one_or_none (filter (\<lambda>x. us_username x = u n) (users d)) = Inr (Some user)"
    unfolding users_t.select_one [OF ok] using users_t.find_row [OF ok user] name by simp
  then show ?thesis using pw by (simp add: login_def body)
qed

section \<open>The reset\<close>

lemma cleared_ok: "db_ok d \<Longrightarrow> db_ok (cleared_db d)"
  by (simp add: db_ok_defs cleared_db_def Let_def)

lemma cleared_simps [simp]:
  "users (cleared_db d) = users d" "epochs (cleared_db d) = []" "approvals (cleared_db d) = []"
  "targets (cleared_db d) = []" "receipts (cleared_db d) = []" "grants (cleared_db d) = []"
  "changes (cleared_db d) = []"
  by (simp_all add: cleared_db_def)

lemma upsert_first:
  assumes "db_ok d" and "targets d = []" and "sync_executor_observation E i = Inr ()"
  shows "\<exists>t. upsert_target E d i = (Inr t, d\<lparr>targets := [t]\<rparr>) \<and> db_ok (d\<lparr>targets := [t]\<rparr>) \<and> target_identity t = i"
proof -
  let ?t = "\<lparr>lt_id = next_id (map lt_id (targets d)), lt_project = project i, lt_environment = environment i,
    lt_commit_sha = commit_sha i, lt_artifact_digest = artifact_digest i, lt_config_hash = config_hash i,
    lt_updated_at = stamp E\<rparr>"
  have ok: "db_ok (d\<lparr>targets := [?t]\<rparr>)"
    using targets_insert_ok [OF assms(1), of ?t] assms(2) by simp
  then have "store_target E d i = (Inr ?t, d\<lparr>targets := [?t]\<rparr>)"
    using assms(2) by (simp add: store_target_def live_target_def commit_def Let_def)
  then have "upsert_target E d i = (Inr ?t, d\<lparr>targets := [?t]\<rparr>)"
    by (simp add: upsert_target_def assms(3))
  with ok show ?thesis by (intro exI [of _ ?t]) (simp add: target_identity_eq)
qed

lemma story_bootstrap:
  assumes ok: "db_ok d" and mode: "demo_mode (cfg E)" and told: "sync_executor_observation E demo_identity = Inr ()"
  shows "\<exists>t d'. demo_bootstrap E d user = (Inr (demo_epoch E (us_username user)), d') \<and>
    demo_stage d' (users d) (demo_epoch E (us_username user)) (demo_change E (us_username user)) t [] [] [] \<and>
    target_identity t = demo_identity \<and> has_event d' (uuid4 E 0) (u ''CHANGE_REQUESTED'')"
proof -
  let ?by = "us_username user"
  let ?e = "demo_epoch E ?by" and ?c = "demo_change E ?by"
  let ?d1 = "cleared_db d"
  let ?d2 = "created_db E ?d1 ?e ?by"
  have ok2: "db_ok ?d2" by (rule created_db_ok [OF cleared_ok [OF ok]]) simp
  have e: "create_epoch E ?d1 demo_payload ?by (u ''success'') = (Inr ?e, ?d2)"
    using ok2 by (simp add: create_epoch_def demo_epoch_def commit_def Let_def)
  let ?d3 = "changed_db (stamp E) ?d2 ?c"
  have ok3: "db_ok ?d3"
    by (rule changed_db_ok [OF ok2]) (simp_all add: demo_change_def new_change_def demo_epoch_def)
  have c: "create_change_request (stamp E) (uuid4 E 1) ?d2 ?e (u ''ISSUE-184'') msg_demo_reason
      (u ''ai_agent'') (u ''release-agent-01'') ?by (u ''deploy'') = (Inr ?c, ?d3)"
    using ok3 by (simp add: create_change_request_def demo_change_def commit_def Let_def)
  let ?d4 = "demo_pipeline_event E ?d3 ?e"
  have ok4: "db_ok ?d4"
    unfolding demo_pipeline_event_def by (rule record_event_ok [OF ok3]) simp
  have t4: "targets ?d4 = []" by (simp add: demo_pipeline_event_def)
  have id: "epoch_identity ?e = demo_identity"
    by (simp add: demo_epoch_def new_epoch_def epoch_identity_def demo_identity_def payload_identity_def)
  from upsert_first [OF ok4 t4 told] obtain t where t: "upsert_target E ?d4 (epoch_identity ?e) = (Inr t, ?d4\<lparr>targets := [t]\<rparr>)"
    "db_ok (?d4\<lparr>targets := [t]\<rparr>)" "target_identity t = demo_identity"
    unfolding id by blast
  have "demo_bootstrap E d user = (Inr ?e, ?d4\<lparr>targets := [t]\<rparr>)"
    unfolding demo_bootstrap_def
    by (simp add: demo_only_def mode commit_def cleared_ok [OF ok] e c ok4 t(1) del: One_nat_def)
  moreover have "demo_stage (?d4\<lparr>targets := [t]\<rparr>) (users d) ?e ?c t [] [] []"
    using t(2) by (simp add: demo_stage_def demo_pipeline_event_def)
  moreover have "has_event (?d4\<lparr>targets := [t]\<rparr>) (uuid4 E 0) (u ''CHANGE_REQUESTED'')"
    by (simp add: demo_pipeline_event_def changed_db_def demo_change_def new_change_def demo_epoch_def new_epoch_def)
  ultimately show ?thesis using t(3) by blast
qed

section \<open>The approval\<close>

definition approved_epoch :: "env \<Rightarrow> epoch_row \<Rightarrow> epoch_row" where
  "approved_epoch E e = e\<lparr>ep_state := u ''APPROVED'', ep_updated_at := stamp E\<rparr>"

lemma rows_when_approved: "demo_rows_of (u ''DRAFT'') e c \<Longrightarrow> demo_rows_of (u ''APPROVED'') (approved_epoch E e) c"
  by (simp add: demo_rows_of_def approved_epoch_def epoch_identity_def)

lemma approved_epoch_id [simp]: "ep_id (approved_epoch E e) = ep_id e"
  by (simp add: approved_epoch_def)

lemma story_approve:
  assumes st: "demo_stage d us e c t [] [] []" and rows: "demo_rows_of (u ''DRAFT'') e c"
  shows "\<exists>a. approve_epoch E d e by = (Inr (a, e\<lparr>ep_state := u ''APPROVED''\<rparr>), approved_db E d e by) \<and>
    demo_stage (approved_db E d e by) us (approved_epoch E e) c t [a] [] [] \<and>
    ap_epoch_id a = ep_id e \<and> ap_approved_fingerprint a = ep_fingerprint e \<and>
    (\<forall>i ty. has_event (approved_db E d e by) i ty \<longleftrightarrow> has_event d i ty \<or> i = ep_id e \<and> ty = u ''APPROVED'')"
proof -
  let ?a = "new_approval E d e by"
  have ok: "db_ok d" and e: "e \<in> set (epochs d)" "ep_pipeline_status e = u ''success''" "ep_id e \<notin> ap_epoch_id ` set (approvals d)"
    using st rows by (simp_all add: demo_stage_def demo_rows_of_def)
  have "approve_epoch E d e by = (Inr (?a, e\<lparr>ep_state := u ''APPROVED''\<rparr>), approved_db E d e by)"
    by (rule approve_epoch_success [OF ok e])
  moreover have "db_ok (approved_db E d e by)"
    using approved_db_ok [OF ok] e by auto
  then have "demo_stage (approved_db E d e by) us (approved_epoch E e) c t [?a] [] []"
    using st rows by (simp add: demo_stage_def demo_rows_of_def set_state_def update_where_def approved_epoch_def)
  moreover have "has_event (approved_db E d e by) i ty \<longleftrightarrow> has_event d i ty \<or> i = ep_id e \<and> ty = u ''APPROVED''" for i ty
    by (auto simp: approved_db_def Let_def)
  ultimately show ?thesis by (intro exI [of _ ?a]) (simp add: new_approval_def)
qed

section \<open>The capability\<close>

lemma story_capability:
  assumes st: "demo_stage d us e c t [a] [] []" and rows: "demo_rows_of (u ''APPROVED'') e c"
    and a: "ap_epoch_id a = ep_id e" "ap_approved_fingerprint a = ep_fingerprint e"
    and x: "x = clock E 1 + ttl * 1000000"
  shows "\<exists>g d'. issue_execution_capability E d e by ttl = (Inr (g, jwt_encode (jwt E)
        (capability_payload (demo_scope (ep_id e)) (uuid4 E 0) (clock E 1) x) (capability_secret (cfg E))), d') \<and>
    demo_stage d' us e c t [a] [g] [] \<and> grant_scope g = demo_scope (ep_id e) \<and> cg_id g = uuid4 E 0 \<and>
    cg_revoked_at g = None \<and> cg_expires_at g = x \<and>
    (\<forall>i ty. has_event d i ty \<or> i = ep_id e \<and> ty = u ''CAPABILITY_ISSUED'' \<longrightarrow> has_event d' i ty)"
proof -
  let ?p = "evaluate_policy (cr_actor_type c) (cr_action c) (ep_environment e)"
  let ?g = "new_grant E e c by (uuid4 E 0) x"
  let ?d = "granted_db E (record_policy E d e c ?p) e c ?p by ?g"
  have p: "pd_decision ?p = u ''ASK''"
    using rows demo_rows_ident [OF rows] by (simp add: demo_rows_of_def demo_policy)
  have "may_grant d e c"
    using st rows a p by (simp add: may_grant_def demo_stage_def demo_rows_of_def Let_def)
  from issue_granted [OF stage_ok [OF st] _ this _ refl x, of "by"]
  have issued: "issue_execution_capability E d e by ttl = (Inr (?g, jwt_encode (jwt E)
      (capability_payload (demo_scope (ep_id e)) (uuid4 E 0) (clock E 1) x) (capability_secret (cfg E))), ?d)"
    and ok: "db_ok ?d"
    using st by (simp_all add: demo_stage_def demo_rows_scope [OF rows])
  have "demo_stage ?d us e c t [a] [?g] []" using st ok by (simp add: demo_stage_def)
  moreover have "has_event ?d i ty" if "has_event d i ty \<or> i = ep_id e \<and> ty = u ''CAPABILITY_ISSUED''" for i ty
    using that by (auto simp: granted_db_def record_policy_def)
  ultimately show ?thesis
    using issued by (intro exI [of _ ?g] exI [of _ ?d]) (simp add: demo_rows_scope [OF rows])
qed

section \<open>The drift\<close>

definition drifted_demo :: "ustr \<Rightarrow> identity" where
  "drifted_demo v = with_field ArtifactDigest v demo_identity"

lemma story_drift:
  assumes st: "demo_stage d us e c t as gs rs" and rows: "demo_rows_of s e c" and t: "target_identity t = demo_identity"
    and told: "sync_executor_observation E (drifted_demo v) = Inr ()"
  shows "\<exists>t' d'. demo_drift E d e (u ''artifact_digest'') v = (Inr (fingerprint (drifted_demo v)), d') \<and>
    demo_stage d' us e c t' as gs rs \<and> target_identity t' = drifted_demo v \<and>
    (\<forall>i ty. has_event d' i ty = has_event d i ty)"
proof -
  have key: "target_key t = (ep_project e, ep_environment e)"
    using demo_rows_ident [OF rows] t
    by (simp add: target_identity_eq demo_identity_def payload_identity_def)
  have mem: "t \<in> set (targets d)" "ArtifactDigest \<in> drift_fields"
    using st by (simp_all add: demo_stage_def drift_fields_def)
  have "sync_executor_observation E (with_field ArtifactDigest v (target_identity t)) = Inr ()"
    using told by (simp add: t drifted_demo_def)
  from drift_stored [OF stage_ok [OF st] mem(1) key mem(2) this]
  obtain ts t' where drift: "demo_drift E d e (u ''artifact_digest'') v = (Inr (fingerprint (drifted_demo v)), d\<lparr>targets := ts\<rparr>)"
    and ok: "db_ok (d\<lparr>targets := ts\<rparr>)" and ts: "ts = update_where (\<lambda>r. lt_id r = lt_id t) (\<lambda>_. t') (targets d)"
    and t': "target_identity t' = drifted_demo v"
    unfolding t by (auto simp: drifted_demo_def)
  have "ts = [t']" using ts st by (simp add: demo_stage_def update_where_def)
  then have "demo_stage (d\<lparr>targets := ts\<rparr>) us e c t' as gs rs"
    using st ok by (simp add: demo_stage_def)
  with drift t' show ?thesis by auto
qed

section \<open>The execution\<close>

lemma story_execute:
  assumes st: "demo_stage d us e c t [a] [g] []" and rows: "demo_rows_of (u ''APPROVED'') e c"
    and a: "ap_epoch_id a = ep_id e" "ap_approved_fingerprint a = ep_fingerprint e"
    and g: "grant_scope g = demo_scope (ep_id e)" "cg_revoked_at g = None" "clock E 2 < cg_expires_at g"
    and tok: "\<And>n. verify_capability E (clock E n) tok (demo_scope (ep_id e)) = Inr claims"
    and jti: "map_of claims (u ''jti'') = Some (JStr (cg_id g))"
    and cx: "cx = agent_context e c (evaluate_policy (cr_actor_type c) (cr_action c) (ep_environment e)) tok"
    and local: "local_check E demo_identity (Some cx) = Inr () \<longrightarrow>
      client_execute (executor_client E) E demo_identity (target_identity t) (Some cx) =
        local_execute E demo_identity (target_identity t) (Some cx)"
    and t: "target_key t = (project demo_payload, environment demo_payload)"
  shows "\<exists>r d'. execute_agent_epoch E d e key tok = (Inr (r, JArr (map difference_json
        (diff_identity demo_identity (target_identity t)))), d') \<and>
    rc_outcome r = (if fingerprint demo_identity = fingerprint (target_identity t) then u ''EXECUTED'' else u ''DENIED_STALE'') \<and>
    rc_reason r = (if fingerprint demo_identity = fingerprint (target_identity t) then msg_identity_match
      else msg_stale_prefix @ join_with (u '', '') (map df_field (diff_identity demo_identity (target_identity t)))) \<and>
    rc_epoch_id r = ep_id e \<and>
    demo_stage d' us (e\<lparr>ep_state := rc_outcome r, ep_updated_at := stamp E\<rparr>) c t [a] [g] [r] \<and>
    (\<forall>i ty. has_event d i ty \<or> i = ep_id e \<and> ty = rc_outcome r \<longrightarrow> has_event d' i ty) \<and>
    (\<exists>ev \<in> set (events d'). pe_epoch_id ev = ep_id e \<and> pe_event_type ev = rc_outcome r \<and>
      pe_summary ev = take 255 (rc_reason r))"
proof -
  note ok = stage_ok [OF st]
  note scope = demo_rows_scope [OF rows]
  have ident: "epoch_identity e = demo_identity" using rows by (simp add: demo_rows_of_def)
  have mem: "e \<in> set (epochs d)" "t \<in> set (targets d)" "g \<in> set (grants d)"
    using st by (simp_all add: demo_stage_def)
  have keys: "target_key t = (ep_project e, ep_environment e)" "(ep_id e, key) \<notin> receipt_key ` set (receipts d)"
    using t demo_rows_ident [OF rows] st by (simp_all add: demo_stage_def)
  have "cg_epoch_id g = ep_id e" using g(1) by (simp add: grant_scope_def demo_scope_def)
  moreover have "agent_change d e c" "change_decision e c \<noteq> u ''DENY''"
    using st rows demo_rows_ident [OF rows]
    by (simp_all add: agent_change_def change_decision_def demo_stage_def demo_rows_of_def demo_policy)
  ultimately have auth: "authorize_agent E d e tok = Inr cx"
    unfolding cx using tok [of 1] by (intro authorize_agent_granted [OF ok _ _ _ jti mem(3) _ g(2,3)]) (simp_all add: scope)
  have check: "local_check E demo_identity (Some cx) = Inr ()"
    unfolding cx ident [symmetric] using tok [of 3] by (simp add: local_check_def scope) (simp add: agent_context_def)
  have may: "may_execute d e (Some cx)"
    unfolding cx using st rows a by (simp add: may_execute_def approval_bound_def demo_stage_def demo_rows_of_def)
  obtain x where x: "local_execute E demo_identity (target_identity t) (Some cx) = Inr x"
    and res: "er_outcome x = (if fingerprint demo_identity = fingerprint (target_identity t) then u ''EXECUTED'' else u ''DENIED_STALE'')"
      "er_reason x = (if fingerprint demo_identity = fingerprint (target_identity t) then msg_identity_match
        else msg_stale_prefix @ join_with (u '', '') (map df_field (diff_identity demo_identity (target_identity t))))"
      "er_differences x = JArr (map difference_json (diff_identity demo_identity (target_identity t)))"
    using check by (simp add: local_execute_Inr)
  have ran: "execute_agent_epoch E d e key tok = (Inr (new_receipt E d e key x, er_differences x), executed_db E d e key x)"
    unfolding execute_agent_epoch_def auth sum.case execute_epoch_def
    by (rule execute_with_start [where ex = "client_execute (executor_client E)", OF ok _ mem(2) keys may])
      (use local check x mem(1) in \<open>simp_all add: ident\<close>)
  let ?r = "new_receipt E d e key x" and ?d = "executed_db E d e key x"
  have ok': "db_ok ?d" by (rule executed_db_ok [OF ok _ keys(2)]) (simp add: mem(1))
  have neq: "ep_state e \<noteq> er_outcome x" using rows res(1) by (simp add: demo_rows_of_def)
  have "demo_stage ?d us (e\<lparr>ep_state := er_outcome x, ep_updated_at := stamp E\<rparr>) c t [a] [g] [?r]"
    using st ok' neq by (simp add: demo_stage_def set_state_def update_where_def)
  moreover have "has_event ?d i ty" if "has_event d i ty \<or> i = ep_id e \<and> ty = er_outcome x" for i ty
    using that by (auto simp: executed_db_def Let_def)
  moreover have "\<exists>ev \<in> set (events ?d). pe_epoch_id ev = ep_id e \<and> pe_event_type ev = er_outcome x \<and>
      pe_summary ev = take 255 (er_reason x)"
    by (simp add: executed_db_def Let_def record_event_def)
  ultimately show ?thesis
    using ran res by (intro exI [of _ ?r] exI [of _ ?d]) (simp add: new_receipt_def)
qed

end
