(* ===== verification/Page_Text.thy ===== *)
theory Page_Text
  imports Prelude
begin

text \<open>
  The texts of the start page (\<open>app.js\<close> and \<open>index.html\<close> of \<open>orchestrator/app/static\<close>) and of its browser
  test (\<open>scripts/browser-e2e.py\<close>) that are not ASCII, as code-point lists. The comment of each gives its
  meaning. A text is one literal, or the constant part of a template.
\<close>


section \<open>The script of the page\<close>

definition pt_dot :: ustr where \<comment> \<open>a middle dot between two parts\<close>
  "pt_dot =
   [32, 183, 32]"

definition pt_dash :: ustr where \<comment> \<open>no value\<close>
  "pt_dash =
   [8212]"

definition pt_ellipsis :: ustr where \<comment> \<open>a shortened hash\<close>
  "pt_ellipsis =
   [8230]"

definition pt_arrow :: ustr where \<comment> \<open>from a project to an environment\<close>
  "pt_arrow =
   [32, 8594, 32]"

definition pt_logged_in :: ustr where \<comment> \<open>the demo roles are authenticated\<close>
  "pt_logged_in =
   [45936, 47784, 32, 50669, 54624, 32, 51064, 51613, 32, 50756, 47308]"

definition pt_epoch_infix :: ustr where \<comment> \<open>before the identifier of the epoch\<close>
  "pt_epoch_infix =
   [32, 183, 32, 101, 112, 111, 99, 104, 32]"

definition pt_no_epoch :: ustr where \<comment> \<open>no epoch is selected\<close>
  "pt_no_epoch =
   [49440, 53469, 46108, 32, 100, 101, 112, 108, 111, 121, 109, 101, 110, 116, 32, 101, 112,
    111, 99, 104, 44032, 32, 50630, 49845, 45768, 45796, 46]"

definition pt_no_diffs :: ustr where \<comment> \<open>the approved identity and the observed one agree\<close>
  "pt_no_diffs =
   [49849, 51064, 46108, 32, 100, 101, 112, 108, 111, 121, 109, 101, 110, 116, 32, 105, 100,
    101, 110, 116, 105, 116, 121, 50752, 32, 49892, 51228, 32, 44288, 52272, 44050, 51060,
    32, 51068, 52824, 54633, 45768, 45796, 46]"

definition pt_expected :: ustr where \<comment> \<open>the approved value\<close>
  "pt_expected =
   [49849, 51064, 44050]"

definition pt_observed :: ustr where \<comment> \<open>the observed value\<close>
  "pt_observed =
   [44288, 52272, 44050]"

definition pt_evidence_needs_epoch :: ustr where \<comment> \<open>create an epoch before attaching evidence\<close>
  "pt_evidence_needs_epoch =
   [69, 118, 105, 100, 101, 110, 99, 101, 47484, 32, 52392, 48512, 54616, 44592, 32, 51204,
    50640, 32, 101, 112, 111, 99, 104, 47484, 32, 49373, 49457, 54616, 49464, 50836, 46]"

definition pt_no_evidence :: ustr where \<comment> \<open>no evidence is attached\<close>
  "pt_no_evidence =
   [52392, 48512, 46108, 32, 101, 118, 105, 100, 101, 110, 99, 101, 44032, 32, 50630, 49845,
    45768, 45796, 46]"

definition pt_content_type :: ustr where \<comment> \<open>content type\<close>
  "pt_content_type =
   [53080, 53584, 52768, 32, 53440, 51077]"

definition pt_receipts_need_epoch :: ustr where \<comment> \<open>create an epoch before looking at receipts\<close>
  "pt_receipts_need_epoch =
   [82, 101, 99, 101, 105, 112, 116, 47484, 32, 54869, 51064, 54616, 44592, 32, 51204,
    50640, 32, 101, 112, 111, 99, 104, 47484, 32, 49373, 49457, 54616, 49464, 50836, 46]"

definition pt_no_receipts :: ustr where \<comment> \<open>there are no receipts yet\<close>
  "pt_no_receipts =
   [50500, 51649, 32, 101, 120, 101, 99, 117, 116, 105, 111, 110, 32, 114, 101, 99, 101,
    105, 112, 116, 44032, 32, 50630, 49845, 45768, 45796, 46]"

definition pt_reason :: ustr where \<comment> \<open>reason\<close>
  "pt_reason =
   [51060, 50976]"

definition pt_expected_fp :: ustr where \<comment> \<open>the approved fingerprint\<close>
  "pt_expected_fp =
   [49849, 51064, 32, 102, 105, 110, 103, 101, 114, 112, 114, 105, 110, 116]"

definition pt_observed_fp :: ustr where \<comment> \<open>the observed fingerprint\<close>
  "pt_observed_fp =
   [44288, 52272, 32, 102, 105, 110, 103, 101, 114, 112, 114, 105, 110, 116]"

definition pt_passport_needs_epoch :: ustr where \<comment> \<open>create an epoch before looking at the passport\<close>
  "pt_passport_needs_epoch =
   [48320, 44221, 32, 54056, 49828, 54252, 53944, 47484, 32, 48372, 44592, 32, 51204, 50640,
    32, 101, 112, 111, 99, 104, 47484, 32, 49373, 49457, 54616, 49464, 50836, 46]"

definition pt_no_events :: ustr where \<comment> \<open>there are no governance events yet\<close>
  "pt_no_events =
   [50500, 51649, 32, 44144, 48260, 45324, 49828, 32, 51060, 48292, 53944, 44032, 32, 50630,
    49845, 45768, 45796, 46]"

definition pt_no_change :: ustr where \<comment> \<open>no change request\<close>
  "pt_no_change =
   [50672, 44208, 46108, 32, 48320, 44221, 32, 50836, 52397, 32, 50630, 51020]"

definition pt_no_change_detail :: ustr where \<comment> \<open>the epoch was created without an agent change request\<close>
  "pt_no_change_detail =
   [51060, 32, 101, 112, 111, 99, 104, 45716, 32, 65, 103, 101, 110, 116, 32, 99, 104, 97,
    110, 103, 101, 32, 114, 101, 113, 117, 101, 115, 116, 32, 50630, 51060, 32, 49373,
    49457, 46104, 50632, 49845, 45768, 45796, 46]"

definition pt_human_workflow :: ustr where \<comment> \<open>a workflow started by a human\<close>
  "pt_human_workflow =
   [49324, 46988, 51060, 32, 49884, 51089, 54620, 32, 50892, 53356, 54540, 47196]"

definition pt_requested_by :: ustr where \<comment> \<open>requested by\<close>
  "pt_requested_by =
   [50836, 52397, 51088, 58, 32]"

definition pt_created_by :: ustr where \<comment> \<open>created by\<close>
  "pt_created_by =
   [49373, 49457, 51088, 58, 32]"

definition pt_awaiting_approval :: ustr where \<comment> \<open>awaiting approval\<close>
  "pt_awaiting_approval =
   [49849, 51064, 32, 45824, 44592]"

definition pt_no_approval :: ustr where \<comment> \<open>no human approval yet\<close>
  "pt_no_approval =
   [50500, 51649, 32, 49324, 46988, 32, 49849, 51064, 51060, 32, 50630, 49845, 45768, 45796,
    46]"

definition pt_not_issued :: ustr where \<comment> \<open>not issued\<close>
  "pt_not_issued =
   [48120, 48156, 44553]"

definition pt_expires_infix :: ustr where \<comment> \<open>expires\<close>
  "pt_expires_infix =
   [32, 183, 32, 47564, 47308, 32]"

definition pt_no_capability :: ustr where \<comment> \<open>no scoped permission yet\<close>
  "pt_no_capability =
   [50500, 51649, 32, 115, 99, 111, 112, 101, 100, 32, 101, 120, 101, 99, 117, 116, 105,
    111, 110, 32, 44428, 54620, 51060, 32, 50630, 49845, 45768, 45796, 46]"

definition pt_count :: ustr where \<comment> \<open>a count of items\<close>
  "pt_count =
   [44060]"

definition pt_none_attached :: ustr where \<comment> \<open>no evidence\<close>
  "pt_none_attached =
   [52392, 48512, 46108, 32, 101, 118, 105, 100, 101, 110, 99, 101, 32, 50630, 51020]"

definition pt_not_executed :: ustr where \<comment> \<open>not executed\<close>
  "pt_not_executed =
   [48120, 49892, 54665]"

definition pt_no_final_receipt :: ustr where \<comment> \<open>no final receipt yet\<close>
  "pt_no_final_receipt =
   [50500, 51649, 32, 52572, 51333, 32, 101, 120, 101, 99, 117, 116, 105, 111, 110, 32, 114,
    101, 99, 101, 105, 112, 116, 44032, 32, 50630, 49845, 45768, 45796, 46]"

definition pt_summary :: ustr where \<comment> \<open>summary\<close>
  "pt_summary =
   [50836, 50557]"

definition pt_card_gitlab :: ustr where \<comment> \<open>the GitLab pipeline hook\<close>
  "pt_card_gitlab =
   [71, 105, 116, 76, 97, 98, 32, 54028, 51060, 54532, 46972, 51064, 32, 54981]"

definition pt_event :: ustr where \<comment> \<open>event\<close>
  "pt_event =
   [51060, 48292, 53944]"

definition pt_binding :: ustr where \<comment> \<open>binding\<close>
  "pt_binding =
   [48148, 51064, 46377]"

definition pt_card_executor :: ustr where \<comment> \<open>the Go executor\<close>
  "pt_card_executor =
   [71, 111, 32, 49892, 54665, 44592]"

definition pt_mode :: ustr where \<comment> \<open>mode\<close>
  "pt_mode =
   [47784, 46300]"

definition pt_implementation :: ustr where \<comment> \<open>implementation\<close>
  "pt_implementation =
   [44396, 54788, 52404]"

definition pt_transport :: ustr where \<comment> \<open>transport\<close>
  "pt_transport =
   [51204, 49569, 32, 48169, 49885]"

definition pt_observation :: ustr where \<comment> \<open>observation\<close>
  "pt_observation =
   [44288, 52272, 32, 48169, 49885]"

definition pt_card_database :: ustr where \<comment> \<open>database\<close>
  "pt_card_database =
   [45936, 51060, 53552, 48288, 51060, 49828]"

definition pt_backend :: ustr where \<comment> \<open>backend\<close>
  "pt_backend =
   [48177, 50644, 46300]"

definition pt_role :: ustr where \<comment> \<open>role\<close>
  "pt_role =
   [50669, 54624]"

definition pt_card_grpc :: ustr where \<comment> \<open>the gRPC runtime\<close>
  "pt_card_grpc =
   [103, 82, 80, 67, 32, 47088, 53440, 51076]"

definition pt_contract :: ustr where \<comment> \<open>contract\<close>
  "pt_contract =
   [44228, 50557]"

definition pt_runtime :: ustr where \<comment> \<open>runtime\<close>
  "pt_runtime =
   [47088, 53440, 51076]"

definition pt_release_eyebrow :: ustr where \<comment> \<open>production deployment\<close>
  "pt_release_eyebrow =
   [50868, 50689, 32, 48176, 54252, 32, 47, 32, 80, 65, 89, 77, 69, 78, 84, 83, 45, 65, 80,
    73]"

definition pt_release_title :: ustr where \<comment> \<open>an approval alone is not enough\<close>
  "pt_release_title =
   [49849, 51064, 47564, 51004, 47196, 45716, 32, 52649, 48516, 54616, 51648, 32, 50506,
    49845, 45768, 45796, 46]"

definition pt_release_subtitle :: ustr where \<comment> \<open>what is really executed is verified again\<close>
  "pt_release_subtitle =
   [49892, 51228, 47196, 32, 49892, 54665, 46112, 32, 45824, 49345, 51012, 32, 45796, 49884,
    32, 44160, 51613, 54633, 45768, 45796, 46]"

definition pt_policy_eyebrow :: ustr where \<comment> \<open>agent policy, dry run\<close>
  "pt_policy_eyebrow =
   [65, 71, 69, 78, 84, 32, 51221, 52293, 32, 47, 32, 68, 82, 89, 45, 82, 85, 78]"

definition pt_policy_title :: ustr where \<comment> \<open>the rights of an agent are simulated before the execution\<close>
  "pt_policy_title =
   [49892, 54665, 32, 51204, 32, 65, 103, 101, 110, 116, 32, 44428, 54620, 51012, 32, 49884,
    48044, 47112, 51060, 49496, 54633, 45768, 45796, 46]"

definition pt_policy_subtitle :: ustr where \<comment> \<open>the policy engine that controls the capabilities is used\<close>
  "pt_policy_subtitle =
   [49892, 51228, 32, 99, 97, 112, 97, 98, 105, 108, 105, 116, 121, 47484, 32, 51228, 50612,
    54616, 45716, 32, 46041, 51068, 54620, 32, 51221, 52293, 32, 50644, 51652, 51012, 32,
    49324, 50857, 54633, 45768, 45796, 46]"

definition pt_passport_eyebrow :: ustr where \<comment> \<open>agent governance, change passport\<close>
  "pt_passport_eyebrow =
   [65, 71, 69, 78, 84, 32, 44144, 48260, 45324, 49828, 32, 47, 32, 48320, 44221, 32, 54056,
    49828, 54252, 53944]"

definition pt_passport_title :: ustr where \<comment> \<open>why a change is needed is traced\<close>
  "pt_passport_title =
   [48320, 44221, 51060, 32, 50780, 32, 54596, 50836, 54620, 51648, 32, 52628, 51201, 54633,
    45768, 45796, 46]"

definition pt_passport_subtitle :: ustr where \<comment> \<open>every actor is traced from request to execution\<close>
  "pt_passport_subtitle =
   [50836, 52397, 48512, 53552, 32, 49892, 54665, 44620, 51648, 32, 47784, 46304, 32, 97,
    99, 116, 111, 114, 47484, 32, 52628, 51201, 54633, 45768, 45796, 46]"

definition pt_evidence_eyebrow :: ustr where \<comment> \<open>build provenance, immutable evidence\<close>
  "pt_evidence_eyebrow =
   [66, 85, 73, 76, 68, 32, 80, 82, 79, 86, 69, 78, 65, 78, 67, 69, 32, 47, 32, 73, 77, 77,
    85, 84, 65, 66, 76, 69, 32, 51613, 44144]"

definition pt_evidence_title :: ustr where \<comment> \<open>evidence is attached to an epoch\<close>
  "pt_evidence_title =
   [69, 112, 111, 99, 104, 50640, 32, 101, 118, 105, 100, 101, 110, 99, 101, 47484, 32,
    50672, 44208, 54633, 45768, 45796, 46]"

definition pt_evidence_subtitle :: ustr where \<comment> \<open>it is fixed by its hash before it is trusted\<close>
  "pt_evidence_subtitle =
   [49888, 47280, 54616, 44592, 32, 51204, 50640, 32, 104, 97, 115, 104, 47196, 32, 44256,
    51221, 54633, 45768, 45796, 46]"

definition pt_receipts_eyebrow :: ustr where \<comment> \<open>audit trail, execution receipts\<close>
  "pt_receipts_eyebrow =
   [44048, 49324, 32, 52628, 51201, 32, 47, 32, 69, 88, 69, 67, 85, 84, 73, 79, 78, 32, 82,
    69, 67, 69, 73, 80, 84, 83]"

definition pt_receipts_title :: ustr where \<comment> \<open>a deployment decision needs a reproducible receipt\<close>
  "pt_receipts_title =
   [48176, 54252, 32, 44208, 51221, 50640, 45716, 32, 51116, 54788, 32, 44032, 45733, 54620,
    32, 114, 101, 99, 101, 105, 112, 116, 44032, 32, 54596, 50836, 54633, 45768, 45796, 46]"

definition pt_receipts_subtitle :: ustr where \<comment> \<open>what was compared is kept exactly\<close>
  "pt_receipts_subtitle =
   [47924, 50631, 51012, 32, 48708, 44368, 54664, 45716, 51648, 32, 51221, 54869, 55176, 32,
    48372, 51316, 54633, 45768, 45796, 46]"

definition pt_integrations_eyebrow :: ustr where \<comment> \<open>platform boundaries, integration status\<close>
  "pt_integrations_eyebrow =
   [54540, 47019, 54268, 32, 44221, 44228, 32, 47, 32, 50672, 46041, 32, 49345, 53468]"

definition pt_integrations_title :: ustr where \<comment> \<open>all trust boundaries are made visible\<close>
  "pt_integrations_title =
   [47784, 46304, 32, 49888, 47280, 32, 44221, 44228, 47484, 32, 48372, 51060, 44172, 32,
    47564, 46317, 45768, 45796, 46]"

definition pt_integrations_subtitle :: ustr where \<comment> \<open>configured, running and contracted are told apart\<close>
  "pt_integrations_subtitle =
   [49444, 51221, 183, 49892, 54665, 183, 44228, 50557, 32, 49345, 53468, 47484, 32, 44396,
    48516, 54644, 32, 54364, 49884, 54633, 45768, 45796, 46]"

definition pt_controls_infix :: ustr where \<comment> \<open>required controls\<close>
  "pt_controls_infix =
   [32, 183, 32, 54596, 49688, 32, 51228, 50612, 58, 32]"

definition pt_no_controls :: ustr where \<comment> \<open>none\<close>
  "pt_no_controls =
   [50630, 51020]"

definition pt_created_infix :: ustr where \<comment> \<open>created, the approval is bound to this fingerprint\<close>
  "pt_created_infix =
   [32, 49373, 49457, 32, 50756, 47308, 46, 32, 45796, 51020, 32, 102, 105, 110, 103, 101,
    114, 112, 114, 105, 110, 116, 50640, 32, 49849, 51064, 51012, 32, 47926, 49845, 45768,
    45796, 58, 32]"

definition pt_approved :: ustr where \<comment> \<open>the approval is bound; issue a capability before the agent executes\<close>
  "pt_approved =
   [49324, 46988, 32, 49849, 51064, 51060, 32, 51221, 54869, 54620, 32, 114, 101, 108, 101,
    97, 115, 101, 50640, 32, 47926, 50688, 49845, 45768, 45796, 46, 32, 65, 73, 32, 65, 103,
    101, 110, 116, 44032, 32, 49892, 54665, 54616, 44592, 32, 51204, 50640, 32, 115, 99,
    111, 112, 101, 100, 32, 99, 97, 112, 97, 98, 105, 108, 105, 116, 121, 47484, 32, 48156,
    44553, 54616, 49464, 50836, 46]"

definition pt_issued_prefix :: ustr where \<comment> \<open>capability issued\<close>
  "pt_issued_prefix =
   [67, 97, 112, 97, 98, 105, 108, 105, 116, 121, 32, 48156, 44553, 32, 50756, 47308, 58, 32]"

definition pt_target_infix :: ustr where \<comment> \<open>target\<close>
  "pt_target_infix =
   [32, 183, 32, 45824, 49345, 61]"

definition pt_expires_at_infix :: ustr where \<comment> \<open>expires at\<close>
  "pt_expires_at_infix =
   [32, 183, 32, 47564, 47308, 61]"

definition pt_drifted :: ustr where \<comment> \<open>the digest has changed after the approval; the next execution must be blocked\<close>
  "pt_drifted =
   [49849, 51064, 32, 54980, 32, 97, 114, 116, 105, 102, 97, 99, 116, 32, 100, 105, 103,
    101, 115, 116, 44032, 32, 48320, 44221, 46104, 50632, 49845, 45768, 45796, 46, 32,
    45796, 51020, 32, 49892, 54665, 51008, 32, 102, 97, 105, 108, 45, 99, 108, 111, 115,
    101, 100, 47196, 32, 52264, 45800, 46104, 50612, 50556, 32, 54633, 45768, 45796, 46]"

definition pt_issue_first :: ustr where \<comment> \<open>issue a capability first\<close>
  "pt_issue_first =
   [47676, 51200, 32, 115, 99, 111, 112, 101, 100, 32, 99, 97, 112, 97, 98, 105, 108, 105,
    116, 121, 47484, 32, 48156, 44553, 54616, 49464, 50836, 46]"

definition pt_create_first :: ustr where \<comment> \<open>create an epoch first\<close>
  "pt_create_first =
   [47676, 51200, 32, 101, 112, 111, 99, 104, 47484, 32, 49373, 49457, 54616, 49464, 50836,
    46]"

definition pt_choose_file :: ustr where \<comment> \<open>choose an evidence file\<close>
  "pt_choose_file =
   [101, 118, 105, 100, 101, 110, 99, 101, 32, 54028, 51068, 51012, 32, 49440, 53469, 54616,
    49464, 50836, 46]"

definition pt_stored_prefix :: ustr where \<comment> \<open>stored\<close>
  "pt_stored_prefix =
   [51200, 51109, 32, 50756, 47308, 58, 32]"


section \<open>The page before its script has run\<close>

definition pt_logged_out :: ustr where \<comment> \<open>not logged in\<close>
  "pt_logged_out =
   [47196, 44536, 51064, 46104, 51648, 32, 50506, 51020]"

definition pt_result_initial :: ustr where \<comment> \<open>running the workflow creates a receipt\<close>
  "pt_result_initial =
   [50892, 53356, 54540, 47196, 47484, 32, 49892, 54665, 54616, 47732, 32, 101, 120, 101,
    99, 117, 116, 105, 111, 110, 32, 114, 101, 99, 101, 105, 112, 116, 44032, 32, 49373,
    49457, 46121, 45768, 45796, 46]"

definition pt_diffs_initial :: ustr where \<comment> \<open>nothing has been executed yet\<close>
  "pt_diffs_initial =
   [50500, 51649, 32, 49892, 54665, 32, 44592, 47197, 51060, 32, 50630, 49845, 45768, 45796,
    46]"

definition pt_scenario_staging :: ustr where \<comment> \<open>deployment to staging\<close>
  "pt_scenario_staging =
   [83, 116, 97, 103, 105, 110, 103, 32, 48176, 54252]"

definition pt_scenario_production :: ustr where \<comment> \<open>deployment to production\<close>
  "pt_scenario_production =
   [80, 114, 111, 100, 117, 99, 116, 105, 111, 110, 32, 48176, 54252]"

definition pt_scenario_delete :: ustr where \<comment> \<open>deletion in production\<close>
  "pt_scenario_delete =
   [80, 114, 111, 100, 117, 99, 116, 105, 111, 110, 32, 49325, 51228]"

definition pt_simulate :: ustr where \<comment> \<open>simulate\<close>
  "pt_simulate =
   [49884, 48044, 47112, 51060, 49496]"

definition pt_expected_result :: ustr where \<comment> \<open>expected result\<close>
  "pt_expected_result =
   [50696, 49345, 32, 44208, 44284]"

definition pt_not_evaluated :: ustr where \<comment> \<open>not evaluated yet\<close>
  "pt_not_evaluated =
   [50500, 51649, 32, 54217, 44032, 54616, 51648, 32, 50506, 50520, 49845, 45768, 45796, 46]"

definition pt_passport_initial :: ustr where \<comment> \<open>no passport yet\<close>
  "pt_passport_initial =
   [50500, 51649, 32, 48320, 44221, 32, 54056, 49828, 54252, 53944, 44032, 32, 50630, 49845,
    45768, 45796, 46]"

definition pt_not_uploaded :: ustr where \<comment> \<open>nothing uploaded yet\<close>
  "pt_not_uploaded =
   [50500, 51649, 32, 50629, 47196, 46300, 54616, 51648, 32, 50506, 50520, 49845, 45768,
    45796, 46]"

definition pt_integrations_initial :: ustr where \<comment> \<open>loading the integration status\<close>
  "pt_integrations_initial =
   [50672, 46041, 32, 49345, 53468, 47484, 32, 48520, 47084, 50724, 45716, 32, 51473, 51077,
    45768, 45796, 8230]"


section \<open>What the browser test expects\<close>

definition bt_release_title :: ustr where \<comment> \<open>an approval alone is not enough\<close>
  "bt_release_title =
   [49849, 51064, 47564, 51004, 47196, 45716, 32, 52649, 48516, 54616, 51648, 32, 50506,
    49845, 45768, 45796]"

definition bt_policy_title :: ustr where \<comment> \<open>the rights of an agent are simulated\<close>
  "bt_policy_title =
   [49892, 54665, 32, 51204, 32, 65, 103, 101, 110, 116, 32, 44428, 54620, 51012, 32, 49884,
    48044, 47112, 51060, 49496, 54633, 45768, 45796]"

definition bt_allow :: ustr where \<comment> \<open>staging is allowed\<close>
  "bt_allow =
   [65, 76, 76, 79, 87, 32, 183, 32, 97, 108, 108, 111, 119, 45, 97, 103, 101, 110, 116, 45,
    110, 111, 110, 112, 114, 111, 100, 45, 119, 114, 105, 116, 101]"

definition bt_ask :: ustr where \<comment> \<open>production needs a human\<close>
  "bt_ask =
   [65, 83, 75, 32, 183, 32, 97, 115, 107, 45, 97, 103, 101, 110, 116, 45, 112, 114, 111,
    100, 117, 99, 116, 105, 111, 110, 45, 119, 114, 105, 116, 101]"

definition bt_deny :: ustr where \<comment> \<open>a deletion is denied\<close>
  "bt_deny =
   [68, 69, 78, 89, 32, 183, 32, 100, 101, 110, 121, 45, 100, 101, 115, 116, 114, 117, 99,
    116, 105, 118, 101, 45, 97, 99, 116, 105, 111, 110]"

definition bt_created :: ustr where \<comment> \<open>created\<close>
  "bt_created =
   [49373, 49457, 32, 50756, 47308]"

definition bt_issued :: ustr where \<comment> \<open>the capability is issued to the agent\<close>
  "bt_issued =
   [67, 97, 112, 97, 98, 105, 108, 105, 116, 121, 32, 48156, 44553, 32, 50756, 47308, 58,
    32, 97, 105, 95, 97, 103, 101, 110, 116, 58, 114, 101, 108, 101, 97, 115, 101, 45, 97,
    103, 101, 110, 116, 45, 48, 49]"

definition bt_passport_title :: ustr where \<comment> \<open>why a change is needed is traced\<close>
  "bt_passport_title =
   [48320, 44221, 51060, 32, 50780, 32, 54596, 50836, 54620, 51648, 32, 52628, 51201, 54633,
    45768, 45796]"

definition bt_evidence_title :: ustr where \<comment> \<open>evidence is attached to an epoch\<close>
  "bt_evidence_title =
   [69, 112, 111, 99, 104, 50640, 32, 101, 118, 105, 100, 101, 110, 99, 101, 47484, 32,
    50672, 44208, 54633, 45768, 45796]"

definition bt_stored :: ustr where \<comment> \<open>the file is stored\<close>
  "bt_stored =
   [51200, 51109, 32, 50756, 47308, 58, 32, 98, 117, 105, 108, 100, 45, 112, 114, 111, 118,
    101, 110, 97, 110, 99, 101, 46, 116, 120, 116]"

definition bt_receipts_title :: ustr where \<comment> \<open>a decision needs a reproducible receipt\<close>
  "bt_receipts_title =
   [48176, 54252, 32, 44208, 51221, 50640, 45716, 32, 51116, 54788, 32, 44032, 45733, 54620,
    32, 114, 101, 99, 101, 105, 112, 116, 44032, 32, 54596, 50836, 54633, 45768, 45796]"

definition bt_match :: ustr where \<comment> \<open>the identity and the target agree\<close>
  "bt_match =
   [49849, 51064, 46108, 32, 100, 101, 112, 108, 111, 121, 109, 101, 110, 116, 32, 105, 100,
    101, 110, 116, 105, 116, 121, 50752, 32, 108, 105, 118, 101, 32, 116, 97, 114, 103, 101,
    116, 51060, 32, 51068, 52824, 54633, 45768, 45796, 46]"

definition bt_integrations_title :: ustr where \<comment> \<open>all trust boundaries are made visible\<close>
  "bt_integrations_title =
   [47784, 46304, 32, 49888, 47280, 32, 44221, 44228, 47484, 32, 48372, 51060, 44172, 32,
    47564, 46317, 45768, 45796]"

definition bt_card_gitlab :: ustr where \<comment> \<open>the GitLab pipeline hook\<close>
  "bt_card_gitlab =
   [71, 105, 116, 76, 97, 98, 32, 54028, 51060, 54532, 46972, 51064, 32, 54981]"

definition bt_card_executor :: ustr where \<comment> \<open>the Go executor\<close>
  "bt_card_executor =
   [71, 111, 32, 49892, 54665, 44592]"

definition bt_card_database :: ustr where \<comment> \<open>the database\<close>
  "bt_card_database =
   [45936, 51060, 53552, 48288, 51060, 49828]"

definition bt_card_grpc :: ustr where \<comment> \<open>the gRPC runtime\<close>
  "bt_card_grpc =
   [103, 82, 80, 67, 32, 47088, 53440, 51076]"

definition bt_active :: ustr where \<comment> \<open>active\<close>
  "bt_active =
   [54876, 49457]"


end
