(* ===== verification/Console.thy ===== *)
theory Console
  imports System Page_Text "HOL-Library.AList"
begin

text \<open>
  The start page (\<open>orchestrator/app/static/app.js\<close>, \<open>index.html\<close>): its state, its requests to the application
  and its click handlers. A page holds the world of the application it talks to, and every request is
  served by \<open>System.serve\<close> in the environment the browser's record gives for it.

  A handler runs to its end before the next event, as it does when its promises are awaited. Of an element
  the model keeps the text; classes, styles and the order of child elements inside a text are left to the
  browser.
\<close>

section \<open>The browser\<close>

text \<open>
  What the page takes from its surroundings: the environment in which the application serves the n-th
  request, \<open>new Date(v).toLocaleString()\<close>, the text of a value that is no text or number, the clock and
  the random digits of an idempotency key, the body of an error response and the message the page makes
  of a body whose \<open>detail\<close> is no text, and the message of the TypeError when no epoch is selected.
\<close>

record browser =
  br_env :: "nat \<Rightarrow> world \<Rightarrow> env"
  br_local_time :: "view \<Rightarrow> ustr"
  br_string :: "view \<Rightarrow> ustr"
  br_now :: "nat \<Rightarrow> int"
  br_random :: "nat \<Rightarrow> ustr"
  br_body :: "py_error \<Rightarrow> ustr"
  br_message :: "py_error \<Rightarrow> ustr"
  br_type_error :: ustr

text \<open>The panels between which the navigation switches, the elements whose text changes, the buttons.\<close>

datatype panel = ReleaseView | PolicyView | PassportView | EvidenceView | ReceiptsView | IntegrationsView

datatype element =
    PageEyebrow
  | PageTitle
  | IdentityLabel
  | MetricState
  | MetricPipeline
  | MetricMatch
  | ResultBox
  | DiffsBox
  | PolicyResult nat
  | PolicyScenarios
  | PassportEpoch
  | PassportSummary
  | PassportTimeline
  | EvidenceEpoch
  | EvidenceResult
  | EvidenceList
  | ReceiptsEpoch
  | ReceiptsList
  | IntegrationCards

datatype button =
    BootStep
  | ApproveStep
  | CapabilityStep
  | DriftStep
  | ExecuteStep
  | EvidenceUpload
  | PassportRefresh
  | EvidenceRefresh
  | ReceiptsRefresh
  | IntegrationsRefresh

text \<open>
  The object \<open>state\<close> of the script (the three tokens, the selected epoch, the capability, the drift), the
  document, and what a test can observe besides: the statuses of failed responses and the errors on the
  console.
\<close>

record page =
  pg_admin :: "ustr option"
  pg_operator :: "ustr option"
  pg_approver :: "ustr option"
  pg_epoch :: "view option"
  pg_capability :: "view option"
  pg_drifted :: bool
  pg_view :: panel
  pg_text :: "element \<Rightarrow> ustr"
  pg_disabled :: "button \<Rightarrow> bool"
  pg_kind :: ustr
  pg_file :: "upload_file option"
  pg_world :: world
  pg_requests :: nat
  pg_bad :: "int list"
  pg_errors :: "ustr list"

section \<open>Values of JavaScript\<close>

text \<open>A property of an object (None: undefined), the items of an array, truth, \<open>a || b\<close>, templates.\<close>

fun js_prop :: "view \<Rightarrow> string \<Rightarrow> view option" where
  "js_prop (VDict kvs) k = map_of kvs (u k)"
| "js_prop (VJson (JObj kvs)) k = map_option VJson (map_of kvs (u k))"
| "js_prop _ k = None"

fun js_items :: "view option \<Rightarrow> view list" where
  "js_items (Some (VList vs)) = vs"
| "js_items (Some (VJson (JArr js))) = map VJson js"
| "js_items _ = []"

fun js_truthy :: "view option \<Rightarrow> bool" where
  "js_truthy None = False"
| "js_truthy (Some (VJson JNull)) = False"
| "js_truthy (Some (VJson (JBool b))) = b"
| "js_truthy (Some (VJson (JInt n))) = (n \<noteq> 0)"
| "js_truthy (Some (VJson (JFloat r))) = (r \<noteq> u ''0.0'' \<and> r \<noteq> u ''-0.0'')"
| "js_truthy (Some (VJson (JStr s))) = (s \<noteq> [])"
| "js_truthy (Some _) = True"

fun js_text :: "browser \<Rightarrow> view option \<Rightarrow> ustr" where
  "js_text br None = u ''undefined''"
| "js_text br (Some (VJson JNull)) = u ''null''"
| "js_text br (Some (VJson (JBool b))) = (if b then u ''true'' else u ''false'')"
| "js_text br (Some (VJson (JInt n))) = int_str n"
| "js_text br (Some (VJson (JStr s))) = s"
| "js_text br (Some v) = br_string br v"

definition prop_text :: "browser \<Rightarrow> view \<Rightarrow> string \<Rightarrow> ustr" where
  "prop_text br v k = js_text br (js_prop v k)"

definition prop_or :: "browser \<Rightarrow> view \<Rightarrow> string \<Rightarrow> ustr \<Rightarrow> ustr" where
  "prop_or br v k dflt = (if js_truthy (js_prop v k) then prop_text br v k else dflt)"

text \<open>\<open>v.k = x\<close> for an object that came as JSON.\<close>

fun set_prop :: "string \<Rightarrow> ustr \<Rightarrow> view \<Rightarrow> view" where
  "set_prop k x (VDict kvs) = VDict (AList.update (u k) (VStr x) kvs)"
| "set_prop k x v = v"

text \<open>
  \<open>JSON.stringify\<close>: like \<open>json.dumps\<close> without blanks, but text outside ASCII stays as it is. Of the control
  characters five have a short form, the others are written as \<open>\\u00XX\<close>.
\<close>

definition js_char :: "nat \<Rightarrow> ustr" where
  "js_char c =
    (if c = 34 then [92, 34] else if c = 92 then [92, 92]
     else if c = 8 then [92, 98] else if c = 12 then [92, 102] else if c = 10 then [92, 110]
     else if c = 13 then [92, 114] else if c = 9 then [92, 116]
     else if c < 32 then [92] @ u ''u00'' @ [hex_digit (c div 16), hex_digit (c mod 16)]
     else [c])"

definition js_string :: "ustr \<Rightarrow> ustr" where
  "js_string s = 34 # concat (map js_char s) @ [34]"

fun js_stringify :: "json \<Rightarrow> ustr" where
  "js_stringify JNull = u ''null''"
| "js_stringify (JBool b) = (if b then u ''true'' else u ''false'')"
| "js_stringify (JInt n) = int_str n"
| "js_stringify (JFloat r) = r"
| "js_stringify (JStr s) = js_string s"
| "js_stringify (JArr xs) = 91 # join_with [44] (map js_stringify xs) @ [93]"
| "js_stringify (JObj kvs) = 123 # join_with [44] (map (\<lambda>(k, v). js_string k @ 58 # js_stringify v) kvs) @ [125]"

text \<open>\<open>shortHash\<close>, \<open>bytes\<close> (\<open>toFixed(1)\<close> rounds the exact quotient half up), \<open>formatTime\<close>, \<open>toUpperCase\<close> on ASCII.\<close>

definition short_hash :: "browser \<Rightarrow> view \<Rightarrow> string \<Rightarrow> nat \<Rightarrow> ustr" where
  "short_hash br v k n =
    (if js_truthy (js_prop v k) then
       (let s = prop_text br v k in take n s @ (if n < length s then pt_ellipsis else []))
     else pt_dash)"

definition tenths :: "int \<Rightarrow> int \<Rightarrow> ustr" where
  "tenths n d = (let t = (20 * n + d) div (2 * d) in int_str (t div 10) @ u ''.'' @ int_str (t mod 10))"

definition size_text :: "int \<Rightarrow> ustr" where
  "size_text n =
    (if n < 1024 then int_str n @ u '' B''
     else if n < 1024 * 1024 then tenths n 1024 @ u '' KB''
     else tenths n (1024 * 1024) @ u '' MB'')"

definition prop_size :: "view \<Rightarrow> string \<Rightarrow> ustr" where
  "prop_size v k = (case js_prop v k of Some (VJson (JInt n)) \<Rightarrow> size_text n | _ \<Rightarrow> u ''NaN MB'')"

definition format_time :: "browser \<Rightarrow> view \<Rightarrow> string \<Rightarrow> ustr" where
  "format_time br v k =
    (case js_prop v k of
       None \<Rightarrow> pt_dash
     | Some x \<Rightarrow> if js_truthy (Some x) then br_local_time br x else pt_dash)"

definition js_upper :: "ustr \<Rightarrow> ustr" where
  "js_upper s = map (\<lambda>c. if 97 \<le> c \<and> c \<le> 122 then c - 32 else c) s"

section \<open>Effects\<close>

text \<open>A piece of a handler: it ends with a value or throws an error, of which the page uses the message.\<close>

type_synonym 'a js = "page \<Rightarrow> (ustr + 'a) \<times> page"

definition js_return :: "'a \<Rightarrow> 'a js" where
  "js_return x p = (Inr x, p)"

definition js_throw :: "ustr \<Rightarrow> 'a js" where
  "js_throw m p = (Inl m, p)"

definition js_then :: "'a js \<Rightarrow> ('a \<Rightarrow> 'b js) \<Rightarrow> 'b js" where
  "js_then m f p = (case m p of (Inl e, q) \<Rightarrow> (Inl e, q) | (Inr x, q) \<Rightarrow> f x q)"

definition js_do :: "(page \<Rightarrow> page) \<Rightarrow> unit js" where
  "js_do f p = (Inr (), f p)"

definition js_get :: "(page \<Rightarrow> 'a) \<Rightarrow> 'a js" where
  "js_get f p = (Inr (f p), p)"

text \<open>\<open>try { m } catch (e) { h(e.message) }\<close>\<close>

definition js_try :: "'a js \<Rightarrow> (ustr \<Rightarrow> page \<Rightarrow> page) \<Rightarrow> page \<Rightarrow> page" where
  "js_try m h p = (case m p of (Inl e, q) \<Rightarrow> h e q | (Inr _, q) \<Rightarrow> q)"

definition put_text :: "element \<Rightarrow> ustr \<Rightarrow> page \<Rightarrow> page" where
  "put_text el s p = p\<lparr>pg_text := (pg_text p)(el := s)\<rparr>"

definition put_disabled :: "button \<Rightarrow> bool \<Rightarrow> page \<Rightarrow> page" where
  "put_disabled b d p = p\<lparr>pg_disabled := (pg_disabled p)(b := d)\<rparr>"

definition console_error :: "ustr \<Rightarrow> page \<Rightarrow> page" where
  "console_error m p = p\<lparr>pg_errors := pg_errors p @ [m]\<rparr>"

section \<open>Requests\<close>

text \<open>A response with a status of 400 or more is one the browser reports.\<close>

definition js_fetch :: "browser \<Rightarrow> ustr option \<Rightarrow> route \<Rightarrow> page \<Rightarrow> view res \<times> page" where
  "js_fetch br creds rt p =
    (let (rs, w) = serve (br_env br (pg_requests p) (pg_world p)) creds rt (pg_world p)
     in (rs_result rs, p\<lparr>pg_world := w, pg_requests := Suc (pg_requests p),
           pg_bad := pg_bad p @ (if 400 \<le> rs_status rs then [rs_status rs] else [])\<rparr>))"

definition error_text :: "browser \<Rightarrow> py_error \<Rightarrow> ustr" where
  "error_text br e =
    (case e of HTTPException _ detail \<Rightarrow> if detail = [] then br_message br e else detail | _ \<Rightarrow> br_message br e)"

definition js_login :: "browser \<Rightarrow> string \<Rightarrow> string \<Rightarrow> ustr option js" where
  "js_login br name password p =
    (case js_fetch br None (Login (JObj [(u ''username'', JStr (u name)), (u ''password'', JStr (u password))])) p of
       (Inl e, q) \<Rightarrow> (Inl (br_body br e), q)
     | (Inr v, q) \<Rightarrow> (Inr (case js_prop v ''access_token'' of Some (VJson (JStr t)) \<Rightarrow> Some t | _ \<Rightarrow> None), q))"

text \<open>\<open>api\<close>: the header is \<open>Bearer null\<close> before the login.\<close>

definition js_api :: "browser \<Rightarrow> (page \<Rightarrow> ustr option) \<Rightarrow> route \<Rightarrow> view js" where
  "js_api br token rt p =
    (case js_fetch br (Some (case token p of None \<Rightarrow> u ''null'' | Some t \<Rightarrow> t)) rt p of
       (Inl e, q) \<Rightarrow> (Inl (error_text br e), q)
     | (Inr v, q) \<Rightarrow> (Inr v, q))"

definition ensure :: "browser \<Rightarrow> unit js" where
  "ensure br p =
    (if pg_admin p \<noteq> None \<and> pg_admin p \<noteq> Some [] then (Inr (), p)
     else js_then (js_login br ''admin'' ''admin-demo'') (\<lambda>t.
          js_then (js_do (\<lambda>q. q\<lparr>pg_admin := t\<rparr>)) (\<lambda>_.
          js_then (js_login br ''operator'' ''operator-demo'') (\<lambda>t.
          js_then (js_do (\<lambda>q. q\<lparr>pg_operator := t\<rparr>)) (\<lambda>_.
          js_then (js_login br ''approver'' ''approver-demo'') (\<lambda>t.
          js_do (\<lambda>q. put_text IdentityLabel pt_logged_in (q\<lparr>pg_approver := t\<rparr>))))))) p)"

definition sync_epoch_context :: "browser \<Rightarrow> page \<Rightarrow> page" where
  "sync_epoch_context br p =
    (let s = (case pg_epoch p of
                None \<Rightarrow> pt_no_epoch
              | Some e \<Rightarrow> prop_text br e ''project'' @ u '' / '' @ prop_text br e ''environment'' @ pt_epoch_infix @
                  take 8 (prop_text br e ''id'') @ pt_dot @ prop_text br e ''state'')
     in put_disabled EvidenceUpload (pg_epoch p = None)
          (put_text ReceiptsEpoch s (put_text EvidenceEpoch s (put_text PassportEpoch s p))))"

definition ensure_epoch :: "browser \<Rightarrow> view option js" where
  "ensure_epoch br =
    js_then (ensure br) (\<lambda>_.
    js_then (js_get pg_epoch) (\<lambda>e.
    js_then (if e \<noteq> None then js_return ()
             else js_then (js_api br pg_operator ListEpochs) (\<lambda>rows.
                  js_do (\<lambda>p. case js_items (Some rows) of [] \<Rightarrow> p | row # _ \<Rightarrow> p\<lparr>pg_epoch := Some row\<rparr>))) (\<lambda>_.
    js_then (js_do (sync_epoch_context br)) (\<lambda>_.
    js_get pg_epoch))))"

text \<open>\<open>state.epoch\<close> where a property of it is read: a TypeError when there is none.\<close>

definition selected_epoch :: "browser \<Rightarrow> view js" where
  "selected_epoch br p = (case pg_epoch p of None \<Rightarrow> (Inl (br_type_error br), p) | Some e \<Rightarrow> (Inr e, p))"

definition set_epoch_state :: "ustr \<Rightarrow> page \<Rightarrow> page" where
  "set_epoch_state s p = p\<lparr>pg_epoch := map_option (set_prop ''state'' s) (pg_epoch p)\<rparr>"

section \<open>The texts of the views\<close>

text \<open>
  What the handlers put together from an answer. The answers have the members the page reads (their
  shapes are the views of the theory \<open>Api\<close>); a missing object is read as an empty one.
\<close>

definition js_object :: "view \<Rightarrow> string \<Rightarrow> view option" where
  "js_object v k = (if js_truthy (js_prop v k) then js_prop v k else None)"

definition js_member :: "view \<Rightarrow> string \<Rightarrow> view" where
  "js_member v k = (case js_prop v k of None \<Rightarrow> VDict [] | Some x \<Rightarrow> x)"

definition render_diffs :: "browser \<Rightarrow> view option \<Rightarrow> ustr" where
  "render_diffs br diffs =
    (if js_items diffs = [] then pt_no_diffs
     else concat (map (\<lambda>d. prop_text br d ''field'' @ pt_expected @ prop_text br d ''expected'' @
            pt_observed @ prop_text br d ''observed'') (js_items diffs)))"

definition record_row :: "ustr \<Rightarrow> ustr \<Rightarrow> (ustr \<times> ustr) list \<Rightarrow> ustr" where
  "record_row title meta details = title @ meta @ concat (map (\<lambda>(label, v). label @ v) details)"

definition evidence_record :: "browser \<Rightarrow> view \<Rightarrow> ustr" where
  "evidence_record br item = record_row
     (prop_text br item ''kind'' @ pt_dot @ prop_text br item ''filename'')
     (prop_size item ''size_bytes'' @ pt_dot @ format_time br item ''created_at'')
     [(u ''sha256'', prop_text br item ''sha256''), (pt_content_type, prop_text br item ''content_type'')]"

definition receipt_record :: "browser \<Rightarrow> view \<Rightarrow> ustr" where
  "receipt_record br item = record_row
     (prop_text br item ''outcome'')
     (prop_text br item ''latency_ms'' @ u '' ms'' @ pt_dot @ format_time br item ''created_at'')
     [(pt_reason, prop_text br item ''reason''),
      (pt_expected_fp, short_hash br item ''expected_fingerprint'' 24),
      (pt_observed_fp, short_hash br item ''observed_fingerprint'' 24)]"

definition passport_card :: "string \<Rightarrow> ustr \<Rightarrow> ustr \<Rightarrow> ustr" where
  "passport_card title v detail = u title @ (if v = [] then pt_dash else v) @ detail"

definition passport_cards :: "browser \<Rightarrow> view \<Rightarrow> view \<Rightarrow> ustr" where
  "passport_cards br epoch data =
    (let change = js_object data ''change'';
         approval = js_object data ''approval'';
         executions = js_items (js_prop data ''executions'');
         latest = (if executions = [] then None else Some (last executions));
         release = js_member data ''release'';
         capabilities = js_items (js_prop data ''capabilities'');
         capability = (if capabilities = [] then None else Some (last capabilities));
         evidence = js_items (js_prop data ''evidence'')
     in concat
       [passport_card ''WHY''
          (case change of None \<Rightarrow> pt_no_change | Some c \<Rightarrow> prop_or br c ''external_ref'' pt_no_change)
          (case change of None \<Rightarrow> pt_no_change_detail | Some c \<Rightarrow> prop_or br c ''reason'' pt_no_change_detail),
        passport_card ''WHO''
          (case change of None \<Rightarrow> pt_human_workflow
           | Some c \<Rightarrow> prop_text br c ''actor_type'' @ pt_dot @ prop_text br c ''actor_id'')
          (case change of None \<Rightarrow> pt_created_by @ prop_or br epoch ''created_by'' (u ''operator'')
           | Some c \<Rightarrow> pt_requested_by @ prop_text br c ''requested_by''),
        passport_card ''WHAT''
          (prop_text br release ''project'' @ pt_arrow @ prop_text br release ''environment'')
          ((case change of None \<Rightarrow> u ''deploy'' | Some c \<Rightarrow> prop_or br c ''action'' (u ''deploy'')) @ pt_dot @
            short_hash br release ''fingerprint'' 22),
        passport_card ''APPROVAL''
          (case approval of None \<Rightarrow> pt_awaiting_approval | Some a \<Rightarrow> prop_text br a ''approver'')
          (case approval of None \<Rightarrow> pt_no_approval | Some a \<Rightarrow> short_hash br a ''approved_fingerprint'' 26),
        passport_card ''CAPABILITY''
          (case capability of None \<Rightarrow> pt_not_issued
           | Some c \<Rightarrow> prop_text br c ''actor_type'' @ pt_dot @ prop_text br c ''actor_id'')
          (case capability of None \<Rightarrow> pt_no_capability
           | Some c \<Rightarrow> prop_text br c ''action'' @ pt_dot @ prop_text br c ''project'' @ u ''/'' @
               prop_text br c ''environment'' @ pt_expires_infix @ format_time br c ''expires_at''),
        passport_card ''EVIDENCE'' (int_str (int (length evidence)) @ pt_count)
          (if evidence = [] then pt_none_attached
           else join_with (u '', '') (map (\<lambda>x. prop_text br x ''kind'') evidence)),
        passport_card ''EXECUTION''
          (case latest of None \<Rightarrow> pt_not_executed | Some r \<Rightarrow> prop_text br r ''outcome'')
          (case latest of None \<Rightarrow> pt_no_final_receipt | Some r \<Rightarrow> prop_text br r ''reason'')])"

text \<open>\<open>Object.entries(item.details || {}).slice(0, 3)\<close>: texts as they are, other values as JSON.\<close>

definition detail_entries :: "view option \<Rightarrow> (ustr \<times> ustr) list" where
  "detail_entries details =
    (case details of
       Some (VJson (JObj kvs)) \<Rightarrow>
         map (\<lambda>(k, v). (k, case v of JStr s \<Rightarrow> s | _ \<Rightarrow> js_stringify v)) (take 3 kvs)
     | _ \<Rightarrow> [])"

definition timeline_record :: "browser \<Rightarrow> view \<Rightarrow> ustr" where
  "timeline_record br item = record_row
     (prop_text br item ''event_type'')
     (prop_text br item ''actor_type'' @ pt_dot @ prop_text br item ''actor_id'' @ pt_dot @ format_time br item ''created_at'')
     ((pt_summary, prop_text br item ''summary'') # detail_entries (js_prop item ''details''))"

definition timeline_text :: "browser \<Rightarrow> view \<Rightarrow> ustr" where
  "timeline_text br data =
    (let items = js_items (js_prop data ''timeline'')
     in if items = [] then u ''No governance events yet.'' else concat (map (timeline_record br) items))"

text \<open>A card: its title, its status, and its lines of label and value.\<close>

definition integration_text :: "browser \<Rightarrow> view \<Rightarrow> ustr" where
  "integration_text br data =
    concat (map (\<lambda>(title, v, lines). title @ prop_text br v ''status'' @
        concat (map (\<lambda>(label, k). label @ prop_text br v k) lines))
      [(pt_card_gitlab, js_member data ''gitlab'', [(pt_event, ''event''), (pt_binding, ''binding'')]),
       (pt_card_executor, js_member data ''executor'',
         [(pt_mode, ''mode''), (pt_implementation, ''implementation''), (pt_transport, ''transport''),
          (pt_observation, ''target_observation'')]),
       (pt_card_database, js_member data ''database'', [(pt_backend, ''backend''), (pt_role, ''role'')]),
       (pt_card_grpc, js_member data ''grpc'', [(pt_contract, ''contract''), (pt_runtime, ''runtime_transport'')])])"

section \<open>The views\<close>

definition load_evidence :: "browser \<Rightarrow> unit js" where
  "load_evidence br =
    js_then (ensure_epoch br) (\<lambda>epoch.
    js_then (js_do (put_text EvidenceList [])) (\<lambda>_.
    case epoch of
      None \<Rightarrow> js_do (put_text EvidenceList pt_evidence_needs_epoch)
    | Some e \<Rightarrow>
        js_then (js_api br pg_operator (ListEvidence (prop_text br e ''id''))) (\<lambda>rows.
        js_do (put_text EvidenceList
          (if js_items (Some rows) = [] then pt_no_evidence
           else concat (map (evidence_record br) (js_items (Some rows))))))))"

definition load_receipts :: "browser \<Rightarrow> unit js" where
  "load_receipts br =
    js_then (ensure_epoch br) (\<lambda>epoch.
    js_then (js_do (put_text ReceiptsList [])) (\<lambda>_.
    case epoch of
      None \<Rightarrow> js_do (put_text ReceiptsList pt_receipts_need_epoch)
    | Some e \<Rightarrow>
        js_then (js_api br pg_operator (Receipts (prop_text br e ''id''))) (\<lambda>rows.
        js_do (put_text ReceiptsList
          (if js_items (Some rows) = [] then pt_no_receipts
           else concat (map (receipt_record br) (js_items (Some rows))))))))"

definition load_passport :: "browser \<Rightarrow> unit js" where
  "load_passport br =
    js_then (ensure_epoch br) (\<lambda>epoch.
    js_then (js_do (\<lambda>p. put_text PassportTimeline [] (put_text PassportSummary [] p))) (\<lambda>_.
    case epoch of
      None \<Rightarrow> js_do (\<lambda>p. put_text PassportTimeline pt_no_events (put_text PassportSummary pt_passport_needs_epoch p))
    | Some e \<Rightarrow>
        js_then (js_api br pg_operator (ChangePassport (prop_text br e ''id''))) (\<lambda>data.
        js_do (\<lambda>p. put_text PassportTimeline (timeline_text br data)
          (put_text PassportSummary (passport_cards br e data) p)))))"

definition load_integrations :: "browser \<Rightarrow> unit js" where
  "load_integrations br =
    js_then (ensure br) (\<lambda>_.
    js_then (js_api br pg_operator IntegrationStatus) (\<lambda>data.
    js_do (put_text IntegrationCards (integration_text br data))))"

fun view_copy :: "panel \<Rightarrow> ustr \<times> ustr \<times> ustr" where
  "view_copy ReleaseView = (pt_release_eyebrow, pt_release_title, pt_release_subtitle)"
| "view_copy PolicyView = (pt_policy_eyebrow, pt_policy_title, pt_policy_subtitle)"
| "view_copy PassportView = (pt_passport_eyebrow, pt_passport_title, pt_passport_subtitle)"
| "view_copy EvidenceView = (pt_evidence_eyebrow, pt_evidence_title, pt_evidence_subtitle)"
| "view_copy ReceiptsView = (pt_receipts_eyebrow, pt_receipts_title, pt_receipts_subtitle)"
| "view_copy IntegrationsView = (pt_integrations_eyebrow, pt_integrations_title, pt_integrations_subtitle)"

definition switch_view :: "browser \<Rightarrow> panel \<Rightarrow> page \<Rightarrow> page" where
  "switch_view br name p =
    (case view_copy name of (eyebrow, title, subtitle) \<Rightarrow>
       js_try
         (case name of
            PassportView \<Rightarrow> load_passport br
          | EvidenceView \<Rightarrow> load_evidence br
          | ReceiptsView \<Rightarrow> load_receipts br
          | IntegrationsView \<Rightarrow> load_integrations br
          | _ \<Rightarrow> js_return ())
         (\<lambda>m. if name = EvidenceView then put_text EvidenceResult m else console_error m)
         (put_text PageTitle (title @ subtitle) (put_text PageEyebrow eyebrow (p\<lparr>pg_view := name\<rparr>))))"

section \<open>The buttons\<close>

text \<open>The three scenarios of the policy view: the environment and the action of the button.\<close>

fun policy_scenario :: "nat \<Rightarrow> string \<times> string" where
  "policy_scenario 0 = (''staging'', ''deploy'')"
| "policy_scenario (Suc 0) = (''prod'', ''deploy'')"
| "policy_scenario _ = (''prod'', ''delete'')"

definition run_policy :: "browser \<Rightarrow> nat \<Rightarrow> page \<Rightarrow> page" where
  "run_policy br n =
    (case policy_scenario n of (target, act) \<Rightarrow>
     js_try
      (js_then (ensure br) (\<lambda>_.
       js_then (js_api br pg_operator (PolicyDryRun (JObj
         [(u ''actor_type'', JStr (u ''ai_agent'')), (u ''action'', JStr (u act)),
          (u ''project'', JStr (u ''payments-api'')), (u ''environment'', JStr (u target))]))) (\<lambda>data.
       js_do (put_text (PolicyResult n)
         (prop_text br data ''decision'' @ pt_dot @ prop_text br data ''rule_id'' @ pt_dot @
          prop_text br data ''reason'' @ pt_controls_infix @
          (let controls = join_with (u '', '') (map (\<lambda>c. js_text br (Some c)) (js_items (js_prop data ''required_controls'')))
           in if controls = [] then pt_no_controls else controls))))))
      (put_text (PolicyResult n)))"

definition click_boot :: "browser \<Rightarrow> page \<Rightarrow> page" where
  "click_boot br =
    js_try
      (js_then (ensure br) (\<lambda>_.
       js_then (js_api br pg_admin DemoBootstrap) (\<lambda>epoch.
       js_do (\<lambda>p.
         put_text ResultBox (u ''Epoch '' @ take 8 (prop_text br epoch ''id'') @ pt_created_infix @
             take 14 (prop_text br epoch ''fingerprint'') @ pt_ellipsis)
         (sync_epoch_context br
         (put_text MetricMatch (u ''PENDING'')
         (put_text MetricPipeline (js_upper (prop_text br epoch ''pipeline_status''))
         (put_text MetricState (u ''DRAFT'')
         (put_disabled ExecuteStep True (put_disabled DriftStep True
         (put_disabled CapabilityStep True (put_disabled ApproveStep False
         (p\<lparr>pg_epoch := Some epoch, pg_capability := None, pg_drifted := False\<rparr>)))))))))))))
      (put_text ResultBox)"

definition click_approve :: "browser \<Rightarrow> page \<Rightarrow> page" where
  "click_approve br =
    js_try
      (js_then (selected_epoch br) (\<lambda>epoch.
       js_then (js_api br pg_approver (Approve (prop_text br epoch ''id''))) (\<lambda>_.
       js_do (\<lambda>p.
         put_text ResultBox pt_approved (put_text MetricState (u ''APPROVED'')
         (put_disabled ExecuteStep True (put_disabled DriftStep True (put_disabled CapabilityStep False
         (sync_epoch_context br ((set_epoch_state (u ''APPROVED'') p)\<lparr>pg_capability := None\<rparr>))))))))))
      (put_text ResultBox)"

definition click_capability :: "browser \<Rightarrow> page \<Rightarrow> page" where
  "click_capability br =
    js_try
      (js_then (selected_epoch br) (\<lambda>epoch.
       js_then (js_api br pg_approver
         (IssueCapability (prop_text br epoch ''id'') (JObj [(u ''ttl_seconds'', JInt 300)]))) (\<lambda>issued.
       let g = js_member issued ''grant'' in
       js_do (\<lambda>p.
         put_text ResultBox (pt_issued_prefix @ prop_text br g ''actor_type'' @ u '':'' @ prop_text br g ''actor_id'' @
             pt_dot @ u ''action='' @ prop_text br g ''action'' @ pt_target_infix @ prop_text br g ''project'' @ u ''/'' @
             prop_text br g ''environment'' @ pt_expires_at_infix @ format_time br g ''expires_at'')
         (put_disabled ExecuteStep False (put_disabled DriftStep False (p\<lparr>pg_capability := Some issued\<rparr>)))))))
      (put_text ResultBox)"

definition drift_value :: ustr where
  "drift_value = u ''sha256:'' @ replicate 64 102"

definition click_drift :: "browser \<Rightarrow> page \<Rightarrow> page" where
  "click_drift br =
    js_try
      (js_then (selected_epoch br) (\<lambda>epoch.
       js_then (js_api br pg_admin (DemoDrift (prop_text br epoch ''id'')
         (JObj [(u ''field'', JStr (u ''artifact_digest'')), (u ''value'', JStr drift_value)]))) (\<lambda>_.
       js_do (\<lambda>p. put_text ResultBox pt_drifted (put_text MetricMatch (u ''DRIFTED'') (p\<lparr>pg_drifted := True\<rparr>))))))
      (put_text ResultBox)"

definition ui_key :: "browser \<Rightarrow> page \<Rightarrow> ustr" where
  "ui_key br p = u ''ui-'' @ int_str (br_now br (pg_requests p)) @ u ''-'' @ br_random br (pg_requests p)"

definition click_execute :: "browser \<Rightarrow> page \<Rightarrow> page" where
  "click_execute br =
    js_try
      (js_then (js_get pg_capability) (\<lambda>held.
       case held of
         None \<Rightarrow> js_throw pt_issue_first
       | Some issued \<Rightarrow>
          js_then (js_get (ui_key br)) (\<lambda>key.
          js_then (selected_epoch br) (\<lambda>epoch.
          js_then (js_api br pg_operator (ExecuteAsAgent (prop_text br epoch ''id'')
            (JObj [(u ''idempotency_key'', JStr key),
                   (u ''capability_token'', JStr (prop_text br issued ''capability_token''))]))) (\<lambda>r.
          let outcome = prop_text br r ''outcome'' in
          js_do (\<lambda>p.
            put_text ResultBox (outcome @ u '': '' @ prop_text br r ''reason'')
            (put_text DiffsBox (render_diffs br (js_prop r ''differences''))
            (put_text MetricMatch (if outcome = u ''EXECUTED'' then u ''MATCH'' else u ''BLOCKED'')
            (put_text MetricState outcome
            (sync_epoch_context br (set_epoch_state outcome p)))))))))))
      (put_text ResultBox)"

text \<open>
  A click on the submit button: the browser sends no submit event while a required field is empty.
\<close>

definition submit_evidence :: "browser \<Rightarrow> page \<Rightarrow> page" where
  "submit_evidence br p =
    (if pg_kind p = [] \<or> pg_file p = None then p
     else js_try
      (js_then (ensure_epoch br) (\<lambda>epoch.
       case epoch of
         None \<Rightarrow> js_throw pt_create_first
       | Some e \<Rightarrow>
          js_then (js_get pg_file) (\<lambda>chosen.
          case chosen of
            None \<Rightarrow> js_throw pt_choose_file
          | Some f \<Rightarrow>
             js_then (js_get pg_kind) (\<lambda>kind.
             js_then (js_api br pg_operator (UploadEvidence (prop_text br e ''id'') (Some kind) (Some f))) (\<lambda>item.
             js_then (js_do (\<lambda>q. (put_text EvidenceResult
                 (pt_stored_prefix @ prop_text br item ''filename'' @ pt_dot @ u ''sha256 '' @
                   short_hash br item ''sha256'' 20) q)\<lparr>pg_file := None\<rparr>))
               (\<lambda>_. load_evidence br))))))
      (put_text EvidenceResult) p)"

text \<open>
  The demonstration that runs by itself when the page is opened with \<open>?autodemo=happy\<close> or \<open>?autodemo=drift\<close>:
  the requests of the five buttons one after the other, under a fixed idempotency key.
\<close>

definition run_auto_demo :: "browser \<Rightarrow> string \<Rightarrow> page \<Rightarrow> page" where
  "run_auto_demo br mode =
    js_try
      (js_then (ensure br) (\<lambda>_.
       js_then (js_api br pg_admin DemoBootstrap) (\<lambda>epoch.
       js_then (js_do (\<lambda>p.
         put_text MetricPipeline (js_upper (prop_text br epoch ''pipeline_status''))
         (put_text MetricState (u ''DRAFT'') (sync_epoch_context br (p\<lparr>pg_epoch := Some epoch\<rparr>))))) (\<lambda>_.
       js_then (js_api br pg_approver (Approve (prop_text br epoch ''id''))) (\<lambda>_.
       js_then (js_do (\<lambda>p.
         put_text MetricState (u ''APPROVED'') (sync_epoch_context br (set_epoch_state (u ''APPROVED'') p)))) (\<lambda>_.
       js_then (js_api br pg_approver
         (IssueCapability (prop_text br epoch ''id'') (JObj [(u ''ttl_seconds'', JInt 300)]))) (\<lambda>issued.
       js_then (js_do (\<lambda>p. p\<lparr>pg_capability := Some issued\<rparr>)) (\<lambda>_.
       js_then
         (if mode = ''drift'' then
            js_then (js_api br pg_admin (DemoDrift (prop_text br epoch ''id'')
              (JObj [(u ''field'', JStr (u ''artifact_digest'')), (u ''value'', JStr drift_value)]))) (\<lambda>_.
            js_do (put_text MetricMatch (u ''DRIFTED'')))
          else js_return ()) (\<lambda>_.
       js_then (js_api br pg_operator (ExecuteAsAgent (prop_text br epoch ''id'')
         (JObj [(u ''idempotency_key'', JStr (u (''auto-'' @ mode @ ''-0001''))),
                (u ''capability_token'', JStr (prop_text br issued ''capability_token''))]))) (\<lambda>r.
       let outcome = prop_text br r ''outcome'' in
       js_do (\<lambda>p.
         put_text ResultBox (outcome @ u '': '' @ prop_text br r ''reason'')
         (put_text DiffsBox (render_diffs br (js_prop r ''differences''))
         (put_text MetricMatch (if outcome = u ''EXECUTED'' then u ''MATCH'' else u ''BLOCKED'')
         (put_text MetricState outcome
         (sync_epoch_context br (set_epoch_state outcome p))))))))))))))))
      (put_text ResultBox)"

definition open_page :: "browser \<Rightarrow> string option \<Rightarrow> page \<Rightarrow> page" where
  "open_page br autodemo p =
    (if autodemo = Some ''drift'' \<or> autodemo = Some ''happy'' then run_auto_demo br (the autodemo) p else p)"

text \<open>The buttons of the policy view are numbered; a refresh reports its error as its view does.\<close>

datatype control = Nav panel | Press button | PolicyRun nat

fun click :: "browser \<Rightarrow> control \<Rightarrow> page \<Rightarrow> page" where
  "click br (Nav v) = switch_view br v"
| "click br (PolicyRun n) = run_policy br n"
| "click br (Press BootStep) = click_boot br"
| "click br (Press ApproveStep) = click_approve br"
| "click br (Press CapabilityStep) = click_capability br"
| "click br (Press DriftStep) = click_drift br"
| "click br (Press ExecuteStep) = click_execute br"
| "click br (Press EvidenceUpload) = submit_evidence br"
| "click br (Press PassportRefresh) = js_try (load_passport br) console_error"
| "click br (Press EvidenceRefresh) = js_try (load_evidence br) (put_text EvidenceResult)"
| "click br (Press ReceiptsRefresh) = js_try (load_receipts br) console_error"
| "click br (Press IntegrationsRefresh) = js_try (load_integrations br) console_error"

section \<open>The document\<close>

text \<open>\<open>index.html\<close> as it is loaded, with the application in the world w.\<close>

fun initial_text :: "element \<Rightarrow> ustr" where
  "initial_text PageEyebrow = pt_release_eyebrow"
| "initial_text PageTitle = pt_release_title @ pt_release_subtitle"
| "initial_text IdentityLabel = pt_logged_out"
| "initial_text MetricState = u ''READY''"
| "initial_text MetricPipeline = pt_dash"
| "initial_text MetricMatch = pt_dash"
| "initial_text ResultBox = pt_result_initial"
| "initial_text DiffsBox = pt_diffs_initial"
| "initial_text (PolicyResult n) = pt_not_evaluated"
| "initial_text PolicyScenarios = []"
| "initial_text PassportEpoch = pt_create_first"
| "initial_text PassportSummary = pt_passport_initial"
| "initial_text PassportTimeline = pt_no_events"
| "initial_text EvidenceEpoch = pt_create_first"
| "initial_text EvidenceResult = pt_not_uploaded"
| "initial_text EvidenceList = pt_no_evidence"
| "initial_text ReceiptsEpoch = pt_create_first"
| "initial_text ReceiptsList = pt_no_receipts"
| "initial_text IntegrationCards = pt_integrations_initial"

definition loaded_page :: "world \<Rightarrow> page" where
  "loaded_page w =
     \<lparr>pg_admin = None, pg_operator = None, pg_approver = None, pg_epoch = None, pg_capability = None,
      pg_drifted = False, pg_view = ReleaseView, pg_text = initial_text,
      pg_disabled = (\<lambda>b. b \<in> {ApproveStep, CapabilityStep, DriftStep, ExecuteStep, EvidenceUpload}),
      pg_kind = u ''provenance'', pg_file = None, pg_world = w, pg_requests = 0, pg_bad = [], pg_errors = []\<rparr>"

text \<open>The text of an element; that of the policy scenarios is made of its three cards.\<close>

fun element_text :: "page \<Rightarrow> element \<Rightarrow> ustr" where
  "element_text p PolicyScenarios =
     pt_scenario_staging @ pt_simulate @ pt_expected_result @ u ''ALLOW'' @ pg_text p (PolicyResult 0) @
     pt_scenario_production @ pt_simulate @ pt_expected_result @ u ''ASK'' @ pg_text p (PolicyResult 1) @
     pt_scenario_delete @ pt_simulate @ pt_expected_result @ u ''DENY'' @ pg_text p (PolicyResult 2)"
| "element_text p el = pg_text p el"

text \<open>The panel an element or a control stands in (None: the header and the navigation, always shown).\<close>

fun element_panel :: "element \<Rightarrow> panel option" where
  "element_panel ResultBox = Some ReleaseView"
| "element_panel DiffsBox = Some ReleaseView"
| "element_panel (PolicyResult n) = Some PolicyView"
| "element_panel PolicyScenarios = Some PolicyView"
| "element_panel PassportEpoch = Some PassportView"
| "element_panel PassportSummary = Some PassportView"
| "element_panel PassportTimeline = Some PassportView"
| "element_panel EvidenceEpoch = Some EvidenceView"
| "element_panel EvidenceResult = Some EvidenceView"
| "element_panel EvidenceList = Some EvidenceView"
| "element_panel ReceiptsEpoch = Some ReceiptsView"
| "element_panel ReceiptsList = Some ReceiptsView"
| "element_panel IntegrationCards = Some IntegrationsView"
| "element_panel _ = None"

fun control_panel :: "control \<Rightarrow> panel option" where
  "control_panel (Nav v) = None"
| "control_panel (PolicyRun n) = Some PolicyView"
| "control_panel (Press EvidenceUpload) = Some EvidenceView"
| "control_panel (Press PassportRefresh) = Some PassportView"
| "control_panel (Press EvidenceRefresh) = Some EvidenceView"
| "control_panel (Press ReceiptsRefresh) = Some ReceiptsView"
| "control_panel (Press IntegrationsRefresh) = Some IntegrationsView"
| "control_panel (Press _) = Some ReleaseView"

definition shown :: "panel option \<Rightarrow> page \<Rightarrow> bool" where
  "shown v p \<longleftrightarrow> v = None \<or> v = Some (pg_view p)"

fun enabled :: "control \<Rightarrow> page \<Rightarrow> bool" where
  "enabled (Press b) p \<longleftrightarrow> \<not> pg_disabled p b"
| "enabled (PolicyRun n) p \<longleftrightarrow> n < 3"
| "enabled (Nav v) p \<longleftrightarrow> True"

end
