(* ===== verification/Story_Executor.thy ===== *)
theory Story_Executor
  imports Story Console Go_Agent
begin

text \<open>
  The executor of the demonstration: the gin executor behind the generated stub, whose memory is in step
  with the orchestrator's table. It decides the two identities of the demonstration as the local client does,
  and what the orchestrator reports keeps the memory in step.
\<close>

section \<open>The two identities\<close>

lemma demo_plain: "list_all plain_char (ident_get demo_identity k)"
  by (cases k) (simp_all add: demo_identity_def payload_identity_def demo_payload_def u_def plain_char_def html_special_def)

lemma drifted_plain: "list_all plain_char (ident_get (drifted_demo drift_value) k)"
proof -
  have "list_all plain_char drift_value"
    by (simp add: drift_value_def u_def plain_char_def html_special_def list_all_iff)
  then show ?thesis
    using demo_plain [of k] by (cases k) (simp_all add: drifted_demo_def)
qed

lemma plain_identity: "(\<And>k. list_all plain_char (ident_get i k)) \<Longrightarrow> same_canonical i \<and> no_html i"
  by (simp add: same_canonical_def no_html_def all_fields plain_canonical)

text \<open>What the live target of the demonstration is: the release, or the release after the drift.\<close>

definition demo_observed :: "identity \<Rightarrow> bool" where
  "demo_observed i \<longleftrightarrow> i = demo_identity \<or> i = drifted_demo drift_value"

lemma demo_observed_same: "demo_observed i \<Longrightarrow> same_canonical i \<and> no_html i"
  using plain_identity [OF demo_plain] plain_identity [OF drifted_plain] by (auto simp: demo_observed_def)

lemma demo_observed_names:
  "demo_observed i \<Longrightarrow> project i = project demo_payload \<and> environment i = environment demo_payload"
  by (auto simp: demo_observed_def drifted_demo_def demo_identity_def payload_identity_def)

lemma demo_target_key:
  "demo_observed (target_identity t) \<Longrightarrow> target_key t = (project demo_payload, environment demo_payload)"
  using demo_observed_names [of "target_identity t"] by simp

section \<open>The executor in step\<close>

text \<open>
  A gRPC call of the environment goes through the stub to a gin executor with the orchestrator's secrets and
  a clock within 30 seconds of its, the requests of the demonstration are signed alike, and the executor
  remembers the live target of the orchestrator's table.
\<close>

definition gin_serves :: "db \<Rightarrow> env \<Rightarrow> bool" where
  "gin_serves d E \<longleftrightarrow> (\<exists>P ch G X s. executor_in_reach E P ch G X s \<and>
     xe_clock X 2 \<le> (clock E 4 div 1000000) * 1000000000 + max_clock_skew \<and>
     (\<forall>i. demo_observed i \<longrightarrow> signed_alike E X (observe_call i)) \<and>
     (\<forall>cx. signed_alike E X (execute_call demo_identity (Some cx))) \<and>
     (\<forall>t. live_target d (project demo_payload) (environment demo_payload) = Inr (Some t) \<longrightarrow>
        store_get s demo_identity = Some (target_identity t)))"

lemma reach_grpc:
  assumes "executor_in_reach E P ch G X s"
  shows "executor_client E = GRPCExecutorClient" and "grpc_answers E X s" and "in_step E X"
    and "xe_capability_secret X = capability_secret (cfg E)"
  using assms stub_answers by (auto simp: executor_in_reach_def executor_client_def)

lemma gin_told:
  assumes "gin_serves d E" and "demo_observed i"
  shows "sync_executor_observation E i = Inr ()"
proof -
  from assms obtain P ch G X s where X: "executor_in_reach E P ch G X s" "signed_alike E X (observe_call i)"
    by (auto simp: gin_serves_def)
  from grpc_observe_gin(1) [OF reach_grpc(2,3) [OF X(1)] X(2)] show ?thesis
    by (simp add: sync_executor_observation_def reach_grpc(1) [OF X(1)])
qed

lemma gin_implementation:
  assumes "gin_serves d E"
  shows "executor_implementation E = Inr (u ''gin'')"
proof -
  from assms obtain P ch G X s where X: "executor_in_reach E P ch G X s" by (auto simp: gin_serves_def)
  then have "executor_runtime_info E = Inr (u ''gin'', u ''grpc'')"
    by (intro stub_health [of E P ch G X s]) (simp_all add: executor_in_reach_def)
  then show ?thesis by (simp add: executor_implementation_def)
qed

text \<open>A token that both sides let pass, a minute before it ends.\<close>

definition gin_token :: "env \<Rightarrow> ustr \<Rightarrow> ustr \<Rightarrow> bool" where
  "gin_token E epoch_id tok \<longleftrightarrow> (\<exists>jti now expires.
     is_jws tok (capability_secret (cfg E)) (jwt_claims (capability_payload (demo_scope epoch_id) jti now expires)) \<and>
     jti \<noteq> [] \<and> 0 \<le> expires \<and> expires < 2 ^ 63 \<and> clock E 4 + 60 * 1000000 \<le> expires)"

lemma token_lives:
  fixes x c e :: int
  assumes "x \<le> (c div 1000000) * 1000000000 + max_clock_skew" and "c + 60 * 1000000 \<le> e"
  shows "x div 1000000000 < e div 1000000"
proof -
  have "x div 1000000000 \<le> c div 1000000 + 30"
    using zdiv_mono1 [OF assms(1), of 1000000000] by (simp add: max_clock_skew_def)
  moreover have "c div 1000000 + 60 \<le> e div 1000000"
    using zdiv_mono1 [OF assms(2), of 1000000] by simp
  ultimately show ?thesis by linarith
qed

lemma gin_decides:
  assumes serves: "gin_serves d E" and tok: "gin_token E (ep_id e) tok" and rows: "demo_rows_of st e c"
    and live: "live_target d (project demo_payload) (environment demo_payload) = Inr (Some t)"
    and t: "demo_observed (target_identity t)" and nc: "no_collision demo_identity (target_identity t)"
    and cx: "cx = agent_context e c p tok" and check: "local_check E demo_identity (Some cx) = Inr ()"
  shows "client_execute (executor_client E) E demo_identity (target_identity t) (Some cx) =
    local_execute E demo_identity (target_identity t) (Some cx)"
proof -
  from serves live obtain P ch G X s where X: "executor_in_reach E P ch G X s"
    and soon: "xe_clock X 2 \<le> (clock E 4 div 1000000) * 1000000000 + max_clock_skew"
    and alike: "signed_alike E X (execute_call demo_identity (Some cx))"
    and held: "store_get s demo_identity = Some (target_identity t)"
    unfolding gin_serves_def by blast
  note reach = reach_grpc [OF X]
  from tok obtain jti now expires where
    jws: "is_jws tok (capability_secret (cfg E)) (jwt_claims (capability_payload (demo_scope (ep_id e)) jti now expires))"
    and jti: "jti \<noteq> []" "0 \<le> expires" "expires < 2 ^ 63" "clock E 4 + 60 * 1000000 \<le> expires"
    unfolding gin_token_def by blast
  have demo: "same_canonical demo_identity" "no_html demo_identity"
    using demo_observed_same [of demo_identity] by (simp_all add: demo_observed_def)
  have same: "same_canonical (target_identity t)" "no_html (target_identity t)"
    using demo_observed_same [OF t] by simp_all
  have ident: "epoch_identity e = demo_identity" "ep_fingerprint e = go_fingerprint (epoch_identity e)"
    "cr_action c = u ''deploy''" "cr_actor_type c = u ''ai_agent''"
    using rows demo
    by (simp_all add: demo_rows_of_def go_fingerprint_def fingerprint_def go_payload_plain)
  have passes: "check_context X demo_identity (Some cx) = None"
    unfolding cx ident(1) [symmetric]
    by (rule agent_passes_executor [OF jws [folded reach(4) demo_rows_scope [OF rows]] jti(1-3)
          token_lives [OF soon jti(4)] ident(3,4,2)])
  have "local_execute E demo_identity (target_identity t) (Some cx) = Inr (compared E (go_compare demo_identity (target_identity t)))"
    by (rule compared_local [OF demo(1) same nc check])
  then show ?thesis
    using grpc_execute_gin(1) [OF reach(2,3) alike passes held] by (simp add: reach(1))
qed

section \<open>The executor stays in step\<close>

text \<open>
  The row is written first and reported then (\<open>observation_in_step\<close> of the theory \<open>Go_Agent\<close>). So it is for the
  drift of the demonstration: the executor's memory after the report holds the drifted target.
\<close>

lemma drift_in_step:
  assumes ok: "db_ok d" and t: "t \<in> set (targets d)" and key: "target_key t = (ep_project e, ep_environment e)"
    and k: "k \<in> drift_fields" and i: "i = with_field k v (target_identity t)"
    and X: "executor_in_reach E P ch G X s" "signed_alike E X (observe_call i)"
  shows "\<exists>t' d'. demo_drift E d e (field_name k) v = (Inr (fingerprint i), d') \<and>
    live_target d' (ep_project e) (ep_environment e) = Inr (Some t') \<and>
    store_get (store_after GRPCExecutorClient E X i s) i = Some (target_identity t')"
proof -
  have "sync_executor_observation E (with_field k v (target_identity t)) = Inr ()"
    using grpc_observe_gin(1) [OF reach_grpc(2,3) [OF X(1)] X(2)]
    by (simp add: sync_executor_observation_def reach_grpc(1) [OF X(1)] i)
  from drift_stored [OF ok t key k this] obtain ts t' where drift: "demo_drift E d e (field_name k) v = (Inr (fingerprint i), d\<lparr>targets := ts\<rparr>)"
    "db_ok (d\<lparr>targets := ts\<rparr>)" "t' \<in> set ts" "target_key t' = target_key t" "target_identity t' = i"
    unfolding i by blast
  have "live_target (d\<lparr>targets := ts\<rparr>) (ep_project e) (ep_environment e) = Inr (Some t')"
    using targets_t.find_row [OF drift(2), of t'] drift(3,4) key by (simp add: live_target_find [OF drift(2)])
  moreover have "store_after GRPCExecutorClient E X i s = store_put i s"
    using grpc_observes(1) [OF reach_grpc(3) [OF X(1)] X(2)] by simp
  ultimately show ?thesis using drift(1,5) by (auto intro: store.get_same)
qed

end
