(* ===== verification/Browser_Test.thy ===== *)
theory Browser_Test
  imports Console "HOL-Library.Sublist"
begin

text \<open>
  The browser test (\<open>scripts/browser-e2e.py\<close>): a script of clicks and expected texts on the start page,
  and the verdict. Chromium and Playwright stand behind the steps: a click waits until the control is
  shown and enabled, an expectation until the element is shown with the text, and both time out
  otherwise. The model is stricter where it can be: a step finds the page as the last handler has left it,
  and a text is compared as it is (Playwright ignores case and normalises blanks). The branch for a managed
  Chromium, which only changes how the page is loaded, and the screenshots' files are not modelled.
\<close>

section \<open>Steps\<close>

datatype step =
    Click control
  | Fill ustr
  | SetInputFile upload_file
  | ExpectText element ustr
  | Screenshot string

definition expect_text :: "page \<Rightarrow> element \<Rightarrow> ustr \<Rightarrow> bool" where
  "expect_text p el s \<longleftrightarrow> shown (element_panel el) p \<and> sublist s (element_text p el)"

text \<open>None: the step has timed out, which ends the test with an error.\<close>

fun run_step :: "browser \<Rightarrow> step \<Rightarrow> page \<Rightarrow> page option" where
  "run_step br (Click t) p =
     (if shown (control_panel t) p \<and> enabled t p then Some (click br t p) else None)"
| "run_step br (Fill kind) p =
     (if shown (Some EvidenceView) p then Some (p\<lparr>pg_kind := kind\<rparr>) else None)"
| "run_step br (SetInputFile f) p = Some (p\<lparr>pg_file := Some f\<rparr>)"
| "run_step br (ExpectText el s) p = (if expect_text p el s then Some p else None)"
| "run_step br (Screenshot name) p = Some p"

fun run_steps :: "browser \<Rightarrow> step list \<Rightarrow> page \<Rightarrow> page option" where
  "run_steps br [] p = Some p"
| "run_steps br (s # ss) p = (case run_step br s p of None \<Rightarrow> None | Some q \<Rightarrow> run_steps br ss q)"

section \<open>The script\<close>

text \<open>The parts of \<open>main\<close>, in the order and under the headings of its comments.\<close>

definition policy_steps :: "step list" where
  "policy_steps =
     [ExpectText PageTitle bt_release_title,
      Screenshot ''01-release-initial.png'',
      Click (Nav PolicyView),
      ExpectText PageTitle bt_policy_title,
      Click (PolicyRun 0),
      ExpectText PolicyScenarios bt_allow,
      Click (PolicyRun 1),
      ExpectText PolicyScenarios bt_ask,
      Click (PolicyRun 2),
      ExpectText PolicyScenarios bt_deny,
      Screenshot ''02-policy-dry-run.png'',
      Click (Nav ReleaseView)]"

definition grant_steps :: "step list" where
  "grant_steps =
     [Click (Press BootStep),
      ExpectText ResultBox bt_created,
      Click (Press ApproveStep),
      ExpectText MetricState (u ''APPROVED''),
      Click (Press CapabilityStep),
      ExpectText ResultBox bt_issued]"

definition happy_steps :: "step list" where
  "happy_steps = grant_steps @
     [Click (Press ExecuteStep),
      ExpectText ResultBox (u ''EXECUTED''),
      ExpectText MetricMatch (u ''MATCH''),
      Screenshot ''03-release-happy.png'']"

definition passport_steps :: "step list" where
  "passport_steps =
     [Click (Nav PassportView),
      ExpectText PageTitle bt_passport_title,
      ExpectText PassportSummary (u ''ISSUE-184''),
      ExpectText PassportSummary (u ''release-agent-01''),
      ExpectText PassportSummary (u ''EXECUTED''),
      ExpectText PassportSummary (u ''release-agent-01''),
      ExpectText PassportSummary (u ''deploy''),
      ExpectText PassportTimeline (u ''CHANGE_REQUESTED''),
      ExpectText PassportTimeline (u ''CAPABILITY_ISSUED''),
      ExpectText PassportTimeline (u ''APPROVED''),
      ExpectText PassportTimeline (u ''EXECUTED''),
      Screenshot ''04-change-passport-happy.png'']"

definition test_file :: upload_file where
  "test_file =
     \<lparr>up_filename = Some (u ''build-provenance.txt''), up_content_type = Some (u ''text/plain''),
      up_content = u ''builder=github-actions'' @ [10] @ u ''commit=8f375e7'' @ [10] @ u ''attested=true'' @ [10]\<rparr>"

definition evidence_steps :: "step list" where
  "evidence_steps =
     [Click (Nav EvidenceView),
      ExpectText PageTitle bt_evidence_title,
      Fill (u ''provenance''),
      SetInputFile test_file,
      Click (Press EvidenceUpload),
      ExpectText EvidenceResult bt_stored,
      ExpectText EvidenceList (u ''build-provenance.txt''),
      ExpectText EvidenceList (u ''sha256''),
      Screenshot ''05-evidence-ledger.png'']"

definition receipts_steps :: "step list" where
  "receipts_steps =
     [Click (Nav ReceiptsView),
      ExpectText PageTitle bt_receipts_title,
      ExpectText ReceiptsList (u ''EXECUTED''),
      ExpectText ReceiptsList bt_match,
      Screenshot ''06-receipts-happy.png'']"

text \<open>The parameter is the value of \<open>EPOCHDEPLOY_EXPECT_EXECUTOR_IMPLEMENTATION\<close>.\<close>

definition integration_steps :: "ustr option \<Rightarrow> step list" where
  "integration_steps expected_executor =
     [Click (Nav IntegrationsView),
      ExpectText PageTitle bt_integrations_title,
      ExpectText IntegrationCards bt_card_gitlab,
      ExpectText IntegrationCards bt_card_executor,
      ExpectText IntegrationCards bt_card_database,
      ExpectText IntegrationCards bt_card_grpc,
      ExpectText IntegrationCards bt_active,
      ExpectText IntegrationCards (u ''grpc'')] @
     (case expected_executor of
        None \<Rightarrow> []
      | Some x \<Rightarrow> if x = [] then [] else [ExpectText IntegrationCards x]) @
     [Screenshot ''07-integrations.png'']"

definition drift_steps :: "step list" where
  "drift_steps =
     [Click (Nav ReleaseView)] @ grant_steps @
     [Click (Press DriftStep),
      ExpectText MetricMatch (u ''DRIFTED''),
      Click (Press ExecuteStep),
      ExpectText ResultBox (u ''DENIED_STALE''),
      ExpectText MetricMatch (u ''BLOCKED''),
      ExpectText DiffsBox (u ''artifact_digest''),
      Screenshot ''08-release-drift-blocked.png'']"

definition blocked_steps :: "step list" where
  "blocked_steps =
     [Click (Nav ReceiptsView),
      ExpectText ReceiptsList (u ''DENIED_STALE''),
      ExpectText ReceiptsList (u ''artifact_digest''),
      Screenshot ''09-receipts-blocked.png'',
      Click (Nav PassportView),
      ExpectText PassportSummary (u ''DENIED_STALE''),
      ExpectText PassportTimeline (u ''DENIED_STALE''),
      ExpectText PassportTimeline (u ''artifact_digest''),
      Screenshot ''10-change-passport-blocked.png'']"

definition browser_script :: "ustr option \<Rightarrow> step list" where
  "browser_script expected_executor =
     policy_steps @ happy_steps @ passport_steps @ evidence_steps @ receipts_steps @
     integration_steps expected_executor @ drift_steps @ blocked_steps"

text \<open>
  The test passes when every step succeeds, nothing was written to the console as an error, and no
  response had a status of 400 or more. (Every handler catches what it throws, so there are no page errors, and
  every request of the model is answered.)
\<close>

definition browser_test_passes :: "browser \<Rightarrow> ustr option \<Rightarrow> world \<Rightarrow> bool" where
  "browser_test_passes br expected_executor w =
    (case run_steps br (browser_script expected_executor) (loaded_page w) of
       None \<Rightarrow> False
     | Some p \<Rightarrow> pg_errors p = [] \<and> pg_bad p = [])"

section \<open>Lemmas\<close>

lemma run_steps_append:
  "run_steps br (ss @ ts) p = (case run_steps br ss p of None \<Rightarrow> None | Some q \<Rightarrow> run_steps br ts q)"
  by (induction ss arbitrary: p) (auto split: option.splits)

end
