(* ===== verification/Browser_Requests.thy ===== *)
theory Browser_Requests
  imports Story_Executor Browser_Test
begin

text \<open>
  The browser test passes, the requests: the deployment it is made for, the bodies the page sends, its tokens,
  and the answer of every request of the page at its stage of the demonstration.
\<close>

section \<open>Bodies\<close>

lemmas body_eval = validate_model_def str_field_def pattern_field_def validate_str_def rust_trim_def strip_by_def
  is_rust_space_def Let_def u_def

lemma login_body:
  "login_request (JObj [(u ''username'', JStr (u ''admin'')), (u ''password'', JStr (u ''admin-demo''))]) =
    Inr (u ''admin'', u ''admin-demo'')"
  "login_request (JObj [(u ''username'', JStr (u ''operator'')), (u ''password'', JStr (u ''operator-demo''))]) =
    Inr (u ''operator'', u ''operator-demo'')"
  "login_request (JObj [(u ''username'', JStr (u ''approver'')), (u ''password'', JStr (u ''approver-demo''))]) =
    Inr (u ''approver'', u ''approver-demo'')"
  by (simp_all add: login_request_def body_eval)

lemma drift_body:
  "drift_request (JObj [(u ''field'', JStr (u ''artifact_digest'')), (u ''value'', JStr drift_value)]) =
    Inr (u ''artifact_digest'', drift_value)"
  by (simp add: drift_request_def drift_value_def body_eval)

lemma policy_body:
  assumes "n < 3"
  shows "policy_dry_run_request (JObj
     [(u ''actor_type'', JStr (u ''ai_agent'')), (u ''action'', JStr (u (snd (policy_scenario n)))),
      (u ''project'', JStr (u ''payments-api'')), (u ''environment'', JStr (u (fst (policy_scenario n))))]) =
    Inr \<lparr>dr_actor_type = u ''ai_agent'', dr_action = u (snd (policy_scenario n)), dr_project = u ''payments-api'',
      dr_environment = u (fst (policy_scenario n))\<rparr>"
proof -
  from assms have "n = 0 \<or> n = Suc 0 \<or> n = Suc (Suc 0)" by linarith
  then show ?thesis
    by (elim disjE)
      (simp_all add: policy_dry_run_request_def actor_type_pattern_def action_pattern_def environment_pattern_def
        match_name_def is_name_char_def is_lower_def is_digit_def body_eval)
qed

lemma trimmed: "s = [] \<or> \<not> is_rust_space (hd s) \<and> \<not> is_rust_space (last s) \<Longrightarrow> rust_trim s = s"
  unfolding rust_trim_def by (rule strip_by_id)

lemma agent_body:
  assumes "rust_trim key = key" and "8 \<le> length key" and "length key \<le> 120"
    and "rust_trim tok = tok" and "32 \<le> length tok" and "length tok \<le> 4096"
  shows "agent_execute_request (JObj [(u ''idempotency_key'', JStr key), (u ''capability_token'', JStr tok)]) = Inr (key, tok)"
  using assms by (simp add: agent_execute_request_def validate_model_def str_field_def validate_str_def Let_def)

lemma ttl_body: "lax_int E (JInt 300) = Some 300 \<Longrightarrow>
    capability_issue_request E (JObj [(u ''ttl_seconds'', JInt 300)]) = Inr 300"
  by (simp add: capability_issue_request_def)

section \<open>The test bed\<close>

text \<open>
  The deployment the test is made for. The demonstration is on, every request is served beside a gin executor
  in step, reached through the generated stub (\<open>gin_serves\<close>), all requests are served with the same settings
  and the same PyJWT, a later request reads a later time, and the whole test is over in four minutes. PyJWT
  returns the claims of the tokens the test meets, and its capability tokens are compact serialisations of
  their claims that fit the request model. The idempotency keys of the browser are a time in milliseconds and
  some hexadecimal digits.
\<close>

definition token_fits :: "ustr \<Rightarrow> bool" where
  "token_fits tok \<longleftrightarrow> rust_trim tok = tok \<and> 32 \<le> length tok \<and> length tok \<le> 4096"

definition bed_request :: "settings \<Rightarrow> jwt_lib \<Rightarrow> world \<Rightarrow> env \<Rightarrow> bool" where
  "bed_request S J w E \<longleftrightarrow> cfg E = S \<and> jwt E = J \<and> uuid4 E 0 \<noteq> [] \<and> lax_int E (JInt 300) = Some 300 \<and>
     (\<forall>p. fs_write E p = Written) \<and> \<not> commit_lost E \<and> gin_serves (w_db w) E"

definition bed_clock :: "browser \<Rightarrow> bool" where
  "bed_clock br \<longleftrightarrow> (\<forall>m n v w i j. m < n \<longrightarrow>
     clock (br_env br m v) i \<le> clock (br_env br n w) j \<and>
     clock (br_env br n w) j < clock (br_env br m v) i + 240 * 1000000) \<and>
     (\<forall>n w i. 0 \<le> clock (br_env br n w) i \<and> clock (br_env br n w) i < 2 ^ 62)"

definition demo_claims :: "env \<Rightarrow> env \<Rightarrow> (ustr \<times> view) list" where
  "demo_claims E0 E = capability_payload (demo_scope (uuid4 E0 0)) (uuid4 E 0) (clock E 1) (clock E 1 + 300 * 1000000)"

definition bed_tokens :: "browser \<Rightarrow> settings \<Rightarrow> jwt_lib \<Rightarrow> user_row list \<Rightarrow> bool" where
  "bed_tokens br S J us \<longleftrightarrow> (\<forall>cs key. jwt_encode J cs key \<noteq> []) \<and>
     (\<forall>m n v w. \<forall>x \<in> set us. m < n \<longrightarrow>
        jwt_returns_claims J (token_payload x (clock (br_env br m v) 0)) (jwt_secret S) (clock (br_env br n w) 0)) \<and>
     (\<forall>k m n z v w i. m < n \<longrightarrow>
        jwt_returns_claims J (demo_claims (br_env br k z) (br_env br m v)) (capability_secret S) (clock (br_env br n w) i) \<and>
        token_fits (jwt_encode J (demo_claims (br_env br k z) (br_env br m v)) (capability_secret S)) \<and>
        is_jws (jwt_encode J (demo_claims (br_env br k z) (br_env br m v)) (capability_secret S)) (capability_secret S)
          (jwt_claims (demo_claims (br_env br k z) (br_env br m v))))"

definition bed_keys :: "browser \<Rightarrow> bool" where
  "bed_keys br \<longleftrightarrow> (\<forall>n. 10 ^ 12 \<le> br_now br n \<and> br_now br n < 10 ^ 13 \<and> list_all is_hex (br_random br n) \<and>
     length (br_random br n) \<le> 14)"

definition test_bed :: "browser \<Rightarrow> settings \<Rightarrow> jwt_lib \<Rightarrow> user_row list \<Rightarrow> bool" where
  "test_bed br S J us \<longleftrightarrow> executor_mode S = u ''grpc'' \<and> demo_mode S \<and> 100 \<le> max_upload_bytes S \<and>
     (\<forall>n w. bed_request S J w (br_env br n w)) \<and> bed_clock br \<and> bed_tokens br S J us \<and> bed_keys br"

text \<open>The three accounts of the demonstration.\<close>

definition demo_account :: "user_row list \<Rightarrow> string \<Rightarrow> user_row \<Rightarrow> bool" where
  "demo_account us name x \<longleftrightarrow> x \<in> set us \<and> us_username x = u name \<and> us_role x = u name \<and>
     verify_password (u (name @ ''-demo'')) (us_password_hash x)"

definition demo_accounts :: "user_row list \<Rightarrow> bool" where
  "demo_accounts us \<longleftrightarrow> list_all (\<lambda>name. \<exists>x. demo_account us name x) [''admin'', ''operator'', ''approver'']"

lemma bed_env:
  assumes "test_bed br S J us"
  shows "cfg (br_env br n w) = S" "jwt (br_env br n w) = J" "uuid4 (br_env br n w) 0 \<noteq> []"
    "lax_int (br_env br n w) (JInt 300) = Some 300" "fs_write (br_env br n w) f = Written" "\<not> commit_lost (br_env br n w)"
    "gin_serves (w_db w) (br_env br n w)"
    "executor_mode S = u ''grpc''" "demo_mode S" "100 \<le> max_upload_bytes S"
  using assms by (simp_all add: test_bed_def bed_request_def)

lemma length_digits_le: "n < 10 ^ Suc k \<Longrightarrow> length (dec_digits n) \<le> Suc k"
proof (induction k arbitrary: n)
  case (Suc k)
  then have "n div 10 < 10 ^ Suc k" by simp
  with Suc.IH [OF this] show ?case by (simp add: dec_digits.simps [of n])
qed (simp add: dec_digits.simps)

lemma length_digits_ge: "10 ^ k \<le> n \<Longrightarrow> Suc k \<le> length (dec_digits n)"
proof (induction k arbitrary: n)
  case 0
  show ?case using dec_digits_props [of n] by (cases "dec_digits n") simp_all
next
  case (Suc k)
  have "(1 :: nat) \<le> 10 ^ k" by simp
  with Suc.prems have n: "10 \<le> n" "10 ^ k * 10 \<le> n" unfolding power_Suc by linarith+
  then have "10 ^ k \<le> n div 10" by (simp add: less_eq_div_iff_mult_less_eq)
  with Suc.IH [OF this] n(1) show ?case by (simp add: dec_digits.simps [of n])
qed

lemma digits_seconds:
  assumes "10 ^ 12 \<le> n" and "n < 10 ^ 13"
  shows "length (int_str n) = 13"
proof -
  have "(10 :: nat) ^ 12 \<le> nat n" "nat n < 10 ^ Suc 12" using assms by simp_all
  from length_digits_ge [OF this(1)] length_digits_le [OF this(2)] assms(1) show ?thesis
    by (simp add: int_str_def)
qed

lemma key_fits:
  assumes "bed_keys br"
  shows "rust_trim (ui_key br p) = ui_key br p \<and> 8 \<le> length (ui_key br p) \<and> length (ui_key br p) \<le> 120"
proof -
  let ?r = "br_random br (pg_requests p)"
  from assms have n: "length (int_str (br_now br (pg_requests p))) = 13" and r: "list_all is_hex ?r" "length ?r \<le> 14"
    using digits_seconds by (simp_all add: bed_keys_def)
  have "last (ui_key br p) = (if ?r = [] then 45 else last ?r)" by (simp add: ui_key_def u_def)
  moreover have "is_hex (last ?r)" if "?r \<noteq> []" using r(1) that by (simp add: list_all_iff)
  ultimately have "\<not> is_rust_space (last (ui_key br p))"
    by (auto simp: is_rust_space_def is_hex_def)
  moreover have "hd (ui_key br p) = 117" by (simp add: ui_key_def u_def)
  ultimately have "rust_trim (ui_key br p) = ui_key br p" by (intro trimmed) (simp add: is_rust_space_def)
  with n r(2) show ?thesis by (simp add: ui_key_def)
qed

section \<open>Tokens\<close>

text \<open>A bearer token of an account, for the requests from the n-th on.\<close>

definition token_for :: "browser \<Rightarrow> user_row list \<Rightarrow> string \<Rightarrow> nat \<Rightarrow> ustr \<Rightarrow> bool" where
  "token_for br us name n tok \<longleftrightarrow> tok \<noteq> [] \<and> (\<exists>x. us_username x = u name \<and> us_role x = u name \<and>
     (\<forall>m w. n \<le> m \<longrightarrow> db_ok (w_db w) \<longrightarrow> users (w_db w) = us \<longrightarrow>
        current_user (br_env br m w) (w_db w) (Some tok) = Inr x))"

lemma token_later: "token_for br us name n tok \<Longrightarrow> n \<le> m \<Longrightarrow> token_for br us name m tok"
  unfolding token_for_def by (meson order.trans)

lemma token_user:
  assumes "token_for br us name n tok" and "n \<le> m" and "db_ok (w_db w)" and "users (w_db w) = us"
  shows "\<exists>x. us_username x = u name \<and> (\<forall>roles. name \<in> set roles \<longrightarrow>
    require_role (br_env br m w) (w_db w) (Some tok) roles = Inr x) \<and>
    current_user (br_env br m w) (w_db w) (Some tok) = Inr x"
proof -
  from assms obtain x where x: "us_username x = u name" "us_role x = u name"
    "current_user (br_env br m w) (w_db w) (Some tok) = Inr x"
    by (auto simp: token_for_def)
  moreover have "require_role (br_env br m w) (w_db w) (Some tok) roles = Inr x" if "name \<in> set roles" for roles
    by (rule gate_passes [OF x(3,2) that])
  ultimately show ?thesis by (intro exI [of _ x]) simp
qed

lemma whole_second:
  fixes now t n :: int
  assumes "241 \<le> n" and "now < t + 240 * 1000000"
  shows "now < (t + n * 1000000) div 1000000 * 1000000"
proof -
  have "(t + n * 1000000) div 1000000 * 1000000 = t + n * 1000000 - t mod 1000000"
    by (simp add: minus_mod_eq_div_mult [symmetric])
  moreover have "t mod 1000000 < 1000000" by simp
  ultimately show ?thesis using assms by linarith
qed

lemma issued_for:
  assumes bed: "test_bed br S J us" and x: "demo_account us name x" and m: "m < n"
  shows "token_for br us name n (issue_token (br_env br m v) x)"
proof -
  let ?t = "clock (br_env br m v) 0"
  have enc: "issue_token (br_env br m v) x = jwt_encode J (token_payload x ?t) (jwt_secret S)"
    by (simp add: issue_token_def bed_env [OF bed])
  have "current_user (br_env br k w) (w_db w) (Some (issue_token (br_env br m v) x)) = Inr x"
    if k: "n \<le> k" and w: "db_ok (w_db w)" "users (w_db w) = us" for k w
  proof -
    from m k have mk: "m < k" by simp
    then have clock: "?t \<le> clock (br_env br k w) 0" "clock (br_env br k w) 0 < ?t + 240 * 1000000"
      using bed unfolding test_bed_def bed_clock_def by blast+
    moreover have "jwt_returns_claims J (token_payload x ?t) (jwt_secret S) (clock (br_env br k w) 0)"
      using bed x mk unfolding test_bed_def bed_tokens_def demo_account_def by blast
    ultimately show ?thesis
      using x w by (intro issued_token_valid [OF w(1)])
        (simp_all add: demo_account_def bed_env [OF bed] whole_second)
  qed
  moreover have "issue_token (br_env br m v) x \<noteq> []"
    using bed by (simp add: enc test_bed_def bed_tokens_def)
  ultimately show ?thesis using x by (auto simp: token_for_def demo_account_def)
qed

section \<open>Requests\<close>

lemma serve_success: "handle E creds rt w = (Inr v, w') \<Longrightarrow> \<exists>h. serve E creds rt w =
    (\<lparr>rs_status = success_status rt, rs_headers = h, rs_result = Inr v\<rparr>, w')"
  by (simp add: serve_def)

lemma success_below_400: "\<not> 400 \<le> success_status rt"
  by (cases rt) simp_all

lemma fetch_ok:
  assumes "handle (br_env br (pg_requests p) (pg_world p)) creds rt (pg_world p) = (Inr v, w')"
  shows "js_fetch br creds rt p = (Inr v, p\<lparr>pg_world := w', pg_requests := Suc (pg_requests p)\<rparr>)"
  using serve_success [OF assms] by (auto simp: js_fetch_def Let_def success_below_400)

lemma api_ok:
  assumes "token p = Some tok"
    and "handle (br_env br (pg_requests p) (pg_world p)) (Some tok) rt (pg_world p) = (Inr v, w')"
  shows "js_api br token rt p = (Inr v, p\<lparr>pg_world := w', pg_requests := Suc (pg_requests p)\<rparr>)"
  by (simp add: js_api_def assms(1) fetch_ok [OF assms(2)])

lemma login_ok:
  assumes bed: "test_bed br S J us" and x: "demo_account us name x"
    and w: "db_ok (w_db (pg_world p))" "users (w_db (pg_world p)) = us"
    and body: "login_request (JObj [(u ''username'', JStr (u name)), (u ''password'', JStr (u pw))]) = Inr (u name, u pw)"
    and pw: "pw = name @ ''-demo''"
  shows "\<exists>t. js_login br name pw p = (Inr (Some t), p\<lparr>pg_requests := Suc (pg_requests p)\<rparr>) \<and>
    token_for br us name (Suc (pg_requests p)) t"
proof -
  let ?E = "br_env br (pg_requests p) (pg_world p)"
  let ?b = "JObj [(u ''username'', JStr (u name)), (u ''password'', JStr (u pw))]"
  have "login ?E (w_db (pg_world p)) ?b = Inr (VDict [(u ''access_token'', VStr (issue_token ?E x)),
      (u ''token_type'', VStr (u ''bearer'')), (u ''role'', VStr (us_role x))])"
    by (rule story_login [OF w(1) _ _ _ body]) (use x w(2) pw in \<open>simp_all add: demo_account_def\<close>)
  then have "js_fetch br None (Login ?b) p = (Inr (VDict [(u ''access_token'', VStr (issue_token ?E x)),
      (u ''token_type'', VStr (u ''bearer'')), (u ''role'', VStr (us_role x))]),
      p\<lparr>pg_world := pg_world p, pg_requests := Suc (pg_requests p)\<rparr>)"
    by (intro fetch_ok) simp
  then have "js_login br name pw p = (Inr (Some (issue_token ?E x)), p\<lparr>pg_requests := Suc (pg_requests p)\<rparr>)"
    by (simp add: js_login_def)
  with issued_for [OF bed x, of "pg_requests p" "Suc (pg_requests p)" "pg_world p"] show ?thesis by blast
qed

text \<open>What the page asks for, when an account that may ask for it is signed in.\<close>

lemma ask_policy:
  assumes "current_user E (w_db w) (Some tok) = Inr x" and "n < 3"
  shows "handle E (Some tok) (PolicyDryRun (JObj
     [(u ''actor_type'', JStr (u ''ai_agent'')), (u ''action'', JStr (u (snd (policy_scenario n)))),
      (u ''project'', JStr (u ''payments-api'')), (u ''environment'', JStr (u (fst (policy_scenario n))))])) w =
    (Inr (let decision = evaluate_policy (u ''ai_agent'') (u (snd (policy_scenario n))) (u (fst (policy_scenario n)))
      in VDict
      [(u ''actor_type'', VStr (u ''ai_agent'')),
       (u ''action'', VStr (u (snd (policy_scenario n)))),
       (u ''project'', VStr (u ''payments-api'')),
       (u ''environment'', VStr (u (fst (policy_scenario n)))),
       (u ''decision'', VStr (pd_decision decision)),
       (u ''rule_id'', VStr (pd_rule_id decision)),
       (u ''reason'', VStr (pd_reason decision)),
       (u ''required_controls'', VList (map VStr (pd_required_controls decision)))]), w)"
  by (simp add: policy_dry_run_def assms(1) policy_body [OF assms(2)] Let_def)

text \<open>The identifier the page has, and the epoch of the stage.\<close>

lemma stage_epoch: "demo_stage d us e c t as gs rs \<Longrightarrow> epoch_or_404 d (ep_id e) = Inr e"
  by (simp add: demo_stage_def epoch_or_404_def get_epoch_def)

definition shows_epoch :: "view \<Rightarrow> epoch_row \<Rightarrow> bool" where
  "shows_epoch v e \<longleftrightarrow> (\<exists>kvs. v = VDict kvs \<and> map_of kvs (u ''id'') = Some (VStr (ep_id e)))"

lemma ask_reset:
  assumes bed: "bed_request S J w E" "demo_mode S" and ok: "db_ok (w_db w)"
    and gate: "require_role E (w_db w) (Some tok) [''admin''] = Inr x"
  shows "\<exists>v w' e c t. handle E (Some tok) DemoBootstrap w = (Inr v, w') \<and> shows_epoch v e \<and>
    demo_stage (w_db w') (users (w_db w)) e c t [] [] [] \<and> demo_rows_of (u ''DRAFT'') e c \<and>
    target_identity t = demo_identity \<and> ep_id e = uuid4 E 0 \<and> has_event (w_db w') (ep_id e) (u ''CHANGE_REQUESTED'')"
proof -
  let ?e = "demo_epoch E (us_username x)" and ?c = "demo_change E (us_username x)"
  have "demo_mode (cfg E)" "sync_executor_observation E demo_identity = Inr ()"
    using bed gin_told [of "w_db w" E demo_identity] by (simp_all add: bed_request_def demo_observed_def)
  from story_bootstrap [OF ok this, of x] obtain t d' where run: "demo_bootstrap E (w_db w) x = (Inr ?e, d')"
    and st: "demo_stage d' (users (w_db w)) ?e ?c t [] [] []" "target_identity t = demo_identity"
      "has_event d' (uuid4 E 0) (u ''CHANGE_REQUESTED'')" by blast
  from st(1) have "\<exists>v. epoch_view d' ?e = Inr v \<and> shows_epoch v ?e"
    by (simp add: demo_stage_def epoch_view_def shows_epoch_def)
  then obtain v where "epoch_view d' ?e = Inr v" "shows_epoch v ?e" by blast
  moreover have "ep_id ?e = uuid4 E 0" by (simp add: demo_epoch_def new_epoch_def)
  ultimately show ?thesis
    using run st gate demo_rows_created
    by (intro exI [of _ v] exI [of _ "w\<lparr>w_db := d'\<rparr>"] exI [of _ ?e] exI [of _ ?c] exI [of _ t])
      (simp add: api_bootstrap_def on_db_def)
qed

lemma ask_approval:
  assumes st: "demo_stage (w_db w) us e c t [] [] []" and rows: "demo_rows_of (u ''DRAFT'') e c"
    and gate: "require_role E (w_db w) (Some tok) [''approver'', ''admin''] = Inr x"
  shows "\<exists>v w' a. handle E (Some tok) (Approve (ep_id e)) w = (Inr v, w') \<and>
    demo_stage (w_db w') us (approved_epoch E e) c t [a] [] [] \<and>
    ap_epoch_id a = ep_id e \<and> ap_approved_fingerprint a = ep_fingerprint e \<and>
    (\<forall>i ty. has_event (w_db w) i ty \<or> i = ep_id e \<and> ty = u ''APPROVED'' \<longrightarrow> has_event (w_db w') i ty)"
proof -
  from story_approve [OF st rows, of E "us_username x"] obtain a where a:
    "approve_epoch E (w_db w) e (us_username x) = (Inr (a, e\<lparr>ep_state := u ''APPROVED''\<rparr>), approved_db E (w_db w) e (us_username x))"
    "demo_stage (approved_db E (w_db w) e (us_username x)) us (approved_epoch E e) c t [a] [] []"
    "ap_epoch_id a = ep_id e" "ap_approved_fingerprint a = ep_fingerprint e"
    "\<forall>i ty. has_event (approved_db E (w_db w) e (us_username x)) i ty \<longleftrightarrow> has_event (w_db w) i ty \<or> i = ep_id e \<and> ty = u ''APPROVED''"
    by blast
  then have "handle E (Some tok) (Approve (ep_id e)) w = (Inr (VDict
       [(u ''epoch_id'', VStr (ep_id e)), (u ''state'', VStr (u ''APPROVED'')),
        (u ''approved_fingerprint'', VStr (ap_approved_fingerprint a)), (u ''approver'', VStr (ap_approver a))]),
      w\<lparr>w_db := approved_db E (w_db w) e (us_username x)\<rparr>)"
    by (simp add: approve_def gate stage_epoch [OF st] on_db_def)
  with a show ?thesis by (intro exI conjI) (assumption | simp)+
qed

lemma ask_capability:
  assumes bed: "bed_request S J w E" and st: "demo_stage (w_db w) us e c t [a] [] []" and rows: "demo_rows_of (u ''APPROVED'') e c"
    and a: "ap_epoch_id a = ep_id e" "ap_approved_fingerprint a = ep_fingerprint e" and e: "ep_id e = uuid4 E0 0"
    and gate: "require_role E (w_db w) (Some tok) [''operator'', ''approver'', ''admin''] = Inr x"
  shows "\<exists>v w' g. handle E (Some tok) (IssueCapability (ep_id e) (JObj [(u ''ttl_seconds'', JInt 300)])) w = (Inr (VDict
       [(u ''capability_token'', VStr (jwt_encode J (demo_claims E0 E) (capability_secret S))), (u ''grant'', v)]), w') \<and>
    js_prop v ''actor_type'' = Some (VStr (u ''ai_agent'')) \<and> js_prop v ''actor_id'' = Some (VStr (u ''release-agent-01'')) \<and>
    demo_stage (w_db w') us e c t [a] [g] [] \<and> grant_scope g = demo_scope (ep_id e) \<and> cg_id g = uuid4 E 0 \<and>
    cg_revoked_at g = None \<and> cg_expires_at g = clock E 1 + 300 * 1000000 \<and>
    (\<forall>i ty. has_event (w_db w) i ty \<or> i = ep_id e \<and> ty = u ''CAPABILITY_ISSUED'' \<longrightarrow> has_event (w_db w') i ty)"
proof -
  let ?tok = "jwt_encode J (demo_claims E0 E) (capability_secret S)"
  have claims: "jwt_encode (jwt E) (capability_payload (demo_scope (ep_id e)) (uuid4 E 0) (clock E 1) (clock E 1 + 300 * 1000000))
      (capability_secret (cfg E)) = ?tok"
    using bed by (simp add: demo_claims_def e bed_request_def)
  from story_capability [OF st rows a refl, of E "us_username x" 300, unfolded claims] obtain g d' where
    issue: "issue_execution_capability E (w_db w) e (us_username x) 300 = (Inr (g, ?tok), d')"
    and g: "demo_stage d' us e c t [a] [g] []" "grant_scope g = demo_scope (ep_id e)" "cg_id g = uuid4 E 0"
      "cg_revoked_at g = None" "cg_expires_at g = clock E 1 + 300 * 1000000"
      "\<forall>i ty. has_event (w_db w) i ty \<or> i = ep_id e \<and> ty = u ''CAPABILITY_ISSUED'' \<longrightarrow> has_event d' i ty"
    by (elim exE conjE) (rule that)
  have ttl: "capability_issue_request E (JObj [(u ''ttl_seconds'', JInt 300)]) = Inr 300"
    using bed by (simp add: ttl_body bed_request_def)
  have actor: "cg_actor_type g = u ''ai_agent''" "cg_actor_id g = u ''release-agent-01''"
    using g(2) by (simp_all add: grant_scope_def demo_scope_def)
  have run: "handle E (Some tok) (IssueCapability (ep_id e) (JObj [(u ''ttl_seconds'', JInt 300)])) w = (Inr (VDict
       [(u ''capability_token'', VStr ?tok), (u ''grant'', VDict
          [(u ''id'', VStr (cg_id g)), (u ''epoch_id'', VStr (cg_epoch_id g)), (u ''actor_type'', VStr (cg_actor_type g)),
           (u ''actor_id'', VStr (cg_actor_id g)), (u ''project'', VStr (cg_project g)),
           (u ''environment'', VStr (cg_environment g)), (u ''action'', VStr (cg_action g)),
           (u ''fingerprint'', VStr (cg_fingerprint g)), (u ''issued_by'', VStr (cg_issued_by g)),
           (u ''expires_at'', VTime (cg_expires_at g))])]), w\<lparr>w_db := d'\<rparr>)"
    by (simp add: api_issue_capability_def gate ttl stage_epoch [OF st] issue on_db_def)
  show ?thesis
    by (rule exI, rule exI, rule exI [of _ g], intro conjI, rule run) (use actor g in simp_all)
qed

lemma ask_drift:
  assumes bed: "bed_request S J w E" "demo_mode S" and st: "demo_stage (w_db w) us e c t as gs rs" and rows: "demo_rows_of s e c"
    and t: "target_identity t = demo_identity" and gate: "require_role E (w_db w) (Some tok) [''admin''] = Inr x"
  shows "\<exists>v w' t'. handle E (Some tok) (DemoDrift (ep_id e)
      (JObj [(u ''field'', JStr (u ''artifact_digest'')), (u ''value'', JStr drift_value)])) w = (Inr v, w') \<and>
    demo_stage (w_db w') us e c t' as gs rs \<and> target_identity t' = drifted_demo drift_value \<and>
    (\<forall>i ty. has_event (w_db w') i ty = has_event (w_db w) i ty)"
proof -
  have "sync_executor_observation E (drifted_demo drift_value) = Inr ()"
    using bed gin_told [of "w_db w" E "drifted_demo drift_value"] by (simp add: bed_request_def demo_observed_def)
  from story_drift [OF st rows t this] obtain t' d' where
    drift: "demo_drift E (w_db w) e (u ''artifact_digest'') drift_value = (Inr (fingerprint (drifted_demo drift_value)), d')"
    and d': "demo_stage d' us e c t' as gs rs" "target_identity t' = drifted_demo drift_value"
      "\<forall>i ty. has_event d' i ty = has_event (w_db w) i ty" by blast
  have run: "handle E (Some tok) (DemoDrift (ep_id e)
      (JObj [(u ''field'', JStr (u ''artifact_digest'')), (u ''value'', JStr drift_value)])) w =
      (Inr (VDict [(u ''field'', VStr (u ''artifact_digest'')), (u ''value'', VStr drift_value),
        (u ''observed_fingerprint'', VStr (fingerprint (drifted_demo drift_value)))]), w\<lparr>w_db := d'\<rparr>)"
    using bed by (simp add: api_drift_def gate drift_body demo_only_def bed_request_def stage_epoch [OF st] drift on_db_def)
  show ?thesis
    by (rule exI, rule exI, rule exI [of _ t'], intro conjI, rule run) (use d' in simp_all)
qed

lemma ask_execution:
  assumes bed: "bed_request S J w E" and st: "demo_stage (w_db w) us e c t [a] [g] []" and rows: "demo_rows_of (u ''APPROVED'') e c"
    and a: "ap_epoch_id a = ep_id e" "ap_approved_fingerprint a = ep_fingerprint e"
    and g: "grant_scope g = demo_scope (ep_id e)" "cg_revoked_at g = None" "clock E 2 < cg_expires_at g"
    and verified: "\<And>n. verify_capability E (clock E n) cap (demo_scope (ep_id e)) = Inr claims"
    and jti: "map_of claims (u ''jti'') = Some (JStr (cg_id g))"
    and t: "demo_observed (target_identity t)" and nc: "no_collision demo_identity (target_identity t)"
    and jws: "gin_token E (ep_id e) cap"
    and body: "agent_execute_request (JObj [(u ''idempotency_key'', JStr key), (u ''capability_token'', JStr cap)]) = Inr (key, cap)"
    and gate: "require_role E (w_db w) (Some tok) [''operator'', ''admin''] = Inr x"
    and same: "same = (fingerprint demo_identity = fingerprint (target_identity t))"
    and diffs: "diffs = diff_identity demo_identity (target_identity t)"
  shows "\<exists>v w' r. handle E (Some tok) (ExecuteAsAgent (ep_id e)
      (JObj [(u ''idempotency_key'', JStr key), (u ''capability_token'', JStr cap)])) w = (Inr v, w') \<and>
    js_prop v ''outcome'' = Some (VStr (rc_outcome r)) \<and> js_prop v ''reason'' = Some (VStr (rc_reason r)) \<and>
    js_prop v ''differences'' = Some (VJson (JArr (map difference_json diffs))) \<and>
    rc_outcome r = (if same then u ''EXECUTED'' else u ''DENIED_STALE'') \<and>
    rc_reason r = (if same then msg_identity_match else msg_stale_prefix @ join_with (u '', '') (map df_field diffs)) \<and>
    rc_epoch_id r = ep_id e \<and>
    demo_stage (w_db w') us (e\<lparr>ep_state := rc_outcome r, ep_updated_at := stamp E\<rparr>) c t [a] [g] [r] \<and>
    (\<forall>i ty. has_event (w_db w) i ty \<or> i = ep_id e \<and> ty = rc_outcome r \<longrightarrow> has_event (w_db w') i ty) \<and>
    (\<exists>ev \<in> set (events (w_db w')). pe_epoch_id ev = ep_id e \<and> pe_event_type ev = rc_outcome r \<and>
      pe_summary ev = take 255 (rc_reason r))"
proof -
  have serves: "gin_serves (w_db w) E" using bed by (simp add: bed_request_def)
  have "t \<in> set (targets (w_db w))" using st by (simp add: demo_stage_def)
  then have live: "live_target (w_db w) (project demo_payload) (environment demo_payload) = Inr (Some t)"
    using targets_t.find_row [OF stage_ok [OF st], of t] demo_target_key [OF t]
    by (simp add: live_target_find [OF stage_ok [OF st]])
  let ?cx = "agent_context e c (evaluate_policy (cr_actor_type c) (cr_action c) (ep_environment e)) cap"
  have local: "local_check E demo_identity (Some ?cx) = Inr () \<longrightarrow>
    client_execute (executor_client E) E demo_identity (target_identity t) (Some ?cx) =
      local_execute E demo_identity (target_identity t) (Some ?cx)"
    by (intro impI) (rule gin_decides [OF serves jws rows live t nc refl])
  from story_execute [OF st rows a g verified jti refl local demo_target_key [OF t], of key, folded same diffs]
  obtain r d' where run: "execute_agent_epoch E (w_db w) e key cap = (Inr (r, JArr (map difference_json diffs)), d')"
    and r: "rc_outcome r = (if same then u ''EXECUTED'' else u ''DENIED_STALE'')"
      "rc_reason r = (if same then msg_identity_match else msg_stale_prefix @ join_with (u '', '') (map df_field diffs))"
      "rc_epoch_id r = ep_id e"
    and d': "demo_stage d' us (e\<lparr>ep_state := rc_outcome r, ep_updated_at := stamp E\<rparr>) c t [a] [g] [r]"
      "\<forall>i ty. has_event (w_db w) i ty \<or> i = ep_id e \<and> ty = rc_outcome r \<longrightarrow> has_event d' i ty"
      "\<exists>ev \<in> set (events d'). pe_epoch_id ev = ep_id e \<and> pe_event_type ev = rc_outcome r \<and> pe_summary ev = take 255 (rc_reason r)"
    by (elim exE conjE) (rule that)
  have "is_difference_list (JArr (map difference_json diffs))"
    by (simp add: list_all_iff difference_json_def)
  then have out: "handle E (Some tok) (ExecuteAsAgent (ep_id e)
      (JObj [(u ''idempotency_key'', JStr key), (u ''capability_token'', JStr cap)])) w =
    (Inr (VDict [(u ''epoch_id'', VStr (ep_id e)), (u ''outcome'', VStr (rc_outcome r)),
       (u ''expected_fingerprint'', VStr (rc_expected_fingerprint r)),
       (u ''observed_fingerprint'', VStr (rc_observed_fingerprint r)), (u ''reason'', VStr (rc_reason r)),
       (u ''latency_ms'', VInt (rc_latency_ms r)), (u ''differences'', VJson (JArr (map difference_json diffs)))]), w\<lparr>w_db := d'\<rparr>)"
    by (simp add: execute_as_agent_def gate body stage_epoch [OF st] run receipt_out_def on_db_def)
  show ?thesis
    by (rule exI, rule exI, rule exI [of _ r], intro conjI, rule out) (use r d' in simp_all)
qed

lemma ask_passport:
  assumes st: "demo_stage (w_db w) us e c t [a] [g] [r]" and "cr_epoch_id c = ep_id e" and "ap_epoch_id a = ep_id e"
    and "cg_epoch_id g = ep_id e" and "rc_epoch_id r = ep_id e"
    and user: "current_user E (w_db w) (Some tok) = Inr x"
  shows "\<exists>v. handle E (Some tok) (ChangePassport (ep_id e)) w = (Inr v, w) \<and>
    js_prop v ''change'' = Some (change_view c) \<and> js_prop v ''executions'' = Some (VList [execution_view r]) \<and>
    js_prop v ''timeline'' = Some (VList (map timeline_view (epoch_timeline (w_db w) (ep_id e))))"
  using assms(1-5)
  by (auto simp: change_passport_def user stage_epoch [OF st] build_passport_def demo_stage_def Let_def)

lemma ask_receipts:
  assumes st: "demo_stage (w_db w) us e c t as gs [r]" and "rc_epoch_id r = ep_id e"
    and user: "current_user E (w_db w) (Some tok) = Inr x"
  shows "handle E (Some tok) (Receipts (ep_id e)) w = (Inr (VList [receipt_view r]), w)"
  using assms(1,2) by (simp add: api_receipts_def user stage_epoch [OF st] demo_stage_def)

lemma ask_upload:
  assumes bed: "bed_request S J w E" "100 \<le> max_upload_bytes S" and st: "demo_stage (w_db w) us e c t as gs rs"
    and gate: "require_role E (w_db w) (Some tok) [''operator'', ''admin''] = Inr x"
  shows "\<exists>v w' ev. handle E (Some tok) (UploadEvidence (ep_id e) (Some (u ''provenance'')) (Some test_file)) w = (Inr v, w') \<and>
    js_prop v ''filename'' = Some (VStr (u ''build-provenance.txt'')) \<and>
    demo_stage (w_db w') us e c t as gs rs \<and> ev \<in> set (evidences (w_db w')) \<and> ev_epoch_id ev = ep_id e \<and>
    ev_filename ev = u ''build-provenance.txt'' \<and> set (events (w_db w)) \<subseteq> set (events (w_db w'))"
proof -
  let ?row = "new_evidence E (w_db w) e (u ''provenance'') test_file (up_content test_file)"
  have e: "e \<in> set (epochs (w_db w))" using st by (simp add: demo_stage_def)
  have size: "\<not> int (length (up_content test_file)) > max_upload_bytes (cfg E)"
    using bed by (simp add: test_file_def bed_request_def)
  from evidence_stored [OF stage_ok [OF st] e refl, where E = E and k = "u ''provenance''" and fs = "w_files w" and f = test_file]
  have saved: "save_evidence E (w_db w) (w_files w) e (u ''provenance'') test_file =
      (Inr ?row, evidence_db E (w_db w) ?row, (w_files w)(ev_storage_path ?row := Some (up_content test_file)))"
    and rows: "evidences (evidence_db E (w_db w) ?row) = evidences (w_db w) @ [?row]" "db_ok (evidence_db E (w_db w) ?row)"
    using size bed by (simp_all add: bed_request_def)
  have name: "ev_filename ?row = u ''build-provenance.txt''"
    by (simp add: new_evidence_def safe_name_def test_file_def str_or_def)
      (simp add: path_name_def path_parts_def u_def Let_def)
  have run: "handle E (Some tok) (UploadEvidence (ep_id e) (Some (u ''provenance'')) (Some test_file)) w =
     (Inr (VDict
        [(u ''id'', VInt (int (ev_id ?row))), (u ''kind'', VStr (ev_kind ?row)), (u ''filename'', VStr (ev_filename ?row)),
         (u ''sha256'', VStr (ev_sha256 ?row)), (u ''size_bytes'', VInt (ev_size_bytes ?row))]),
      w\<lparr>w_db := evidence_db E (w_db w) ?row, w_files := (w_files w)(ev_storage_path ?row := Some (up_content test_file))\<rparr>)"
    by (simp add: upload_evidence_def gate stage_epoch [OF st] saved)
  have st': "demo_stage (evidence_db E (w_db w) ?row) us e c t as gs rs"
    using st rows(2) by (simp add: demo_stage_def)
  have mem: "?row \<in> set (evidences (evidence_db E (w_db w) ?row))" unfolding rows(1) by simp
  show ?thesis
    by (rule exI, rule exI, rule exI [of _ ?row], intro conjI, rule run)
      (use st' mem name in \<open>auto simp: evidence_db_def record_event_def\<close>, simp add: new_evidence_def)
qed

lemma ask_evidence:
  assumes st: "demo_stage (w_db w) us e c t as gs rs"
    and user: "current_user E (w_db w) (Some tok) = Inr x"
  shows "\<exists>vs. handle E (Some tok) (ListEvidence (ep_id e)) w = (Inr (VList vs), w) \<and>
    (\<forall>ev \<in> set (evidences (w_db w)). ev_epoch_id ev = ep_id e \<longrightarrow>
      (\<exists>v \<in> set vs. js_prop v ''filename'' = Some (VStr (ev_filename ev))))"
  by (simp add: list_evidence_def user stage_epoch [OF st]) force

lemma ask_integrations:
  assumes "current_user E (w_db w) (Some tok) = Inr x" and mode: "executor_mode (cfg E) = u ''grpc''"
  shows "\<exists>v impl. handle E (Some tok) IntegrationStatus w = (Inr v, w) \<and> executor_implementation E = Inr impl \<and>
    js_prop (js_member v ''executor'') ''mode'' = Some (VStr (u ''grpc'')) \<and>
    js_prop (js_member v ''executor'') ''implementation'' = Some (VStr impl) \<and>
    js_prop (js_member v ''grpc'') ''status'' = Some (VStr msg_grpc_active)"
proof -
  obtain impl tr where info: "executor_runtime_info E = Inr (impl, tr)"
    using mode by (cases "grpc_health E (executor_grpc_target (cfg E))") (auto simp: executor_runtime_info_def)
  then show ?thesis
    by (simp add: integration_status_def assms executor_implementation_def executor_transport_def Let_def js_member_def)
qed

end
