(* ===== verification/Browser_Pages.thy ===== *)
theory Browser_Pages
  imports Browser_Requests
begin

text \<open>
  The browser test passes, the pages: what a page shows and holds at each stage of the demonstration, and
  what every button and view of the start page makes of it.
\<close>

section \<open>Pages\<close>

lemma put_text_simps [simp]:
  "pg_admin (put_text el s p) = pg_admin p" "pg_operator (put_text el s p) = pg_operator p"
  "pg_approver (put_text el s p) = pg_approver p" "pg_epoch (put_text el s p) = pg_epoch p"
  "pg_capability (put_text el s p) = pg_capability p" "pg_view (put_text el s p) = pg_view p"
  "pg_text (put_text el s p) = (pg_text p)(el := s)" "pg_disabled (put_text el s p) = pg_disabled p"
  "pg_kind (put_text el s p) = pg_kind p" "pg_file (put_text el s p) = pg_file p"
  "pg_world (put_text el s p) = pg_world p" "pg_requests (put_text el s p) = pg_requests p"
  "pg_bad (put_text el s p) = pg_bad p" "pg_errors (put_text el s p) = pg_errors p"
  by (simp_all add: put_text_def)

lemma put_disabled_simps [simp]:
  "pg_admin (put_disabled b d p) = pg_admin p" "pg_operator (put_disabled b d p) = pg_operator p"
  "pg_approver (put_disabled b d p) = pg_approver p" "pg_epoch (put_disabled b d p) = pg_epoch p"
  "pg_capability (put_disabled b d p) = pg_capability p" "pg_view (put_disabled b d p) = pg_view p"
  "pg_text (put_disabled b d p) = pg_text p" "pg_disabled (put_disabled b d p) = (pg_disabled p)(b := d)"
  "pg_kind (put_disabled b d p) = pg_kind p" "pg_file (put_disabled b d p) = pg_file p"
  "pg_world (put_disabled b d p) = pg_world p" "pg_requests (put_disabled b d p) = pg_requests p"
  "pg_bad (put_disabled b d p) = pg_bad p" "pg_errors (put_disabled b d p) = pg_errors p"
  by (simp_all add: put_disabled_def)

lemma sync_simps [simp]:
  "pg_admin (sync_epoch_context br p) = pg_admin p" "pg_operator (sync_epoch_context br p) = pg_operator p"
  "pg_approver (sync_epoch_context br p) = pg_approver p" "pg_epoch (sync_epoch_context br p) = pg_epoch p"
  "pg_capability (sync_epoch_context br p) = pg_capability p" "pg_view (sync_epoch_context br p) = pg_view p"
  "pg_disabled (sync_epoch_context br p) = (pg_disabled p)(EvidenceUpload := pg_epoch p = None)"
  "pg_kind (sync_epoch_context br p) = pg_kind p" "pg_file (sync_epoch_context br p) = pg_file p"
  "pg_world (sync_epoch_context br p) = pg_world p" "pg_requests (sync_epoch_context br p) = pg_requests p"
  "pg_bad (sync_epoch_context br p) = pg_bad p" "pg_errors (sync_epoch_context br p) = pg_errors p"
  "el \<notin> {PassportEpoch, EvidenceEpoch, ReceiptsEpoch} \<Longrightarrow> pg_text (sync_epoch_context br p) el = pg_text p el"
  by (simp_all add: sync_epoch_context_def Let_def)

lemma set_epoch_state_simps [simp]:
  "pg_admin (set_epoch_state s p) = pg_admin p" "pg_operator (set_epoch_state s p) = pg_operator p"
  "pg_approver (set_epoch_state s p) = pg_approver p" "pg_epoch (set_epoch_state s p) = map_option (set_prop ''state'' s) (pg_epoch p)"
  "pg_capability (set_epoch_state s p) = pg_capability p" "pg_view (set_epoch_state s p) = pg_view p"
  "pg_text (set_epoch_state s p) = pg_text p" "pg_disabled (set_epoch_state s p) = pg_disabled p"
  "pg_kind (set_epoch_state s p) = pg_kind p" "pg_file (set_epoch_state s p) = pg_file p"
  "pg_world (set_epoch_state s p) = pg_world p" "pg_requests (set_epoch_state s p) = pg_requests p"
  "pg_bad (set_epoch_state s p) = pg_bad p" "pg_errors (set_epoch_state s p) = pg_errors p"
  by (simp_all add: set_epoch_state_def)

lemmas js_steps = js_try_def js_then_def js_do_def js_get_def js_return_def js_throw_def

text \<open>Nothing to complain about, the three roles signed in, an epoch selected, the stage behind it.\<close>

definition clean :: "page \<Rightarrow> bool" where
  "clean p \<longleftrightarrow> pg_bad p = [] \<and> pg_errors p = []"

definition signed_in :: "browser \<Rightarrow> user_row list \<Rightarrow> page \<Rightarrow> bool" where
  "signed_in br us p \<longleftrightarrow> (\<exists>ta to tp. pg_admin p = Some ta \<and> pg_operator p = Some to \<and> pg_approver p = Some tp \<and>
     token_for br us ''admin'' (pg_requests p) ta \<and> token_for br us ''operator'' (pg_requests p) to \<and>
     token_for br us ''approver'' (pg_requests p) tp)"

definition selected :: "page \<Rightarrow> epoch_row \<Rightarrow> bool" where
  "selected p e \<longleftrightarrow> (\<exists>v. pg_epoch p = Some v \<and> shows_epoch v e)"

definition page_at :: "browser \<Rightarrow> user_row list \<Rightarrow> page \<Rightarrow> epoch_row \<Rightarrow> change_row \<Rightarrow> target_row \<Rightarrow> approval_row list \<Rightarrow>
    grant_row list \<Rightarrow> receipt_row list \<Rightarrow> bool" where
  "page_at br us p e c t as gs rs \<longleftrightarrow> clean p \<and> \<not> pg_disabled p BootStep \<and> signed_in br us p \<and>
     selected p e \<and> demo_stage (w_db (pg_world p)) us e c t as gs rs"

lemma signed_later:
  "signed_in br us p \<Longrightarrow> pg_admin q = pg_admin p \<Longrightarrow> pg_operator q = pg_operator p \<Longrightarrow> pg_approver q = pg_approver p \<Longrightarrow>
    pg_requests p \<le> pg_requests q \<Longrightarrow> signed_in br us q"
  by (auto simp: signed_in_def intro: token_later)

lemma ensure_signed: "signed_in br us p \<Longrightarrow> ensure br p = (Inr (), p)"
  by (auto simp: signed_in_def token_for_def ensure_def)

lemma shows_state: "shows_epoch v e \<Longrightarrow> ep_id e' = ep_id e \<Longrightarrow> shows_epoch (set_prop ''state'' s v) e'"
  by (auto simp: shows_epoch_def update_conv')

lemma shows_text: "shows_epoch v e \<Longrightarrow> prop_text br v ''id'' = ep_id e"
  by (auto simp: shows_epoch_def prop_text_def)

lemma sub_left: "sublist x a \<Longrightarrow> sublist x (a @ b)"
  by (auto simp: sublist_def) metis

lemma sub_right: "sublist x b \<Longrightarrow> sublist x (a @ b)"
  by (auto simp: sublist_def) (metis append.assoc)

lemma sub_concat: "y \<in> set ys \<Longrightarrow> sublist x y \<Longrightarrow> sublist x (concat ys)"
  by (induction ys) (auto intro: sub_left sub_right)

section \<open>Signing in\<close>

lemma ensure_first:
  assumes bed: "test_bed br S J us" and acc: "demo_accounts us" and p: "pg_admin p = None"
    and w: "db_ok (w_db (pg_world p))" "users (w_db (pg_world p)) = us"
  shows "\<exists>q. ensure br p = (Inr (), q) \<and> signed_in br us q \<and> pg_world q = pg_world p \<and> pg_view q = pg_view p \<and>
    pg_bad q = pg_bad p \<and> pg_errors q = pg_errors p \<and> pg_disabled q = pg_disabled p"
proof -
  from acc obtain xa xo xp where x: "demo_account us ''admin'' xa" "demo_account us ''operator'' xo" "demo_account us ''approver'' xp"
    by (auto simp: demo_accounts_def)
  let ?n = "pg_requests p"
  from login_ok [OF bed x(1) w login_body(1)] obtain ta where
    a: "js_login br ''admin'' ''admin-demo'' p = (Inr (Some ta), p\<lparr>pg_requests := Suc ?n\<rparr>)" "token_for br us ''admin'' (Suc ?n) ta"
    by auto
  let ?p1 = "p\<lparr>pg_requests := Suc ?n, pg_admin := Some ta\<rparr>"
  from login_ok [OF bed x(2), of ?p1] w login_body(2) obtain to where
    o: "js_login br ''operator'' ''operator-demo'' ?p1 = (Inr (Some to), ?p1\<lparr>pg_requests := Suc (Suc ?n)\<rparr>)"
      "token_for br us ''operator'' (Suc (Suc ?n)) to"
    by auto
  let ?p2 = "?p1\<lparr>pg_requests := Suc (Suc ?n), pg_operator := Some to\<rparr>"
  from login_ok [OF bed x(3), of ?p2] w login_body(3) obtain tp where
    v: "js_login br ''approver'' ''approver-demo'' ?p2 = (Inr (Some tp), ?p2\<lparr>pg_requests := Suc (Suc (Suc ?n))\<rparr>)"
      "token_for br us ''approver'' (Suc (Suc (Suc ?n))) tp"
    by auto
  let ?q = "put_text IdentityLabel pt_logged_in (?p2\<lparr>pg_requests := Suc (Suc (Suc ?n)), pg_approver := Some tp\<rparr>)"
  have "ensure br p = (Inr (), ?q)"
    using a(1) o(1) v(1) by (simp add: ensure_def p js_then_def js_do_def)
  moreover have "signed_in br us ?q"
    using v(2) token_later [OF a(2), of "Suc (Suc (Suc ?n))"] token_later [OF o(2), of "Suc (Suc (Suc ?n))"]
    by (simp add: signed_in_def)
  ultimately show ?thesis by (intro exI [of _ ?q]) simp
qed

section \<open>Steps\<close>

lemma step_expect: "expect_text p el s \<Longrightarrow> run_steps br (ExpectText el s # ss) p = run_steps br ss p"
  by simp

lemma step_click:
  "shown (control_panel b) p \<Longrightarrow> enabled b p \<Longrightarrow> click br b p = q \<Longrightarrow> run_steps br (Click b # ss) p = run_steps br ss q"
  by simp

lemma step_shot: "run_steps br (Screenshot name # ss) p = run_steps br ss p"
  by simp

lemmas script_steps = step_expect step_click step_shot

text \<open>A view without requests.\<close>

lemma plain_view:
  assumes "v = ReleaseView \<or> v = PolicyView"
  shows "switch_view br v p = put_text PageTitle (fst (snd (view_copy v)) @ snd (snd (view_copy v)))
    (put_text PageEyebrow (fst (view_copy v)) (p\<lparr>pg_view := v\<rparr>))"
  using assms by (auto simp: switch_view_def js_steps)

lemma page_moves:
  assumes "page_at br us p e c t as gs rs" and "pg_bad q = pg_bad p" and "pg_errors q = pg_errors p"
    and "pg_disabled q BootStep = pg_disabled p BootStep" and "pg_admin q = pg_admin p" and "pg_operator q = pg_operator p" and "pg_approver q = pg_approver p"
    and "pg_requests p \<le> pg_requests q" and "pg_epoch q = pg_epoch p" and "pg_world q = pg_world p"
  shows "page_at br us q e c t as gs rs"
  using assms signed_later [of br us p q] by (simp add: page_at_def clean_def selected_def)

section \<open>The policy view\<close>

definition expected_verdict :: "nat \<Rightarrow> ustr" where
  "expected_verdict n = [bt_allow, bt_ask, bt_deny] ! n"

lemma policy_texts:
  assumes "n < 3" and "d = evaluate_policy (u ''ai_agent'') (u (snd (policy_scenario n))) (u (fst (policy_scenario n)))"
  shows "pd_decision d @ pt_dot @ pd_rule_id d @ tail = expected_verdict n @ tail"
proof -
  from assms(1) have "n = 0 \<or> n = Suc 0 \<or> n = Suc (Suc 0)" by linarith
  then have "pd_decision d @ pt_dot @ pd_rule_id d = expected_verdict n"
    by (elim disjE)
      (simp_all add: assms(2) evaluate_policy_def py_lower_def py_strip_def strip_by_def lower_char_def is_py_space_def
        is_rust_space_def u_def Let_def expected_verdict_def pt_dot_def bt_allow_def bt_ask_def bt_deny_def)
  then show ?thesis by (metis append.assoc)
qed

lemma policy_expected:
  assumes "pg_view p = PolicyView" and "n < 3" and "pg_text p (PolicyResult n) = s @ tail"
  shows "expect_text p PolicyScenarios s"
proof -
  have "element_text p PolicyScenarios = concat [pt_scenario_staging, pt_simulate, pt_expected_result, u ''ALLOW'',
      pg_text p (PolicyResult 0), pt_scenario_production, pt_simulate, pt_expected_result, u ''ASK'', pg_text p (PolicyResult 1),
      pt_scenario_delete, pt_simulate, pt_expected_result, u ''DENY'', pg_text p (PolicyResult 2)]" by simp
  moreover from assms(2) have "n = 0 \<or> n = 1 \<or> n = 2" by linarith
  ultimately have "sublist s (element_text p PolicyScenarios)"
    using sub_left [OF sublist_order.order_refl, of s tail]
    by (simp only:) (intro sub_concat [where y = "s @ tail"]; use assms(3) in auto)
  with assms(1) show ?thesis by (simp add: expect_text_def shown_def)
qed

lemma policy_click:
  assumes sign: "ensure br p = (Inr (), q)" and q: "signed_in br us q" "db_ok (w_db (pg_world q))" "users (w_db (pg_world q)) = us"
    and n: "n < 3" and view: "pg_view q = PolicyView"
  shows "\<exists>r. click br (PolicyRun n) p = r \<and> signed_in br us r \<and> pg_world r = pg_world q \<and> pg_view r = PolicyView \<and>
    pg_bad r = pg_bad q \<and> pg_errors r = pg_errors q \<and> pg_disabled r = pg_disabled q \<and> expect_text r PolicyScenarios (expected_verdict n)"
proof -
  obtain tok where tok: "pg_operator q = Some tok" "token_for br us ''operator'' (pg_requests q) tok"
    using q(1) by (auto simp: signed_in_def)
  obtain x where x: "current_user (br_env br (pg_requests q) (pg_world q)) (w_db (pg_world q)) (Some tok) = Inr x"
    using token_user [OF tok(2) order.refl q(2,3)] by blast
  obtain target act where sc: "policy_scenario n = (target, act)" by force
  note api = api_ok [of pg_operator q, OF tok(1) ask_policy [OF x n]]
  let ?q = "q\<lparr>pg_world := pg_world q, pg_requests := Suc (pg_requests q)\<rparr>"
  let ?d = "evaluate_policy (u ''ai_agent'') (u (snd (policy_scenario n))) (u (fst (policy_scenario n)))"
  have "\<exists>tail. click br (PolicyRun n) p =
      put_text (PolicyResult n) (pd_decision ?d @ pt_dot @ pd_rule_id ?d @ tail) ?q"
    using sign api by (simp add: run_policy_def sc js_steps Let_def prop_text_def split del: if_split) (rule exI, rule refl)
  then obtain tail where run: "click br (PolicyRun n) p = put_text (PolicyResult n) (expected_verdict n @ tail) ?q"
    unfolding policy_texts [OF n refl] by blast
  have "expect_text (put_text (PolicyResult n) (expected_verdict n @ tail) ?q) PolicyScenarios (expected_verdict n)"
    by (rule policy_expected [OF _ n]) (simp_all add: view)
  moreover have "signed_in br us (put_text (PolicyResult n) (expected_verdict n @ tail) ?q)"
    by (rule signed_later [OF q(1)]) simp_all
  ultimately show ?thesis unfolding run using view by (intro exI conjI; (rule refl | assumption)?) simp_all
qed

lemma policy_part:
  assumes bed: "test_bed br S J us" and acc: "demo_accounts us" and p: "pg_admin p = None" "clean p" "\<not> pg_disabled p BootStep"
    and w: "db_ok (w_db (pg_world p))" "users (w_db (pg_world p)) = us"
    and title: "pg_text p PageTitle = pt_release_title @ pt_release_subtitle"
  shows "\<exists>q. run_steps br policy_steps p = Some q \<and> signed_in br us q \<and> clean q \<and> \<not> pg_disabled q BootStep \<and>
    pg_view q = ReleaseView \<and> pg_world q = pg_world p"
proof -
  let ?p1 = "switch_view br PolicyView p"
  note p1 = plain_view [of PolicyView br p, simplified]
  from ensure_first [OF bed acc, of ?p1] p w obtain p2 where p2: "ensure br ?p1 = (Inr (), p2)" "signed_in br us p2"
    "pg_world p2 = pg_world p" "pg_view p2 = PolicyView" "pg_bad p2 = []" "pg_errors p2 = []" "\<not> pg_disabled p2 BootStep"
    by (auto simp: p1 clean_def)
  have db: "db_ok (w_db (pg_world r))" "users (w_db (pg_world r)) = us" if "pg_world r = pg_world p" for r
    using w that by simp_all
  from policy_click [OF p2(1,2) db [OF p2(3)], of 0] p2 obtain p3 where p3: "click br (PolicyRun 0) ?p1 = p3"
    "signed_in br us p3" "pg_world p3 = pg_world p" "pg_view p3 = PolicyView" "pg_bad p3 = []" "pg_errors p3 = []" "\<not> pg_disabled p3 BootStep"
    "expect_text p3 PolicyScenarios (expected_verdict 0)" by auto
  from policy_click [OF ensure_signed [OF p3(2)] p3(2) db [OF p3(3)], of 1] p3 obtain p4 where p4: "click br (PolicyRun 1) p3 = p4"
    "signed_in br us p4" "pg_world p4 = pg_world p" "pg_view p4 = PolicyView" "pg_bad p4 = []" "pg_errors p4 = []" "\<not> pg_disabled p4 BootStep"
    "expect_text p4 PolicyScenarios (expected_verdict 1)" by auto
  from policy_click [OF ensure_signed [OF p4(2)] p4(2) db [OF p4(3)], of 2] p4 obtain p5 where p5: "click br (PolicyRun 2) p4 = p5"
    "signed_in br us p5" "pg_world p5 = pg_world p" "pg_view p5 = PolicyView" "pg_bad p5 = []" "pg_errors p5 = []" "\<not> pg_disabled p5 BootStep"
    "expect_text p5 PolicyScenarios (expected_verdict 2)" by auto
  have e1: "expect_text p PageTitle bt_release_title"
    by (simp add: expect_text_def shown_def title sub_left bt_release_title_def pt_release_title_def)
  have e2: "expect_text ?p1 PageTitle bt_policy_title"
    by (simp add: expect_text_def shown_def p1 sub_left bt_policy_title_def pt_policy_title_def)
  note e345 = p3(8) p4(8) p5(8)
  note verdicts = e345 [unfolded expected_verdict_def, simplified]
  let ?q = "switch_view br ReleaseView p5"
  note q = plain_view [of ReleaseView br p5, simplified]
  have "pg_view ?p1 = PolicyView" by (simp add: p1)
  then have "run_steps br policy_steps p = Some ?q"
    using p3(1) p4(1) p5(1) by (simp add: policy_steps_def e1 e2 verdicts shown_def p3(4) p4(4))
  moreover have "signed_in br us ?q" by (rule signed_later [OF p5(2)]) (simp_all add: q)
  ultimately show ?thesis using p5 by (intro exI [of _ ?q]) (simp add: q clean_def)
qed

section \<open>The buttons of the release view\<close>

text \<open>The token of an account that is signed in, at the next request.\<close>

lemma signed_token:
  assumes "signed_in br us p" and "db_ok (w_db (pg_world p))" and "users (w_db (pg_world p)) = us"
  shows "\<exists>tok x. pg_admin p = Some tok \<and> (\<forall>roles. ''admin'' \<in> set roles \<longrightarrow>
      require_role (br_env br (pg_requests p) (pg_world p)) (w_db (pg_world p)) (Some tok) roles = Inr x)"
    and "\<exists>tok x. pg_operator p = Some tok \<and> (\<forall>roles. ''operator'' \<in> set roles \<longrightarrow>
      require_role (br_env br (pg_requests p) (pg_world p)) (w_db (pg_world p)) (Some tok) roles = Inr x) \<and>
      current_user (br_env br (pg_requests p) (pg_world p)) (w_db (pg_world p)) (Some tok) = Inr x"
    and "\<exists>tok x. pg_approver p = Some tok \<and> (\<forall>roles. ''approver'' \<in> set roles \<longrightarrow>
      require_role (br_env br (pg_requests p) (pg_world p)) (w_db (pg_world p)) (Some tok) roles = Inr x)"
  using assms(1) token_user [OF _ order.refl assms(2,3)] unfolding signed_in_def by blast+

definition issued_epoch :: "browser \<Rightarrow> epoch_row \<Rightarrow> bool" where
  "issued_epoch br e \<longleftrightarrow> (\<exists>k z. ep_id e = uuid4 (br_env br k z) 0)"

lemma boot_click:
  assumes bed: "test_bed br S J us" and sign: "signed_in br us p" "clean p" "\<not> pg_disabled p BootStep"
    and w: "db_ok (w_db (pg_world p))" "users (w_db (pg_world p)) = us"
  shows "\<exists>q e c t. click_boot br p = q \<and> page_at br us q e c t [] [] [] \<and> demo_rows_of (u ''DRAFT'') e c \<and>
    target_identity t = demo_identity \<and> issued_epoch br e \<and>
    has_event (w_db (pg_world q)) (ep_id e) (u ''CHANGE_REQUESTED'') \<and>
    pg_view q = pg_view p \<and> \<not> pg_disabled q ApproveStep \<and> sublist bt_created (pg_text q ResultBox)"
proof -
  let ?E = "br_env br (pg_requests p) (pg_world p)"
  obtain tok x where tok: "pg_admin p = Some tok" "require_role ?E (w_db (pg_world p)) (Some tok) [''admin''] = Inr x"
    using signed_token(1) [OF sign(1) w] by auto
  have "bed_request S J (pg_world p) ?E" "demo_mode S" using bed by (simp_all add: test_bed_def)
  from ask_reset [OF this w(1) tok(2)] obtain v w' e c t where run: "handle ?E (Some tok) DemoBootstrap (pg_world p) = (Inr v, w')"
    and v: "shows_epoch v e" and st: "demo_stage (w_db w') us e c t [] [] []" "demo_rows_of (u ''DRAFT'') e c"
      "target_identity t = demo_identity" "ep_id e = uuid4 ?E 0" "has_event (w_db w') (ep_id e) (u ''CHANGE_REQUESTED'')"
    unfolding w(2) by blast
  note api = api_ok [of pg_admin, OF tok(1) run]
  have bt: "sublist bt_created (a @ a' @ pt_created_infix @ b)" for a a' b
    by (rule sub_right, rule sub_right, rule sub_left) (simp add: bt_created_def pt_created_infix_def sublist_code)
  let ?q = "click_boot br p"
  have q: "pg_bad ?q = pg_bad p" "pg_errors ?q = pg_errors p" "pg_admin ?q = pg_admin p" "pg_operator ?q = pg_operator p"
    "pg_approver ?q = pg_approver p" "pg_requests ?q = Suc (pg_requests p)" "pg_world ?q = w'" "pg_epoch ?q = Some v"
    "pg_view ?q = pg_view p" "\<not> pg_disabled ?q ApproveStep" "\<not> pg_disabled ?q BootStep" "sublist bt_created (pg_text ?q ResultBox)"
    using ensure_signed [OF sign(1)] api bt sign(3) by (simp_all add: click_boot_def js_steps)
  have "signed_in br us ?q" by (rule signed_later [OF sign(1)]) (simp_all add: q)
  with q v sign(2) st have "page_at br us ?q e c t [] [] []" by (simp add: page_at_def clean_def selected_def)
  with q st show ?thesis by (intro exI [of _ ?q] exI [of _ e] exI [of _ c] exI [of _ t]) (auto simp: issued_epoch_def)
qed

lemma approve_click:
  assumes bed: "test_bed br S J us" and at: "page_at br us p e c t [] [] []" and rows: "demo_rows_of (u ''DRAFT'') e c"
  shows "\<exists>q e' a. click_approve br p = q \<and> page_at br us q e' c t [a] [] [] \<and> demo_rows_of (u ''APPROVED'') e' c \<and>
    ep_id e' = ep_id e \<and> ap_epoch_id a = ep_id e' \<and> ap_approved_fingerprint a = ep_fingerprint e' \<and>
    (\<forall>ty. has_event (w_db (pg_world p)) (ep_id e) ty \<or> ty = u ''APPROVED'' \<longrightarrow> has_event (w_db (pg_world q)) (ep_id e) ty) \<and>
    pg_view q = pg_view p \<and> \<not> pg_disabled q CapabilityStep \<and> pg_text q MetricState = u ''APPROVED''"
proof -
  let ?E = "br_env br (pg_requests p) (pg_world p)"
  from at have sign: "signed_in br us p" and st: "demo_stage (w_db (pg_world p)) us e c t [] [] []"
    and w: "db_ok (w_db (pg_world p))" "users (w_db (pg_world p)) = us"
    by (simp_all add: page_at_def demo_stage_def)
  obtain v where v: "pg_epoch p = Some v" "shows_epoch v e" using at by (auto simp: page_at_def selected_def)
  obtain tok x where tok: "pg_approver p = Some tok" "require_role ?E (w_db (pg_world p)) (Some tok) [''approver'', ''admin''] = Inr x"
    using signed_token(3) [OF sign w] by auto
  from ask_approval [OF st rows tok(2)] obtain ans w' a where run: "handle ?E (Some tok) (Approve (ep_id e)) (pg_world p) = (Inr ans, w')"
    and a: "demo_stage (w_db w') us (approved_epoch ?E e) c t [a] [] []" "ap_epoch_id a = ep_id e"
      "ap_approved_fingerprint a = ep_fingerprint e"
      "\<forall>i ty. has_event (w_db (pg_world p)) i ty \<or> i = ep_id e \<and> ty = u ''APPROVED'' \<longrightarrow> has_event (w_db w') i ty"
    by blast
  note api = api_ok [of pg_approver, OF tok(1) run]
  let ?q = "click_approve br p"
  have q: "pg_bad ?q = pg_bad p" "pg_errors ?q = pg_errors p" "pg_admin ?q = pg_admin p" "pg_operator ?q = pg_operator p"
    "pg_approver ?q = pg_approver p" "pg_requests ?q = Suc (pg_requests p)" "pg_world ?q = w'"
    "pg_epoch ?q = Some (set_prop ''state'' (u ''APPROVED'') v)"
    "pg_view ?q = pg_view p" "\<not> pg_disabled ?q CapabilityStep" "pg_disabled ?q BootStep = pg_disabled p BootStep" "pg_text ?q MetricState = u ''APPROVED''"
    using api shows_text [OF v(2)] by (simp_all add: click_approve_def js_steps selected_epoch_def v(1))
  have "signed_in br us ?q" by (rule signed_later [OF sign]) (simp_all add: q)
  moreover have "shows_epoch (set_prop ''state'' (u ''APPROVED'') v) (approved_epoch ?E e)" by (rule shows_state [OF v(2)]) simp
  ultimately have "page_at br us ?q (approved_epoch ?E e) c t [a] [] []"
    using at a(1) q by (simp add: page_at_def clean_def selected_def)
  moreover have "ep_fingerprint (approved_epoch ?E e) = ep_fingerprint e" by (simp add: approved_epoch_def)
  ultimately show ?thesis
    using q a rows_when_approved [OF rows, of ?E]
    by (intro exI [of _ ?q] exI [of _ "approved_epoch ?E e"] exI [of _ a]) simp
qed

text \<open>The capability the page holds lets the agent execute, at every later request.\<close>

definition holds_capability :: "browser \<Rightarrow> page \<Rightarrow> epoch_row \<Rightarrow> grant_row \<Rightarrow> bool" where
  "holds_capability br p e g \<longleftrightarrow> (\<exists>v tok claims. pg_capability p = Some v \<and>
     js_prop v ''capability_token'' = Some (VStr tok) \<and> token_fits tok \<and>
     map_of claims (u ''jti'') = Some (JStr (cg_id g)) \<and> grant_scope g = demo_scope (ep_id e) \<and> cg_revoked_at g = None \<and>
     (\<forall>m w i. pg_requests p \<le> m \<longrightarrow> clock (br_env br m w) i < cg_expires_at g \<and>
        gin_token (br_env br m w) (ep_id e) tok \<and>
        verify_capability (br_env br m w) (clock (br_env br m w) i) tok (demo_scope (ep_id e)) = Inr claims))"

lemma holds_later:
  assumes "holds_capability br p e g" and "pg_capability q = pg_capability p" and "pg_requests p \<le> pg_requests q"
    and "ep_id e' = ep_id e"
  shows "holds_capability br q e' g"
proof -
  from assms(1) obtain v tok claims where held: "pg_capability p = Some v" "js_prop v ''capability_token'' = Some (VStr tok)"
    "token_fits tok" "map_of claims (u ''jti'') = Some (JStr (cg_id g))" "grant_scope g = demo_scope (ep_id e)"
    "cg_revoked_at g = None"
    and later: "pg_requests p \<le> m \<Longrightarrow> clock (br_env br m w) i < cg_expires_at g \<and>
      gin_token (br_env br m w) (ep_id e) tok \<and>
      verify_capability (br_env br m w) (clock (br_env br m w) i) tok (demo_scope (ep_id e)) = Inr claims" for m w i
    unfolding holds_capability_def by (elim exE conjE) (rule that, blast+)
  have "\<forall>m w i. pg_requests q \<le> m \<longrightarrow> clock (br_env br m w) i < cg_expires_at g \<and>
      gin_token (br_env br m w) (ep_id e') tok \<and>
      verify_capability (br_env br m w) (clock (br_env br m w) i) tok (demo_scope (ep_id e')) = Inr claims"
    using later order.trans [OF assms(3)] unfolding assms(4) by blast
  with held show ?thesis unfolding holds_capability_def assms(2,4) by blast
qed

lemma demo_capability_verifies:
  assumes bed: "test_bed br S J us" and m: "m < n" and id: "ep_id e = uuid4 (br_env br k z) 0"
    and tok: "tok = jwt_encode J (demo_claims (br_env br k z) (br_env br m v)) (capability_secret S)"
  shows "verify_capability (br_env br n w) (clock (br_env br n w) i) tok (demo_scope (ep_id e)) =
    Inr (jwt_claims (demo_claims (br_env br k z) (br_env br m v)))" and "token_fits tok"
    and "clock (br_env br n w) i < clock (br_env br m v) 1 + 300 * 1000000"
    and "gin_token (br_env br n w) (ep_id e) tok"
proof -
  let ?E = "br_env br m v" and ?E' = "br_env br n w"
  from bed m have clock: "clock ?E 1 \<le> clock ?E' i" "clock ?E' i < clock ?E 1 + 240 * 1000000"
    unfolding test_bed_def bed_clock_def by blast+
  then show "clock ?E' i < clock ?E 1 + 300 * 1000000" by simp
  from bed m have law: "jwt_returns_claims J (demo_claims (br_env br k z) ?E) (capability_secret S) (clock ?E' i)"
    and fits: "token_fits (jwt_encode J (demo_claims (br_env br k z) ?E) (capability_secret S))"
    and jws: "is_jws (jwt_encode J (demo_claims (br_env br k z) ?E) (capability_secret S)) (capability_secret S)
      (jwt_claims (demo_claims (br_env br k z) ?E))"
    unfolding test_bed_def bed_tokens_def by blast+
  from bed m have "clock ?E' 4 < clock ?E 1 + 240 * 1000000" "0 \<le> clock ?E 1" "clock ?E 1 < 2 ^ 62"
    unfolding test_bed_def bed_clock_def by blast+
  then show "gin_token ?E' (ep_id e) tok"
    using jws bed_env(3) [OF bed, of m v] unfolding gin_token_def tok demo_claims_def id bed_env(1) [OF bed]
    by (intro exI conjI) (assumption | simp)+
  from fits show "token_fits tok" by (simp add: tok)
  have soon: "clock ?E' i < (clock ?E 1 + 300 * 1000000) div 1000000 * 1000000"
    by (rule whole_second [OF _ clock(2)]) simp
  from law show "verify_capability ?E' (clock ?E' i) tok (demo_scope (ep_id e)) =
      Inr (jwt_claims (demo_claims (br_env br k z) ?E))"
    using issued_verifies [OF bed_env(3) [OF bed] clock(1) soon, of ?E'] 
    by (simp add: tok demo_claims_def id bed_env [OF bed])
qed

lemma capability_click:
  assumes bed: "test_bed br S J us" and at: "page_at br us p e c t [a] [] []" and rows: "demo_rows_of (u ''APPROVED'') e c"
    and a: "ap_epoch_id a = ep_id e" "ap_approved_fingerprint a = ep_fingerprint e" and issued: "issued_epoch br e"
  shows "\<exists>q g. click_capability br p = q \<and> page_at br us q e c t [a] [g] [] \<and> holds_capability br q e g \<and>
    (\<forall>ty. has_event (w_db (pg_world p)) (ep_id e) ty \<or> ty = u ''CAPABILITY_ISSUED'' \<longrightarrow>
      has_event (w_db (pg_world q)) (ep_id e) ty) \<and>
    pg_view q = pg_view p \<and> \<not> pg_disabled q DriftStep \<and> \<not> pg_disabled q ExecuteStep \<and>
    sublist bt_issued (pg_text q ResultBox)"
proof -
  let ?n = "pg_requests p"
  let ?E = "br_env br ?n (pg_world p)"
  from at have sign: "signed_in br us p" and st: "demo_stage (w_db (pg_world p)) us e c t [a] [] []"
    and w: "db_ok (w_db (pg_world p))" "users (w_db (pg_world p)) = us"
    by (simp_all add: page_at_def demo_stage_def)
  obtain v where v: "pg_epoch p = Some v" "shows_epoch v e" using at by (auto simp: page_at_def selected_def)
  obtain k z where id: "ep_id e = uuid4 (br_env br k z) 0" using issued by (auto simp: issued_epoch_def)
  obtain tok x where tok: "pg_approver p = Some tok"
    "require_role ?E (w_db (pg_world p)) (Some tok) [''operator'', ''approver'', ''admin''] = Inr x"
    using signed_token(3) [OF sign w] by auto
  let ?cap = "jwt_encode J (demo_claims (br_env br k z) ?E) (capability_secret S)"
  have "bed_request S J (pg_world p) ?E" using bed by (simp add: test_bed_def)
  from ask_capability [OF this st rows a id tok(2)] obtain gv w' g where
    run: "handle ?E (Some tok) (IssueCapability (ep_id e) (JObj [(u ''ttl_seconds'', JInt 300)])) (pg_world p) = (Inr (VDict
       [(u ''capability_token'', VStr ?cap), (u ''grant'', gv)]), w')"
    and gv: "js_prop gv ''actor_type'' = Some (VStr (u ''ai_agent''))" "js_prop gv ''actor_id'' = Some (VStr (u ''release-agent-01''))"
    and g: "demo_stage (w_db w') us e c t [a] [g] []" "grant_scope g = demo_scope (ep_id e)" "cg_id g = uuid4 ?E 0"
      "cg_revoked_at g = None" "cg_expires_at g = clock ?E 1 + 300 * 1000000"
      "\<forall>i ty. has_event (w_db (pg_world p)) i ty \<or> i = ep_id e \<and> ty = u ''CAPABILITY_ISSUED'' \<longrightarrow> has_event (w_db w') i ty"
    by blast
  let ?v = "VDict [(u ''capability_token'', VStr ?cap), (u ''grant'', gv)]"
  note api = api_ok [of pg_approver, OF tok(1) run]
  let ?q = "click_capability br p"
  have bt: "sublist bt_issued (pt_issued_prefix @ u ''ai_agent'' @ u '':'' @ u ''release-agent-01'' @ b)" for b
  proof -
    have eq: "pt_issued_prefix @ u ''ai_agent'' @ u '':'' @ u ''release-agent-01'' @ b = bt_issued @ b"
      by (simp add: bt_issued_def pt_issued_prefix_def u_def)
    show ?thesis unfolding eq by simp
  qed
  have q: "pg_bad ?q = pg_bad p" "pg_errors ?q = pg_errors p" "pg_admin ?q = pg_admin p" "pg_operator ?q = pg_operator p"
    "pg_approver ?q = pg_approver p" "pg_requests ?q = Suc ?n" "pg_world ?q = w'" "pg_epoch ?q = Some v"
    "pg_capability ?q = Some ?v" "pg_view ?q = pg_view p" "\<not> pg_disabled ?q DriftStep" "\<not> pg_disabled ?q ExecuteStep"
    "pg_disabled ?q BootStep = pg_disabled p BootStep" "sublist bt_issued (pg_text ?q ResultBox)"
    using api shows_text [OF v(2)] gv bt
    by (simp_all add: click_capability_def js_steps selected_epoch_def v(1) js_member_def prop_text_def Let_def)
  have "signed_in br us ?q" by (rule signed_later [OF sign]) (simp_all add: q)
  then have "page_at br us ?q e c t [a] [g] []"
    using at g(1) q v(2) by (simp add: page_at_def clean_def selected_def)
  moreover have "holds_capability br ?q e g"
    unfolding holds_capability_def q
  proof (intro exI conjI allI impI)
    show "Some ?v = Some ?v" by (rule refl)
    show "js_prop ?v ''capability_token'' = Some (VStr ?cap)" by simp
    show "map_of (jwt_claims (demo_claims (br_env br k z) ?E)) (u ''jti'') = Some (JStr (cg_id g))"
      by (simp add: demo_claims_def g(3))
    show "token_fits ?cap" by (rule demo_capability_verifies(2) [OF bed lessI id refl])
    fix m w i
    assume "Suc ?n \<le> m"
    then have m: "?n < m" by simp
    show "clock (br_env br m w) i < cg_expires_at g"
      unfolding g(5) by (rule demo_capability_verifies(3) [OF bed m id refl])
    show "gin_token (br_env br m w) (ep_id e) ?cap"
      by (rule demo_capability_verifies(4) [OF bed m id refl])
    show "verify_capability (br_env br m w) (clock (br_env br m w) i) ?cap (demo_scope (ep_id e)) =
        Inr (jwt_claims (demo_claims (br_env br k z) ?E))"
      by (rule demo_capability_verifies(1) [OF bed m id refl])
  qed (use g in simp_all)
  ultimately show ?thesis
    using q g by (intro exI [of _ ?q] exI [of _ g]) simp
qed

text \<open>The page when the agent may execute.\<close>

definition granted_page :: "browser \<Rightarrow> user_row list \<Rightarrow> page \<Rightarrow> epoch_row \<Rightarrow> change_row \<Rightarrow> target_row \<Rightarrow> approval_row \<Rightarrow>
    grant_row \<Rightarrow> bool" where
  "granted_page br us p e c t a g \<longleftrightarrow> page_at br us p e c t [a] [g] [] \<and> demo_rows_of (u ''APPROVED'') e c \<and>
     ap_epoch_id a = ep_id e \<and> ap_approved_fingerprint a = ep_fingerprint e \<and> holds_capability br p e g \<and>
     (\<forall>ty \<in> {u ''CHANGE_REQUESTED'', u ''APPROVED'', u ''CAPABILITY_ISSUED''}. has_event (w_db (pg_world p)) (ep_id e) ty) \<and>
     pg_view p = ReleaseView \<and> \<not> pg_disabled p DriftStep \<and> \<not> pg_disabled p ExecuteStep"

lemma grant_part:
  assumes bed: "test_bed br S J us" and sign: "signed_in br us p" "clean p" and boot: "\<not> pg_disabled p BootStep"
    and w: "db_ok (w_db (pg_world p))" "users (w_db (pg_world p)) = us" and view: "pg_view p = ReleaseView"
  shows "\<exists>q e c t a g. run_steps br grant_steps p = Some q \<and> granted_page br us q e c t a g \<and> target_identity t = demo_identity"
proof -
  from boot_click [OF bed sign boot w] obtain p1 e c t where p1: "click_boot br p = p1" "page_at br us p1 e c t [] [] []"
    "demo_rows_of (u ''DRAFT'') e c" "target_identity t = demo_identity" "issued_epoch br e"
    "has_event (w_db (pg_world p1)) (ep_id e) (u ''CHANGE_REQUESTED'')" "pg_view p1 = pg_view p" "\<not> pg_disabled p1 ApproveStep"
    "sublist bt_created (pg_text p1 ResultBox)"
    by (elim exE conjE) (rule that)
  from approve_click [OF bed p1(2,3)] obtain p2 e' a where p2: "click_approve br p1 = p2" "page_at br us p2 e' c t [a] [] []"
    "demo_rows_of (u ''APPROVED'') e' c" "ep_id e' = ep_id e" "ap_epoch_id a = ep_id e'"
    "ap_approved_fingerprint a = ep_fingerprint e'"
    "\<forall>ty. has_event (w_db (pg_world p1)) (ep_id e) ty \<or> ty = u ''APPROVED'' \<longrightarrow> has_event (w_db (pg_world p2)) (ep_id e) ty"
    "pg_view p2 = pg_view p1" "\<not> pg_disabled p2 CapabilityStep" "pg_text p2 MetricState = u ''APPROVED''"
    by (elim exE conjE) (rule that)
  have "issued_epoch br e'" using p1(5) p2(4) by (simp add: issued_epoch_def)
  from capability_click [OF bed p2(2,3,5,6) this] obtain p3 g where p3: "click_capability br p2 = p3"
    "page_at br us p3 e' c t [a] [g] []" "holds_capability br p3 e' g"
    "\<forall>ty. has_event (w_db (pg_world p2)) (ep_id e') ty \<or> ty = u ''CAPABILITY_ISSUED'' \<longrightarrow> has_event (w_db (pg_world p3)) (ep_id e') ty"
    "pg_view p3 = pg_view p2" "\<not> pg_disabled p3 DriftStep" "\<not> pg_disabled p3 ExecuteStep" "sublist bt_issued (pg_text p3 ResultBox)"
    by (elim exE conjE) (rule that)
  have "run_steps br grant_steps p = Some p3"
    using p1(1,7-9) p2(1,8-10) p3(1,5,8) view boot by (simp add: grant_steps_def shown_def expect_text_def)
  moreover have "granted_page br us p3 e' c t a g"
    using p1 p2 p3 view by (simp add: granted_page_def)
  ultimately show ?thesis using p1(4) by blast
qed

lemma drift_click:
  assumes bed: "test_bed br S J us" and at: "granted_page br us p e c t a g" and t: "target_identity t = demo_identity"
  shows "\<exists>q t'. click_drift br p = q \<and> granted_page br us q e c t' a g \<and> target_identity t' = drifted_demo drift_value \<and>
    pg_text q MetricMatch = u ''DRIFTED''"
proof -
  let ?E = "br_env br (pg_requests p) (pg_world p)"
  from at have sign: "signed_in br us p" and st: "demo_stage (w_db (pg_world p)) us e c t [a] [g] []"
    and rows: "demo_rows_of (u ''APPROVED'') e c" and w: "db_ok (w_db (pg_world p))" "users (w_db (pg_world p)) = us"
    by (simp_all add: granted_page_def page_at_def demo_stage_def)
  obtain v where v: "pg_epoch p = Some v" "shows_epoch v e" using at by (auto simp: granted_page_def page_at_def selected_def)
  obtain tok x where tok: "pg_admin p = Some tok" "require_role ?E (w_db (pg_world p)) (Some tok) [''admin''] = Inr x"
    using signed_token(1) [OF sign w] by auto
  have "bed_request S J (pg_world p) ?E" "demo_mode S" using bed by (simp_all add: test_bed_def)
  from ask_drift [OF this st rows t tok(2)] obtain ans w' t' where
    run: "handle ?E (Some tok) (DemoDrift (ep_id e)
      (JObj [(u ''field'', JStr (u ''artifact_digest'')), (u ''value'', JStr drift_value)])) (pg_world p) = (Inr ans, w')"
    and t': "demo_stage (w_db w') us e c t' [a] [g] []" "target_identity t' = drifted_demo drift_value"
      "\<forall>i ty. has_event (w_db w') i ty = has_event (w_db (pg_world p)) i ty"
    by blast
  note api = api_ok [of pg_admin, OF tok(1) run]
  let ?q = "click_drift br p"
  have q: "pg_bad ?q = pg_bad p" "pg_errors ?q = pg_errors p" "pg_admin ?q = pg_admin p" "pg_operator ?q = pg_operator p"
    "pg_approver ?q = pg_approver p" "pg_requests ?q = Suc (pg_requests p)" "pg_world ?q = w'" "pg_epoch ?q = Some v"
    "pg_capability ?q = pg_capability p" "pg_view ?q = pg_view p" "pg_disabled ?q = pg_disabled p"
    "pg_text ?q MetricMatch = u ''DRIFTED''"
    using api shows_text [OF v(2)] by (simp_all add: click_drift_def js_steps selected_epoch_def v(1))
  have "signed_in br us ?q" by (rule signed_later [OF sign]) (simp_all add: q)
  then have "page_at br us ?q e c t' [a] [g] []"
    using at t'(1) q v(2) by (simp add: granted_page_def page_at_def clean_def selected_def)
  moreover have "holds_capability br ?q e g"
    by (rule holds_later [of br p e g]) (use at q in \<open>simp_all add: granted_page_def\<close>)
  ultimately have "granted_page br us ?q e c t' a g"
    using at q t'(3) by (simp add: granted_page_def)
  with q t' show ?thesis by blast
qed

text \<open>The page after an execution: the receipt and its event.\<close>

definition executed_page :: "browser \<Rightarrow> user_row list \<Rightarrow> page \<Rightarrow> epoch_row \<Rightarrow> change_row \<Rightarrow> target_row \<Rightarrow> approval_row \<Rightarrow>
    grant_row \<Rightarrow> receipt_row \<Rightarrow> bool" where
  "executed_page br us p e c t a g r \<longleftrightarrow> page_at br us p e c t [a] [g] [r] \<and> demo_rows_of (rc_outcome r) e c \<and>
     ap_epoch_id a = ep_id e \<and> cg_epoch_id g = ep_id e \<and> rc_epoch_id r = ep_id e \<and>
     (\<forall>ty \<in> {u ''CHANGE_REQUESTED'', u ''APPROVED'', u ''CAPABILITY_ISSUED''}. has_event (w_db (pg_world p)) (ep_id e) ty) \<and>
     (\<exists>ev \<in> set (events (w_db (pg_world p))). pe_epoch_id ev = ep_id e \<and> pe_event_type ev = rc_outcome r \<and>
        pe_summary ev = take 255 (rc_reason r))"

lemma execute_click:
  assumes bed: "test_bed br S J us" and at: "granted_page br us p e c t a g"
    and t: "demo_observed (target_identity t)" and nc: "no_collision demo_identity (target_identity t)"
    and same: "same = (fingerprint demo_identity = fingerprint (target_identity t))"
    and diffs: "diffs = diff_identity demo_identity (target_identity t)"
  shows "\<exists>q e' r. click_execute br p = q \<and> executed_page br us q e' c t a g r \<and>
    rc_outcome r = (if same then u ''EXECUTED'' else u ''DENIED_STALE'') \<and>
    rc_reason r = (if same then msg_identity_match else msg_stale_prefix @ join_with (u '', '') (map df_field diffs)) \<and>
    pg_view q = ReleaseView \<and> pg_disabled q = (pg_disabled p)(EvidenceUpload := False) \<and>
    pg_text q ResultBox = rc_outcome r @ u '': '' @ rc_reason r \<and>
    pg_text q MetricMatch = (if same then u ''MATCH'' else u ''BLOCKED'') \<and>
    pg_text q DiffsBox = render_diffs br (Some (VJson (JArr (map difference_json diffs))))"
proof -
  let ?n = "pg_requests p"
  let ?E = "br_env br ?n (pg_world p)"
  from at have sign: "signed_in br us p" and st: "demo_stage (w_db (pg_world p)) us e c t [a] [g] []"
    and rows: "demo_rows_of (u ''APPROVED'') e c" and w: "db_ok (w_db (pg_world p))" "users (w_db (pg_world p)) = us"
    and a: "ap_epoch_id a = ep_id e" "ap_approved_fingerprint a = ep_fingerprint e" and held: "holds_capability br p e g"
    by (simp_all add: granted_page_def page_at_def demo_stage_def)
  obtain v where v: "pg_epoch p = Some v" "shows_epoch v e" using at by (auto simp: granted_page_def page_at_def selected_def)
  obtain iv cap claims where cap: "pg_capability p = Some iv" "js_prop iv ''capability_token'' = Some (VStr cap)" "token_fits cap"
    and jti: "map_of claims (u ''jti'') = Some (JStr (cg_id g))" and g: "grant_scope g = demo_scope (ep_id e)" "cg_revoked_at g = None"
    and live: "clock ?E 2 < cg_expires_at g" "\<And>i. verify_capability ?E (clock ?E i) cap (demo_scope (ep_id e)) = Inr claims"
      "gin_token ?E (ep_id e) cap"
    using held unfolding holds_capability_def by blast
  obtain tok x where tok: "pg_operator p = Some tok" "require_role ?E (w_db (pg_world p)) (Some tok) [''operator'', ''admin''] = Inr x"
    using signed_token(2) [OF sign w] by auto
  have req: "bed_request S J (pg_world p) ?E" using bed by (simp add: test_bed_def)
  have keys: "bed_keys br" using bed by (simp add: test_bed_def)
  have body: "agent_execute_request (JObj [(u ''idempotency_key'', JStr (ui_key br p)), (u ''capability_token'', JStr cap)]) =
      Inr (ui_key br p, cap)"
    using key_fits [OF keys, of p] cap(3) by (intro agent_body) (simp_all add: token_fits_def)
  from ask_execution [OF req st rows a g live(1,2) jti t nc live(3) body tok(2) same diffs] obtain rv w' r where
    run: "handle ?E (Some tok) (ExecuteAsAgent (ep_id e)
      (JObj [(u ''idempotency_key'', JStr (ui_key br p)), (u ''capability_token'', JStr cap)])) (pg_world p) = (Inr rv, w')"
    and rv: "js_prop rv ''outcome'' = Some (VStr (rc_outcome r))" "js_prop rv ''reason'' = Some (VStr (rc_reason r))"
      "js_prop rv ''differences'' = Some (VJson (JArr (map difference_json diffs)))"
    and r: "rc_outcome r = (if same then u ''EXECUTED'' else u ''DENIED_STALE'')"
      "rc_reason r = (if same then msg_identity_match else msg_stale_prefix @ join_with (u '', '') (map df_field diffs))"
      "rc_epoch_id r = ep_id e"
    and st': "demo_stage (w_db w') us (e\<lparr>ep_state := rc_outcome r, ep_updated_at := stamp ?E\<rparr>) c t [a] [g] [r]"
    and ev: "\<forall>i ty. has_event (w_db (pg_world p)) i ty \<or> i = ep_id e \<and> ty = rc_outcome r \<longrightarrow> has_event (w_db w') i ty"
      "\<exists>ev \<in> set (events (w_db w')). pe_epoch_id ev = ep_id e \<and> pe_event_type ev = rc_outcome r \<and> pe_summary ev = take 255 (rc_reason r)"
    by (elim exE conjE) (rule that)
  let ?e = "e\<lparr>ep_state := rc_outcome r, ep_updated_at := stamp ?E\<rparr>"
  note api = api_ok [of pg_operator, OF tok(1) run]
  let ?q = "click_execute br p"
  have capt: "prop_text br iv ''capability_token'' = cap" using cap(2) by (simp add: prop_text_def)
  have q: "pg_bad ?q = pg_bad p" "pg_errors ?q = pg_errors p" "pg_admin ?q = pg_admin p" "pg_operator ?q = pg_operator p"
    "pg_approver ?q = pg_approver p" "pg_requests ?q = Suc ?n" "pg_world ?q = w'"
    "pg_epoch ?q = Some (set_prop ''state'' (rc_outcome r) v)" "pg_view ?q = pg_view p"
    "pg_disabled ?q = (pg_disabled p)(EvidenceUpload := False)" "pg_text ?q ResultBox = rc_outcome r @ u '': '' @ rc_reason r"
    "pg_text ?q MetricMatch = (if same then u ''MATCH'' else u ''BLOCKED'')"
    "pg_text ?q DiffsBox = render_diffs br (Some (VJson (JArr (map difference_json diffs))))"
    using api shows_text [OF v(2)] rv(1,2) r(1)
    by (simp_all add: click_execute_def js_steps selected_epoch_def v(1) cap(1) capt prop_text_def [of br rv] rv(3) Let_def)
  have "signed_in br us ?q" by (rule signed_later [OF sign]) (simp_all add: q)
  moreover have "shows_epoch (set_prop ''state'' (rc_outcome r) v) ?e" by (rule shows_state [OF v(2)]) simp
  ultimately have "page_at br us ?q ?e c t [a] [g] [r]"
    using at st' q by (simp add: granted_page_def page_at_def clean_def selected_def)
  moreover have "demo_rows_of (rc_outcome r) ?e c" using rows by (simp add: demo_rows_of_def epoch_identity_def)
  moreover have "cg_epoch_id g = ep_id e" using g(1) by (simp add: grant_scope_def demo_scope_def)
  ultimately have "executed_page br us ?q ?e c t a g r"
    using at r(3) ev q by (simp add: executed_page_def granted_page_def)
  then show ?thesis
    using q r at by (intro exI [of _ ?q] exI [of _ ?e] exI [of _ r]) (simp add: granted_page_def)
qed

lemma executed_moves:
  assumes "executed_page br us p e c t a g r" and "pg_bad q = pg_bad p" and "pg_errors q = pg_errors p"
    and "pg_disabled q BootStep = pg_disabled p BootStep" and "pg_admin q = pg_admin p" and "pg_operator q = pg_operator p"
    and "pg_approver q = pg_approver p" and "pg_requests p \<le> pg_requests q" and "pg_epoch q = pg_epoch p"
    and "pg_world q = pg_world p"
  shows "executed_page br us q e c t a g r"
  using assms page_moves [of br us p e c t "[a]" "[g]" "[r]" q] unfolding executed_page_def by simp

lemma ensure_selected:
  assumes "signed_in br us p" and "pg_epoch p = Some v"
  shows "ensure_epoch br p = (Inr (Some v), sync_epoch_context br p)"
  using ensure_signed [OF assms(1)] assms(2) by (simp add: ensure_epoch_def js_steps)

lemma signed_moved: "signed_in br us p \<Longrightarrow> pg_admin q = pg_admin p \<Longrightarrow> pg_operator q = pg_operator p \<Longrightarrow>
    pg_approver q = pg_approver p \<Longrightarrow> pg_requests q = pg_requests p \<Longrightarrow> signed_in br us q"
  by (simp add: signed_in_def)

text \<open>The facts of a page after an execution that its views use.\<close>

lemma executed_facts:
  assumes "executed_page br us p e c t a g r"
  shows "signed_in br us p" and "\<exists>v. pg_epoch p = Some v \<and> prop_text br v ''id'' = ep_id e"
    and "demo_stage (w_db (pg_world p)) us e c t [a] [g] [r]"
    and "\<exists>tok x. pg_operator p = Some tok \<and> (\<forall>roles. ''operator'' \<in> set roles \<longrightarrow>
      require_role (br_env br (pg_requests p) (pg_world p)) (w_db (pg_world p)) (Some tok) roles = Inr x) \<and>
      current_user (br_env br (pg_requests p) (pg_world p)) (w_db (pg_world p)) (Some tok) = Inr x"
proof -
  from assms have at: "page_at br us p e c t [a] [g] [r]" by (simp add: executed_page_def)
  then show sign: "signed_in br us p" and st: "demo_stage (w_db (pg_world p)) us e c t [a] [g] [r]"
    by (simp_all add: page_at_def)
  show "\<exists>v. pg_epoch p = Some v \<and> prop_text br v ''id'' = ep_id e"
    using at shows_text by (auto simp: page_at_def selected_def)
  show "\<exists>tok x. pg_operator p = Some tok \<and> (\<forall>roles. ''operator'' \<in> set roles \<longrightarrow>
      require_role (br_env br (pg_requests p) (pg_world p)) (w_db (pg_world p)) (Some tok) roles = Inr x) \<and>
      current_user (br_env br (pg_requests p) (pg_world p)) (w_db (pg_world p)) (Some tok) = Inr x"
    by (rule signed_token(2) [OF sign]) (use st in \<open>simp_all add: demo_stage_def\<close>)
qed

section \<open>The passport\<close>

lemma card_value: "v \<noteq> [] \<Longrightarrow> sublist x v \<Longrightarrow> sublist x (passport_card title v d)"
  by (simp add: passport_card_def sub_left sub_right)

lemma card_detail: "sublist x d \<Longrightarrow> sublist x (passport_card title v d)"
  by (simp add: passport_card_def sub_right)

lemma change_view_props:
  assumes "demo_rows_of s e c"
  shows "prop_or br (change_view c) ''external_ref'' d = u ''ISSUE-184''"
    and "prop_text br (change_view c) ''actor_id'' = u ''release-agent-01''"
    and "prop_or br (change_view c) ''action'' d = u ''deploy''"
  using assms by (simp_all add: demo_rows_of_def prop_or_def prop_text_def change_view_def)

lemma passport_cards_text:
  assumes rows: "demo_rows_of s e c" and ch: "js_prop data ''change'' = Some (change_view c)"
    and ex: "js_prop data ''executions'' = Some (VList [execution_view r])" and out: "rc_outcome r \<noteq> []"
    and x: "x \<in> {u ''ISSUE-184'', u ''release-agent-01'', rc_outcome r, u ''deploy''}"
  shows "sublist x (passport_cards br v data)"
proof -
  have change: "js_object data ''change'' = Some (change_view c)" using ch by (simp add: js_object_def change_view_def)
  have latest: "prop_text br (execution_view r) ''outcome'' = rc_outcome r" by (simp add: prop_text_def execution_view_def)
  note props = change_view_props [OF rows]
  show ?thesis
    using x unfolding insert_iff empty_iff simp_thms
  proof (elim disjE)
    assume x: "x = u ''ISSUE-184''"
    show ?thesis unfolding x passport_cards_def Let_def change option.case props
      by (rule sub_concat, rule list.set_intros, rule card_value) simp_all
  next
    assume x: "x = u ''release-agent-01''"
    show ?thesis unfolding x passport_cards_def Let_def change option.case props
      by (rule sub_concat, rule list.set_intros(2), rule list.set_intros(1), rule card_value) (simp_all add: sub_right)
  next
    assume x: "x = rc_outcome r"
    show ?thesis unfolding x passport_cards_def Let_def ex
      by (rule sub_concat [where y = "passport_card ''EXECUTION'' (rc_outcome r) (prop_text br (execution_view r) ''reason'')"])
        (simp_all add: latest out card_value)
  next
    assume x: "x = u ''deploy''"
    show ?thesis unfolding x passport_cards_def Let_def change option.case props
      by (rule sub_concat, rule list.set_intros(2), rule list.set_intros(2), rule list.set_intros(1), rule card_detail)
        (simp_all add: sub_left)
  qed
qed

lemma timeline_record_text:
  assumes ev: "ev \<in> set (events d)" "pe_epoch_id ev = i"
    and tl: "js_prop data ''timeline'' = Some (VList (map timeline_view (epoch_timeline d i)))"
    and x: "sublist x (pe_event_type ev) \<or> sublist x (pe_summary ev)"
  shows "sublist x (timeline_text br data)"
proof -
  have mem: "ev \<in> set (epoch_timeline d i)" using ev by (simp add: set_epoch_timeline)
  have "sublist x (timeline_record br (timeline_view ev))"
    using x
  proof
    assume "sublist x (pe_event_type ev)"
    then show ?thesis by (simp add: timeline_record_def record_row_def prop_text_def timeline_view_def sub_left)
  next
    assume "sublist x (pe_summary ev)"
    then show ?thesis
      unfolding timeline_record_def record_row_def
      by (intro sub_right) (simp add: prop_text_def timeline_view_def sub_left sub_right)
  qed
  moreover have "timeline_record br (timeline_view ev) \<in> set (map (timeline_record br) (map timeline_view (epoch_timeline d i)))"
    using mem by auto
  ultimately have "sublist x (concat (map (timeline_record br) (map timeline_view (epoch_timeline d i))))"
    by (intro sub_concat)
  moreover have "map timeline_view (epoch_timeline d i) \<noteq> []" using mem by auto
  ultimately show ?thesis by (simp add: timeline_text_def tl)
qed

lemma passport_view:
  assumes at: "executed_page br us p e c t a g r" and out: "rc_outcome r \<noteq> []"
  shows "\<exists>q. click br (Nav PassportView) p = q \<and> executed_page br us q e c t a g r \<and> pg_view q = PassportView \<and>
    pg_text q PageTitle = pt_passport_title @ pt_passport_subtitle \<and>
    (\<forall>x \<in> {u ''ISSUE-184'', u ''release-agent-01'', rc_outcome r, u ''deploy''}. sublist x (pg_text q PassportSummary)) \<and>
    (\<forall>ty \<in> {u ''CHANGE_REQUESTED'', u ''APPROVED'', u ''CAPABILITY_ISSUED'', rc_outcome r}. sublist ty (pg_text q PassportTimeline)) \<and>
    sublist (take 255 (rc_reason r)) (pg_text q PassportTimeline)"
proof -
  let ?w = "pg_world p"
  note facts = executed_facts [OF at]
  obtain v where v: "pg_epoch p = Some v" "prop_text br v ''id'' = ep_id e" using facts(2) by blast
  obtain tok x where tok: "pg_operator p = Some tok" "current_user (br_env br (pg_requests p) ?w) (w_db ?w) (Some tok) = Inr x"
    using facts(4) by blast
  from at have rows: "demo_rows_of (rc_outcome r) e c" and ids: "cr_epoch_id c = ep_id e" "ap_epoch_id a = ep_id e"
    "cg_epoch_id g = ep_id e" "rc_epoch_id r = ep_id e"
    by (auto simp: executed_page_def demo_rows_of_def)
  from ask_passport [OF facts(3) ids tok(2)] obtain data where
    run: "handle (br_env br (pg_requests p) ?w) (Some tok) (ChangePassport (ep_id e)) ?w = (Inr data, ?w)"
    and data: "js_prop data ''change'' = Some (change_view c)" "js_prop data ''executions'' = Some (VList [execution_view r])"
      "js_prop data ''timeline'' = Some (VList (map timeline_view (epoch_timeline (w_db ?w) (ep_id e))))" by blast
  let ?p1 = "put_text PageTitle (pt_passport_title @ pt_passport_subtitle)
    (put_text PageEyebrow pt_passport_eyebrow (p\<lparr>pg_view := PassportView\<rparr>))"
  let ?p2 = "put_text PassportTimeline [] (put_text PassportSummary [] (sync_epoch_context br ?p1))"
  have ens: "ensure_epoch br ?p1 = (Inr (Some v), sync_epoch_context br ?p1)"
    by (rule ensure_selected [where us = us]) (simp_all add: signed_moved [OF facts(1)] v(1))
  have api: "js_api br pg_operator (ChangePassport (ep_id e)) ?p2 =
      (Inr data, ?p2\<lparr>pg_world := ?w, pg_requests := Suc (pg_requests p)\<rparr>)"
    using api_ok [of pg_operator ?p2 tok br "ChangePassport (ep_id e)" data ?w] tok(1) run by simp
  let ?q = "put_text PassportTimeline (timeline_text br data) (put_text PassportSummary (passport_cards br v data)
    (?p2\<lparr>pg_world := ?w, pg_requests := Suc (pg_requests p)\<rparr>))"
  have click: "click br (Nav PassportView) p = ?q"
    using ens api by (simp add: switch_view_def load_passport_def js_steps v(2))
  have q: "executed_page br us ?q e c t a g r" by (rule executed_moves [OF at]) simp_all
  have summary: "sublist y (passport_cards br v data)"
    if "y \<in> {u ''ISSUE-184'', u ''release-agent-01'', rc_outcome r, u ''deploy''}" for y
    by (rule passport_cards_text [OF rows data(1,2) out that])
  have typed: "sublist ty (timeline_text br data)" if "has_event (w_db ?w) (ep_id e) ty" for ty
    using that timeline_record_text [OF _ _ data(3)] by (auto simp: has_event_def)
  obtain ev where ev: "ev \<in> set (events (w_db ?w))" "pe_epoch_id ev = ep_id e" "pe_event_type ev = rc_outcome r"
    "pe_summary ev = take 255 (rc_reason r)" using at by (auto simp: executed_page_def)
  have "sublist (take 255 (rc_reason r)) (timeline_text br data)" "sublist (rc_outcome r) (timeline_text br data)"
    using timeline_record_text [OF ev(1,2) data(3)] ev(3,4) by simp_all
  then show ?thesis
    using click q summary typed at by (intro exI [of _ ?q]) (simp add: executed_page_def)
qed

section \<open>Evidence, receipts and integrations\<close>

text \<open>The selected epoch's evidence is loaded: whatever files there are, each shows its name and its hash.\<close>

lemma evidence_loaded:
  assumes at: "executed_page br us p e c t a g r"
  shows "\<exists>q. load_evidence br p = (Inr (), q) \<and> executed_page br us q e c t a g r \<and> pg_view q = pg_view p \<and>
    pg_kind q = pg_kind p \<and> pg_file q = pg_file p \<and> \<not> pg_disabled q EvidenceUpload \<and>
    pg_text q PageTitle = pg_text p PageTitle \<and> pg_text q EvidenceResult = pg_text p EvidenceResult \<and>
    (\<forall>ev \<in> set (evidences (w_db (pg_world p))). ev_epoch_id ev = ep_id e \<longrightarrow>
      sublist (ev_filename ev) (pg_text q EvidenceList) \<and> sublist (u ''sha256'') (pg_text q EvidenceList))"
proof -
  let ?w = "pg_world p"
  note facts = executed_facts [OF at]
  obtain v where v: "pg_epoch p = Some v" "prop_text br v ''id'' = ep_id e" using facts(2) by blast
  obtain tok x where tok: "pg_operator p = Some tok" "current_user (br_env br (pg_requests p) ?w) (w_db ?w) (Some tok) = Inr x"
    using facts(4) by blast
  from ask_evidence [OF facts(3) tok(2)] obtain vs where
    run: "handle (br_env br (pg_requests p) ?w) (Some tok) (ListEvidence (ep_id e)) ?w = (Inr (VList vs), ?w)"
    and vs: "\<forall>ev \<in> set (evidences (w_db ?w)). ev_epoch_id ev = ep_id e \<longrightarrow>
      (\<exists>v \<in> set vs. js_prop v ''filename'' = Some (VStr (ev_filename ev)))" by blast
  let ?p2 = "put_text EvidenceList [] (sync_epoch_context br p)"
  let ?p3 = "?p2\<lparr>pg_world := ?w, pg_requests := Suc (pg_requests p)\<rparr>"
  have api: "js_api br pg_operator (ListEvidence (ep_id e)) ?p2 = (Inr (VList vs), ?p3)"
    using api_ok [of pg_operator ?p2 tok br "ListEvidence (ep_id e)" "VList vs" ?w] tok(1) run by simp
  let ?q = "put_text EvidenceList (if vs = [] then pt_no_evidence else concat (map (evidence_record br) vs)) ?p3"
  have load: "load_evidence br p = (Inr (), ?q)"
    using ensure_selected [OF facts(1) v(1)] api by (simp add: load_evidence_def js_steps v(2) del: if_split)
  have q: "executed_page br us ?q e c t a g r" by (rule executed_moves [OF at]) simp_all
  have "sublist (ev_filename ev) (concat (map (evidence_record br) vs)) \<and> sublist (u ''sha256'') (concat (map (evidence_record br) vs)) \<and>
      vs \<noteq> []" if ev: "ev \<in> set (evidences (w_db ?w))" "ev_epoch_id ev = ep_id e" for ev
  proof -
    from vs ev obtain y where y: "y \<in> set vs" "js_prop y ''filename'' = Some (VStr (ev_filename ev))" by blast
    then have "sublist (ev_filename ev) (evidence_record br y)" "sublist (u ''sha256'') (evidence_record br y)"
      by (simp_all add: evidence_record_def record_row_def prop_text_def sub_left sub_right)
    with y(1) show ?thesis by (auto intro!: sub_concat [of "evidence_record br y"])
  qed
  then show ?thesis
    using load q v(1) by (intro exI [of _ ?q]) auto
qed

lemma upload_click:
  assumes bed: "test_bed br S J us" and at: "executed_page br us p e c t a g r"
    and form: "pg_kind p = u ''provenance''" "pg_file p = Some test_file"
  shows "\<exists>q. submit_evidence br p = q \<and> executed_page br us q e c t a g r \<and> pg_view q = pg_view p \<and>
    sublist bt_stored (pg_text q EvidenceResult) \<and> sublist (u ''build-provenance.txt'') (pg_text q EvidenceList) \<and>
    sublist (u ''sha256'') (pg_text q EvidenceList)"
proof -
  let ?E = "br_env br (pg_requests p) (pg_world p)"
  note facts = executed_facts [OF at]
  obtain v where v: "pg_epoch p = Some v" "prop_text br v ''id'' = ep_id e" using facts(2) by blast
  obtain tok x where tok: "pg_operator p = Some tok" "require_role ?E (w_db (pg_world p)) (Some tok) [''operator'', ''admin''] = Inr x"
    using facts(4) by auto
  have req: "bed_request S J (pg_world p) ?E" "100 \<le> max_upload_bytes S" using bed by (simp_all add: test_bed_def)
  from ask_upload [OF req facts(3) tok(2)] obtain item w' ev where
    run: "handle ?E (Some tok) (UploadEvidence (ep_id e) (Some (u ''provenance'')) (Some test_file)) (pg_world p) = (Inr item, w')"
    and item: "js_prop item ''filename'' = Some (VStr (u ''build-provenance.txt''))"
    and st: "demo_stage (w_db w') us e c t [a] [g] [r]" "ev \<in> set (evidences (w_db w'))" "ev_epoch_id ev = ep_id e"
      "ev_filename ev = u ''build-provenance.txt''" "set (events (w_db (pg_world p))) \<subseteq> set (events (w_db w'))"
    by blast
  let ?p1 = "sync_epoch_context br p"
  let ?p2 = "?p1\<lparr>pg_world := w', pg_requests := Suc (pg_requests p)\<rparr>"
  have api: "js_api br pg_operator (UploadEvidence (ep_id e) (Some (u ''provenance'')) (Some test_file)) ?p1 = (Inr item, ?p2)"
    using api_ok [of pg_operator ?p1 tok br "UploadEvidence (ep_id e) (Some (u ''provenance'')) (Some test_file)" item w'] tok(1) run
    by simp
  let ?p3 = "(put_text EvidenceResult (pt_stored_prefix @ u ''build-provenance.txt'' @ pt_dot @ u ''sha256 '' @
    short_hash br item ''sha256'' 20) ?p2)\<lparr>pg_file := None\<rparr>"
  have "signed_in br us ?p3" by (rule signed_later [OF facts(1)]) simp_all
  then have "page_at br us ?p3 e c t [a] [g] [r]"
    using at st(1) by (simp add: executed_page_def page_at_def clean_def selected_def)
  then have "executed_page br us ?p3 e c t a g r"
    using at st(5) unfolding executed_page_def has_event_def by auto
  from evidence_loaded [OF this] obtain q where q: "load_evidence br ?p3 = (Inr (), q)" "executed_page br us q e c t a g r"
    "pg_view q = pg_view p" "pg_text q EvidenceResult = pg_text ?p3 EvidenceResult"
    "sublist (u ''build-provenance.txt'') (pg_text q EvidenceList)" "sublist (u ''sha256'') (pg_text q EvidenceList)"
    using st(2-4) by force
  have stored: "pg_text ?p3 EvidenceResult = bt_stored @ pt_dot @ u ''sha256 '' @ short_hash br item ''sha256'' 20"
    by (simp add: bt_stored_def pt_stored_prefix_def u_def)
  have "submit_evidence br p = q"
    using ensure_selected [OF facts(1) v(1)] api q(1) item
    by (simp add: submit_evidence_def form js_steps v(2) prop_text_def [of br item] u_Nil_iff)
  moreover have "sublist bt_stored (pg_text q EvidenceResult)"
    unfolding q(4) stored by (rule sub_left) simp
  ultimately show ?thesis using q by blast
qed

lemma receipts_view:
  assumes at: "executed_page br us p e c t a g r"
  shows "\<exists>q. click br (Nav ReceiptsView) p = q \<and> executed_page br us q e c t a g r \<and> pg_view q = ReceiptsView \<and>
    pg_text q PageTitle = pt_receipts_title @ pt_receipts_subtitle \<and>
    sublist (rc_outcome r) (pg_text q ReceiptsList) \<and> sublist (rc_reason r) (pg_text q ReceiptsList)"
proof -
  let ?w = "pg_world p"
  note facts = executed_facts [OF at]
  obtain v where v: "pg_epoch p = Some v" "prop_text br v ''id'' = ep_id e" using facts(2) by blast
  obtain tok x where tok: "pg_operator p = Some tok" "current_user (br_env br (pg_requests p) ?w) (w_db ?w) (Some tok) = Inr x"
    using facts(4) by blast
  have "rc_epoch_id r = ep_id e" using at by (simp add: executed_page_def)
  note run = ask_receipts [OF facts(3) this tok(2)]
  let ?p1 = "put_text PageTitle (pt_receipts_title @ pt_receipts_subtitle)
    (put_text PageEyebrow pt_receipts_eyebrow (p\<lparr>pg_view := ReceiptsView\<rparr>))"
  let ?p2 = "put_text ReceiptsList [] (sync_epoch_context br ?p1)"
  let ?p3 = "?p2\<lparr>pg_world := ?w, pg_requests := Suc (pg_requests p)\<rparr>"
  have ens: "ensure_epoch br ?p1 = (Inr (Some v), sync_epoch_context br ?p1)"
    by (rule ensure_selected [where us = us]) (simp_all add: signed_moved [OF facts(1)] v(1))
  have api: "js_api br pg_operator (Receipts (ep_id e)) ?p2 = (Inr (VList [receipt_view r]), ?p3)"
    using api_ok [of pg_operator ?p2 tok br "Receipts (ep_id e)" "VList [receipt_view r]" ?w] tok(1) run by simp
  let ?q = "put_text ReceiptsList (receipt_record br (receipt_view r)) ?p3"
  have click: "click br (Nav ReceiptsView) p = ?q"
    using ens api by (simp add: switch_view_def load_receipts_def js_steps v(2))
  have q: "executed_page br us ?q e c t a g r" by (rule executed_moves [OF at]) simp_all
  have "sublist (rc_outcome r) (receipt_record br (receipt_view r))"
    by (simp add: receipt_record_def record_row_def prop_text_def receipt_view_def sub_left)
  moreover have "sublist (rc_reason r) (receipt_record br (receipt_view r))"
    unfolding receipt_record_def record_row_def
    by (rule sub_right, rule sub_right) (simp add: prop_text_def receipt_view_def sub_left sub_right)
  ultimately show ?thesis using click q by (intro exI [of _ ?q]) simp
qed

lemma evidence_view:
  assumes at: "executed_page br us p e c t a g r"
  shows "\<exists>q. click br (Nav EvidenceView) p = q \<and> executed_page br us q e c t a g r \<and> pg_view q = EvidenceView \<and>
    pg_text q PageTitle = pt_evidence_title @ pt_evidence_subtitle \<and> \<not> pg_disabled q EvidenceUpload"
proof -
  let ?p1 = "put_text PageTitle (pt_evidence_title @ pt_evidence_subtitle)
    (put_text PageEyebrow pt_evidence_eyebrow (p\<lparr>pg_view := EvidenceView\<rparr>))"
  have "executed_page br us ?p1 e c t a g r" by (rule executed_moves [OF at]) simp_all
  from evidence_loaded [OF this] obtain q where q: "load_evidence br ?p1 = (Inr (), q)" "executed_page br us q e c t a g r"
    "pg_view q = EvidenceView" "\<not> pg_disabled q EvidenceUpload" "pg_text q PageTitle = pt_evidence_title @ pt_evidence_subtitle"
    by auto
  then show ?thesis by (intro exI [of _ q]) (simp add: switch_view_def js_try_def)
qed

lemma integration_view:
  assumes bed: "test_bed br S J us" and at: "executed_page br us p e c t a g r"
  shows "\<exists>q impl. click br (Nav IntegrationsView) p = q \<and> executed_page br us q e c t a g r \<and> pg_view q = IntegrationsView \<and>
    pg_text q PageTitle = pt_integrations_title @ pt_integrations_subtitle \<and>
    executor_implementation (br_env br (pg_requests p) (pg_world p)) = Inr impl \<and>
    (\<forall>x \<in> {pt_card_gitlab, pt_card_executor, pt_card_database, pt_card_grpc, msg_grpc_active, u ''grpc'', impl}.
      sublist x (pg_text q IntegrationCards))"
proof -
  let ?w = "pg_world p" and ?E = "br_env br (pg_requests p) (pg_world p)"
  note facts = executed_facts [OF at]
  obtain tok x where tok: "pg_operator p = Some tok" "current_user ?E (w_db ?w) (Some tok) = Inr x"
    using facts(4) by blast
  have mode: "executor_mode (cfg ?E) = u ''grpc''" by (simp add: bed_env [OF bed])
  from ask_integrations [OF tok(2) mode] obtain data impl where
    run: "handle ?E (Some tok) IntegrationStatus ?w = (Inr data, ?w)" and impl: "executor_implementation ?E = Inr impl"
    and data: "js_prop (js_member data ''executor'') ''mode'' = Some (VStr (u ''grpc''))"
      "js_prop (js_member data ''executor'') ''implementation'' = Some (VStr impl)"
      "js_prop (js_member data ''grpc'') ''status'' = Some (VStr msg_grpc_active)" by blast
  let ?p1 = "put_text PageTitle (pt_integrations_title @ pt_integrations_subtitle)
    (put_text PageEyebrow pt_integrations_eyebrow (p\<lparr>pg_view := IntegrationsView\<rparr>))"
  let ?p2 = "?p1\<lparr>pg_world := ?w, pg_requests := Suc (pg_requests p)\<rparr>"
  have ens: "ensure br ?p1 = (Inr (), ?p1)"
    by (rule ensure_signed [where us = us]) (simp add: signed_moved [OF facts(1)])
  have api: "js_api br pg_operator IntegrationStatus ?p1 = (Inr data, ?p2)"
    using api_ok [of pg_operator ?p1 tok br IntegrationStatus data ?w] tok(1) run by simp
  let ?q = "put_text IntegrationCards (integration_text br data) ?p2"
  have click: "click br (Nav IntegrationsView) p = ?q"
    using ens api by (simp add: switch_view_def load_integrations_def js_steps)
  have q: "executed_page br us ?q e c t a g r" by (rule executed_moves [OF at]) simp_all
  have "sublist y (integration_text br data)"
    if "y \<in> {pt_card_gitlab, pt_card_executor, pt_card_database, pt_card_grpc, msg_grpc_active, u ''grpc'', impl}" for y
    using that unfolding insert_iff empty_iff simp_thms
    by (elim disjE; simp add: integration_text_def prop_text_def data; simp add: sub_left sub_right)
  then show ?thesis using click q impl by (intro exI [of _ ?q] exI [of _ impl]) simp
qed

end
