(* ===== verification/Browser_Run.thy ===== *)
theory Browser_Run
  imports Browser_Pages
begin

text \<open>
  The browser test passes: the parts of its script, one after the other, and the whole test.
\<close>

section \<open>The parts of the script\<close>










section \<open>Properties\<close>


end
