(* ===== verification/Story_Vector.thy ===== *)
theory Story_Vector
  imports Story Console Fingerprint_Vector
begin

text \<open>
  The fingerprints of the demonstration's release and of the same release with the artifact digest the
  start page sets, evaluated inside the kernel block by block, as in \<open>Fingerprint_Vector\<close>: they differ, so the
  two identities do not collide.
\<close>

lemma block_demo_1:
  "sha_block (0x6a09e667, 0xbb67ae85, 0x3c6ef372, 0xa54ff53a, 0x510e527f, 0x9b05688c, 0x1f83d9ab,
    0x5be0cd19)
    [0x7b226172, 0x74696661, 0x63745f64, 0x69676573, 0x74223a22, 0x73686132, 0x35363a33,
     0x61376435, 0x64363235, 0x39303831, 0x62393266, 0x36393335, 0x39363835, 0x63396230,
     0x66336633, 0x66326164] =
   (0x95de3c44, 0x2eeeb037, 0x15f9bda3, 0x813c2291, 0xf352f95b, 0x7d28cd9f, 0xd8d9b9eb,
    0x83e1226a)"
  by (simp add: sha_eval)

lemma block_demo_2:
  "sha_block (0x95de3c44, 0x2eeeb037, 0x15f9bda3, 0x813c2291, 0xf352f95b, 0x7d28cd9f, 0xd8d9b9eb,
    0x83e1226a)
    [0x37623363, 0x65383462, 0x33616536, 0x61373131, 0x61336661, 0x32643065, 0x66373722,
     0x2c22636f, 0x6d6d6974, 0x5f736861, 0x223a2238, 0x66333735, 0x65376236, 0x34663664,
     0x32306133, 0x63316131] =
   (0xb1cb907e, 0x101cc074, 0xc087d90e, 0x833a1053, 0x2bd326b3, 0xf9861951, 0x455f45a8,
    0xdbe5d55e)"
  by (simp add: sha_eval)

lemma block_demo_3:
  "sha_block (0xb1cb907e, 0x101cc074, 0xc087d90e, 0x833a1053, 0x2bd326b3, 0xf9861951, 0x455f45a8,
    0xdbe5d55e)
    [0x62326136, 0x66396131, 0x64396532, 0x66376331, 0x32333422, 0x2c22636f, 0x6e666967,
     0x5f686173, 0x68223a22, 0x6366673a, 0x32653964, 0x33356131, 0x32333437, 0x62643138,
     0x62623363, 0x39646362] =
   (0x2d243a3a, 0x0afd30e8, 0x647774ad, 0xf236fe7a, 0x35e3a3cd, 0xe3082319, 0xaa213deb,
    0x50124a31)"
  by (simp add: sha_eval)

lemma block_demo_4:
  "sha_block (0x2d243a3a, 0x0afd30e8, 0x647774ad, 0xf236fe7a, 0x35e3a3cd, 0xe3082319, 0xaa213deb,
    0x50124a31)
    [0x37613463, 0x38373031, 0x222c2265, 0x6e766972, 0x6f6e6d65, 0x6e74223a, 0x2270726f,
     0x64222c22, 0x70726f6a, 0x65637422, 0x3a227061, 0x796d656e, 0x74732d61, 0x7069227d,
     0x80000000, 0x00000000] =
   (0xe1c03899, 0x18f587b2, 0xe3575f7a, 0xd1b11bbf, 0xbd48aef4, 0xb97592d1, 0xfb647866,
    0x3bdf2123)"
  by (simp add: sha_eval)

lemma block_demo_5:
  "sha_block (0xe1c03899, 0x18f587b2, 0xe3575f7a, 0xd1b11bbf, 0xbd48aef4, 0xb97592d1, 0xfb647866,
    0x3bdf2123)
    [0x00000000, 0x00000000, 0x00000000, 0x00000000, 0x00000000, 0x00000000, 0x00000000,
     0x00000000, 0x00000000, 0x00000000, 0x00000000, 0x00000000, 0x00000000, 0x00000000,
     0x00000000, 0x000007c0] =
   (0x4df5c374, 0xa04e8d38, 0x9f050af6, 0xddb96cf0, 0xb1c87f2d, 0x514407ee, 0xa0e6960f,
    0xb7397694)"
  by (simp add: sha_eval)

lemma padded_demo:
  "split_every 16 (be_words (sha_pad (utf8 (fingerprint_payload demo_identity)))) =
   [[0x7b226172, 0x74696661, 0x63745f64, 0x69676573, 0x74223a22, 0x73686132, 0x35363a33,
     0x61376435, 0x64363235, 0x39303831, 0x62393266, 0x36393335, 0x39363835, 0x63396230,
     0x66336633, 0x66326164],
    [0x37623363, 0x65383462, 0x33616536, 0x61373131, 0x61336661, 0x32643065, 0x66373722,
     0x2c22636f, 0x6d6d6974, 0x5f736861, 0x223a2238, 0x66333735, 0x65376236, 0x34663664,
     0x32306133, 0x63316131],
    [0x62326136, 0x66396131, 0x64396532, 0x66376331, 0x32333422, 0x2c22636f, 0x6e666967,
     0x5f686173, 0x68223a22, 0x6366673a, 0x32653964, 0x33356131, 0x32333437, 0x62643138,
     0x62623363, 0x39646362],
    [0x37613463, 0x38373031, 0x222c2265, 0x6e766972, 0x6f6e6d65, 0x6e74223a, 0x2270726f,
     0x64222c22, 0x70726f6a, 0x65637422, 0x3a227061, 0x796d656e, 0x74732d61, 0x7069227d,
     0x80000000, 0x00000000],
    [0x00000000, 0x00000000, 0x00000000, 0x00000000, 0x00000000, 0x00000000, 0x00000000,
     0x00000000, 0x00000000, 0x00000000, 0x00000000, 0x00000000, 0x00000000, 0x00000000,
     0x00000000, 0x000007c0]]"
  by (simp add: payload_eval demo_identity_def payload_identity_def demo_payload_def sha_pad_def split_every.simps be_bytes_8 be_bytes_4
      replicate_numeral)

lemma demo_fingerprint:
  "fingerprint demo_identity = u ''4df5c374a04e8d389f050af6ddb96cf0b1c87f2d514407eea0e6960fb7397694''"
  by (simp add: fingerprint_def sha256_hex_def sha256_digest_def padded_demo sha_init_def block_demo_1 block_demo_2 block_demo_3 block_demo_4 block_demo_5
      bytes_hex_def hex_digit_def u_def be_bytes_4)

lemma block_changed_1:
  "sha_block (0x6a09e667, 0xbb67ae85, 0x3c6ef372, 0xa54ff53a, 0x510e527f, 0x9b05688c, 0x1f83d9ab,
    0x5be0cd19)
    [0x7b226172, 0x74696661, 0x63745f64, 0x69676573, 0x74223a22, 0x73686132, 0x35363a66,
     0x66666666, 0x66666666, 0x66666666, 0x66666666, 0x66666666, 0x66666666, 0x66666666,
     0x66666666, 0x66666666] =
   (0x36409076, 0xd7c3ed04, 0x2a44296f, 0x055a02e8, 0x9e86ff9a, 0xfea9e77d, 0xa38ba8a1,
    0x8225e4c0)"
  by (simp add: sha_eval)

lemma block_changed_2:
  "sha_block (0x36409076, 0xd7c3ed04, 0x2a44296f, 0x055a02e8, 0x9e86ff9a, 0xfea9e77d, 0xa38ba8a1,
    0x8225e4c0)
    [0x66666666, 0x66666666, 0x66666666, 0x66666666, 0x66666666, 0x66666666, 0x66666622,
     0x2c22636f, 0x6d6d6974, 0x5f736861, 0x223a2238, 0x66333735, 0x65376236, 0x34663664,
     0x32306133, 0x63316131] =
   (0x0df29a8f, 0xd7a1b47e, 0x7e1255c3, 0x2b256014, 0x48c2129b, 0x45c39ffc, 0x141f6bf2,
    0xc5a43c0e)"
  by (simp add: sha_eval)

lemma block_changed_3:
  "sha_block (0x0df29a8f, 0xd7a1b47e, 0x7e1255c3, 0x2b256014, 0x48c2129b, 0x45c39ffc, 0x141f6bf2,
    0xc5a43c0e)
    [0x62326136, 0x66396131, 0x64396532, 0x66376331, 0x32333422, 0x2c22636f, 0x6e666967,
     0x5f686173, 0x68223a22, 0x6366673a, 0x32653964, 0x33356131, 0x32333437, 0x62643138,
     0x62623363, 0x39646362] =
   (0x99f132c2, 0x6c3a11f3, 0xe251b5d7, 0xa6bdd0d7, 0x39c4d4b9, 0x61f23fa3, 0xf0d7437c,
    0x4ff54c36)"
  by (simp add: sha_eval)

lemma block_changed_4:
  "sha_block (0x99f132c2, 0x6c3a11f3, 0xe251b5d7, 0xa6bdd0d7, 0x39c4d4b9, 0x61f23fa3, 0xf0d7437c,
    0x4ff54c36)
    [0x37613463, 0x38373031, 0x222c2265, 0x6e766972, 0x6f6e6d65, 0x6e74223a, 0x2270726f,
     0x64222c22, 0x70726f6a, 0x65637422, 0x3a227061, 0x796d656e, 0x74732d61, 0x7069227d,
     0x80000000, 0x00000000] =
   (0x17a4bc36, 0xf97582e0, 0x961b52ad, 0x901cdd59, 0xd65b7e9a, 0xaf4d7f7e, 0xa748742d,
    0xce1d2b3d)"
  by (simp add: sha_eval)

lemma block_changed_5:
  "sha_block (0x17a4bc36, 0xf97582e0, 0x961b52ad, 0x901cdd59, 0xd65b7e9a, 0xaf4d7f7e, 0xa748742d,
    0xce1d2b3d)
    [0x00000000, 0x00000000, 0x00000000, 0x00000000, 0x00000000, 0x00000000, 0x00000000,
     0x00000000, 0x00000000, 0x00000000, 0x00000000, 0x00000000, 0x00000000, 0x00000000,
     0x00000000, 0x000007c0] =
   (0x30106511, 0x682f6e77, 0x46f62e12, 0xebf1086e, 0x0b294aae, 0x39c89ed5, 0x997a8f1f,
    0xaf26f9a5)"
  by (simp add: sha_eval)

lemma padded_changed:
  "split_every 16 (be_words (sha_pad (utf8 (fingerprint_payload (drifted_demo drift_value))))) =
   [[0x7b226172, 0x74696661, 0x63745f64, 0x69676573, 0x74223a22, 0x73686132, 0x35363a66,
     0x66666666, 0x66666666, 0x66666666, 0x66666666, 0x66666666, 0x66666666, 0x66666666,
     0x66666666, 0x66666666],
    [0x66666666, 0x66666666, 0x66666666, 0x66666666, 0x66666666, 0x66666666, 0x66666622,
     0x2c22636f, 0x6d6d6974, 0x5f736861, 0x223a2238, 0x66333735, 0x65376236, 0x34663664,
     0x32306133, 0x63316131],
    [0x62326136, 0x66396131, 0x64396532, 0x66376331, 0x32333422, 0x2c22636f, 0x6e666967,
     0x5f686173, 0x68223a22, 0x6366673a, 0x32653964, 0x33356131, 0x32333437, 0x62643138,
     0x62623363, 0x39646362],
    [0x37613463, 0x38373031, 0x222c2265, 0x6e766972, 0x6f6e6d65, 0x6e74223a, 0x2270726f,
     0x64222c22, 0x70726f6a, 0x65637422, 0x3a227061, 0x796d656e, 0x74732d61, 0x7069227d,
     0x80000000, 0x00000000],
    [0x00000000, 0x00000000, 0x00000000, 0x00000000, 0x00000000, 0x00000000, 0x00000000,
     0x00000000, 0x00000000, 0x00000000, 0x00000000, 0x00000000, 0x00000000, 0x00000000,
     0x00000000, 0x000007c0]]"
  by (simp add: payload_eval drifted_demo_def drift_value_def demo_identity_def payload_identity_def demo_payload_def sha_pad_def split_every.simps be_bytes_8 be_bytes_4
      replicate_numeral)

lemma changed_fingerprint:
  "fingerprint (drifted_demo drift_value) = u ''30106511682f6e7746f62e12ebf1086e0b294aae39c89ed5997a8f1faf26f9a5''"
  by (simp add: fingerprint_def sha256_hex_def sha256_digest_def padded_changed sha_init_def block_changed_1 block_changed_2 block_changed_3 block_changed_4 block_changed_5
      bytes_hex_def hex_digit_def u_def be_bytes_4)

lemma demo_no_collision: "no_collision demo_identity (drifted_demo drift_value)"
  by (simp add: no_collision_def demo_fingerprint changed_fingerprint u_def)

end
