(* ===== verification/Browser_Witness.thy ===== *)
theory Browser_Witness
  imports Browser_Run Story_Vector Wire_Witnesses
begin

text \<open>
  A deployment in which the browser test runs: the settings of the demonstration, the three demo accounts, the
  gin executor of the theory \<open>Go_Witnesses\<close> behind the stub and the channel of the theory \<open>Wire_Witnesses\<close>, with
  the memory that the orchestrator's reports leave, and a table in place of PyJWT with a bearer token per
  account and the capability token in compact serialisation.
\<close>

definition b_settings :: settings where
  "b_settings = load_settings (\<lambda>n.
     if n = u ''EPOCHDEPLOY_DEMO_MODE'' then Some (u ''true'')
     else if n = u ''EPOCHDEPLOY_EXECUTOR_MODE'' then Some (u ''grpc'') else None)"

definition b_bearer :: "user_row \<Rightarrow> ustr" where
  "b_bearer x = u ''bearer-'' @ us_username x"

definition b_claims :: "(ustr \<times> json) list" where
  "b_claims = jwt_claims (demo_claims s_base s_base)"

definition b_tok :: ustr where
  "b_tok = g_jws b_claims (capability_secret b_settings)"

definition b_jwt :: jwt_lib where
  "b_jwt =
     \<lparr>jwt_encode = (\<lambda>cs key. case map_of cs (u ''sub'') of
          Some (VJson (JStr name)) \<Rightarrow> u ''bearer-'' @ name
        | _ \<Rightarrow> g_jws (jwt_claims cs) key),
      jwt_decode = (\<lambda>_ token _.
        case find (\<lambda>x. token = b_bearer x) s_users of
          Some x \<Rightarrow> Inr (jwt_claims (token_payload x s_time))
        | None \<Rightarrow> if token = b_tok then Inr b_claims else Inl OtherPyJWTError)\<rparr>"

text \<open>The executor's memory: what was reported last for the demonstration's project and environment.\<close>

definition b_store :: "world \<Rightarrow> target_store" where
  "b_store w =
     (case live_target (w_db w) (project demo_payload) (environment demo_payload) of
        Inr (Some t) \<Rightarrow> store_put (target_identity t) Map.empty
      | _ \<Rightarrow> Map.empty)"

definition b_env :: "world \<Rightarrow> env" where
  "b_env w = (w_connected s_base (b_store w))
     \<lparr>cfg := b_settings, jwt := b_jwt, lax_int := (\<lambda>j. case j of JInt n \<Rightarrow> Some n | _ \<Rightarrow> None)\<rparr>"



lemma b_env_simps [simp]:
  "cfg (b_env w) = b_settings" "jwt (b_env w) = b_jwt" "clock (b_env w) i = s_time" "fs_write (b_env w) f = Written"
  "\<not> commit_lost (b_env w)" "uuid4 (b_env w) = uuid4 s_base" "lax_int (b_env w) (JInt n) = Some n"
  "pb_serialize (b_env w) = w_bytes"
  by (simp_all add: b_env_def w_connected_def) (simp_all add: s_base_def)

section \<open>The token\<close>









section \<open>It is a test bed\<close>










end
