(* ===== verification/Spec2Isabelle.thy ===== *)
theory Spec2Isabelle
  imports Drift_Witnesses Witnesses Wire_Witnesses Benchmark Browser_Witness
begin

text \<open>
  EpochDeploy: a verification library for its orchestrator and its executors.

  \<^bold>\<open>The program.\<close> EpochDeploy approves a release, not a branch: an \<^emph>\<open>epoch\<close> names a project, an
  environment, a commit, an artifact digest and a configuration hash, and carries the SHA-256
  fingerprint of these five fields. A human approval is bound to the fingerprint, an agent gets a
  short-lived capability for exactly one epoch and action, and an execution goes through only when the
  live target still has the approved fingerprint. The orchestrator (\<open>src/orchestrator/app\<close>, Python,
  FastAPI with SQLAlchemy) calls an executor (\<open>src/executor\<close>, \<open>src/executor-gin\<close>, Go) over HTTP or gRPC, or
  decides by itself in local mode. Both sides are modelled: the orchestrator from its routes down to the
  rows of its database, the executors from the bytes of a signed request to the answer.

  \<^bold>\<open>The theories\<close>, in the order of their imports.

  \<^item> \<open>Prelude\<close>, \<open>Messages\<close>, \<open>Py_Str\<close>, \<open>Py_Lib\<close>, \<open>Sha256\<close>: Python's values as the code uses them. A \<open>str\<close> is
    the list of its code points; JSON values, the exceptions as an error type, \<open>one_or_none\<close>; \<open>strip\<close>,
    \<open>lower\<close>, \<open>split\<close>, \<open>json.dumps\<close>, UTF-8, hexadecimal text; \<open>isoformat\<close> and \<open>pathlib\<close>; SHA-256 on 32-bit
    words, HMAC and PBKDF2; the (mostly Korean) messages of the program, code point by code point.
  \<^item> \<open>Json\<close>, \<open>Json_Read\<close>: \<open>json.loads\<close> on bytes, with the detection of the encoding and the scanner of
    CPython; \<open>Json_Read\<close> shows that it reads back what \<open>json.dumps\<close> prints. Go's \<open>encoding/json\<close> is a
    dialect of the same scanner.
  \<^item> \<open>Fingerprint\<close> (\<open>fingerprint.py\<close>) and \<open>Fingerprint_Vector\<close> (the test vector of the Python and Go tests,
    computed by the kernel).
  \<^item> \<open>Policy\<close> (\<open>policy.py\<close>), \<open>Config\<close> (\<open>config.py\<close>), \<open>Capability\<close> (\<open>capability.py\<close>), \<open>Security\<close>
    (\<open>security.py\<close>), \<open>Schemas\<close> (\<open>schemas.py\<close>: the pydantic models as field lists with a validator).
  \<^item> \<open>Environment\<close>: everything a request meets that is neither the program nor its database, as one
    record \<open>env\<close> that every operation takes: the settings, the readings of the clock, fresh identifiers and
    random bytes, PyJWT, httpx, the gRPC channel and protobuf serialisation, \<open>repr\<close> of a float, the depth of
    nesting the interpreter allows, what becomes of a file that is written, and whether the database loses the
    commit of an upload.
  \<^item> \<open>Database\<close> (\<open>models.py\<close>, \<open>db.py\<close>): the eleven tables as lists of records, the declared constraints as
    \<open>db_ok\<close>, \<open>commit\<close>, and the locale \<open>keyed_table\<close>, which says why a query by a unique column cannot find two
    rows; it is interpreted for every table.
  \<^item> \<open>Governance\<close> (\<open>governance.py\<close>): passport events, change requests, the passport.
  \<^item> \<open>Executor_Client\<close> (\<open>executor_client.py\<close>): the three clients and the locale \<open>executor_boundary\<close>, the
    contract the orchestrator relies on, interpreted for the local client.
  \<^item> \<open>Lifecycle\<close>, \<open>Grants\<close>, \<open>Targets\<close>, \<open>Execution\<close>, \<open>Evidence\<close> (\<open>services.py\<close>): creating and approving an epoch;
    issuing and presenting a capability; live targets; executing an epoch, by a human or an agent;
    evidence files.
  \<^item> \<open>Webhook\<close>, \<open>Demo\<close>, \<open>Api\<close> (\<open>main.py\<close>): the GitLab webhook, the demonstration routes, all other routes.
    \<open>Drift\<close>, with its witness in \<open>Drift_Witnesses\<close>: the story the demonstration tells.
  \<^item> \<open>Consistency\<close>: the invariant of the database beyond its constraints, and its preservation by every
    route. \<open>System\<close>: the dispatch of the routes, status codes and security headers, the reachable worlds and
    what holds in them. \<open>Effects\<close>: who may do what, append-only tables and immutable epochs, what an error
    leaves behind.
  \<^item> \<open>Refinement\<close>: an abstract board of tickets (an epoch as its state, its approval and the number of its
    receipts) with a step relation, the simulation of every request by it, and the measure that bounds its
    steps. \<open>Concurrency\<close>: several requests on one epoch. \<open>Scenario\<close>, \<open>Witnesses\<close>: a concrete deployment and a
    run of it, on which the properties with hypotheses are applied.
  \<^item> \<open>Go_Lib\<close>: the functions of Go's standard library that the executors use (\<open>strings\<close>, \<open>strconv\<close>, \<open>hex\<close>,
    \<open>base64\<close>, \<open>encoding/json\<close>). \<open>Go_Core\<close> (\<open>executor/internal/core\<close>): the second implementation of the
    fingerprint and of the comparison, with the condition under which it agrees with the first.
    \<open>Go_Boundary\<close> (\<open>executor/internal/boundary\<close>): the store of observed targets with its contract, the
    locale \<open>target_memory\<close>, strict decoding, capabilities, signatures. \<open>Go_Server\<close> (\<open>executor/cmd/server\<close>,
    \<open>executor-gin/cmd/server\<close>): the two HTTP servers and the gRPC interceptor and services.
  \<^item> \<open>Go_Remote\<close>, \<open>Go_Token\<close>: the clients of the orchestrator and the executors together, with their witnesses
    in \<open>Go_Witnesses\<close>; \<open>Go_Trust\<close>: the contract of the reachable worlds, kept by the gRPC server.
  \<^item> \<open>Grpc_Stub\<close> (\<open>gen/executor_pb2_grpc.py\<close>): the generated stub, servicer, registration and single calls;
    \<open>Grpc_Wire\<close>: a call from the stub over a channel to the generated Go service
    (\<open>executor-gin/gen/executorv1/executor_grpc.pb.go\<close>) and back; \<open>Go_Agent\<close>: the agent's whole path over it.
    Their witnesses are in \<open>Wire_Witnesses\<close>, over the codec of \<open>Wire_Codec\<close>.
    \<open>Benchmark\<close> (\<open>scripts/benchmark_executor.py\<close>): the load test as a third client, proved once in the
    locale \<open>benchmark_server\<close>, which both HTTP servers interpret.
  \<^item> \<open>Console\<close> (\<open>static/app.js\<close>, \<open>static/index.html\<close>): the start page as a state that its click handlers
    change, its requests served by \<open>System.serve\<close>, and the texts it makes of the answers; \<open>Page_Text\<close> holds its
    literals. \<open>Browser_Test\<close> (\<open>scripts/browser-e2e.py\<close>): the browser test as a list of steps on this page. \<open>Story\<close>:
    what every request of the demonstration answers and leaves in the database; \<open>Story_Executor\<close>: the gin
    executor beside it; \<open>Browser_Requests\<close>,
    \<open>Browser_Pages\<close>, \<open>Browser_Run\<close>: from the requests over the handlers and views to the whole test.
    \<open>Story_Vector\<close>, \<open>Browser_Witness\<close>: the fingerprints of the released and the drifted identity, and a
    deployment in which the test runs.

  \<^bold>\<open>How state and operations correspond.\<close> An operation of the services takes the environment, the database
  and the row its caller has loaded, and returns its result or the exception together with the database
  afterwards. A session's writes happen on a copy; \<open>commit\<close> publishes it or raises \<open>IntegrityError\<close>. A handler
  takes the bearer token and the parsed body too, and returns the value FastAPI encodes. \<open>System.handle\<close>
  dispatches the routes, and \<open>System.reachable\<close> is the closure of the started application under requests, each
  in an environment of its own.

  \<^bold>\<open>Clock readings and identifiers.\<close> \<open>clock E i\<close> is the i-th reading on a request's path: 0 when the bearer
  token is issued or decoded, 1 when a capability is issued or verified by the service, 2 for the
  comparison with the grant's expiry, 3 when the local client verifies the capability again. \<open>stamp E\<close> is
  what the column defaults write. \<open>uuid4 E 0\<close> is the first identifier a request draws (an epoch, or a
  capability), \<open>uuid4 E 1\<close> the second (a change request). Nothing is assumed about the readings, and a used
  identifier ends in \<open>IntegrityError\<close>, as it does in the program. An executor has its own clock, in
  nanoseconds: \<open>xe_clock X 1\<close> at the check of a signature, \<open>xe_clock X 2\<close> at the check of a capability.

  \<^bold>\<open>Termination.\<close> All definitions are total functions; the loops of the code run over lists (chunks of a
  body, rows, fields), and the recursions that are not structural (decimal digits, blocks of the hash, the
  decoders and scanners of JSON) have their measures proved. There is no fuel: the number the scanner of
  JSON counts down is the nesting that the interpreter, or Go's decoder, allows.

  \<^bold>\<open>The groups of properties.\<close> C1 to C6, C15, C24 and C28 to C31 are about the whole application: only
  approved releases run, only approvers approve, epochs do not change, every request is a step of the
  abstract board, executions are bounded, grants follow the policy, an epoch's life ends, states have
  reasons, an error changes nothing or exactly what is said, history is append-only. C7 to C11 are about the fingerprint and its
  agreement between the two runtimes, about the Go executors deciding as the local client does, about their
  keeping the contract that the properties of the reachable worlds (C1, C3 to C5, C15, C24, C28) assume of a
  client, and about the generated code between them. C16 to C19 are about capabilities and signatures on both
  sides; C20 and C21 are the agent's path from end to end, and C22 is the browser test, from the clicks on the
  start page over the orchestrator, the generated stub and the executor to the rows of the database and back.
  C40 is about the orchestrator's table and the executor's memory staying in step. C12 to C14, C23, C25 to C27 and C32 to C36 are
  about single operations, on all their branches, and about what succeeds under which conditions. C37 and C38
  show executions that the rules of approval do not stop. C39 is about the request models.

  \<^bold>\<open>Two protobuf runtimes.\<close> The gRPC client signs the bytes that Python's runtime writes of a message, and the
  executor checks the signature on the bytes that Go's runtime writes of what it received. Protobuf does not
  promise that they are equal, so no property assumes it of all messages: \<open>signed_alike\<close> says of one request
  that both signatures agree, and C8, C21 and C40 say what happens when they do and when they do not. C22 is
  about a deployment in which they do for the requests of the demonstration.

  \<^bold>\<open>Not modelled.\<close> The generated protobuf messages (a serialised descriptor: their codec is
  a parameter), the delivery of the start page (\<open>home\<close>, pure I/O), its styles, the start of the browser and its screenshots in the browser test (of which the waiting
  is left out: every step finds the page as the last handler has left it), the latencies and the summary of the
  benchmark, the SQL migrations,
  the container and build files; start, shutdown and connection timeouts of the executors, and the mutex of
  their store (each request sees the store of one moment). For the
  reachable worlds a remote executor is assumed to keep its contract with the epochs that are stored
  (\<open>trusted_client\<close>); C9 shows when a gin executor over gRPC does, and C11 for which releases it cannot.
  Of the modelled code: column lengths (\<open>VARCHAR\<close>), which SQLite does not enforce;
  lone surrogates in strings; the directory a file is written to; the encoding of a response; bodies that are
  not JSON on other routes than the webhook; failures of the database itself (timeouts, pool errors, a lost
  connection) other than at the commit of an upload, which is the one the code handles: elsewhere \<open>commit\<close> fails
  only when a constraint is violated; a field of the HTTP executor's answer that is not a text is refused when
  it is read, and not only when it is stored; \<open>int()\<close> of digits outside
  ASCII and \<open>lower()\<close> beyond Latin-1.
\<close>

end
